(* ===== verification/Prelude.thy ===== *)
theory Prelude
  imports Main "HOL-Library.Word" "HOL-Library.Multiset"
begin

text \<open>
  Shared vocabulary of the development: the types of identifiers and instants, the operations on
  relations kept as row lists that every SQL statement is written with, sequencing of computations
  that may fail, and the generic facts about them that carry the component proofs.
\<close>

section \<open>Types shared by all components\<close>

text \<open>
  A Python \<open>uuid.UUID\<close> is a 128-bit number.  An instant (\<open>datetime\<close> in UTC, PostgreSQL
  \<open>TIMESTAMPTZ\<close>) is a count of microseconds since the epoch: both sides keep microseconds.
\<close>

type_synonym uuid = "128 word"
type_synonym timestamp = int

named_theorems integrity \<open>what the write statements keep of the schema invariant\<close>
named_theorems tx_defs \<open>unfolding of the transaction bodies of the services\<close>
named_theorems tx_writes \<open>transaction bodies that only run write statements\<close>
named_theorems query_defs \<open>unfolding of the repository functions\<close>
named_theorems tx_keeps \<open>what the repository functions keep of the bounds on stored texts\<close>

section \<open>Computations that may fail\<close>

text \<open>
  Sequencing stops at the first error, the way a raised exception leaves the rest of the body
  unexecuted.
\<close>

fun res_bind :: "'e + 'a \<Rightarrow> ('a \<Rightarrow> 'e + 'b) \<Rightarrow> 'e + 'b" where
  "res_bind (Inl e) f = Inl e"
| "res_bind (Inr x) f = f x"

lemma res_bind_eq_Inr:
  "res_bind m f = Inr y \<longleftrightarrow> (\<exists>x. m = Inr x \<and> f x = Inr y)"
  by (cases m) auto

lemma res_bind_eq_Inl:
  "res_bind m f = Inl e \<longleftrightarrow> m = Inl e \<or> (\<exists>x. m = Inr x \<and> f x = Inl e)"
  by (cases m) auto

lemma res_bind_assoc: "res_bind (res_bind m f) g = res_bind m (\<lambda>x. res_bind (f x) g)"
  by (cases m) auto

lemma res_bind_return [simp]: "res_bind m Inr = m"
  by (cases m) auto

lemmas res_bind_iffs = res_bind_eq_Inr res_bind_eq_Inl

section \<open>Relations as row lists\<close>

text \<open>
  A table is the list of its rows.  \<open>fetchrow\<close> is the first row a scan meets, \<open>update_where\<close> and
  \<open>delete_where\<close> are the row effects of UPDATE and DELETE, and \<open>count_where\<close> is the row count
  in the command tag.
\<close>

definition fetchrow :: "('r \<Rightarrow> bool) \<Rightarrow> 'r list \<Rightarrow> 'r option" where
  "fetchrow p rows = List.find p rows"

definition update_where :: "('r \<Rightarrow> bool) \<Rightarrow> ('r \<Rightarrow> 'r) \<Rightarrow> 'r list \<Rightarrow> 'r list" where
  "update_where p f rows = map (\<lambda>r. if p r then f r else r) rows"

definition delete_where :: "('r \<Rightarrow> bool) \<Rightarrow> 'r list \<Rightarrow> 'r list" where
  "delete_where p rows = filter (\<lambda>r. \<not> p r) rows"

definition count_where :: "('r \<Rightarrow> bool) \<Rightarrow> 'r list \<Rightarrow> nat" where
  "count_where p rows = length (filter p rows)"

lemma fetchrow_Nil [simp]: "fetchrow p [] = None"
  by (simp add: fetchrow_def)

lemma fetchrow_Cons [simp]: "fetchrow p (r # rows) = (if p r then Some r else fetchrow p rows)"
  by (simp add: fetchrow_def)

lemma fetchrow_SomeD: "fetchrow p rows = Some r \<Longrightarrow> r \<in> set rows \<and> p r"
  by (auto simp: fetchrow_def find_Some_iff)

lemma fetchrow_None_iff: "fetchrow p rows = None \<longleftrightarrow> (\<forall>r\<in>set rows. \<not> p r)"
  by (auto simp: fetchrow_def find_None_iff)

lemma fetchrow_append:
  "fetchrow p (xs @ ys) = (case fetchrow p xs of None \<Rightarrow> fetchrow p ys | Some r \<Rightarrow> Some r)"
  by (induction xs) auto

lemma fetchrow_unique:
  assumes "r \<in> set rows" and "p r" and "\<And>s. s \<in> set rows \<Longrightarrow> p s \<Longrightarrow> s = r"
  shows "fetchrow p rows = Some r"
  using assms
proof (cases "fetchrow p rows")
  case None
  with assms(1,2) show ?thesis by (auto simp: fetchrow_None_iff)
next
  case (Some s)
  with assms(3) show ?thesis by (auto dest: fetchrow_SomeD)
qed

text \<open>Looking a row up by its primary key: with distinct keys the scan has one possible answer.\<close>

lemma distinct_keyD:
  "distinct (map key rows) \<Longrightarrow> r \<in> set rows \<Longrightarrow> s \<in> set rows \<Longrightarrow> key r = key s \<Longrightarrow> r = s"
  by (metis distinct_map inj_onD)

lemma fetchrow_key_iff:
  assumes "distinct (map key rows)"
  shows "fetchrow (\<lambda>r. key r = k) rows = Some r \<longleftrightarrow> r \<in> set rows \<and> key r = k"
proof
  assume "fetchrow (\<lambda>r. key r = k) rows = Some r"
  then show "r \<in> set rows \<and> key r = k" by (rule fetchrow_SomeD)
next
  assume "r \<in> set rows \<and> key r = k"
  then show "fetchrow (\<lambda>r. key r = k) rows = Some r"
    using assms by (intro fetchrow_unique) (auto dest: distinct_keyD)
qed

lemma set_update_where: "set (update_where p f rows) = (\<lambda>r. if p r then f r else r) ` set rows"
  by (simp add: update_where_def)

lemma in_update_where_iff:
  "s \<in> set (update_where p f rows) \<longleftrightarrow>
     (s \<in> set rows \<and> \<not> p s) \<or> (\<exists>r\<in>set rows. p r \<and> s = f r)"
  by (auto simp: set_update_where image_iff)

lemma map_key_update_where [simp]:
  "(\<And>r. key (f r) = key r) \<Longrightarrow> map key (update_where p f rows) = map key rows"
  by (simp add: update_where_def)

lemma update_where_Nil [simp]: "update_where p f [] = []"
  by (simp add: update_where_def)

lemma update_where_Cons [simp]:
  "update_where p f (r # rows) = (if p r then f r else r) # update_where p f rows"
  by (simp add: update_where_def)

lemma update_where_none: "(\<And>r. r \<in> set rows \<Longrightarrow> \<not> p r) \<Longrightarrow> update_where p f rows = rows"
  by (induction rows) auto

lemma fetchrow_update_where:
  assumes "\<And>r. q (f r) = q r"
  shows "fetchrow q (update_where p f rows) =
    map_option (\<lambda>r. if p r then f r else r) (fetchrow q rows)"
  using assms by (induction rows) auto

lemma set_delete_where [simp]: "set (delete_where p rows) = {r \<in> set rows. \<not> p r}"
  by (auto simp: delete_where_def)

lemma delete_where_Nil [simp]: "delete_where p [] = []"
  by (simp add: delete_where_def)

lemma delete_where_Cons [simp]:
  "delete_where p (r # rows) = (if p r then delete_where p rows else r # delete_where p rows)"
  by (simp add: delete_where_def)

lemma delete_where_none: "(\<And>r. r \<in> set rows \<Longrightarrow> \<not> p r) \<Longrightarrow> delete_where p rows = rows"
  by (induction rows) auto

lemma distinct_delete_where [intro]:
  "distinct (map key rows) \<Longrightarrow> distinct (map key (delete_where p rows))"
  by (simp add: delete_where_def distinct_map_filter)

lemma count_where_0_iff [simp]: "count_where p rows = 0 \<longleftrightarrow> (\<forall>r\<in>set rows. \<not> p r)"
  by (auto simp: count_where_def filter_empty_conv)

lemma count_where_delete_where: "length (delete_where p rows) + count_where p rows = length rows"
  by (simp add: count_where_def delete_where_def sum_length_filter_compl add.commute)

text \<open>The existence tests behind unique and foreign-key checks.\<close>

lemma list_ex_key: "list_ex (\<lambda>s. key s = k) rows \<longleftrightarrow> k \<in> key ` set rows"
  by (auto simp: list_ex_iff image_iff)

lemma list_ex_key_pair:
  "list_ex (\<lambda>s. f s = x \<and> g s = y) rows \<longleftrightarrow> (x, y) \<in> (\<lambda>s. (f s, g s)) ` set rows"
  by (auto simp: list_ex_iff image_iff)

section \<open>The greatest elements of a list\<close>

text \<open>
  \<open>is_top key k xs h\<close>: \<open>h\<close> consists of \<open>k\<close> elements of \<open>xs\<close>, or all of them if there are fewer,
  and no element left out has a greater key than one taken.
\<close>

definition is_top :: "('a \<Rightarrow> 'k::linorder) \<Rightarrow> nat \<Rightarrow> 'a list \<Rightarrow> 'a list \<Rightarrow> bool" where
  "is_top key k xs h \<longleftrightarrow>
     mset h \<subseteq># mset xs \<and> length h = min k (length xs) \<and>
     (\<forall>x\<in>#mset xs - mset h. \<forall>y\<in>set h. key x \<le> key y)"

lemma is_top_mset:
  assumes "mset xs = mset ys"
  shows "is_top key k xs h = is_top key k ys h"
  unfolding is_top_def assms mset_eq_length [OF assms] ..

lemma sort_key_desc:
  fixes key :: "'a \<Rightarrow> int"
  shows "sorted_wrt (\<lambda>x y. key y \<le> key x) (sort_key (\<lambda>r. - key r) xs)"
  using sorted_sort_key [of "\<lambda>r. - key r" xs] by (simp add: sorted_map sorted_wrt_map)

lemma is_top_take_sort:
  fixes key :: "'a \<Rightarrow> int"
  shows "is_top key k xs (take k (sort_key (\<lambda>r. - key r) xs))"
proof -
  let ?s = "sort_key (\<lambda>r. - key r) xs"
  have split: "mset xs = mset (take k ?s) + mset (drop k ?s)"
    by (metis append_take_drop_id mset_append mset_sort)
  have "sorted_wrt (\<lambda>x y. key y \<le> key x) (take k ?s @ drop k ?s)"
    using sort_key_desc [of key xs] by simp
  then have "key x \<le> key y" if "x \<in> set (drop k ?s)" "y \<in> set (take k ?s)" for x y
    using that unfolding sorted_wrt_append by blast
  with split show ?thesis by (simp add: is_top_def min.commute)
qed

lemma is_top_leftover:
  assumes "is_top key k xs h" and "x \<in># mset xs - mset h"
  shows "length h = k" and "y \<in> set h \<Longrightarrow> key x \<le> key y"
proof -
  have "size (mset xs - mset h) \<noteq> 0" using assms(2) by auto
  with assms(1) have "length h < length xs" by (simp add: is_top_def size_Diff_submset)
  with assms(1) show "length h = k" by (simp add: is_top_def)
  show "y \<in> set h \<Longrightarrow> key x \<le> key y" using assms by (simp add: is_top_def)
qed

text \<open>An element that at most \<open>k\<close> elements reach is taken.\<close>

lemma is_top_member:
  assumes "is_top key k xs h" and "x \<in> set xs" and "length (filter (\<lambda>y. key x \<le> key y) xs) \<le> k"
  shows "x \<in> set h"
proof (rule ccontr)
  let ?up = "filter (\<lambda>y. key x \<le> key y) xs"
  assume n: "x \<notin> set h"
  then have x: "x \<in># mset xs - mset h"
    using assms(2) by (metis in_multiset_in_set assms(1) is_top_def subset_mset.add_diff_inverse union_iff)
  have up: "\<forall>y\<in>set h. key x \<le> key y" using is_top_leftover(2) [OF assms(1) x] by blast
  have "mset (filter (\<lambda>y. key x \<le> key y) h) \<subseteq># mset ?up"
    using assms(1) by (simp add: is_top_def multiset_filter_mono)
  with up have "mset h \<subseteq># mset ?up" by (simp add: filter_True)
  moreover have "x \<in> set ?up" using assms(2) by simp
  then have "mset h \<noteq> mset ?up" using n by (metis set_mset_mset)
  ultimately have "length h < length ?up"
    by (metis size_mset mset_subset_size subset_mset.le_imp_less_or_eq)
  with is_top_leftover(1) [OF assms(1) x] assms(3) show False by simp
qed

text \<open>Cutting two lists first and their union again gives the greatest elements of both together.\<close>

lemma is_top_left_out:
  assumes h1: "is_top key k xs1 h1" and h: "is_top key k (h1 @ h2) h"
    and x: "x \<in># mset xs1 - mset h1" and y: "y \<in> set h"
  shows "key x \<le> key y"
proof (cases "mset h1 \<subseteq># mset h")
  case True
  have "length h1 = k" by (rule is_top_leftover(1) [OF h1 x])
  moreover from h this have "length h = k" by (simp add: is_top_def)
  ultimately have "mset h1 = mset h"
    using True by (metis mset_subset_size size_mset subset_mset.le_imp_less_or_eq less_irrefl)
  then have "y \<in> set h1" using y by (metis set_mset_mset)
  then show ?thesis by (rule is_top_leftover(2) [OF h1 x])
next
  case False
  then obtain z where "count (mset h) z < count (mset h1) z"
    by (auto simp: subseteq_mset_def not_le)
  then have z: "z \<in># mset (h1 @ h2) - mset h" "z \<in> set h1"
    by (auto simp: in_diff_count) (metis count_eq_zero_iff not_less_zero set_mset_mset)
  have "key x \<le> key z" using is_top_leftover(2) [OF h1 x] z(2) .
  also have "key z \<le> key y" using is_top_leftover(2) [OF h z(1)] y .
  finally show ?thesis .
qed

lemma is_top_union:
  assumes h1: "is_top key k xs1 h1" and h2: "is_top key k xs2 h2" and h: "is_top key k (h1 @ h2) h"
  shows "is_top key k (xs1 @ xs2) h"
proof -
  have sub: "mset h \<subseteq># mset h1 + mset h2" "mset h1 \<subseteq># mset xs1" "mset h2 \<subseteq># mset xs2"
    using assms by (auto simp: is_top_def)
  then have "mset h \<subseteq># mset (xs1 @ xs2)"
    using subset_mset.order_trans [OF sub(1) mset_subset_eq_mono_add [OF sub(2,3)]] by simp
  moreover have "length h = min k (length (xs1 @ xs2))"
    using assms by (auto simp: is_top_def)
  moreover have "key x \<le> key y" if x: "x \<in># mset (xs1 @ xs2) - mset h" and y: "y \<in> set h" for x y
  proof -
    have "mset (xs1 @ xs2) - mset h =
        (mset xs1 - mset h1) + (mset xs2 - mset h2) + (mset (h1 @ h2) - mset h)"
    proof (rule multiset_eqI)
      fix z
      show "count (mset (xs1 @ xs2) - mset h) z =
          count ((mset xs1 - mset h1) + (mset xs2 - mset h2) + (mset (h1 @ h2) - mset h)) z"
        using sub [THEN mset_subset_eq_count, of z] by simp
    qed
    with x consider "x \<in># mset xs1 - mset h1" | "x \<in># mset xs2 - mset h2" | "x \<in># mset (h1 @ h2) - mset h"
      by auto
    then show ?thesis
    proof cases
      case 1
      then show ?thesis using is_top_left_out [OF h1 h _ y] by blast
    next
      case 2
      have "is_top key k (h2 @ h1) h" using h by (simp add: is_top_def add.commute)
      then show ?thesis using is_top_left_out [OF h2 _ 2 y] by blast
    next
      case 3
      then show ?thesis using is_top_leftover(2) [OF h _ y] by blast
    qed
  qed
  ultimately show ?thesis by (simp add: is_top_def)
qed

lemma mset_filter_disjoint:
  "(\<And>x. \<not> (p x \<and> q x)) \<Longrightarrow> mset (filter p xs @ filter q xs) = mset (filter (\<lambda>x. p x \<or> q x) xs)"
  by (induction xs) auto

section \<open>Invariants of transition systems\<close>

text \<open>
  A step relation that keeps an invariant keeps it along every run.  The components interpret this
  with their own step relations.
\<close>

locale invariant_system =
  fixes step :: "'s \<Rightarrow> 's \<Rightarrow> bool" and inv :: "'s \<Rightarrow> bool"
  assumes step_inv: "step s t \<Longrightarrow> inv s \<Longrightarrow> inv t"
begin

lemma run_inv: "rtranclp step s t \<Longrightarrow> inv s \<Longrightarrow> inv t"
  by (induction rule: rtranclp_induct) (auto intro: step_inv)

lemma run_keeps:
  assumes "rtranclp step s t" and "inv s" and "P s"
    and "\<And>x y. inv x \<Longrightarrow> step x y \<Longrightarrow> P x \<Longrightarrow> P y"
  shows "P t"
proof -
  from assms(1) have "inv t \<and> P t"
  proof (induction rule: rtranclp_induct)
    case base
    from assms(2,3) show ?case ..
  next
    case (step y z)
    then show ?case using assms(4) step_inv by blast
  qed
  then show ?thesis ..
qed

end

section \<open>Simulation\<close>

text \<open>
  A concrete system whose steps, where its invariant holds, are steps of an abstract one or do not
  show there: then its runs are runs of the abstract one.
\<close>

locale simulation = invariant_system cstep inv
  for cstep :: "'s \<Rightarrow> 's \<Rightarrow> bool" and inv :: "'s \<Rightarrow> bool" +
  fixes astep :: "'a \<Rightarrow> 'a \<Rightarrow> bool" and abs :: "'s \<Rightarrow> 'a"
  assumes simulate: "cstep s t \<Longrightarrow> inv s \<Longrightarrow> abs t = abs s \<or> astep (abs s) (abs t)"
begin

lemma run_simulates: "rtranclp cstep s t \<Longrightarrow> inv s \<Longrightarrow> rtranclp astep (abs s) (abs t)"
proof (induction rule: rtranclp_induct)
  case (step y z)
  then have "inv y" by (blast intro: run_inv)
  from simulate [OF step(2) this] step show ?case by (metis rtranclp.rtrancl_into_rtrancl)
qed simp

end

end
