(* ===== verification/Py_Text.thy ===== *)
theory Py_Text
  imports Prelude
begin

text \<open>
  The pieces of Python's text handling that the program relies on: decimal rendering and
  \<open>int()\<close> of a command tag's row count, \<open>str.lower\<close>, \<open>str.split\<close>, the canonical text of a
  \<open>uuid.UUID\<close> and the constructor that reads it back.  Identifiers travel as text through the
  Pub/Sub channel and the event stream, so the round trip of this theory is what lets a receiving
  worker recover the sender's identifiers.
\<close>

section \<open>Decimal numbers\<close>

abbreviation char_code :: "char \<Rightarrow> nat" where
  "char_code c \<equiv> of_char c"

definition digit_char :: "nat \<Rightarrow> char" where
  "digit_char d = ''0123456789abcdef'' ! d"

fun nat_str :: "nat \<Rightarrow> string" where
  "nat_str n = (if n < 10 then [digit_char n] else nat_str (n div 10) @ [digit_char (n mod 10)])"

declare nat_str.simps [simp del]

definition dec_value :: "char \<Rightarrow> nat option" where
  "dec_value c = (if 48 \<le> char_code c \<and> char_code c \<le> 57 then Some (char_code c - 48) else None)"

fun dec_fold :: "nat \<Rightarrow> string \<Rightarrow> nat option" where
  "dec_fold acc [] = Some acc"
| "dec_fold acc (c # cs) =
     (case dec_value c of None \<Rightarrow> None | Some d \<Rightarrow> dec_fold (10 * acc + d) cs)"

text \<open>\<open>int(s)\<close> on a plain decimal numeral, \<open>None\<close> where it raises \<open>ValueError\<close>.\<close>

definition py_int :: "string \<Rightarrow> nat option" where
  "py_int s = (if s = [] then None else dec_fold 0 s)"

text \<open>\<open>s.split(sep)\<close> for a one-character separator.\<close>

fun py_split :: "char \<Rightarrow> string \<Rightarrow> string list" where
  "py_split sep [] = [[]]"
| "py_split sep (c # cs) =
     (if c = sep then [] # py_split sep cs
      else (case py_split sep cs of [] \<Rightarrow> [[c]] | w # ws \<Rightarrow> (c # w) # ws))"

section \<open>Lower case\<close>

definition char_lower :: "char \<Rightarrow> char" where
  "char_lower c = (if 65 \<le> char_code c \<and> char_code c \<le> 90 then char_of (char_code c + 32) else c)"

definition lower :: "string \<Rightarrow> string" where
  "lower s = map char_lower s"

section \<open>Identifiers as text\<close>

text \<open>\<open>'%032x' % n\<close>: the lowest \<open>k\<close> hexadecimal digits, most significant first.\<close>

fun hex_digits :: "nat \<Rightarrow> nat \<Rightarrow> nat list" where
  "hex_digits 0 n = []"
| "hex_digits (Suc k) n = hex_digits k (n div 16) @ [n mod 16]"

definition uuid_str :: "uuid \<Rightarrow> string" where
  "uuid_str u =
     (let h = map digit_char (hex_digits 32 (unat u))
      in take 8 h @ ''-'' @ take 4 (drop 8 h) @ ''-'' @ take 4 (drop 12 h) @ ''-'' @
         take 4 (drop 16 h) @ ''-'' @ drop 20 h)"

text \<open>\<open>s.replace(pat, '')\<close>: occurrences are found left to right and do not overlap.\<close>

function py_remove :: "string \<Rightarrow> string \<Rightarrow> string" where
  "py_remove pat [] = []"
| "py_remove pat (c # cs) =
     (if pat \<noteq> [] \<and> take (length pat) (c # cs) = pat then py_remove pat (drop (length pat) (c # cs))
      else c # py_remove pat cs)"
  by pat_completeness auto
termination
  by (relation "measure (\<lambda>(pat, s). length s)") auto

text \<open>\<open>s.strip(chars)\<close>.\<close>

definition py_strip :: "char list \<Rightarrow> string \<Rightarrow> string" where
  "py_strip chars s =
     rev (dropWhile (\<lambda>c. c \<in> set chars) (rev (dropWhile (\<lambda>c. c \<in> set chars) s)))"

definition hex_value :: "char \<Rightarrow> nat option" where
  "hex_value c =
     (if 48 \<le> char_code c \<and> char_code c \<le> 57 then Some (char_code c - 48)
      else if 97 \<le> char_code c \<and> char_code c \<le> 102 then Some (char_code c - 87)
      else if 65 \<le> char_code c \<and> char_code c \<le> 70 then Some (char_code c - 55)
      else None)"

text \<open>
  The digits of \<open>int(s, 16)\<close>: a single underscore may stand between two digits, so the flag says
  whether the previous character was a digit.
\<close>

fun hex_fold :: "bool \<Rightarrow> nat \<Rightarrow> string \<Rightarrow> nat option" where
  "hex_fold after_digit acc [] = (if after_digit then Some acc else None)"
| "hex_fold after_digit acc (c # cs) =
     (case hex_value c of
        Some d \<Rightarrow> hex_fold True (16 * acc + d) cs
      | None \<Rightarrow> if c = CHR ''_'' \<and> after_digit then hex_fold False acc cs else None)"

definition whitespace :: "char list" where
  "whitespace = [CHR '' '', CHR 0x09, CHR 0x0A, CHR 0x0B, CHR 0x0C, CHR 0x0D, CHR 0x1C, CHR 0x1D, CHR 0x1E,
     CHR 0x1F, CHR 0x85, CHR 0xA0]"

text \<open>The sign and the optional \<open>0x\<close> prefix, after which an underscore may stand.\<close>

definition py_int16 :: "string \<Rightarrow> int option" where
  "py_int16 s =
     (let t = py_strip whitespace s;
          neg = (t \<noteq> [] \<and> hd t = CHR ''-'');
          body = (if t \<noteq> [] \<and> (hd t = CHR ''-'' \<or> hd t = CHR ''+'') then tl t else t);
          prefixed = (lower (take 2 body) = ''0x'');
          rest = (if prefixed then drop 2 body else body);
          digits = (if prefixed \<and> take 1 rest = ''_'' then tl rest else rest)
      in map_option (\<lambda>n. if neg then - int n else int n) (hex_fold False 0 digits))"

text \<open>\<open>uuid.UUID(s)\<close>; \<open>None\<close> where the constructor raises \<open>ValueError\<close>.\<close>

definition uuid_parse :: "string \<Rightarrow> uuid option" where
  "uuid_parse s =
     (let h = py_remove ''-'' (py_strip ''{}'' (py_remove ''uuid:'' (py_remove ''urn:'' s)))
      in if length h \<noteq> 32 then None
         else (case py_int16 h of
                 None \<Rightarrow> None
               | Some n \<Rightarrow> if 0 \<le> n \<and> n < 2 ^ 128 then Some (of_nat (nat n)) else None))"

section \<open>Command tags: printing a row count and reading it back\<close>

lemma digit_char_dec: "d < 10 \<Longrightarrow> dec_value (digit_char d) = Some d"
proof -
  assume "d < 10"
  then have "d \<in> {0, 1, 2, 3, 4, 5, 6, 7, 8, 9}" by auto
  then show ?thesis by (auto simp: dec_value_def digit_char_def)
qed

lemma dec_fold_append: "dec_fold acc (xs @ ys) = Option.bind (dec_fold acc xs) (\<lambda>a. dec_fold a ys)"
  by (induction xs arbitrary: acc) (auto split: option.splits)

lemma dec_fold_nat_str: "dec_fold 0 (nat_str n) = Some n"
proof (induction n rule: nat_str.induct)
  case (1 n)
  show ?case
  proof (cases "n < 10")
    case True
    then show ?thesis by (simp add: nat_str.simps [of n] digit_char_dec)
  next
    case False
    with 1 have "dec_fold 0 (nat_str (n div 10)) = Some (n div 10)" by simp
    with False show ?thesis by (simp add: nat_str.simps [of n] dec_fold_append digit_char_dec)
  qed
qed

lemma nat_str_not_Nil [simp]: "nat_str n \<noteq> []"
  by (simp add: nat_str.simps [of n])

lemma py_int_nat_str [simp]: "py_int (nat_str n) = Some n"
  by (simp add: py_int_def dec_fold_nat_str)

lemma nat_str_inject [simp]: "nat_str m = nat_str n \<longleftrightarrow> m = n"
  using py_int_nat_str by (metis option.inject)

lemma nat_str_0: "nat_str 0 = ''0''"
  by (simp add: nat_str.simps [of 0] digit_char_def)

lemma nat_str_eq_0 [simp]: "nat_str n = ''0'' \<longleftrightarrow> n = 0"
  using nat_str_inject [of n 0] by (simp only: nat_str_0)

lemma py_split_no_sep: "sep \<notin> set s \<Longrightarrow> py_split sep s = [s]"
  by (induction s) auto

lemma py_split_not_Nil [simp]: "py_split sep s \<noteq> []"
  by (induction s) (auto split: list.splits)

lemma py_split_append: "sep \<notin> set a \<Longrightarrow> py_split sep (a @ sep # b) = a # py_split sep b"
  by (induction a) auto

lemma dec_value_Some_digit: "dec_value c = Some d \<Longrightarrow> 48 \<le> char_code c \<and> char_code c \<le> 57"
  by (simp add: dec_value_def split: if_splits)

lemma dec_fold_Some_digits:
  "dec_fold acc s = Some n \<Longrightarrow> c \<in> set s \<Longrightarrow> 48 \<le> char_code c \<and> char_code c \<le> 57"
  by (induction s arbitrary: acc) (auto split: option.splits dest: dec_value_Some_digit)

lemma space_not_in_nat_str: "CHR '' '' \<notin> set (nat_str n)"
proof
  assume "CHR '' '' \<in> set (nat_str n)"
  from dec_fold_Some_digits [OF dec_fold_nat_str this] show False by simp
qed

section \<open>Identifiers survive the text form\<close>

lemma length_hex_digits [simp]: "length (hex_digits k n) = k"
  by (induction k arbitrary: n) auto

lemma hex_digits_bound: "d \<in> set (hex_digits k n) \<Longrightarrow> d < 16"
  by (induction k arbitrary: n) auto

lemma digit_char_cases:
  assumes "d < 16"
  shows "hex_value (digit_char d) = Some d"
    and "digit_char d \<notin> set ''-+_{}ux''"
    and "digit_char d \<notin> set whitespace"
    and "char_lower (digit_char d) \<noteq> CHR ''x''"
proof -
  have d: "d \<in> set [0..<16]" using assms by simp
  have "\<forall>d\<in>set [0..<16]. hex_value (digit_char d) = Some d" by code_simp
  with d show "hex_value (digit_char d) = Some d" by blast
  have "\<forall>d\<in>set [0..<16]. digit_char d \<notin> set ''-+_{}ux''" by code_simp
  with d show "digit_char d \<notin> set ''-+_{}ux''" by blast
  have "\<forall>d\<in>set [0..<16]. digit_char d \<notin> set whitespace" by code_simp
  with d show "digit_char d \<notin> set whitespace" by blast
  have "\<forall>d\<in>set [0..<16]. char_lower (digit_char d) \<noteq> CHR ''x''" by code_simp
  with d show "char_lower (digit_char d) \<noteq> CHR ''x''" by blast
qed

lemma hex_fold_append_digit:
  "hex_fold b acc xs = Some a \<Longrightarrow> d < 16 \<Longrightarrow>
     hex_fold b acc (xs @ [digit_char d]) = Some (16 * a + d)"
  by (induction xs arbitrary: acc b) (auto simp: digit_char_cases split: option.splits if_splits)

lemma hex_fold_hex_digits:
  "hex_fold b 0 (map digit_char (hex_digits (Suc k) n)) = Some (n mod 16 ^ Suc k)"
proof (induction k arbitrary: n)
  case 0
  then show ?case by (simp add: digit_char_cases)
next
  case (Suc k)
  have "hex_fold b 0 (map digit_char (hex_digits (Suc k) (n div 16)) @ [digit_char (n mod 16)]) =
      Some (16 * ((n div 16) mod 16 ^ Suc k) + n mod 16)"
    by (rule hex_fold_append_digit [OF Suc.IH]) simp
  moreover have "16 * ((n div 16) mod 16 ^ Suc k) + n mod 16 = n mod 16 ^ Suc (Suc k)"
    by (simp only: power_Suc [of 16 "Suc k"] mod_mult2_eq)
  ultimately show ?case by (simp only: hex_digits.simps(2) [of "Suc k"] map_append list.map)
qed

lemma py_remove_id: "hd pat \<notin> set s \<Longrightarrow> pat \<noteq> [] \<Longrightarrow> py_remove pat s = s"
  by (induction pat s rule: py_remove.induct) (auto simp: neq_Nil_conv)

lemma py_remove_char: "py_remove [x] s = filter (\<lambda>c. c \<noteq> x) s"
  by (induction s) auto

lemma dropWhile_none: "set s \<inter> A = {} \<Longrightarrow> dropWhile (\<lambda>c. c \<in> A) s = s"
  by (cases s) auto

lemma py_strip_id: "set s \<inter> set chars = {} \<Longrightarrow> py_strip chars s = s"
  by (simp add: py_strip_def dropWhile_none)

lemma hex_text_chars:
  "c \<in> set (map digit_char (hex_digits k n)) \<Longrightarrow> c \<notin> set ''-+_{}ux'' \<and> c \<notin> set whitespace"
  by (auto dest!: hex_digits_bound simp: digit_char_cases(3)) (auto dest: digit_char_cases(2))

lemma set_uuid_str:
  "set (uuid_str u) \<subseteq> insert CHR ''-'' (set (map digit_char (hex_digits 32 (unat u))))"
  unfolding uuid_str_def Let_def by (auto dest: in_set_takeD in_set_dropD simp del: set_map)

lemma uuid_str_without_dashes:
  "filter (\<lambda>c. c \<noteq> CHR ''-'') (uuid_str u) = map digit_char (hex_digits 32 (unat u))"
proof -
  let ?h = "map digit_char (hex_digits 32 (unat u))"
  have no: "filter (\<lambda>c. c \<noteq> CHR ''-'') xs = xs" if "set xs \<subseteq> set ?h" for xs
    using that hex_text_chars by (fastforce intro: filter_True)
  have "filter (\<lambda>c. c \<noteq> CHR ''-'') (uuid_str u) =
      take 8 ?h @ take 4 (drop 8 ?h) @ take 4 (drop 12 ?h) @ take 4 (drop 16 ?h) @ drop 20 ?h"
    unfolding uuid_str_def Let_def
    by (simp del: set_map add: no set_take_subset [THEN order_trans] set_drop_subset)
  also have "\<dots> = ?h"
    using append_take_drop_id [of 8 ?h] append_take_drop_id [of 4 "drop 8 ?h"]
      append_take_drop_id [of 4 "drop 12 ?h"] append_take_drop_id [of 4 "drop 16 ?h"]
    by (simp only: drop_drop) simp
  finally show ?thesis .
qed

lemma py_int16_hex_digits:
  assumes "k \<ge> 2"
  shows "py_int16 (map digit_char (hex_digits k n)) = Some (int (n mod 16 ^ k))"
proof -
  let ?h = "map digit_char (hex_digits k n)"
  have chars: "c \<notin> set ''-+_{}ux'' \<and> c \<notin> set whitespace" if "c \<in> set ?h" for c
    using that by (rule hex_text_chars)
  obtain d e ds where h: "hex_digits k n = d # e # ds"
    using assms by (metis Suc_le_length_iff length_hex_digits numeral_2_eq_2)
  then have d: "d < 16" "e < 16" using hex_digits_bound [of _ k n] by auto
  have strip: "py_strip whitespace ?h = ?h"
    using chars by (intro py_strip_id) auto
  have "digit_char d \<noteq> CHR ''-''" "digit_char d \<noteq> CHR ''+''"
    using digit_char_cases(2) [OF d(1)] by auto
  moreover have "lower (take 2 ?h) \<noteq> ''0x''"
    using digit_char_cases(4) [OF d(2)] by (simp add: h lower_def)
  moreover have "hex_fold False 0 ?h = Some (n mod 16 ^ k)"
    using hex_fold_hex_digits [of False "k - 1" n] assms by simp
  ultimately show ?thesis
    unfolding py_int16_def Let_def strip by (simp add: h)
qed

lemma uuid_roundtrip [simp]: "uuid_parse (uuid_str u) = Some u"
proof -
  let ?h = "map digit_char (hex_digits 32 (unat u))"
  have "CHR ''u'' \<notin> set (uuid_str u)" and br: "set (uuid_str u) \<inter> set ''{}'' = {}"
    using set_uuid_str [of u] hex_text_chars [of _ 32 "unat u"] by fastforce+
  then have "py_remove ''-'' (py_strip ''{}'' (py_remove ''uuid:'' (py_remove ''urn:'' (uuid_str u)))) = ?h"
    by (simp add: py_remove_id py_strip_id py_remove_char uuid_str_without_dashes)
  moreover have "unat u < 2 ^ 128"
    using unsigned_less [of u] by simp
  then have "py_int16 ?h = Some (int (unat u))"
    by (subst py_int16_hex_digits) simp_all
  moreover have "uint u < 2 ^ 128"
    using unsigned_less [of u] by simp
  ultimately show ?thesis
    by (simp add: uuid_parse_def)
qed

lemma uuid_str_inject [simp]: "uuid_str u = uuid_str v \<longleftrightarrow> u = v"
  using uuid_roundtrip by (metis option.inject)

lemma length_uuid_str [simp]: "length (uuid_str u) = 36"
  by (simp add: uuid_str_def Let_def)

lemma uuid_str_not_Nil [simp]: "uuid_str u \<noteq> []"
  using length_uuid_str [of u] by (auto simp del: length_uuid_str)

end
