(* ===== verification/Errors.thy ===== *)
theory Errors
  imports Py_Text
begin

text \<open>
  The exception classes of the three layers (\<open>src/src/database/errors.py\<close>,
  \<open>src/src/redis/errors.py\<close>, \<open>src/src/services/errors.py\<close>), the enumerations they are keyed by
  (\<open>src/src/database/enums.py\<close>), and the two decorators that turn database errors into domain
  errors.  A raised exception is the left summand of a result.
\<close>

section \<open>Enumerations\<close>

datatype Entity =
    USER | ACCESS_TOKEN | REFRESH_TOKEN | FRIENDSHIP | GROUP | MEMBERSHIP
  | DIRECT_MESSAGE | GROUP_MESSAGE

text \<open>\<open>StrEnum\<close> with \<open>auto()\<close>: the value is the lower-cased member name.\<close>

fun entity_value :: "Entity \<Rightarrow> string" where
  "entity_value USER = ''user''"
| "entity_value ACCESS_TOKEN = ''access_token''"
| "entity_value REFRESH_TOKEN = ''refresh_token''"
| "entity_value FRIENDSHIP = ''friendship''"
| "entity_value GROUP = ''group''"
| "entity_value MEMBERSHIP = ''membership''"
| "entity_value DIRECT_MESSAGE = ''direct_message''"
| "entity_value GROUP_MESSAGE = ''group_message''"

datatype Constraint =
    PK_USERS | UQ_USERS_USERNAME
  | PK_FRIENDSHIPS | FK_FRIENDSHIPS_REQUESTER_ID | FK_FRIENDSHIPS_ADDRESSEE_ID
  | PK_ACCESS_TOKENS | FK_ACCESS_TOKENS_USER_ID | PK_REFRESH_TOKENS | FK_REFRESH_TOKENS_USER_ID
  | PK_GROUPS | UQ_GROUPS_CREATED_BY_NAME | FK_GROUPS_CREATED_BY
  | PK_MEMBERSHIPS | FK_MEMBERSHIPS_GROUP_ID | FK_MEMBERSHIPS_USER_ID
  | PK_DIRECT_MESSAGES | FK_DM_SENDER_ID | FK_DM_RECIPIENT_ID
  | PK_GROUP_MESSAGES | FK_GROUP_MESSAGES_GROUP_ID | FK_GROUP_MESSAGES_SENDER_ID

fun constraint_value :: "Constraint \<Rightarrow> string" where
  "constraint_value PK_USERS = ''pk_users''"
| "constraint_value UQ_USERS_USERNAME = ''uq_users_username''"
| "constraint_value PK_FRIENDSHIPS = ''pk_friendships''"
| "constraint_value FK_FRIENDSHIPS_REQUESTER_ID = ''fk_friendships_requester_id''"
| "constraint_value FK_FRIENDSHIPS_ADDRESSEE_ID = ''fk_friendships_addressee_id''"
| "constraint_value PK_ACCESS_TOKENS = ''pk_access_tokens''"
| "constraint_value FK_ACCESS_TOKENS_USER_ID = ''fk_access_tokens_user_id''"
| "constraint_value PK_REFRESH_TOKENS = ''pk_refresh_tokens''"
| "constraint_value FK_REFRESH_TOKENS_USER_ID = ''fk_refresh_tokens_user_id''"
| "constraint_value PK_GROUPS = ''pk_groups''"
| "constraint_value UQ_GROUPS_CREATED_BY_NAME = ''uq_groups_created_by_name''"
| "constraint_value FK_GROUPS_CREATED_BY = ''fk_groups_created_by''"
| "constraint_value PK_MEMBERSHIPS = ''pk_memberships''"
| "constraint_value FK_MEMBERSHIPS_GROUP_ID = ''fk_memberships_group_id''"
| "constraint_value FK_MEMBERSHIPS_USER_ID = ''fk_memberships_user_id''"
| "constraint_value PK_DIRECT_MESSAGES = ''pk_direct_messages''"
| "constraint_value FK_DM_SENDER_ID = ''fk_dm_sender_id''"
| "constraint_value FK_DM_RECIPIENT_ID = ''fk_dm_recipient_id''"
| "constraint_value PK_GROUP_MESSAGES = ''pk_group_messages''"
| "constraint_value FK_GROUP_MESSAGES_GROUP_ID = ''fk_group_messages_group_id''"
| "constraint_value FK_GROUP_MESSAGES_SENDER_ID = ''fk_group_messages_sender_id''"

section \<open>Errors of the driver, of the database layer and of the Redis layer\<close>

text \<open>
  What \<open>asyncpg\<close> raises, as far as the program tells the classes apart: \<open>InterfaceError\<close> stands
  beside the \<open>PostgresError\<close> hierarchy; the three integrity violations carry the table and, but
  for a NOT NULL violation, the constraint name.
\<close>

datatype pg_error =
    InterfaceError string
  | QueryCanceledError string
  | PgSerializationError string
  | UniqueViolationError string Constraint
  | ForeignKeyViolationError string Constraint
  | NotNullViolationError string string
  | OtherPostgresError string

fun is_integrity_violation :: "pg_error \<Rightarrow> bool" where
  "is_integrity_violation (UniqueViolationError t c) = True"
| "is_integrity_violation (ForeignKeyViolationError t c) = True"
| "is_integrity_violation (NotNullViolationError t c) = True"
| "is_integrity_violation _ = False"

datatype db_error =
    DatabaseError string
  | ConnectionPoolNotInitializedError
  | DatabaseConnectionError string
  | DatabaseTimeoutError string
  | SerializationError string
  | NotFoundError Entity string
  | ConstraintViolationError "string option" "string option"

text \<open>\<open>ConstraintViolationError.from_asyncpg\<close>: the attributes a violation carries.\<close>

fun from_asyncpg :: "pg_error \<Rightarrow> db_error" where
  "from_asyncpg (UniqueViolationError t c) = ConstraintViolationError (Some t) (Some (constraint_value c))"
| "from_asyncpg (ForeignKeyViolationError t c) = ConstraintViolationError (Some t) (Some (constraint_value c))"
| "from_asyncpg (NotNullViolationError t col) = ConstraintViolationError (Some t) None"
| "from_asyncpg _ = ConstraintViolationError None None"

datatype redis_error =
    RedisClientNotInitializedError
  | RedisConnectionError string
  | RedisTimeoutError string
  | RedisCommandError string

section \<open>Service errors\<close>

text \<open>
  A Python value as it reaches an error handler through keyword arguments.
\<close>

datatype pyval = PNone | PStr string | PUuid uuid | PDbError db_error

type_synonym kwargs = "(string \<times> pyval) list"

datatype service_error =
    UserAlreadyExistsError pyval
  | InvalidCredentialsError
  | InvalidTokenError
  | TokenExpiredError
  | TokenRevokedError
  | UserNotFoundError pyval
  | SelfFriendshipError
  | FriendRequestAlreadyExistsError pyval
  | FriendRequestNotFoundError pyval
  | GroupNotFoundError pyval
  | GroupNameAlreadyExistsError pyval pyval
  | AlreadyGroupMemberError pyval pyval
  | NotGroupMemberError pyval pyval
  | InsufficientGroupPermissionError string
  | DirectMessageNotAllowedError pyval
  | GroupMessageNotAllowedError pyval

fun status_code :: "service_error \<Rightarrow> nat" where
  "status_code (UserAlreadyExistsError u) = 409"
| "status_code InvalidCredentialsError = 401"
| "status_code InvalidTokenError = 401"
| "status_code TokenExpiredError = 401"
| "status_code TokenRevokedError = 401"
| "status_code (UserNotFoundError i) = 404"
| "status_code SelfFriendshipError = 400"
| "status_code (FriendRequestAlreadyExistsError a) = 409"
| "status_code (FriendRequestNotFoundError r) = 404"
| "status_code (GroupNotFoundError g) = 404"
| "status_code (GroupNameAlreadyExistsError c n) = 409"
| "status_code (AlreadyGroupMemberError u g) = 409"
| "status_code (NotGroupMemberError u g) = 403"
| "status_code (InsufficientGroupPermissionError m) = 403"
| "status_code (DirectMessageNotAllowedError r) = 403"
| "status_code (GroupMessageNotAllowedError g) = 403"

text \<open>How an interpolated value prints inside a message.\<close>

fun py_str :: "pyval \<Rightarrow> string" where
  "py_str PNone = ''None''"
| "py_str (PStr s) = s"
| "py_str (PUuid u) = uuid_str u"
| "py_str (PDbError e) = ''<database error>''"

definition quoted :: "pyval \<Rightarrow> string" where
  "quoted v = [CHR 0x27] @ py_str v @ [CHR 0x27]"

fun service_message :: "service_error \<Rightarrow> string" where
  "service_message (UserAlreadyExistsError u) = ''Username '' @ quoted u @ '' is already taken.''"
| "service_message InvalidCredentialsError = ''Invalid username or password.''"
| "service_message InvalidTokenError = ''Invalid or expired token.''"
| "service_message TokenExpiredError = ''Token has expired.''"
| "service_message TokenRevokedError =
     ''Security alert: Token reuse detected. All active sessions revoked.''"
| "service_message (UserNotFoundError i) = ''User '' @ quoted i @ '' was not found.''"
| "service_message SelfFriendshipError = ''Cannot send a friend request to yourself.''"
| "service_message (FriendRequestAlreadyExistsError a) =
     ''A friend request or active friendship already exists with user '' @ quoted a @ ''.''"
| "service_message (FriendRequestNotFoundError r) =
     ''No pending friend request found from user '' @ quoted r @ ''.''"
| "service_message (GroupNotFoundError g) = ''Group '' @ quoted g @ '' was not found.''"
| "service_message (GroupNameAlreadyExistsError c n) =
     ''Group '' @ quoted n @ '' already exists for creator '' @ quoted c @ ''.''"
| "service_message (AlreadyGroupMemberError u g) =
     ''User '' @ quoted u @ '' is already a member of group '' @ quoted g @ ''.''"
| "service_message (NotGroupMemberError u g) =
     ''User '' @ quoted u @ '' is not an active member of group '' @ quoted g @ ''.''"
| "service_message (InsufficientGroupPermissionError m) = m"
| "service_message (DirectMessageNotAllowedError r) =
     ''Cannot send message. You are not friends with user '' @ quoted r @ ''.''"
| "service_message (GroupMessageNotAllowedError g) =
     ''Cannot send message. You are not a member of group '' @ quoted g @ ''.''"

section \<open>All exceptions a request can meet\<close>

datatype exn =
    ServiceExn service_error
  | DbExn db_error
  | RedisExn redis_error
  | PgExn pg_error
  | HTTPException nat string
  | KeyError string
  | ValueError
  | IndexError
  | AttributeError
  | TypeError
  | ArgonError string
  | ValidationError

type_synonym 'a result = "exn + 'a"

section \<open>Keyword contexts and the translation tables\<close>

text \<open>\<open>kw.get(k, default)\<close>, \<open>kw.get(k)\<close> and Python's \<open>or\<close>, which tests for truth.\<close>

definition kw_get :: "kwargs \<Rightarrow> string \<Rightarrow> pyval \<Rightarrow> pyval" where
  "kw_get kw k dflt = (case map_of kw k of None \<Rightarrow> dflt | Some v \<Rightarrow> v)"

fun truthy :: "pyval \<Rightarrow> bool" where
  "truthy PNone = False"
| "truthy (PStr s) = (s \<noteq> [])"
| "truthy (PUuid u) = True"
| "truthy (PDbError e) = True"

definition py_or :: "pyval \<Rightarrow> pyval \<Rightarrow> pyval" where
  "py_or a b = (if truthy a then a else b)"

abbreviation unknown :: pyval where
  "unknown \<equiv> PStr ''unknown''"

text \<open>
  A table entry is a function of the keyword context, an exception class raised with its defaults,
  or \<open>None\<close>, which makes the not-found decorator swallow the error and which the constraint
  decorator would call, with a \<open>TypeError\<close>.  The lambdas that index
  \<open>kw[\<dots>]\<close> raise \<open>KeyError\<close> where the context lacks the name.
\<close>

datatype handler = HandlerFn "kwargs \<Rightarrow> exn" | HandlerType exn | HandlerNone

definition CONSTRAINT_MAP :: "(string \<times> handler) list" where
  "CONSTRAINT_MAP =
    [(constraint_value UQ_USERS_USERNAME,
        HandlerFn (\<lambda>kw. ServiceExn (UserAlreadyExistsError (kw_get kw ''username'' unknown)))),
     (constraint_value PK_FRIENDSHIPS,
        HandlerFn (\<lambda>kw. ServiceExn (FriendRequestAlreadyExistsError (kw_get kw ''addressee_id'' unknown)))),
     (constraint_value FK_FRIENDSHIPS_REQUESTER_ID,
        HandlerFn (\<lambda>kw. ServiceExn (UserNotFoundError (kw_get kw ''requester_id'' unknown)))),
     (constraint_value FK_FRIENDSHIPS_ADDRESSEE_ID,
        HandlerFn (\<lambda>kw. ServiceExn (UserNotFoundError (kw_get kw ''addressee_id'' unknown)))),
     (constraint_value FK_ACCESS_TOKENS_USER_ID,
        HandlerFn (\<lambda>kw. ServiceExn (UserNotFoundError (kw_get kw ''user_id'' unknown)))),
     (constraint_value FK_REFRESH_TOKENS_USER_ID,
        HandlerFn (\<lambda>kw. ServiceExn (UserNotFoundError (kw_get kw ''user_id'' unknown)))),
     (constraint_value UQ_GROUPS_CREATED_BY_NAME,
        HandlerFn (\<lambda>kw. ServiceExn (GroupNameAlreadyExistsError
          (kw_get kw ''creator_id'' unknown) (kw_get kw ''name'' unknown)))),
     (constraint_value FK_GROUPS_CREATED_BY,
        HandlerFn (\<lambda>kw. ServiceExn (UserNotFoundError (kw_get kw ''user_id'' unknown)))),
     (constraint_value FK_MEMBERSHIPS_GROUP_ID,
        HandlerFn (\<lambda>kw. ServiceExn (GroupNotFoundError (kw_get kw ''group_id'' unknown)))),
     (constraint_value PK_MEMBERSHIPS,
        HandlerFn (\<lambda>kw. ServiceExn (AlreadyGroupMemberError
          (kw_get kw ''user_id'' unknown) (kw_get kw ''group'' unknown)))),
     (constraint_value FK_MEMBERSHIPS_USER_ID,
        HandlerFn (\<lambda>kw. ServiceExn (UserNotFoundError (kw_get kw ''user_id'' unknown)))),
     (constraint_value FK_DM_SENDER_ID,
        HandlerFn (\<lambda>kw. ServiceExn (UserNotFoundError (kw_get kw ''sender_id'' unknown)))),
     (constraint_value FK_DM_RECIPIENT_ID,
        HandlerFn (\<lambda>kw. ServiceExn (DirectMessageNotAllowedError (kw_get kw ''recipient_id'' unknown)))),
     (constraint_value FK_GROUP_MESSAGES_GROUP_ID,
        HandlerFn (\<lambda>kw. ServiceExn (GroupMessageNotAllowedError (kw_get kw ''group_id'' unknown)))),
     (constraint_value FK_GROUP_MESSAGES_SENDER_ID,
        HandlerFn (\<lambda>kw. ServiceExn (NotGroupMemberError
          (kw_get kw ''user_id'' unknown) (kw_get kw ''group_id'' unknown))))]"

definition ENTITY_NOT_FOUND_MAP :: "(Entity \<times> handler) list" where
  "ENTITY_NOT_FOUND_MAP =
    [(USER, HandlerFn (\<lambda>kw. ServiceExn (UserNotFoundError
        (py_or (kw_get kw ''identifier'' PNone) (kw_get kw ''user_id'' unknown))))),
     (GROUP, HandlerFn (\<lambda>kw. ServiceExn (GroupNotFoundError
        (py_or (kw_get kw ''identifier'' PNone) (kw_get kw ''group_id'' unknown))))),
     (MEMBERSHIP, HandlerFn (\<lambda>kw. ServiceExn (NotGroupMemberError
        (py_or (kw_get kw ''actor_id'' PNone) (kw_get kw ''user_id'' unknown))
        (kw_get kw ''group_id'' unknown)))),
     (FRIENDSHIP, HandlerFn (\<lambda>kw. ServiceExn (FriendRequestNotFoundError
        (py_or (kw_get kw ''identifier'' PNone) (kw_get kw ''requester_id'' unknown)))))]"

section \<open>The decorators\<close>

text \<open>
  \<open>{**A, **B}\<close> is \<open>B @ A\<close> under \<open>map_of\<close>: the first entry wins.  The constraint decorator
  lower-cases the override keys and the reported name before it looks the name up.
\<close>

definition handle_db_constraint_error ::
    "(Constraint \<times> handler) list \<Rightarrow> kwargs \<Rightarrow> 'a result \<Rightarrow> 'a result" where
  "handle_db_constraint_error overrides kwargs r =
     (case r of
        Inl (DbExn (ConstraintViolationError table constr)) \<Rightarrow>
          (let raw_constraint = map_option lower constr;
               normalized_overrides = map (\<lambda>(k, v). (lower (constraint_value k), v)) overrides;
               active_map = map_of (normalized_overrides @ CONSTRAINT_MAP)
           in case raw_constraint of
                None \<Rightarrow> r
              | Some name \<Rightarrow>
                  if name = [] then r
                  else (case active_map name of
                          None \<Rightarrow> r
                        | Some (HandlerType e) \<Rightarrow> Inl e
                        | Some (HandlerFn h) \<Rightarrow>
                            Inl (h (kwargs @
                              [(''constraint'', PStr name),
                               (''table'', case table of None \<Rightarrow> PNone | Some t \<Rightarrow> PStr t),
                               (''db_error'', PDbError (ConstraintViolationError table constr))]))
                        | Some HandlerNone \<Rightarrow> Inl TypeError))
      | _ \<Rightarrow> r)"

text \<open>
  The not-found decorator may swallow the error and return \<open>None\<close>, so its result is an option:
  \<open>Inr None\<close> is the swallowed error and \<open>Inr (Some x)\<close> the value of the wrapped call.
\<close>

definition handle_db_not_found_error ::
    "(Entity \<times> handler) list \<Rightarrow> kwargs \<Rightarrow> 'a result \<Rightarrow> 'a option result" where
  "handle_db_not_found_error overrides kwargs r =
     (case r of
        Inr x \<Rightarrow> Inr (Some x)
      | Inl e \<Rightarrow>
          (case e of
             DbExn (NotFoundError entity identifier) \<Rightarrow>
               (case map_of (overrides @ ENTITY_NOT_FOUND_MAP) entity of
                  None \<Rightarrow> Inl e
                | Some HandlerNone \<Rightarrow> Inr None
                | Some (HandlerType e') \<Rightarrow> Inl e'
                | Some (HandlerFn h) \<Rightarrow>
                    Inl (h (kwargs @
                      [(''identifier'', PStr identifier),
                       (''db_error'', PDbError (NotFoundError entity identifier))])))
           | _ \<Rightarrow> Inl e))"

section \<open>The HTTP status a raised exception becomes\<close>

text \<open>
  The exception handlers of \<open>src/src/main.py\<close>: a service error answers with its own status and
  message, every other error with 500 and a fixed text; an \<open>HTTPException\<close> carries its own.
\<close>

fun http_response :: "exn \<Rightarrow> nat \<times> string" where
  "http_response (ServiceExn e) = (status_code e, service_message e)"
| "http_response (DbExn e) = (500, ''A database operation failed.'')"
| "http_response (RedisExn e) = (500, ''A caching or messaging operation failed.'')"
| "http_response (HTTPException c d) = (c, d)"
| "http_response _ = (500, ''An internal server error occurred.'')"

section \<open>Facts about the tables and decorators\<close>

lemma lower_constraint_value [simp]: "lower (constraint_value c) = constraint_value c"
  by (cases c) (simp_all add: lower_def char_lower_def)

lemma constraint_value_not_Nil [simp]: "constraint_value c \<noteq> []"
  by (cases c) simp_all

lemma constraint_value_inject [simp]: "constraint_value c = constraint_value d \<longleftrightarrow> c = d"
  by (cases c; cases d) simp_all

text \<open>
  From here on a constraint name is only compared with other constraint names, so the texts stay
  folded.
\<close>

declare constraint_value.simps [simp del]

lemma map_of_overrides [simp]:
  "map_of (map (\<lambda>(k, v). (constraint_value k, v)) ov) (constraint_value c) = map_of ov c"
  by (induction ov) auto

lemma constraint_decorator_Inr [simp]: "handle_db_constraint_error ov kw (Inr x) = Inr x"
  by (simp add: handle_db_constraint_error_def)

lemma constraint_decorator_other:
  "(\<And>t c. e \<noteq> DbExn (ConstraintViolationError t c)) \<Longrightarrow>
     handle_db_constraint_error ov kw (Inl e) = Inl e"
  by (auto simp: handle_db_constraint_error_def split: exn.splits db_error.splits)

lemma constraint_decorator_passes [simp]:
  "handle_db_constraint_error ov kw (Inl (ServiceExn s)) = Inl (ServiceExn s)"
  "handle_db_constraint_error ov kw (Inl (RedisExn r)) = Inl (RedisExn r)"
  "handle_db_constraint_error ov kw (Inl (PgExn p)) = Inl (PgExn p)"
  "handle_db_constraint_error ov kw (Inl (ArgonError a)) = Inl (ArgonError a)"
  "handle_db_constraint_error ov kw (Inl (DbExn (NotFoundError en i))) = Inl (DbExn (NotFoundError en i))"
  "handle_db_constraint_error ov kw (Inl (DbExn (DatabaseError m))) = Inl (DbExn (DatabaseError m))"
  "handle_db_constraint_error ov kw (Inl (DbExn (SerializationError m))) = Inl (DbExn (SerializationError m))"
  by (simp_all add: constraint_decorator_other)

abbreviation constraint_violation :: "string \<Rightarrow> Constraint \<Rightarrow> exn" where
  "constraint_violation t c \<equiv> DbExn (ConstraintViolationError (Some t) (Some (constraint_value c)))"

definition constraint_ctx :: "kwargs \<Rightarrow> string \<Rightarrow> Constraint \<Rightarrow> kwargs" where
  "constraint_ctx kw t c =
     kw @ [(''constraint'', PStr (constraint_value c)), (''table'', PStr t),
           (''db_error'', PDbError (ConstraintViolationError (Some t) (Some (constraint_value c))))]"

lemma constraint_decorator_table:
  assumes "map_of ov c = None" and "map_of CONSTRAINT_MAP (constraint_value c) = Some (HandlerFn h)"
  shows "handle_db_constraint_error ov kw (Inl (constraint_violation t c)) =
    Inl (h (constraint_ctx kw t c))"
  using assms by (simp add: handle_db_constraint_error_def Let_def map_add_def constraint_ctx_def)

lemma constraint_decorator_override:
  assumes "map_of ov c = Some (HandlerType e)"
  shows "handle_db_constraint_error ov kw (Inl (constraint_violation t c)) = Inl e"
  using assms by (simp add: handle_db_constraint_error_def Let_def map_add_def)

lemma constraint_decorator_unmapped:
  assumes "map_of ov c = None" and "map_of CONSTRAINT_MAP (constraint_value c) = None"
  shows "handle_db_constraint_error ov kw (Inl (constraint_violation t c)) =
    Inl (constraint_violation t c)"
  using assms by (simp add: handle_db_constraint_error_def Let_def map_add_def)

lemma kw_get_ctx: 
  "k \<notin> {''constraint'', ''table'', ''db_error''} \<Longrightarrow>
     kw_get (constraint_ctx kw t c) k d = kw_get kw k d"
  by (auto simp: kw_get_def constraint_ctx_def map_add_def split: option.splits)

lemma kw_get_Nil [simp]: "kw_get [] k d = d"
  by (simp add: kw_get_def)

lemma kw_get_Cons [simp]: "kw_get ((k', v) # kw) k d = (if k = k' then v else kw_get kw k d)"
  by (auto simp: kw_get_def)

lemma not_found_decorator_Inr [simp]: "handle_db_not_found_error ov kw (Inr x) = Inr (Some x)"
  by (simp add: handle_db_not_found_error_def)

lemma not_found_decorator_other:
  "(\<And>en i. e \<noteq> DbExn (NotFoundError en i)) \<Longrightarrow> handle_db_not_found_error ov kw (Inl e) = Inl e"
  by (auto simp: handle_db_not_found_error_def split: exn.splits db_error.splits)

lemma not_found_decorator_passes [simp]:
  "handle_db_not_found_error ov kw (Inl (ServiceExn s)) = Inl (ServiceExn s)"
  "handle_db_not_found_error ov kw (Inl (RedisExn r)) = Inl (RedisExn r)"
  "handle_db_not_found_error ov kw (Inl (PgExn p)) = Inl (PgExn p)"
  "handle_db_not_found_error ov kw (Inl (ArgonError a)) = Inl (ArgonError a)"
  "handle_db_not_found_error ov kw (Inl (DbExn (ConstraintViolationError t c))) =
     Inl (DbExn (ConstraintViolationError t c))"
  "handle_db_not_found_error ov kw (Inl (DbExn (DatabaseError m))) = Inl (DbExn (DatabaseError m))"
  "handle_db_not_found_error ov kw (Inl (DbExn (SerializationError m))) = Inl (DbExn (SerializationError m))"
  by (simp_all add: not_found_decorator_other)

lemma not_found_decorator_Inr_iff:
  "handle_db_not_found_error ov kw r = Inr (Some x) \<longleftrightarrow> r = Inr x"
  by (auto simp: handle_db_not_found_error_def split: sum.splits exn.splits db_error.splits
      option.splits handler.splits)

lemma constraint_decorator_Inr_iff:
  "handle_db_constraint_error ov kw r = Inr x \<longleftrightarrow> r = Inr x"
  by (auto simp: handle_db_constraint_error_def Let_def split: sum.splits exn.splits db_error.splits
      option.splits handler.splits)

text \<open>
  With no \<open>None\<close> entry among the overrides the decorator never swallows an error.
\<close>

lemma not_found_decorator_not_swallowed:
  assumes "HandlerNone \<notin> snd ` set ov"
  shows "handle_db_not_found_error ov kw r \<noteq> Inr None"
proof -
  have "map_of (ov @ ENTITY_NOT_FOUND_MAP) en \<noteq> Some HandlerNone" for en
    using assms by (auto simp: ENTITY_NOT_FOUND_MAP_def map_add_Some_iff image_iff
        dest!: map_of_SomeD split: if_splits)
  then show ?thesis
    by (auto simp: handle_db_not_found_error_def simp del: map_of_append
        split: sum.splits exn.splits db_error.splits option.splits handler.splits)
qed

end
