(* ===== verification/Models.thy ===== *)
theory Models
  imports Errors
begin

text \<open>
  The dataclasses of \<open>src/src/database/models.py\<close> as records (a field is written with a short
  prefix of its class, since several classes share field names), and the generic mapping of
  \<open>DBModel\<close>: \<open>to_args\<close> lists the field values in declaration order for the positional
  parameters of an INSERT, \<open>from_record\<close> builds an instance from the columns of a row, and
  \<open>update_from_record\<close> overwrites the fields a returned row mentions.  The lemmas at the end state
  that the positional order used by the INSERT statements agrees with the column names, so a row
  written and read back is the model that was written.
\<close>

section \<open>Column values and rows\<close>

datatype sqlval = VNull | VUuid uuid | VText string | VBool bool | VTime timestamp

type_synonym row = "(string \<times> sqlval) list"

definition get_uuid :: "row \<Rightarrow> string \<Rightarrow> uuid option" where
  "get_uuid r k = (case map_of r k of Some (VUuid u) \<Rightarrow> Some u | _ \<Rightarrow> None)"

definition get_text :: "row \<Rightarrow> string \<Rightarrow> string option" where
  "get_text r k = (case map_of r k of Some (VText s) \<Rightarrow> Some s | _ \<Rightarrow> None)"

definition get_bool :: "row \<Rightarrow> string \<Rightarrow> bool option" where
  "get_bool r k = (case map_of r k of Some (VBool b) \<Rightarrow> Some b | _ \<Rightarrow> None)"

definition get_time :: "row \<Rightarrow> string \<Rightarrow> timestamp option" where
  "get_time r k = (case map_of r k of Some (VTime t) \<Rightarrow> Some t | _ \<Rightarrow> None)"

definition get_ouuid :: "row \<Rightarrow> string \<Rightarrow> uuid option option" where
  "get_ouuid r k =
     (case map_of r k of Some (VUuid u) \<Rightarrow> Some (Some u) | Some VNull \<Rightarrow> Some None | _ \<Rightarrow> None)"

fun val_ouuid :: "uuid option \<Rightarrow> sqlval" where
  "val_ouuid None = VNull"
| "val_ouuid (Some u) = VUuid u"

lemmas row_getters = get_uuid_def get_text_def get_bool_def get_time_def get_ouuid_def

section \<open>The model classes\<close>

record User =
  u_user_id :: uuid
  u_username :: string
  u_password_hash :: string
  u_deactivated :: bool
  u_created_at :: timestamp

record Friendship =
  fr_requester_id :: uuid
  fr_addressee_id :: uuid
  fr_accepted :: bool
  fr_created_at :: timestamp
  fr_updated_at :: timestamp

record AccessToken =
  at_token_hash :: string
  at_user_id :: uuid
  at_is_revoked :: bool
  at_expires_at :: timestamp

record RefreshToken =
  rt_token_hash :: string
  rt_user_id :: uuid
  rt_is_revoked :: bool
  rt_expires_at :: timestamp

record Group =
  g_group_id :: uuid
  g_name :: string
  g_created_by :: "uuid option"
  g_created_at :: timestamp

record Membership =
  mb_group_id :: uuid
  mb_user_id :: uuid
  mb_joined_at :: timestamp

record DirectMessage =
  dm_message_id :: uuid
  dm_sender_id :: uuid
  dm_recipient_id :: uuid
  dm_content :: string
  dm_created_at :: timestamp

record GroupMessage =
  gm_message_id :: uuid
  gm_group_id :: uuid
  gm_sender_id :: uuid
  gm_content :: string
  gm_created_at :: timestamp

text \<open>The property \<open>is_expired\<close>; the instant \<open>now\<close> is what \<open>current_ts()\<close> returns.\<close>

definition at_is_expired :: "timestamp \<Rightarrow> AccessToken \<Rightarrow> bool" where
  "at_is_expired now t = (now \<ge> at_expires_at t)"

definition rt_is_expired :: "timestamp \<Rightarrow> RefreshToken \<Rightarrow> bool" where
  "rt_is_expired now t = (now \<ge> rt_expires_at t)"

section \<open>Field order, construction from rows\<close>

definition user_to_args :: "User \<Rightarrow> sqlval list" where
  "user_to_args m =
     [VUuid (u_user_id m), VText (u_username m), VText (u_password_hash m), VBool (u_deactivated m), VTime (u_created_at m)]"

definition user_from_record :: "row \<Rightarrow> User option" where
  "user_from_record r =
     (case (get_uuid r ''user_id'',
            get_text r ''username'',
            get_text r ''password_hash'',
            get_bool r ''deactivated'',
            get_time r ''created_at'') of
        (Some x0, Some x1, Some x2, Some x3, Some x4) \<Rightarrow>
          Some \<lparr>u_user_id = x0, u_username = x1, u_password_hash = x2, u_deactivated = x3, u_created_at = x4\<rparr>
      | _ \<Rightarrow> None)"

definition friendship_from_record :: "row \<Rightarrow> Friendship option" where
  "friendship_from_record r =
     (case (get_uuid r ''requester_id'',
            get_uuid r ''addressee_id'',
            get_bool r ''accepted'',
            get_time r ''created_at'',
            get_time r ''updated_at'') of
        (Some x0, Some x1, Some x2, Some x3, Some x4) \<Rightarrow>
          Some \<lparr>fr_requester_id = x0, fr_addressee_id = x1, fr_accepted = x2, fr_created_at = x3, fr_updated_at = x4\<rparr>
      | _ \<Rightarrow> None)"

definition access_token_to_args :: "AccessToken \<Rightarrow> sqlval list" where
  "access_token_to_args m =
     [VText (at_token_hash m), VUuid (at_user_id m), VBool (at_is_revoked m), VTime (at_expires_at m)]"

definition access_token_from_record :: "row \<Rightarrow> AccessToken option" where
  "access_token_from_record r =
     (case (get_text r ''token_hash'',
            get_uuid r ''user_id'',
            get_bool r ''is_revoked'',
            get_time r ''expires_at'') of
        (Some x0, Some x1, Some x2, Some x3) \<Rightarrow>
          Some \<lparr>at_token_hash = x0, at_user_id = x1, at_is_revoked = x2, at_expires_at = x3\<rparr>
      | _ \<Rightarrow> None)"

definition refresh_token_to_args :: "RefreshToken \<Rightarrow> sqlval list" where
  "refresh_token_to_args m =
     [VText (rt_token_hash m), VUuid (rt_user_id m), VBool (rt_is_revoked m), VTime (rt_expires_at m)]"

definition refresh_token_from_record :: "row \<Rightarrow> RefreshToken option" where
  "refresh_token_from_record r =
     (case (get_text r ''token_hash'',
            get_uuid r ''user_id'',
            get_bool r ''is_revoked'',
            get_time r ''expires_at'') of
        (Some x0, Some x1, Some x2, Some x3) \<Rightarrow>
          Some \<lparr>rt_token_hash = x0, rt_user_id = x1, rt_is_revoked = x2, rt_expires_at = x3\<rparr>
      | _ \<Rightarrow> None)"

definition group_to_args :: "Group \<Rightarrow> sqlval list" where
  "group_to_args m =
     [VUuid (g_group_id m), VText (g_name m), val_ouuid (g_created_by m), VTime (g_created_at m)]"

definition group_from_record :: "row \<Rightarrow> Group option" where
  "group_from_record r =
     (case (get_uuid r ''group_id'',
            get_text r ''name'',
            get_ouuid r ''created_by'',
            get_time r ''created_at'') of
        (Some x0, Some x1, Some x2, Some x3) \<Rightarrow>
          Some \<lparr>g_group_id = x0, g_name = x1, g_created_by = x2, g_created_at = x3\<rparr>
      | _ \<Rightarrow> None)"

definition membership_to_args :: "Membership \<Rightarrow> sqlval list" where
  "membership_to_args m =
     [VUuid (mb_group_id m), VUuid (mb_user_id m), VTime (mb_joined_at m)]"

definition membership_from_record :: "row \<Rightarrow> Membership option" where
  "membership_from_record r =
     (case (get_uuid r ''group_id'',
            get_uuid r ''user_id'',
            get_time r ''joined_at'') of
        (Some x0, Some x1, Some x2) \<Rightarrow>
          Some \<lparr>mb_group_id = x0, mb_user_id = x1, mb_joined_at = x2\<rparr>
      | _ \<Rightarrow> None)"

definition direct_message_to_args :: "DirectMessage \<Rightarrow> sqlval list" where
  "direct_message_to_args m =
     [VUuid (dm_message_id m), VUuid (dm_sender_id m), VUuid (dm_recipient_id m), VText (dm_content m), VTime (dm_created_at m)]"

definition direct_message_from_record :: "row \<Rightarrow> DirectMessage option" where
  "direct_message_from_record r =
     (case (get_uuid r ''message_id'',
            get_uuid r ''sender_id'',
            get_uuid r ''recipient_id'',
            get_text r ''content'',
            get_time r ''created_at'') of
        (Some x0, Some x1, Some x2, Some x3, Some x4) \<Rightarrow>
          Some \<lparr>dm_message_id = x0, dm_sender_id = x1, dm_recipient_id = x2, dm_content = x3, dm_created_at = x4\<rparr>
      | _ \<Rightarrow> None)"

definition group_message_to_args :: "GroupMessage \<Rightarrow> sqlval list" where
  "group_message_to_args m =
     [VUuid (gm_message_id m), VUuid (gm_group_id m), VUuid (gm_sender_id m), VText (gm_content m), VTime (gm_created_at m)]"

definition group_message_from_record :: "row \<Rightarrow> GroupMessage option" where
  "group_message_from_record r =
     (case (get_uuid r ''message_id'',
            get_uuid r ''group_id'',
            get_uuid r ''sender_id'',
            get_text r ''content'',
            get_time r ''created_at'') of
        (Some x0, Some x1, Some x2, Some x3, Some x4) \<Rightarrow>
          Some \<lparr>gm_message_id = x0, gm_group_id = x1, gm_sender_id = x2, gm_content = x3, gm_created_at = x4\<rparr>
      | _ \<Rightarrow> None)"

section \<open>Overwriting fields from a returned row\<close>

text \<open>
  One assignment \<open>setattr(self, k, v)\<close> per column that names a field; the RETURNING clauses return
  columns of the field's own type.
\<close>

definition user_setattr :: "string \<times> sqlval \<Rightarrow> User \<Rightarrow> User" where
  "user_setattr kv m =
     (case kv of (k, v) \<Rightarrow>
        if k = ''user_id'' then (case v of VUuid x \<Rightarrow> m\<lparr>u_user_id := x\<rparr> | _ \<Rightarrow> m)
        else if k = ''username'' then (case v of VText x \<Rightarrow> m\<lparr>u_username := x\<rparr> | _ \<Rightarrow> m)
        else if k = ''password_hash'' then (case v of VText x \<Rightarrow> m\<lparr>u_password_hash := x\<rparr> | _ \<Rightarrow> m)
        else if k = ''deactivated'' then (case v of VBool x \<Rightarrow> m\<lparr>u_deactivated := x\<rparr> | _ \<Rightarrow> m)
        else if k = ''created_at'' then (case v of VTime x \<Rightarrow> m\<lparr>u_created_at := x\<rparr> | _ \<Rightarrow> m)
        else m)"

definition user_update_from_record :: "User \<Rightarrow> row \<Rightarrow> User" where
  "user_update_from_record m r = fold user_setattr r m"

definition group_setattr :: "string \<times> sqlval \<Rightarrow> Group \<Rightarrow> Group" where
  "group_setattr kv m =
     (case kv of (k, v) \<Rightarrow>
        if k = ''group_id'' then (case v of VUuid x \<Rightarrow> m\<lparr>g_group_id := x\<rparr> | _ \<Rightarrow> m)
        else if k = ''name'' then (case v of VText x \<Rightarrow> m\<lparr>g_name := x\<rparr> | _ \<Rightarrow> m)
        else if k = ''created_by'' then (case v of VUuid x \<Rightarrow> m\<lparr>g_created_by := Some x\<rparr> | VNull \<Rightarrow> m\<lparr>g_created_by := None\<rparr> | _ \<Rightarrow> m)
        else if k = ''created_at'' then (case v of VTime x \<Rightarrow> m\<lparr>g_created_at := x\<rparr> | _ \<Rightarrow> m)
        else m)"

definition group_update_from_record :: "Group \<Rightarrow> row \<Rightarrow> Group" where
  "group_update_from_record m r = fold group_setattr r m"

definition membership_setattr :: "string \<times> sqlval \<Rightarrow> Membership \<Rightarrow> Membership" where
  "membership_setattr kv m =
     (case kv of (k, v) \<Rightarrow>
        if k = ''group_id'' then (case v of VUuid x \<Rightarrow> m\<lparr>mb_group_id := x\<rparr> | _ \<Rightarrow> m)
        else if k = ''user_id'' then (case v of VUuid x \<Rightarrow> m\<lparr>mb_user_id := x\<rparr> | _ \<Rightarrow> m)
        else if k = ''joined_at'' then (case v of VTime x \<Rightarrow> m\<lparr>mb_joined_at := x\<rparr> | _ \<Rightarrow> m)
        else m)"

definition membership_update_from_record :: "Membership \<Rightarrow> row \<Rightarrow> Membership" where
  "membership_update_from_record m r = fold membership_setattr r m"

definition direct_message_setattr :: "string \<times> sqlval \<Rightarrow> DirectMessage \<Rightarrow> DirectMessage" where
  "direct_message_setattr kv m =
     (case kv of (k, v) \<Rightarrow>
        if k = ''message_id'' then (case v of VUuid x \<Rightarrow> m\<lparr>dm_message_id := x\<rparr> | _ \<Rightarrow> m)
        else if k = ''sender_id'' then (case v of VUuid x \<Rightarrow> m\<lparr>dm_sender_id := x\<rparr> | _ \<Rightarrow> m)
        else if k = ''recipient_id'' then (case v of VUuid x \<Rightarrow> m\<lparr>dm_recipient_id := x\<rparr> | _ \<Rightarrow> m)
        else if k = ''content'' then (case v of VText x \<Rightarrow> m\<lparr>dm_content := x\<rparr> | _ \<Rightarrow> m)
        else if k = ''created_at'' then (case v of VTime x \<Rightarrow> m\<lparr>dm_created_at := x\<rparr> | _ \<Rightarrow> m)
        else m)"

definition direct_message_update_from_record :: "DirectMessage \<Rightarrow> row \<Rightarrow> DirectMessage" where
  "direct_message_update_from_record m r = fold direct_message_setattr r m"

definition group_message_setattr :: "string \<times> sqlval \<Rightarrow> GroupMessage \<Rightarrow> GroupMessage" where
  "group_message_setattr kv m =
     (case kv of (k, v) \<Rightarrow>
        if k = ''message_id'' then (case v of VUuid x \<Rightarrow> m\<lparr>gm_message_id := x\<rparr> | _ \<Rightarrow> m)
        else if k = ''group_id'' then (case v of VUuid x \<Rightarrow> m\<lparr>gm_group_id := x\<rparr> | _ \<Rightarrow> m)
        else if k = ''sender_id'' then (case v of VUuid x \<Rightarrow> m\<lparr>gm_sender_id := x\<rparr> | _ \<Rightarrow> m)
        else if k = ''content'' then (case v of VText x \<Rightarrow> m\<lparr>gm_content := x\<rparr> | _ \<Rightarrow> m)
        else if k = ''created_at'' then (case v of VTime x \<Rightarrow> m\<lparr>gm_created_at := x\<rparr> | _ \<Rightarrow> m)
        else m)"

definition group_message_update_from_record :: "GroupMessage \<Rightarrow> row \<Rightarrow> GroupMessage" where
  "group_message_update_from_record m r = fold group_message_setattr r m"

section \<open>A model written by position is read back by name\<close>

lemma val_ouuid_cases:
  "(case val_ouuid v of VUuid u \<Rightarrow> Some (Some u) | VNull \<Rightarrow> Some None | _ \<Rightarrow> None) = Some v"
  by (cases v) simp_all

lemma user_roundtrip [simp]:
  "user_from_record (zip [''user_id'', ''username'', ''password_hash'', ''deactivated'', ''created_at''] (user_to_args m)) = Some m"
  by (simp add: user_from_record_def user_to_args_def row_getters)

lemma user_update_roundtrip [simp]:
  "user_update_from_record m' (zip [''user_id'', ''username'', ''password_hash'', ''deactivated'', ''created_at''] (user_to_args m)) = m"
  by (simp add: user_update_from_record_def user_setattr_def user_to_args_def)

lemma access_token_roundtrip [simp]:
  "access_token_from_record (zip [''token_hash'', ''user_id'', ''is_revoked'', ''expires_at''] (access_token_to_args m)) = Some m"
  by (simp add: access_token_from_record_def access_token_to_args_def row_getters)

lemma refresh_token_roundtrip [simp]:
  "refresh_token_from_record (zip [''token_hash'', ''user_id'', ''is_revoked'', ''expires_at''] (refresh_token_to_args m)) = Some m"
  by (simp add: refresh_token_from_record_def refresh_token_to_args_def row_getters)

lemma group_roundtrip [simp]:
  "group_from_record (zip [''group_id'', ''name'', ''created_by'', ''created_at''] (group_to_args m)) = Some m"
  by (simp add: group_from_record_def group_to_args_def row_getters val_ouuid_cases)

lemma group_update_roundtrip [simp]:
  "group_update_from_record m' (zip [''group_id'', ''name'', ''created_by'', ''created_at''] (group_to_args m)) = m"
  by (cases "g_created_by m"; simp add: group_update_from_record_def group_setattr_def group_to_args_def)

lemma membership_roundtrip [simp]:
  "membership_from_record (zip [''group_id'', ''user_id'', ''joined_at''] (membership_to_args m)) = Some m"
  by (simp add: membership_from_record_def membership_to_args_def row_getters)

lemma membership_update_roundtrip [simp]:
  "membership_update_from_record m' (zip [''group_id'', ''user_id'', ''joined_at''] (membership_to_args m)) = m"
  by (simp add: membership_update_from_record_def membership_setattr_def membership_to_args_def)

lemma direct_message_roundtrip [simp]:
  "direct_message_from_record (zip [''message_id'', ''sender_id'', ''recipient_id'', ''content'', ''created_at''] (direct_message_to_args m)) = Some m"
  by (simp add: direct_message_from_record_def direct_message_to_args_def row_getters)

lemma direct_message_update_roundtrip [simp]:
  "direct_message_update_from_record m' (zip [''message_id'', ''sender_id'', ''recipient_id'', ''content'', ''created_at''] (direct_message_to_args m)) = m"
  by (simp add: direct_message_update_from_record_def direct_message_setattr_def direct_message_to_args_def)

lemma group_message_roundtrip [simp]:
  "group_message_from_record (zip [''message_id'', ''group_id'', ''sender_id'', ''content'', ''created_at''] (group_message_to_args m)) = Some m"
  by (simp add: group_message_from_record_def group_message_to_args_def row_getters)

lemma group_message_update_roundtrip [simp]:
  "group_message_update_from_record m' (zip [''message_id'', ''group_id'', ''sender_id'', ''content'', ''created_at''] (group_message_to_args m)) = m"
  by (simp add: group_message_update_from_record_def group_message_setattr_def group_message_to_args_def)

end
