(* ===== verification/Schema.thy ===== *)
theory Schema
  imports Models
begin

text \<open>
  The statements of \<open>src/src/database/sql.py\<close> over the eight tables, as functions on the table
  contents.  A table is the list of its rows in scan order; the order of a SELECT without ORDER BY
  is that order, and the properties proved about such a SELECT do not depend on it.  An INSERT
  checks its constraints in the order PostgreSQL does: NOT NULL first, then the unique indexes of
  the table, then the foreign keys in declaration order.  A write that violates a constraint
  returns the violation and changes nothing.
\<close>

section \<open>The database\<close>

record db =
  users :: "User list"
  friendships :: "Friendship list"
  access_tokens :: "AccessToken list"
  refresh_tokens :: "RefreshToken list"
  groups :: "Group list"
  memberships :: "Membership list"
  direct_messages :: "DirectMessage list"
  group_messages :: "GroupMessage list"

definition empty_db :: db where
  "empty_db = \<lparr>users = [], friendships = [], access_tokens = [], refresh_tokens = [], groups = [],
     memberships = [], direct_messages = [], group_messages = []\<rparr>"

text \<open>The tables named by TRUNCATE, and through CASCADE the message tables that reference them.\<close>

definition CLEAR_TABLES :: "db \<Rightarrow> db" where
  "CLEAR_TABLES d = d\<lparr>users := [], refresh_tokens := [], access_tokens := [], friendships := [],
     groups := [], memberships := [], direct_messages := [], group_messages := []\<rparr>"

abbreviation user_ids :: "db \<Rightarrow> uuid set" where
  "user_ids d \<equiv> u_user_id ` set (users d)"

abbreviation group_ids :: "db \<Rightarrow> uuid set" where
  "group_ids d \<equiv> g_group_id ` set (groups d)"

text \<open>Does the referenced key exist: the check behind a foreign key.\<close>

definition user_exists :: "db \<Rightarrow> uuid \<Rightarrow> bool" where
  "user_exists d u = list_ex (\<lambda>r. u_user_id r = u) (users d)"

definition group_exists :: "db \<Rightarrow> uuid \<Rightarrow> bool" where
  "group_exists d g = list_ex (\<lambda>r. g_group_id r = g) (groups d)"

section \<open>Command completion tags\<close>

definition update_tag :: "nat \<Rightarrow> string" where
  "update_tag n = ''UPDATE '' @ nat_str n"

definition delete_tag :: "nat \<Rightarrow> string" where
  "delete_tag n = ''DELETE '' @ nat_str n"

abbreviation UPDATE_ZERO :: string where "UPDATE_ZERO \<equiv> ''UPDATE 0''"

abbreviation DELETE_ZERO :: string where "DELETE_ZERO \<equiv> ''DELETE 0''"

section \<open>Read statements (class Fetch)\<close>

definition USER_BY_ID :: "uuid \<Rightarrow> db \<Rightarrow> User option" where
  "USER_BY_ID u d = fetchrow (\<lambda>r. u_user_id r = u) (users d)"

definition USER_BY_USERNAME :: "string \<Rightarrow> db \<Rightarrow> User option" where
  "USER_BY_USERNAME name d = fetchrow (\<lambda>r. u_username r = name) (users d)"

text \<open>The row pattern of FRIENDSHIP_STATUS and REMOVE_FRIENDSHIP: either direction.\<close>

definition between :: "uuid \<Rightarrow> uuid \<Rightarrow> Friendship \<Rightarrow> bool" where
  "between a b f =
     ((fr_requester_id f = a \<and> fr_addressee_id f = b) \<or> (fr_requester_id f = b \<and> fr_addressee_id f = a))"

definition FRIENDSHIP_STATUS :: "uuid \<Rightarrow> uuid \<Rightarrow> db \<Rightarrow> Friendship option" where
  "FRIENDSHIP_STATUS a b d = fetchrow (between a b) (friendships d)"

definition LIST_ACCEPTED_FRIENDS :: "uuid \<Rightarrow> db \<Rightarrow> Friendship list" where
  "LIST_ACCEPTED_FRIENDS u d =
     filter (\<lambda>f. fr_requester_id f = u \<and> fr_accepted f) (friendships d) @
     filter (\<lambda>f. fr_addressee_id f = u \<and> fr_accepted f) (friendships d)"

definition LIST_PENDING_REQUESTS :: "uuid \<Rightarrow> db \<Rightarrow> Friendship list" where
  "LIST_PENDING_REQUESTS u d =
     filter (\<lambda>f. fr_addressee_id f = u \<and> \<not> fr_accepted f) (friendships d)"

definition FETCH_ACCESS_TOKEN :: "string \<Rightarrow> db \<Rightarrow> AccessToken option" where
  "FETCH_ACCESS_TOKEN h d = fetchrow (\<lambda>t. at_token_hash t = h) (access_tokens d)"

definition FETCH_REFRESH_TOKEN :: "string \<Rightarrow> db \<Rightarrow> RefreshToken option" where
  "FETCH_REFRESH_TOKEN h d = fetchrow (\<lambda>t. rt_token_hash t = h) (refresh_tokens d)"

definition GROUP_BY_ID :: "uuid \<Rightarrow> db \<Rightarrow> Group option" where
  "GROUP_BY_ID g d = fetchrow (\<lambda>r. g_group_id r = g) (groups d)"

definition LIST_USER_GROUPS :: "uuid \<Rightarrow> db \<Rightarrow> Group list" where
  "LIST_USER_GROUPS u d =
     [g. g \<leftarrow> groups d, m \<leftarrow> memberships d, g_group_id g = mb_group_id m \<and> mb_user_id m = u]"

definition LIST_GROUP_MEMBERSHIPS :: "uuid \<Rightarrow> db \<Rightarrow> Membership list" where
  "LIST_GROUP_MEMBERSHIPS g d = filter (\<lambda>m. mb_group_id m = g) (memberships d)"

definition MEMBERSHIP_BY_IDS :: "uuid \<Rightarrow> uuid \<Rightarrow> db \<Rightarrow> Membership option" where
  "MEMBERSHIP_BY_IDS g u d = fetchrow (\<lambda>m. mb_group_id m = g \<and> mb_user_id m = u) (memberships d)"

text \<open>
  Three statements no function uses.  Their names announce a row lock, but they end without
  \<open>FOR SHARE\<close>, so they are plain reads.
\<close>

definition USER_FOR_SHARE :: "uuid \<Rightarrow> db \<Rightarrow> User list" where
  "USER_FOR_SHARE u d = filter (\<lambda>r. u_user_id r = u) (users d)"

definition FRIENDSHIP_FOR_SHARE :: "uuid \<Rightarrow> uuid \<Rightarrow> db \<Rightarrow> Friendship list" where
  "FRIENDSHIP_FOR_SHARE a b d = filter (\<lambda>f. between a b f \<and> fr_accepted f) (friendships d)"

definition MEMBERSHIP_FOR_SHARE :: "uuid \<Rightarrow> uuid \<Rightarrow> db \<Rightarrow> Membership list" where
  "MEMBERSHIP_FOR_SHARE g u d = filter (\<lambda>m. mb_group_id m = g \<and> mb_user_id m = u) (memberships d)"

text \<open>ORDER BY created_at DESC.\<close>

definition order_by_desc :: "('r \<Rightarrow> timestamp) \<Rightarrow> 'r list \<Rightarrow> 'r list" where
  "order_by_desc key rows = sort_key (\<lambda>r. - key r) rows"

definition dm_branch :: "uuid \<Rightarrow> uuid \<Rightarrow> timestamp \<Rightarrow> db \<Rightarrow> DirectMessage list" where
  "dm_branch sender recipient before d =
     filter (\<lambda>m. dm_sender_id m = sender \<and> dm_recipient_id m = recipient \<and> dm_created_at m < before)
       (direct_messages d)"

text \<open>Each branch is ordered and cut before the union is ordered and cut again.\<close>

definition DM_CONVERSATION_HISTORY ::
    "uuid \<Rightarrow> uuid \<Rightarrow> timestamp \<Rightarrow> nat \<Rightarrow> db \<Rightarrow> DirectMessage list" where
  "DM_CONVERSATION_HISTORY a b before lim d =
     take lim (order_by_desc dm_created_at
       (take lim (order_by_desc dm_created_at (dm_branch a b before d)) @
        take lim (order_by_desc dm_created_at (dm_branch b a before d))))"

definition GROUP_MESSAGES_TIMELINE ::
    "uuid \<Rightarrow> timestamp \<Rightarrow> nat \<Rightarrow> db \<Rightarrow> GroupMessage list" where
  "GROUP_MESSAGES_TIMELINE g before lim d =
     take lim (order_by_desc gm_created_at
       (filter (\<lambda>m. gm_group_id m = g \<and> gm_created_at m < before) (group_messages d)))"

section \<open>Write statements (class Write)\<close>

text \<open>
  The positional parameters of an INSERT are bound to its column list; the row must have the
  column types.  RETURNING * gives the stored row under the table's column names.
\<close>

abbreviation bad_parameters :: pg_error where
  "bad_parameters \<equiv> OtherPostgresError ''invalid input for query argument''"

definition INSERT_USER :: "sqlval list \<Rightarrow> db \<Rightarrow> pg_error + (row \<times> db)" where
  "INSERT_USER args d =
     (let cols = [''user_id'', ''username'', ''password_hash'', ''deactivated'', ''created_at'']
      in case user_from_record (zip cols args) of
        None \<Rightarrow> Inl bad_parameters
      | Some r \<Rightarrow>
          if list_ex (\<lambda>s. u_user_id s = u_user_id r) (users d)
          then Inl (UniqueViolationError ''users'' PK_USERS)
          else if list_ex (\<lambda>s. u_username s = u_username r) (users d)
          then Inl (UniqueViolationError ''users'' UQ_USERS_USERNAME)
          else Inr (zip [''user_id'', ''username'', ''password_hash'', ''deactivated'', ''created_at'']
                      (user_to_args r),
                    d\<lparr>users := users d @ [r]\<rparr>))"

definition DEACTIVATE_USER :: "uuid \<Rightarrow> db \<Rightarrow> string \<times> db" where
  "DEACTIVATE_USER u d =
     (update_tag (count_where (\<lambda>r. u_user_id r = u) (users d)),
      d\<lparr>users := update_where (\<lambda>r. u_user_id r = u) (\<lambda>r. r\<lparr>u_deactivated := True\<rparr>) (users d)\<rparr>)"

definition REACTIVATE_USER :: "uuid \<Rightarrow> db \<Rightarrow> string \<times> db" where
  "REACTIVATE_USER u d =
     (update_tag (count_where (\<lambda>r. u_user_id r = u) (users d)),
      d\<lparr>users := update_where (\<lambda>r. u_user_id r = u) (\<lambda>r. r\<lparr>u_deactivated := False\<rparr>) (users d)\<rparr>)"

definition CHANGE_PASSWORD :: "string \<Rightarrow> uuid \<Rightarrow> string \<Rightarrow> db \<Rightarrow> string \<times> db" where
  "CHANGE_PASSWORD new_hash u old_hash d =
     (let p = (\<lambda>r. u_user_id r = u \<and> u_password_hash r = old_hash \<and> \<not> u_deactivated r)
      in (update_tag (count_where p (users d)),
          d\<lparr>users := update_where p (\<lambda>r. r\<lparr>u_password_hash := new_hash\<rparr>) (users d)\<rparr>))"

text \<open>The omitted columns take their defaults: \<open>created_at\<close> and \<open>updated_at\<close> are NOW().\<close>

definition SEND_FRIEND_REQUEST :: "timestamp \<Rightarrow> uuid \<Rightarrow> uuid \<Rightarrow> db \<Rightarrow> pg_error + db" where
  "SEND_FRIEND_REQUEST now requester addressee d =
     (if list_ex (\<lambda>f. fr_requester_id f = requester \<and> fr_addressee_id f = addressee) (friendships d)
      then Inl (UniqueViolationError ''friendships'' PK_FRIENDSHIPS)
      else if \<not> user_exists d requester
      then Inl (ForeignKeyViolationError ''friendships'' FK_FRIENDSHIPS_REQUESTER_ID)
      else if \<not> user_exists d addressee
      then Inl (ForeignKeyViolationError ''friendships'' FK_FRIENDSHIPS_ADDRESSEE_ID)
      else Inr (d\<lparr>friendships := friendships d @
                   [\<lparr>fr_requester_id = requester, fr_addressee_id = addressee, fr_accepted = False,
                     fr_created_at = now, fr_updated_at = now\<rparr>]\<rparr>))"

definition ACCEPT_FRIEND_REQUEST :: "timestamp \<Rightarrow> uuid \<Rightarrow> uuid \<Rightarrow> db \<Rightarrow> string \<times> db" where
  "ACCEPT_FRIEND_REQUEST now requester addressee d =
     (let p = (\<lambda>f. fr_requester_id f = requester \<and> fr_addressee_id f = addressee)
      in (update_tag (count_where p (friendships d)),
          d\<lparr>friendships :=
              update_where p (\<lambda>f. f\<lparr>fr_accepted := True, fr_updated_at := now\<rparr>) (friendships d)\<rparr>))"

definition INSERT_ACCESS_TOKEN :: "sqlval list \<Rightarrow> db \<Rightarrow> pg_error + db" where
  "INSERT_ACCESS_TOKEN args d =
     (case access_token_from_record (zip [''token_hash'', ''user_id'', ''is_revoked'', ''expires_at''] args) of
        None \<Rightarrow> Inl bad_parameters
      | Some t \<Rightarrow>
          if list_ex (\<lambda>s. at_token_hash s = at_token_hash t) (access_tokens d)
          then Inl (UniqueViolationError ''access_tokens'' PK_ACCESS_TOKENS)
          else if \<not> user_exists d (at_user_id t)
          then Inl (ForeignKeyViolationError ''access_tokens'' FK_ACCESS_TOKENS_USER_ID)
          else Inr (d\<lparr>access_tokens := access_tokens d @ [t]\<rparr>))"

definition INSERT_REFRESH_TOKEN :: "sqlval list \<Rightarrow> db \<Rightarrow> pg_error + db" where
  "INSERT_REFRESH_TOKEN args d =
     (case refresh_token_from_record (zip [''token_hash'', ''user_id'', ''is_revoked'', ''expires_at''] args) of
        None \<Rightarrow> Inl bad_parameters
      | Some t \<Rightarrow>
          if list_ex (\<lambda>s. rt_token_hash s = rt_token_hash t) (refresh_tokens d)
          then Inl (UniqueViolationError ''refresh_tokens'' PK_REFRESH_TOKENS)
          else if \<not> user_exists d (rt_user_id t)
          then Inl (ForeignKeyViolationError ''refresh_tokens'' FK_REFRESH_TOKENS_USER_ID)
          else Inr (d\<lparr>refresh_tokens := refresh_tokens d @ [t]\<rparr>))"

definition REVOKE_ACCESS_TOKEN :: "string \<Rightarrow> db \<Rightarrow> string \<times> db" where
  "REVOKE_ACCESS_TOKEN h d =
     (update_tag (count_where (\<lambda>t. at_token_hash t = h) (access_tokens d)),
      d\<lparr>access_tokens :=
          update_where (\<lambda>t. at_token_hash t = h) (\<lambda>t. t\<lparr>at_is_revoked := True\<rparr>) (access_tokens d)\<rparr>)"

definition REVOKE_REFRESH_TOKEN :: "string \<Rightarrow> db \<Rightarrow> string \<times> db" where
  "REVOKE_REFRESH_TOKEN h d =
     (update_tag (count_where (\<lambda>t. rt_token_hash t = h) (refresh_tokens d)),
      d\<lparr>refresh_tokens :=
          update_where (\<lambda>t. rt_token_hash t = h) (\<lambda>t. t\<lparr>rt_is_revoked := True\<rparr>) (refresh_tokens d)\<rparr>)"

definition REVOKE_ALL_USER_ACCESS_TOKENS :: "uuid \<Rightarrow> db \<Rightarrow> db" where
  "REVOKE_ALL_USER_ACCESS_TOKENS u d =
     d\<lparr>access_tokens :=
         update_where (\<lambda>t. at_user_id t = u) (\<lambda>t. t\<lparr>at_is_revoked := True\<rparr>) (access_tokens d)\<rparr>"

definition REVOKE_ALL_USER_REFRESH_TOKENS :: "uuid \<Rightarrow> db \<Rightarrow> db" where
  "REVOKE_ALL_USER_REFRESH_TOKENS u d =
     d\<lparr>refresh_tokens :=
         update_where (\<lambda>t. rt_user_id t = u) (\<lambda>t. t\<lparr>rt_is_revoked := True\<rparr>) (refresh_tokens d)\<rparr>"

text \<open>The foreign key of \<open>created_by\<close> is declared ON DELETE SET NULL on a column that is NOT NULL.\<close>

definition CREATE_GROUP :: "sqlval list \<Rightarrow> db \<Rightarrow> pg_error + (row \<times> db)" where
  "CREATE_GROUP args d =
     (case group_from_record (zip [''group_id'', ''name'', ''created_by'', ''created_at''] args) of
        None \<Rightarrow> Inl bad_parameters
      | Some g \<Rightarrow>
          (case g_created_by g of
             None \<Rightarrow> Inl (NotNullViolationError ''groups'' ''created_by'')
           | Some creator \<Rightarrow>
               if list_ex (\<lambda>s. g_group_id s = g_group_id g) (groups d)
               then Inl (UniqueViolationError ''groups'' PK_GROUPS)
               else if \<not> user_exists d creator
               then Inl (ForeignKeyViolationError ''groups'' FK_GROUPS_CREATED_BY)
               else Inr (zip [''group_id'', ''name'', ''created_by'', ''created_at''] (group_to_args g),
                         d\<lparr>groups := groups d @ [g]\<rparr>)))"

definition ADD_GROUP_MEMBER :: "sqlval list \<Rightarrow> db \<Rightarrow> pg_error + (row \<times> db)" where
  "ADD_GROUP_MEMBER args d =
     (case membership_from_record (zip [''group_id'', ''user_id'', ''joined_at''] args) of
        None \<Rightarrow> Inl bad_parameters
      | Some m \<Rightarrow>
          if list_ex (\<lambda>s. mb_group_id s = mb_group_id m \<and> mb_user_id s = mb_user_id m) (memberships d)
          then Inl (UniqueViolationError ''memberships'' PK_MEMBERSHIPS)
          else if \<not> group_exists d (mb_group_id m)
          then Inl (ForeignKeyViolationError ''memberships'' FK_MEMBERSHIPS_GROUP_ID)
          else if \<not> user_exists d (mb_user_id m)
          then Inl (ForeignKeyViolationError ''memberships'' FK_MEMBERSHIPS_USER_ID)
          else Inr (zip [''group_id'', ''user_id'', ''joined_at''] (membership_to_args m),
                    d\<lparr>memberships := memberships d @ [m]\<rparr>))"

definition SEND_DM :: "sqlval list \<Rightarrow> db \<Rightarrow> pg_error + (row \<times> db)" where
  "SEND_DM args d =
     (let cols = [''message_id'', ''sender_id'', ''recipient_id'', ''content'', ''created_at'']
      in case direct_message_from_record (zip cols args) of
        None \<Rightarrow> Inl bad_parameters
      | Some m \<Rightarrow>
          if list_ex (\<lambda>s. dm_message_id s = dm_message_id m) (direct_messages d)
          then Inl (UniqueViolationError ''direct_messages'' PK_DIRECT_MESSAGES)
          else if \<not> user_exists d (dm_sender_id m)
          then Inl (ForeignKeyViolationError ''direct_messages'' FK_DM_SENDER_ID)
          else if \<not> user_exists d (dm_recipient_id m)
          then Inl (ForeignKeyViolationError ''direct_messages'' FK_DM_RECIPIENT_ID)
          else Inr (zip [''message_id'', ''sender_id'', ''recipient_id'', ''content'', ''created_at'']
                      (direct_message_to_args m),
                    d\<lparr>direct_messages := direct_messages d @ [m]\<rparr>))"

definition SEND_GROUP_MESSAGE :: "sqlval list \<Rightarrow> db \<Rightarrow> pg_error + (row \<times> db)" where
  "SEND_GROUP_MESSAGE args d =
     (let cols = [''message_id'', ''group_id'', ''sender_id'', ''content'', ''created_at'']
      in case group_message_from_record (zip cols args) of
        None \<Rightarrow> Inl bad_parameters
      | Some m \<Rightarrow>
          if list_ex (\<lambda>s. gm_message_id s = gm_message_id m) (group_messages d)
          then Inl (UniqueViolationError ''group_messages'' PK_GROUP_MESSAGES)
          else if \<not> group_exists d (gm_group_id m)
          then Inl (ForeignKeyViolationError ''group_messages'' FK_GROUP_MESSAGES_GROUP_ID)
          else if \<not> user_exists d (gm_sender_id m)
          then Inl (ForeignKeyViolationError ''group_messages'' FK_GROUP_MESSAGES_SENDER_ID)
          else Inr (zip [''message_id'', ''group_id'', ''sender_id'', ''content'', ''created_at'']
                      (group_message_to_args m),
                    d\<lparr>group_messages := group_messages d @ [m]\<rparr>))"

section \<open>Delete statements (class Delete)\<close>

text \<open>
  Deleting a user cascades to every table that references it, but for \<open>groups\<close>: there the
  referential action sets \<open>created_by\<close> to NULL, which the NOT NULL constraint of that column
  refuses, so the whole statement fails when the user created a group.
\<close>

definition cascade_user :: "uuid \<Rightarrow> db \<Rightarrow> db" where
  "cascade_user u d =
     d\<lparr>users := delete_where (\<lambda>r. u_user_id r = u) (users d),
       friendships := delete_where (\<lambda>f. fr_requester_id f = u \<or> fr_addressee_id f = u) (friendships d),
       access_tokens := delete_where (\<lambda>t. at_user_id t = u) (access_tokens d),
       refresh_tokens := delete_where (\<lambda>t. rt_user_id t = u) (refresh_tokens d),
       memberships := delete_where (\<lambda>m. mb_user_id m = u) (memberships d),
       direct_messages := delete_where (\<lambda>m. dm_sender_id m = u \<or> dm_recipient_id m = u) (direct_messages d),
       group_messages := delete_where (\<lambda>m. gm_sender_id m = u) (group_messages d)\<rparr>"

definition DELETE_USER_BY_ID :: "uuid \<Rightarrow> db \<Rightarrow> pg_error + (string \<times> db)" where
  "DELETE_USER_BY_ID u d =
     (let n = count_where (\<lambda>r. u_user_id r = u) (users d)
      in if n = 0 then Inr (delete_tag 0, d)
         else if list_ex (\<lambda>g. g_created_by g = Some u) (groups d)
         then Inl (NotNullViolationError ''groups'' ''created_by'')
         else Inr (delete_tag n, cascade_user u d))"

definition REMOVE_FRIENDSHIP :: "uuid \<Rightarrow> uuid \<Rightarrow> db \<Rightarrow> string \<times> db" where
  "REMOVE_FRIENDSHIP a b d =
     (delete_tag (count_where (between a b) (friendships d)),
      d\<lparr>friendships := delete_where (between a b) (friendships d)\<rparr>)"

definition EXPIRED_ACCESS_TOKENS :: "timestamp \<Rightarrow> db \<Rightarrow> string \<times> db" where
  "EXPIRED_ACCESS_TOKENS now d =
     (let p = (\<lambda>t. at_expires_at t < now \<or> at_is_revoked t)
      in (delete_tag (count_where p (access_tokens d)),
          d\<lparr>access_tokens := delete_where p (access_tokens d)\<rparr>))"

definition EXPIRED_REFRESH_TOKENS :: "timestamp \<Rightarrow> db \<Rightarrow> string \<times> db" where
  "EXPIRED_REFRESH_TOKENS now d =
     (let p = (\<lambda>t. rt_expires_at t < now \<or> rt_is_revoked t)
      in (delete_tag (count_where p (refresh_tokens d)),
          d\<lparr>refresh_tokens := delete_where p (refresh_tokens d)\<rparr>))"

definition DELETE_GROUP :: "uuid \<Rightarrow> uuid \<Rightarrow> db \<Rightarrow> string \<times> db" where
  "DELETE_GROUP g creator d =
     (let p = (\<lambda>r. g_group_id r = g \<and> g_created_by r = Some creator);
          n = count_where p (groups d)
      in (delete_tag n,
          if n = 0 then d
          else d\<lparr>groups := delete_where p (groups d),
                 memberships := delete_where (\<lambda>m. mb_group_id m = g) (memberships d),
                 group_messages := delete_where (\<lambda>m. gm_group_id m = g) (group_messages d)\<rparr>))"

definition REMOVE_GROUP_MEMBER :: "uuid \<Rightarrow> uuid \<Rightarrow> db \<Rightarrow> string \<times> db" where
  "REMOVE_GROUP_MEMBER g u d =
     (let p = (\<lambda>m. mb_group_id m = g \<and> mb_user_id m = u)
      in (delete_tag (count_where p (memberships d)),
          d\<lparr>memberships := delete_where p (memberships d)\<rparr>))"

section \<open>The effect of an INSERT on a model's own arguments\<close>

lemma user_exists_iff [simp]: "user_exists d u \<longleftrightarrow> u \<in> user_ids d"
  by (simp add: user_exists_def list_ex_key list_ex_key_pair)

lemma group_exists_iff [simp]: "group_exists d g \<longleftrightarrow> g \<in> group_ids d"
  by (simp add: group_exists_def list_ex_key list_ex_key_pair)

lemma update_tag_zero [simp]: "update_tag n = UPDATE_ZERO \<longleftrightarrow> n = 0"
  by (simp add: update_tag_def)

lemma delete_tag_zero [simp]: "delete_tag n = DELETE_ZERO \<longleftrightarrow> n = 0"
  by (simp add: delete_tag_def)

lemma delete_tag_count: "py_int (py_split CHR '' '' (delete_tag n) ! 1) = Some n"
proof -
  have "py_split CHR '' '' (''DELETE'' @ CHR '' '' # nat_str n) = ''DELETE'' # py_split CHR '' '' (nat_str n)"
    by (rule py_split_append) simp
  then show ?thesis
    by (simp add: delete_tag_def py_split_no_sep space_not_in_nat_str)
qed

lemma INSERT_USER_args:
  "INSERT_USER (user_to_args r) d =
     (if u_user_id r \<in> user_ids d then Inl (UniqueViolationError ''users'' PK_USERS)
      else if u_username r \<in> u_username ` set (users d) then Inl (UniqueViolationError ''users'' UQ_USERS_USERNAME)
      else Inr (zip [''user_id'', ''username'', ''password_hash'', ''deactivated'', ''created_at''] (user_to_args r),
                d\<lparr>users := users d @ [r]\<rparr>))"
  by (simp add: INSERT_USER_def Let_def list_ex_key list_ex_key_pair)

lemma INSERT_ACCESS_TOKEN_args:
  "INSERT_ACCESS_TOKEN (access_token_to_args t) d =
     (if at_token_hash t \<in> at_token_hash ` set (access_tokens d)
      then Inl (UniqueViolationError ''access_tokens'' PK_ACCESS_TOKENS)
      else if at_user_id t \<notin> user_ids d
      then Inl (ForeignKeyViolationError ''access_tokens'' FK_ACCESS_TOKENS_USER_ID)
      else Inr (d\<lparr>access_tokens := access_tokens d @ [t]\<rparr>))"
  by (simp add: INSERT_ACCESS_TOKEN_def list_ex_key list_ex_key_pair)

lemma INSERT_REFRESH_TOKEN_args:
  "INSERT_REFRESH_TOKEN (refresh_token_to_args t) d =
     (if rt_token_hash t \<in> rt_token_hash ` set (refresh_tokens d)
      then Inl (UniqueViolationError ''refresh_tokens'' PK_REFRESH_TOKENS)
      else if rt_user_id t \<notin> user_ids d
      then Inl (ForeignKeyViolationError ''refresh_tokens'' FK_REFRESH_TOKENS_USER_ID)
      else Inr (d\<lparr>refresh_tokens := refresh_tokens d @ [t]\<rparr>))"
  by (simp add: INSERT_REFRESH_TOKEN_def list_ex_key list_ex_key_pair)

lemma CREATE_GROUP_args:
  "CREATE_GROUP (group_to_args g) d =
     (case g_created_by g of
        None \<Rightarrow> Inl (NotNullViolationError ''groups'' ''created_by'')
      | Some creator \<Rightarrow>
          if g_group_id g \<in> group_ids d then Inl (UniqueViolationError ''groups'' PK_GROUPS)
          else if creator \<notin> user_ids d then Inl (ForeignKeyViolationError ''groups'' FK_GROUPS_CREATED_BY)
          else Inr (zip [''group_id'', ''name'', ''created_by'', ''created_at''] (group_to_args g),
                    d\<lparr>groups := groups d @ [g]\<rparr>))"
  by (simp add: CREATE_GROUP_def list_ex_key list_ex_key_pair split: option.splits)

abbreviation mb_key :: "Membership \<Rightarrow> uuid \<times> uuid" where
  "mb_key m \<equiv> (mb_group_id m, mb_user_id m)"

abbreviation fr_key :: "Friendship \<Rightarrow> uuid \<times> uuid" where
  "fr_key f \<equiv> (fr_requester_id f, fr_addressee_id f)"

lemma ADD_GROUP_MEMBER_args:
  "ADD_GROUP_MEMBER (membership_to_args m) d =
     (if mb_key m \<in> mb_key ` set (memberships d)
      then Inl (UniqueViolationError ''memberships'' PK_MEMBERSHIPS)
      else if mb_group_id m \<notin> group_ids d
      then Inl (ForeignKeyViolationError ''memberships'' FK_MEMBERSHIPS_GROUP_ID)
      else if mb_user_id m \<notin> user_ids d
      then Inl (ForeignKeyViolationError ''memberships'' FK_MEMBERSHIPS_USER_ID)
      else Inr (zip [''group_id'', ''user_id'', ''joined_at''] (membership_to_args m),
                d\<lparr>memberships := memberships d @ [m]\<rparr>))"
  by (simp add: ADD_GROUP_MEMBER_def list_ex_key list_ex_key_pair)

lemma SEND_DM_args:
  "SEND_DM (direct_message_to_args m) d =
     (if dm_message_id m \<in> dm_message_id ` set (direct_messages d)
      then Inl (UniqueViolationError ''direct_messages'' PK_DIRECT_MESSAGES)
      else if dm_sender_id m \<notin> user_ids d
      then Inl (ForeignKeyViolationError ''direct_messages'' FK_DM_SENDER_ID)
      else if dm_recipient_id m \<notin> user_ids d
      then Inl (ForeignKeyViolationError ''direct_messages'' FK_DM_RECIPIENT_ID)
      else Inr (zip [''message_id'', ''sender_id'', ''recipient_id'', ''content'', ''created_at'']
                  (direct_message_to_args m),
                d\<lparr>direct_messages := direct_messages d @ [m]\<rparr>))"
  by (simp add: SEND_DM_def Let_def list_ex_key list_ex_key_pair)

lemma SEND_GROUP_MESSAGE_args:
  "SEND_GROUP_MESSAGE (group_message_to_args m) d =
     (if gm_message_id m \<in> gm_message_id ` set (group_messages d)
      then Inl (UniqueViolationError ''group_messages'' PK_GROUP_MESSAGES)
      else if gm_group_id m \<notin> group_ids d
      then Inl (ForeignKeyViolationError ''group_messages'' FK_GROUP_MESSAGES_GROUP_ID)
      else if gm_sender_id m \<notin> user_ids d
      then Inl (ForeignKeyViolationError ''group_messages'' FK_GROUP_MESSAGES_SENDER_ID)
      else Inr (zip [''message_id'', ''group_id'', ''sender_id'', ''content'', ''created_at'']
                  (group_message_to_args m),
                d\<lparr>group_messages := group_messages d @ [m]\<rparr>))"
  by (simp add: SEND_GROUP_MESSAGE_def Let_def list_ex_key list_ex_key_pair)

lemmas insert_args = INSERT_USER_args INSERT_ACCESS_TOKEN_args INSERT_REFRESH_TOKEN_args
  CREATE_GROUP_args ADD_GROUP_MEMBER_args SEND_DM_args SEND_GROUP_MESSAGE_args

section \<open>Referential integrity\<close>

text \<open>
  What the primary keys, the unique constraint, the NOT NULL constraint and the foreign keys of
  the DDL promise of a stored database, table by table.
\<close>

definition users_ok :: "db \<Rightarrow> bool" where
  "users_ok d \<longleftrightarrow> distinct (map u_user_id (users d)) \<and> distinct (map u_username (users d))"

definition friendships_ok :: "db \<Rightarrow> bool" where
  "friendships_ok d \<longleftrightarrow> distinct (map fr_key (friendships d)) \<and>
     (\<forall>f\<in>set (friendships d). fr_requester_id f \<in> user_ids d \<and> fr_addressee_id f \<in> user_ids d)"

definition tokens_ok :: "db \<Rightarrow> bool" where
  "tokens_ok d \<longleftrightarrow>
     distinct (map at_token_hash (access_tokens d)) \<and> distinct (map rt_token_hash (refresh_tokens d)) \<and>
     (\<forall>t\<in>set (access_tokens d). at_user_id t \<in> user_ids d) \<and>
     (\<forall>t\<in>set (refresh_tokens d). rt_user_id t \<in> user_ids d)"

definition groups_ok :: "db \<Rightarrow> bool" where
  "groups_ok d \<longleftrightarrow> distinct (map g_group_id (groups d)) \<and>
     (\<forall>g\<in>set (groups d). \<exists>u\<in>user_ids d. g_created_by g = Some u)"

definition memberships_ok :: "db \<Rightarrow> bool" where
  "memberships_ok d \<longleftrightarrow> distinct (map mb_key (memberships d)) \<and>
     (\<forall>m\<in>set (memberships d). mb_group_id m \<in> group_ids d \<and> mb_user_id m \<in> user_ids d)"

definition messages_ok :: "db \<Rightarrow> bool" where
  "messages_ok d \<longleftrightarrow>
     distinct (map dm_message_id (direct_messages d)) \<and> distinct (map gm_message_id (group_messages d)) \<and>
     (\<forall>m\<in>set (direct_messages d). dm_sender_id m \<in> user_ids d \<and> dm_recipient_id m \<in> user_ids d) \<and>
     (\<forall>m\<in>set (group_messages d). gm_group_id m \<in> group_ids d \<and> gm_sender_id m \<in> user_ids d)"

definition db_ok :: "db \<Rightarrow> bool" where
  "db_ok d \<longleftrightarrow> users_ok d \<and> friendships_ok d \<and> tokens_ok d \<and> groups_ok d \<and> memberships_ok d \<and> messages_ok d"

lemmas db_ok_defs = db_ok_def users_ok_def friendships_ok_def tokens_ok_def groups_ok_def
  memberships_ok_def messages_ok_def

lemma INSERT_USER_ok [integrity]: "INSERT_USER args d = Inr (r, d') \<Longrightarrow> db_ok d \<Longrightarrow> db_ok d'"
  by (auto simp: INSERT_USER_def Let_def list_ex_key db_ok_defs split: option.splits if_splits)

lemma SEND_FRIEND_REQUEST_ok [integrity]:
  "SEND_FRIEND_REQUEST now a b d = Inr d' \<Longrightarrow> db_ok d \<Longrightarrow> db_ok d'"
  by (auto simp: SEND_FRIEND_REQUEST_def list_ex_key_pair db_ok_defs split: if_splits)

lemma INSERT_ACCESS_TOKEN_ok [integrity]:
  "INSERT_ACCESS_TOKEN args d = Inr d' \<Longrightarrow> db_ok d \<Longrightarrow> db_ok d'"
  by (auto simp: INSERT_ACCESS_TOKEN_def list_ex_key db_ok_defs split: option.splits if_splits)

lemma INSERT_REFRESH_TOKEN_ok [integrity]:
  "INSERT_REFRESH_TOKEN args d = Inr d' \<Longrightarrow> db_ok d \<Longrightarrow> db_ok d'"
  by (auto simp: INSERT_REFRESH_TOKEN_def list_ex_key db_ok_defs split: option.splits if_splits)

lemma CREATE_GROUP_ok [integrity]: "CREATE_GROUP args d = Inr (r, d') \<Longrightarrow> db_ok d \<Longrightarrow> db_ok d'"
  by (auto simp: CREATE_GROUP_def list_ex_key db_ok_defs split: option.splits if_splits)

lemma ADD_GROUP_MEMBER_ok [integrity]:
  "ADD_GROUP_MEMBER args d = Inr (r, d') \<Longrightarrow> db_ok d \<Longrightarrow> db_ok d'"
  by (auto simp: ADD_GROUP_MEMBER_def list_ex_key_pair db_ok_defs split: option.splits if_splits)

lemma SEND_DM_ok [integrity]: "SEND_DM args d = Inr (r, d') \<Longrightarrow> db_ok d \<Longrightarrow> db_ok d'"
  by (auto simp: SEND_DM_def Let_def list_ex_key db_ok_defs split: option.splits if_splits)

lemma SEND_GROUP_MESSAGE_ok [integrity]:
  "SEND_GROUP_MESSAGE args d = Inr (r, d') \<Longrightarrow> db_ok d \<Longrightarrow> db_ok d'"
  by (auto simp: SEND_GROUP_MESSAGE_def Let_def list_ex_key db_ok_defs split: option.splits if_splits)

text \<open>An UPDATE that leaves the key columns alone keeps every constraint.\<close>

lemma update_users_ok:
  assumes "\<And>r. u_user_id (f r) = u_user_id r" and "\<And>r. u_username (f r) = u_username r" and "db_ok d"
  shows "db_ok (d\<lparr>users := update_where p f (users d)\<rparr>)"
proof -
  have "u_user_id ` set (update_where p f (users d)) = user_ids d"
    using assms(1) by (metis list.set_map map_key_update_where)
  with assms show ?thesis by (simp add: db_ok_defs)
qed

lemma update_friendships_ok:
  assumes "\<And>r. fr_key (f r) = fr_key r" and "db_ok d"
  shows "db_ok (d\<lparr>friendships := update_where p f (friendships d)\<rparr>)"
  using assms by (auto simp: db_ok_defs in_update_where_iff)

lemma update_access_tokens_ok:
  assumes "\<And>t. at_token_hash (f t) = at_token_hash t" and "\<And>t. at_user_id (f t) = at_user_id t" and "db_ok d"
  shows "db_ok (d\<lparr>access_tokens := update_where p f (access_tokens d)\<rparr>)"
  using assms by (auto simp: db_ok_defs in_update_where_iff)

lemma update_refresh_tokens_ok:
  assumes "\<And>t. rt_token_hash (f t) = rt_token_hash t" and "\<And>t. rt_user_id (f t) = rt_user_id t" and "db_ok d"
  shows "db_ok (d\<lparr>refresh_tokens := update_where p f (refresh_tokens d)\<rparr>)"
  using assms by (auto simp: db_ok_defs in_update_where_iff)

lemma update_statements_ok [integrity]:
  assumes "db_ok d"
  shows "db_ok (snd (DEACTIVATE_USER u d))"
    and "db_ok (snd (REACTIVATE_USER u d))"
    and "db_ok (snd (CHANGE_PASSWORD new u old d))"
    and "db_ok (snd (ACCEPT_FRIEND_REQUEST now a b d))"
    and "db_ok (snd (REVOKE_ACCESS_TOKEN h d))"
    and "db_ok (snd (REVOKE_REFRESH_TOKEN h d))"
    and "db_ok (REVOKE_ALL_USER_ACCESS_TOKENS u d)"
    and "db_ok (REVOKE_ALL_USER_REFRESH_TOKENS u d)"
  using assms
  by (auto simp: DEACTIVATE_USER_def REACTIVATE_USER_def CHANGE_PASSWORD_def ACCEPT_FRIEND_REQUEST_def
      REVOKE_ACCESS_TOKEN_def REVOKE_REFRESH_TOKEN_def REVOKE_ALL_USER_ACCESS_TOKENS_def
      REVOKE_ALL_USER_REFRESH_TOKENS_def Let_def
      intro!: update_users_ok update_friendships_ok update_access_tokens_ok update_refresh_tokens_ok)

text \<open>A DELETE keeps the constraints when no remaining row references a deleted one.\<close>

lemma delete_keeps_ok:
  assumes "db_ok d"
  shows "db_ok (d\<lparr>friendships := delete_where p (friendships d)\<rparr>)"
    and "db_ok (d\<lparr>access_tokens := delete_where q (access_tokens d)\<rparr>)"
    and "db_ok (d\<lparr>refresh_tokens := delete_where r (refresh_tokens d)\<rparr>)"
    and "db_ok (d\<lparr>memberships := delete_where s (memberships d)\<rparr>)"
  using assms by (auto simp: db_ok_defs)

lemma user_ids_cascade [simp]: "user_ids (cascade_user u d) = user_ids d - {u}"
  by (auto simp: cascade_user_def)

lemma groups_cascade [simp]: "groups (cascade_user u d) = groups d"
  by (simp add: cascade_user_def)

lemma cascade_user_ok:
  assumes ok: "db_ok d" and free: "\<And>g. g \<in> set (groups d) \<Longrightarrow> g_created_by g \<noteq> Some u"
  shows "db_ok (cascade_user u d)"
proof -
  from ok have "users_ok (cascade_user u d)"
    by (auto simp: db_ok_defs cascade_user_def)
  moreover from ok have "friendships_ok (cascade_user u d)"
    unfolding friendships_ok_def user_ids_cascade by (auto simp: db_ok_defs cascade_user_def)
  moreover from ok have "tokens_ok (cascade_user u d)"
    unfolding tokens_ok_def user_ids_cascade by (auto simp: db_ok_defs cascade_user_def)
  moreover from ok free have "groups_ok (cascade_user u d)"
    unfolding groups_ok_def user_ids_cascade groups_cascade db_ok_defs by blast
  moreover from ok have "memberships_ok (cascade_user u d)"
    unfolding memberships_ok_def user_ids_cascade by (auto simp: db_ok_defs cascade_user_def)
  moreover from ok have "messages_ok (cascade_user u d)"
    unfolding messages_ok_def user_ids_cascade by (auto simp: db_ok_defs cascade_user_def)
  ultimately show ?thesis by (simp add: db_ok_def)
qed

lemma DELETE_USER_BY_ID_ok [integrity]:
  "DELETE_USER_BY_ID u d = Inr (tag, d') \<Longrightarrow> db_ok d \<Longrightarrow> db_ok d'"
  by (auto simp: DELETE_USER_BY_ID_def Let_def list_ex_iff intro: cascade_user_ok split: if_splits)

lemma DELETE_GROUP_ok [integrity]:
  assumes ok: "db_ok d"
  shows "db_ok (snd (DELETE_GROUP g c d))"
proof (cases "\<exists>r\<in>set (groups d). g_group_id r = g \<and> g_created_by r = Some c")
  case True
  then obtain r where r: "r \<in> set (groups d)" "g_group_id r = g" "g_created_by r = Some c" by blast
  from ok have "distinct (map g_group_id (groups d))" by (simp add: db_ok_defs)
  have only: "g_created_by s = Some c" if "s \<in> set (groups d)" "g_group_id s = g" for s
    using distinct_keyD [OF \<open>distinct (map g_group_id (groups d))\<close> that(1) r(1)] that r by simp
  let ?d = "snd (DELETE_GROUP g c d)"
  have ids: "group_ids ?d = group_ids d - {g}"
    using r only by (auto simp: DELETE_GROUP_def Let_def)
  from ok have "memberships_ok ?d"
    unfolding memberships_ok_def ids using r by (auto simp: db_ok_defs DELETE_GROUP_def Let_def)
  moreover from ok have "messages_ok ?d"
    unfolding messages_ok_def ids using r by (auto simp: db_ok_defs DELETE_GROUP_def Let_def)
  moreover from ok have "users_ok ?d" "friendships_ok ?d" "tokens_ok ?d" "groups_ok ?d"
    using r by (auto simp: db_ok_defs DELETE_GROUP_def Let_def)
  ultimately show ?thesis by (simp add: db_ok_def)
next
  case False
  with ok show ?thesis by (auto simp: DELETE_GROUP_def Let_def)
qed

lemma delete_statements_ok [integrity]:
  assumes "db_ok d"
  shows "db_ok (snd (REMOVE_FRIENDSHIP a b d))"
    and "db_ok (snd (EXPIRED_ACCESS_TOKENS now d))"
    and "db_ok (snd (EXPIRED_REFRESH_TOKENS now d))"
    and "db_ok (snd (REMOVE_GROUP_MEMBER g u d))"
  using assms
  by (simp_all add: REMOVE_FRIENDSHIP_def EXPIRED_ACCESS_TOKENS_def EXPIRED_REFRESH_TOKENS_def
      REMOVE_GROUP_MEMBER_def Let_def delete_keeps_ok)

lemma CLEAR_TABLES_ok [integrity]: "CLEAR_TABLES d = empty_db" "db_ok empty_db"
  by (simp_all add: CLEAR_TABLES_def empty_db_def db_ok_defs)

section \<open>Every reachable database is consistent\<close>

text \<open>
  One rule per write statement of \<open>sql.py\<close>; a run of the system's database is a sequence of such
  statements, committed or rolled back as a whole, so every state a transaction can observe is
  reachable by this relation.
\<close>

inductive db_write :: "db \<Rightarrow> db \<Rightarrow> bool" where
  w_insert_user: "INSERT_USER args d = Inr (r, d') \<Longrightarrow> db_write d d'"
| w_deactivate: "db_write d (snd (DEACTIVATE_USER u d))"
| w_reactivate: "db_write d (snd (REACTIVATE_USER u d))"
| w_change_password: "db_write d (snd (CHANGE_PASSWORD new_hash u old_hash d))"
| w_send_request: "SEND_FRIEND_REQUEST now a b d = Inr d' \<Longrightarrow> db_write d d'"
| w_accept_request: "db_write d (snd (ACCEPT_FRIEND_REQUEST now a b d))"
| w_insert_access: "INSERT_ACCESS_TOKEN args d = Inr d' \<Longrightarrow> db_write d d'"
| w_insert_refresh: "INSERT_REFRESH_TOKEN args d = Inr d' \<Longrightarrow> db_write d d'"
| w_revoke_access: "db_write d (snd (REVOKE_ACCESS_TOKEN h d))"
| w_revoke_refresh: "db_write d (snd (REVOKE_REFRESH_TOKEN h d))"
| w_revoke_all_access: "db_write d (REVOKE_ALL_USER_ACCESS_TOKENS u d)"
| w_revoke_all_refresh: "db_write d (REVOKE_ALL_USER_REFRESH_TOKENS u d)"
| w_create_group: "CREATE_GROUP args d = Inr (r, d') \<Longrightarrow> db_write d d'"
| w_add_member: "ADD_GROUP_MEMBER args d = Inr (r, d') \<Longrightarrow> db_write d d'"
| w_send_dm: "SEND_DM args d = Inr (r, d') \<Longrightarrow> db_write d d'"
| w_send_group_message: "SEND_GROUP_MESSAGE args d = Inr (r, d') \<Longrightarrow> db_write d d'"
| w_delete_user: "DELETE_USER_BY_ID u d = Inr (tag, d') \<Longrightarrow> db_write d d'"
| w_remove_friendship: "db_write d (snd (REMOVE_FRIENDSHIP a b d))"
| w_expired_access: "db_write d (snd (EXPIRED_ACCESS_TOKENS now d))"
| w_expired_refresh: "db_write d (snd (EXPIRED_REFRESH_TOKENS now d))"
| w_delete_group: "db_write d (snd (DELETE_GROUP g c d))"
| w_remove_member: "db_write d (snd (REMOVE_GROUP_MEMBER g u d))"
| w_clear: "db_write d (CLEAR_TABLES d)"

lemma db_write_ok: "db_write d d' \<Longrightarrow> db_ok d \<Longrightarrow> db_ok d'"
  by (induction rule: db_write.induct)
    (erule (1) integrity | simp add: update_statements_ok delete_statements_ok DELETE_GROUP_ok CLEAR_TABLES_ok)+

interpretation db_sys: invariant_system db_write db_ok
  by unfold_locales (rule db_write_ok)

section \<open>Properties of the stored data\<close>

text \<open>
  A database to evaluate with: users 1 (alice), 2 (bob), 3 (carol); alice and bob are friends, carol
  has asked alice; alice created group 10, of which alice and bob are members; alice has an access
  token and two refresh tokens, one of them revoked.
\<close>

definition sample_user :: "uuid \<Rightarrow> string \<Rightarrow> User" where
  "sample_user u name = \<lparr>u_user_id = u, u_username = name, u_password_hash = ''h:'' @ name,
     u_deactivated = False, u_created_at = 0\<rparr>"

definition sample_db :: db where
  "sample_db = \<lparr>users = [sample_user 1 ''alice'', sample_user 2 ''bob'', sample_user 3 ''carol''],
     friendships =
       [\<lparr>fr_requester_id = 1, fr_addressee_id = 2, fr_accepted = True, fr_created_at = 0, fr_updated_at = 1\<rparr>,
        \<lparr>fr_requester_id = 3, fr_addressee_id = 1, fr_accepted = False, fr_created_at = 0, fr_updated_at = 0\<rparr>],
     access_tokens = [\<lparr>at_token_hash = ''#a'', at_user_id = 1, at_is_revoked = False, at_expires_at = 900\<rparr>],
     refresh_tokens =
       [\<lparr>rt_token_hash = ''#r'', rt_user_id = 1, rt_is_revoked = False, rt_expires_at = 9000\<rparr>,
        \<lparr>rt_token_hash = ''#old'', rt_user_id = 1, rt_is_revoked = True, rt_expires_at = 9000\<rparr>],
     groups = [\<lparr>g_group_id = 10, g_name = ''team'', g_created_by = Some 1, g_created_at = 0\<rparr>],
     memberships = [\<lparr>mb_group_id = 10, mb_user_id = 1, mb_joined_at = 0\<rparr>,
                    \<lparr>mb_group_id = 10, mb_user_id = 2, mb_joined_at = 0\<rparr>],
     direct_messages =
       [\<lparr>dm_message_id = 21, dm_sender_id = 1, dm_recipient_id = 2, dm_content = ''hi'', dm_created_at = 5\<rparr>,
        \<lparr>dm_message_id = 22, dm_sender_id = 2, dm_recipient_id = 1, dm_content = ''yo'', dm_created_at = 6\<rparr>],
     group_messages = []\<rparr>"

lemma sample_db_ok: "db_ok sample_db"
  by (simp add: sample_db_def sample_user_def db_ok_defs)

text \<open>
  C1 (database_stays_consistent): Every database reached from the empty one by the write statements, in
  any order and with any arguments, satisfies the schema: primary keys and user names are unique
  and every foreign key refers to an existing row.
\<close>

theorem database_stays_consistent:
  assumes "rtranclp db_write empty_db d"
  shows "db_ok d"
  using assms CLEAR_TABLES_ok(2) by (rule db_sys.run_inv)

theorem database_stays_consistent_witness: "db_ok (empty_db\<lparr>users := [sample_user 1 ''alice'']\<rparr>)"
proof (rule database_stays_consistent, rule r_into_rtranclp)
  show "db_write empty_db (empty_db\<lparr>users := [sample_user 1 ''alice'']\<rparr>)"
    by (rule w_insert_user [of "user_to_args (sample_user 1 ''alice'')"]) (simp add: INSERT_USER_args empty_db_def)
qed

lemma dm_history_top:
  assumes "a \<noteq> b"
  shows "is_top dm_created_at lim
      (filter (\<lambda>m. ((dm_sender_id m = a \<and> dm_recipient_id m = b) \<or> (dm_sender_id m = b \<and> dm_recipient_id m = a)) \<and>
                   dm_created_at m < before) (direct_messages d))
      (DM_CONVERSATION_HISTORY a b before lim d) \<and>
    sorted_wrt (\<lambda>x y. dm_created_at y \<le> dm_created_at x) (DM_CONVERSATION_HISTORY a b before lim d)"
proof
  let ?h = "DM_CONVERSATION_HISTORY a b before lim d"
  have top: "is_top dm_created_at lim (dm_branch a b before d @ dm_branch b a before d) ?h"
    unfolding DM_CONVERSATION_HISTORY_def order_by_desc_def
    by (rule is_top_union [OF is_top_take_sort is_top_take_sort is_top_take_sort])
  have eq: "mset (dm_branch a b before d @ dm_branch b a before d) =
      mset (filter (\<lambda>m. ((dm_sender_id m = a \<and> dm_recipient_id m = b) \<or> (dm_sender_id m = b \<and> dm_recipient_id m = a)) \<and>
                   dm_created_at m < before) (direct_messages d))" (is "_ = mset ?conv")
  proof -
    have "?conv = filter (\<lambda>m. (dm_sender_id m = a \<and> dm_recipient_id m = b \<and> dm_created_at m < before) \<or>
        (dm_sender_id m = b \<and> dm_recipient_id m = a \<and> dm_created_at m < before)) (direct_messages d)"
      by (rule filter_cong) auto
    with assms show ?thesis
      unfolding dm_branch_def by (subst mset_filter_disjoint) auto
  qed
  show "is_top dm_created_at lim ?conv ?h"
    by (rule iffD1 [OF is_top_mset [OF eq] top])
  show "sorted_wrt (\<lambda>x y. dm_created_at y \<le> dm_created_at x) ?h"
    unfolding DM_CONVERSATION_HISTORY_def order_by_desc_def by (rule sorted_wrt_take) (rule sort_key_desc)
qed

text \<open>
  C23 (dm_history_is_latest_page): The conversation history, although it cuts each direction before it
  cuts their union, is the page a reader expects: the \<open>lim\<close> latest messages between the two users
  before the cut-off (all of them if there are fewer), newest first.
\<close>

theorem dm_history_is_latest_page:
  assumes "a \<noteq> b"
  shows "is_top dm_created_at lim
      (filter (\<lambda>m. ((dm_sender_id m = a \<and> dm_recipient_id m = b) \<or> (dm_sender_id m = b \<and> dm_recipient_id m = a)) \<and>
                   dm_created_at m < before) (direct_messages d))
      (DM_CONVERSATION_HISTORY a b before lim d) \<and>
    sorted_wrt (\<lambda>x y. dm_created_at y \<le> dm_created_at x) (DM_CONVERSATION_HISTORY a b before lim d)"
  by (rule dm_history_top [OF assms])

theorem dm_history_is_latest_page_witness:
  "length (DM_CONVERSATION_HISTORY 1 2 100 50 sample_db) = 2"
  using dm_history_is_latest_page [of 1 2 50 100 sample_db] by (simp add: is_top_def sample_db_def)

text \<open>
  Likewise for a group: the \<open>lim\<close> latest messages of the group before the
  cut-off, newest first.
\<close>

theorem timeline_is_latest_page:
  "is_top gm_created_at lim
      (filter (\<lambda>m. gm_group_id m = g \<and> gm_created_at m < before) (group_messages d))
      (GROUP_MESSAGES_TIMELINE g before lim d) \<and>
   sorted_wrt (\<lambda>x y. gm_created_at y \<le> gm_created_at x) (GROUP_MESSAGES_TIMELINE g before lim d)"
  unfolding GROUP_MESSAGES_TIMELINE_def order_by_desc_def
  by (simp add: is_top_take_sort sort_key_desc)

end
