(* ===== verification/Queries.thy ===== *)
theory Queries
  imports Schema
begin

text \<open>
  The repository functions of \<open>src/src/database/queries.py\<close>, which the services call through the
  module alias \<open>db_queries\<close>: here each carries the prefix \<open>db_\<close>.  A read is a function of the
  database that returns a value or raises; a write also returns the database it leaves.  The
  functions turn missing rows, zero row counts and integrity violations into the errors of the
  database layer.
\<close>

section \<open>Reads and writes that may raise\<close>

type_synonym 'a rd = "db \<Rightarrow> 'a result"
type_synonym 'a tx = "db \<Rightarrow> ('a \<times> db) result"

definition tx_return :: "'a \<Rightarrow> 'a tx" where
  "tx_return x = (\<lambda>d. Inr (x, d))"

definition tx_raise :: "exn \<Rightarrow> 'a tx" where
  "tx_raise e = (\<lambda>d. Inl e)"

definition tx_read :: "'a rd \<Rightarrow> 'a tx" where
  "tx_read q = (\<lambda>d. res_bind (q d) (\<lambda>x. Inr (x, d)))"

definition tx_bind :: "'a tx \<Rightarrow> ('a \<Rightarrow> 'b tx) \<Rightarrow> 'b tx" where
  "tx_bind m f = (\<lambda>d. res_bind (m d) (\<lambda>(x, d'). f x d'))"

lemmas tx_ops = tx_return_def tx_raise_def tx_read_def tx_bind_def

definition not_found :: "Entity \<Rightarrow> string \<Rightarrow> exn" where
  "not_found entity identifier = DbExn (NotFoundError entity identifier)"

text \<open>
  \<open>except IntegrityConstraintViolationError as e: raise ConstraintViolationError.from_asyncpg(e)\<close>;
  any other driver error passes.
\<close>

fun raise_constraint :: "pg_error \<Rightarrow> exn" where
  "raise_constraint e = (if is_integrity_violation e then DbExn (from_asyncpg e) else PgExn e)"

section \<open>Users\<close>

definition db_get_user_by_id :: "uuid \<Rightarrow> User rd" where
  "db_get_user_by_id user_id d =
     (case USER_BY_ID user_id d of
        None \<Rightarrow> Inl (not_found USER (uuid_str user_id))
      | Some r \<Rightarrow> Inr r)"

definition db_get_user_by_username :: "string \<Rightarrow> User rd" where
  "db_get_user_by_username username d =
     (case USER_BY_USERNAME username d of
        None \<Rightarrow> Inl (not_found USER username)
      | Some r \<Rightarrow> Inr r)"

definition db_create_user :: "User \<Rightarrow> User tx" where
  "db_create_user user d =
     (case INSERT_USER (user_to_args user) d of
        Inl e \<Rightarrow> Inl (raise_constraint e)
      | Inr (record, d') \<Rightarrow>
          if record = [] then Inl (not_found USER (uuid_str (u_user_id user)))
          else Inr (user_update_from_record user record, d'))"

definition db_deactivate_user :: "uuid \<Rightarrow> unit tx" where
  "db_deactivate_user user_id d =
     (case DEACTIVATE_USER user_id d of (status, d') \<Rightarrow>
        if status = UPDATE_ZERO then Inl (not_found USER (uuid_str user_id)) else Inr ((), d'))"

definition db_reactivate_user :: "uuid \<Rightarrow> unit tx" where
  "db_reactivate_user user_id d =
     (case REACTIVATE_USER user_id d of (status, d') \<Rightarrow>
        if status = UPDATE_ZERO then Inl (not_found USER (uuid_str user_id)) else Inr ((), d'))"

definition db_update_user_password :: "uuid \<Rightarrow> string \<Rightarrow> string \<Rightarrow> unit tx" where
  "db_update_user_password user_id new_password_hash old_password_hash d =
     (case CHANGE_PASSWORD new_password_hash user_id old_password_hash d of (status, d') \<Rightarrow>
        if status = UPDATE_ZERO then Inl (not_found USER (uuid_str user_id)) else Inr ((), d'))"

definition db_delete_user :: "uuid \<Rightarrow> unit tx" where
  "db_delete_user user_id d =
     (case DELETE_USER_BY_ID user_id d of
        Inl e \<Rightarrow> Inl (PgExn e)
      | Inr (status, d') \<Rightarrow>
          if status = DELETE_ZERO then Inl (not_found USER (uuid_str user_id)) else Inr ((), d'))"

section \<open>Friendships\<close>

definition db_get_friendship_status :: "uuid \<Rightarrow> uuid \<Rightarrow> Friendship rd" where
  "db_get_friendship_status user_a user_b d =
     (case FRIENDSHIP_STATUS user_a user_b d of
        None \<Rightarrow> Inl (not_found FRIENDSHIP (uuid_str user_a @ '' <-> '' @ uuid_str user_b))
      | Some r \<Rightarrow> Inr r)"

definition db_list_accepted_friends :: "uuid \<Rightarrow> Friendship list rd" where
  "db_list_accepted_friends user_id d = Inr (LIST_ACCEPTED_FRIENDS user_id d)"

definition db_list_pending_requests :: "uuid \<Rightarrow> Friendship list rd" where
  "db_list_pending_requests user_id d = Inr (LIST_PENDING_REQUESTS user_id d)"

definition db_send_friend_request :: "timestamp \<Rightarrow> uuid \<Rightarrow> uuid \<Rightarrow> unit tx" where
  "db_send_friend_request now requester_id addressee_id d =
     (case SEND_FRIEND_REQUEST now requester_id addressee_id d of
        Inl e \<Rightarrow> Inl (raise_constraint e)
      | Inr d' \<Rightarrow> Inr ((), d'))"

definition db_accept_friend_request :: "timestamp \<Rightarrow> uuid \<Rightarrow> uuid \<Rightarrow> unit tx" where
  "db_accept_friend_request now requester_id addressee_id d =
     (case ACCEPT_FRIEND_REQUEST now requester_id addressee_id d of (status, d') \<Rightarrow>
        if status = UPDATE_ZERO
        then Inl (not_found FRIENDSHIP (uuid_str requester_id @ '', '' @ uuid_str addressee_id))
        else Inr ((), d'))"

definition db_remove_friendship :: "uuid \<Rightarrow> uuid \<Rightarrow> unit tx" where
  "db_remove_friendship user_a user_b d =
     (case REMOVE_FRIENDSHIP user_a user_b d of (status, d') \<Rightarrow>
        if status = DELETE_ZERO
        then Inl (not_found FRIENDSHIP (uuid_str user_a @ '', '' @ uuid_str user_b))
        else Inr ((), d'))"

section \<open>Tokens\<close>

definition db_get_access_token :: "string \<Rightarrow> AccessToken rd" where
  "db_get_access_token token_hash d =
     (case FETCH_ACCESS_TOKEN token_hash d of
        None \<Rightarrow> Inl (not_found ACCESS_TOKEN token_hash)
      | Some t \<Rightarrow> Inr t)"

definition db_get_refresh_token :: "string \<Rightarrow> RefreshToken rd" where
  "db_get_refresh_token token_hash d =
     (case FETCH_REFRESH_TOKEN token_hash d of
        None \<Rightarrow> Inl (not_found REFRESH_TOKEN token_hash)
      | Some t \<Rightarrow> Inr t)"

definition db_create_access_token :: "AccessToken \<Rightarrow> unit tx" where
  "db_create_access_token token d =
     (case INSERT_ACCESS_TOKEN (access_token_to_args token) d of
        Inl e \<Rightarrow> Inl (raise_constraint e)
      | Inr d' \<Rightarrow> Inr ((), d'))"

definition db_create_refresh_token :: "RefreshToken \<Rightarrow> unit tx" where
  "db_create_refresh_token token d =
     (case INSERT_REFRESH_TOKEN (refresh_token_to_args token) d of
        Inl e \<Rightarrow> Inl (raise_constraint e)
      | Inr d' \<Rightarrow> Inr ((), d'))"

definition db_revoke_access_token :: "string \<Rightarrow> unit tx" where
  "db_revoke_access_token token_hash d =
     (case REVOKE_ACCESS_TOKEN token_hash d of (status, d') \<Rightarrow>
        if status = UPDATE_ZERO then Inl (not_found ACCESS_TOKEN token_hash) else Inr ((), d'))"

definition db_revoke_refresh_token :: "string \<Rightarrow> unit tx" where
  "db_revoke_refresh_token token_hash d =
     (case REVOKE_REFRESH_TOKEN token_hash d of (status, d') \<Rightarrow>
        if status = UPDATE_ZERO then Inl (not_found REFRESH_TOKEN token_hash) else Inr ((), d'))"

definition db_revoke_all_user_access_tokens :: "uuid \<Rightarrow> unit tx" where
  "db_revoke_all_user_access_tokens user_id d = Inr ((), REVOKE_ALL_USER_ACCESS_TOKENS user_id d)"

definition db_revoke_all_user_refresh_tokens :: "uuid \<Rightarrow> unit tx" where
  "db_revoke_all_user_refresh_tokens user_id d = Inr ((), REVOKE_ALL_USER_REFRESH_TOKENS user_id d)"

text \<open>
  \<open>int(status.split(" ")[1])\<close>: a tag without a second word raises \<open>IndexError\<close>, one whose
  second word is no numeral \<open>ValueError\<close>; neither arises for a DELETE tag.
\<close>

definition tag_count :: "string \<Rightarrow> nat result" where
  "tag_count status =
     (let ws = py_split CHR '' '' status
      in if length ws < 2 then Inl IndexError
         else (case py_int (ws ! 1) of None \<Rightarrow> Inl ValueError | Some n \<Rightarrow> Inr n))"

definition db_purge_expired_access_tokens :: "timestamp \<Rightarrow> nat tx" where
  "db_purge_expired_access_tokens now d =
     (case EXPIRED_ACCESS_TOKENS now d of (status, d') \<Rightarrow> res_bind (tag_count status) (\<lambda>n. Inr (n, d')))"

definition db_purge_expired_refresh_tokens :: "timestamp \<Rightarrow> nat tx" where
  "db_purge_expired_refresh_tokens now d =
     (case EXPIRED_REFRESH_TOKENS now d of (status, d') \<Rightarrow> res_bind (tag_count status) (\<lambda>n. Inr (n, d')))"

section \<open>Groups\<close>

definition db_get_group_by_id :: "uuid \<Rightarrow> Group rd" where
  "db_get_group_by_id group_id d =
     (case GROUP_BY_ID group_id d of
        None \<Rightarrow> Inl (not_found GROUP (uuid_str group_id))
      | Some g \<Rightarrow> Inr g)"

definition db_list_user_groups :: "uuid \<Rightarrow> Group list rd" where
  "db_list_user_groups user_id d = Inr (LIST_USER_GROUPS user_id d)"

definition db_list_group_memberships :: "uuid \<Rightarrow> Membership list rd" where
  "db_list_group_memberships group_id d = Inr (LIST_GROUP_MEMBERSHIPS group_id d)"

text \<open>The same query under a second name.\<close>

definition db_get_group_memberships :: "uuid \<Rightarrow> Membership list rd" where
  "db_get_group_memberships group_id d = Inr (LIST_GROUP_MEMBERSHIPS group_id d)"

definition db_create_group :: "Group \<Rightarrow> Group tx" where
  "db_create_group grp d =
     (case CREATE_GROUP (group_to_args grp) d of
        Inl e \<Rightarrow> Inl (raise_constraint e)
      | Inr (record, d') \<Rightarrow>
          if record = [] then Inl (not_found GROUP (uuid_str (g_group_id grp)))
          else Inr (group_update_from_record grp record, d'))"

definition db_delete_group :: "uuid \<Rightarrow> uuid \<Rightarrow> unit tx" where
  "db_delete_group group_id created_by d =
     (case DELETE_GROUP group_id created_by d of (status, d') \<Rightarrow>
        if status = DELETE_ZERO then Inl (not_found GROUP (uuid_str group_id)) else Inr ((), d'))"

section \<open>Memberships\<close>

definition membership_identifier :: "uuid \<Rightarrow> uuid \<Rightarrow> string" where
  "membership_identifier group_id user_id = ''Group:'' @ uuid_str group_id @ '' User:'' @ uuid_str user_id"

definition db_get_membership :: "uuid \<Rightarrow> uuid \<Rightarrow> Membership rd" where
  "db_get_membership group_id user_id d =
     (case MEMBERSHIP_BY_IDS group_id user_id d of
        None \<Rightarrow> Inl (not_found MEMBERSHIP (membership_identifier group_id user_id))
      | Some m \<Rightarrow> Inr m)"

text \<open>A foreign-key violation, of the group or of the user, is reported as a missing user.\<close>

definition db_add_group_member :: "Membership \<Rightarrow> Membership tx" where
  "db_add_group_member membership d =
     (case ADD_GROUP_MEMBER (membership_to_args membership) d of
        Inl (ForeignKeyViolationError t c) \<Rightarrow> Inl (not_found USER (uuid_str (mb_user_id membership)))
      | Inl (UniqueViolationError t c) \<Rightarrow> Inl (DbExn (from_asyncpg (UniqueViolationError t c)))
      | Inl e \<Rightarrow> Inl (PgExn e)
      | Inr (record, d') \<Rightarrow>
          if record = []
          then Inl (not_found MEMBERSHIP
                 (membership_identifier (mb_group_id membership) (mb_user_id membership)))
          else Inr (membership_update_from_record membership record, d'))"

definition db_remove_group_member :: "uuid \<Rightarrow> uuid \<Rightarrow> unit tx" where
  "db_remove_group_member group_id user_id d =
     (case REMOVE_GROUP_MEMBER group_id user_id d of (status, d') \<Rightarrow>
        if status = DELETE_ZERO
        then Inl (not_found MEMBERSHIP (membership_identifier group_id user_id))
        else Inr ((), d'))"

section \<open>Messages\<close>

definition db_get_dm_conversation_history ::
    "uuid \<Rightarrow> uuid \<Rightarrow> timestamp \<Rightarrow> nat \<Rightarrow> DirectMessage list rd" where
  "db_get_dm_conversation_history user_a user_b before lim d =
     Inr (DM_CONVERSATION_HISTORY user_a user_b before lim d)"

definition db_get_group_messages_timeline ::
    "uuid \<Rightarrow> timestamp \<Rightarrow> nat \<Rightarrow> GroupMessage list rd" where
  "db_get_group_messages_timeline group_id before lim d =
     Inr (GROUP_MESSAGES_TIMELINE group_id before lim d)"

definition db_send_direct_message :: "DirectMessage \<Rightarrow> DirectMessage tx" where
  "db_send_direct_message message d =
     (case SEND_DM (direct_message_to_args message) d of
        Inl e \<Rightarrow> Inl (raise_constraint e)
      | Inr (record, d') \<Rightarrow>
          if record = [] then Inl (not_found DIRECT_MESSAGE (uuid_str (dm_message_id message)))
          else Inr (direct_message_update_from_record message record, d'))"

definition db_send_group_message :: "GroupMessage \<Rightarrow> GroupMessage tx" where
  "db_send_group_message message d =
     (case SEND_GROUP_MESSAGE (group_message_to_args message) d of
        Inl e \<Rightarrow> Inl (raise_constraint e)
      | Inr (record, d') \<Rightarrow>
          if record = [] then Inl (not_found GROUP_MESSAGE (uuid_str (gm_message_id message)))
          else Inr (group_message_update_from_record message record, d'))"

section \<open>The outcome of each function in terms of the table contents\<close>

lemma to_args_not_empty [simp]:
  "user_to_args u \<noteq> []"
  "group_to_args g \<noteq> []"
  "membership_to_args m \<noteq> []"
  "direct_message_to_args dm \<noteq> []"
  "group_message_to_args gm \<noteq> []"
  by (simp_all add: user_to_args_def group_to_args_def membership_to_args_def
      direct_message_to_args_def group_message_to_args_def)

lemma db_create_user_eq [query_defs]:
  "db_create_user u d =
     (if u_user_id u \<in> user_ids d then Inl (constraint_violation ''users'' PK_USERS)
      else if u_username u \<in> u_username ` set (users d)
      then Inl (constraint_violation ''users'' UQ_USERS_USERNAME)
      else Inr (u, d\<lparr>users := users d @ [u]\<rparr>))"
  by (simp add: db_create_user_def INSERT_USER_args)

lemma db_create_group_eq [query_defs]:
  "db_create_group g d =
     (case g_created_by g of
        None \<Rightarrow> Inl (DbExn (ConstraintViolationError (Some ''groups'') None))
      | Some c \<Rightarrow>
          if g_group_id g \<in> group_ids d then Inl (constraint_violation ''groups'' PK_GROUPS)
          else if c \<notin> user_ids d then Inl (constraint_violation ''groups'' FK_GROUPS_CREATED_BY)
          else Inr (g, d\<lparr>groups := groups d @ [g]\<rparr>))"
  by (simp add: db_create_group_def CREATE_GROUP_args split: option.split)

lemma db_add_group_member_eq [query_defs]:
  "db_add_group_member m d =
     (if mb_key m \<in> mb_key ` set (memberships d)
      then Inl (constraint_violation ''memberships'' PK_MEMBERSHIPS)
      else if mb_group_id m \<notin> group_ids d \<or> mb_user_id m \<notin> user_ids d
      then Inl (not_found USER (uuid_str (mb_user_id m)))
      else Inr (m, d\<lparr>memberships := memberships d @ [m]\<rparr>))"
  by (simp add: db_add_group_member_def ADD_GROUP_MEMBER_args)

lemma db_send_direct_message_eq [query_defs]:
  "db_send_direct_message m d =
     (if dm_message_id m \<in> dm_message_id ` set (direct_messages d)
      then Inl (constraint_violation ''direct_messages'' PK_DIRECT_MESSAGES)
      else if dm_sender_id m \<notin> user_ids d
      then Inl (constraint_violation ''direct_messages'' FK_DM_SENDER_ID)
      else if dm_recipient_id m \<notin> user_ids d
      then Inl (constraint_violation ''direct_messages'' FK_DM_RECIPIENT_ID)
      else Inr (m, d\<lparr>direct_messages := direct_messages d @ [m]\<rparr>))"
  by (simp add: db_send_direct_message_def SEND_DM_args)

lemma db_send_group_message_eq [query_defs]:
  "db_send_group_message m d =
     (if gm_message_id m \<in> gm_message_id ` set (group_messages d)
      then Inl (constraint_violation ''group_messages'' PK_GROUP_MESSAGES)
      else if gm_group_id m \<notin> group_ids d
      then Inl (constraint_violation ''group_messages'' FK_GROUP_MESSAGES_GROUP_ID)
      else if gm_sender_id m \<notin> user_ids d
      then Inl (constraint_violation ''group_messages'' FK_GROUP_MESSAGES_SENDER_ID)
      else Inr (m, d\<lparr>group_messages := group_messages d @ [m]\<rparr>))"
  by (simp add: db_send_group_message_def SEND_GROUP_MESSAGE_args)

lemma db_create_access_token_eq [query_defs]:
  "db_create_access_token t d =
     (if at_token_hash t \<in> at_token_hash ` set (access_tokens d)
      then Inl (constraint_violation ''access_tokens'' PK_ACCESS_TOKENS)
      else if at_user_id t \<notin> user_ids d
      then Inl (constraint_violation ''access_tokens'' FK_ACCESS_TOKENS_USER_ID)
      else Inr ((), d\<lparr>access_tokens := access_tokens d @ [t]\<rparr>))"
  by (simp add: db_create_access_token_def INSERT_ACCESS_TOKEN_args)

lemma db_create_refresh_token_eq [query_defs]:
  "db_create_refresh_token t d =
     (if rt_token_hash t \<in> rt_token_hash ` set (refresh_tokens d)
      then Inl (constraint_violation ''refresh_tokens'' PK_REFRESH_TOKENS)
      else if rt_user_id t \<notin> user_ids d
      then Inl (constraint_violation ''refresh_tokens'' FK_REFRESH_TOKENS_USER_ID)
      else Inr ((), d\<lparr>refresh_tokens := refresh_tokens d @ [t]\<rparr>))"
  by (simp add: db_create_refresh_token_def INSERT_REFRESH_TOKEN_args)

lemma tag_count_delete_tag [simp]: "tag_count (delete_tag n) = Inr n"
proof -
  have "length (py_split CHR '' '' (delete_tag n)) = 2"
    using py_split_append [of "CHR '' ''" "''DELETE''" "nat_str n"]
    by (simp add: delete_tag_def py_split_no_sep space_not_in_nat_str)
  then show ?thesis by (simp add: tag_count_def delete_tag_count [simplified])
qed

section \<open>Transaction bodies run write statements\<close>

text \<open>
  A body that succeeds leaves a database reached from the old one by write statements of
  \<open>sql.py\<close> alone.
\<close>

definition runs_writes :: "'a tx \<Rightarrow> bool" where
  "runs_writes m \<longleftrightarrow> (\<forall>d x d'. m d = Inr (x, d') \<longrightarrow> rtranclp db_write d d')"

lemma runs_writesI: "(\<And>d x d'. m d = Inr (x, d') \<Longrightarrow> d' = d \<or> db_write d d') \<Longrightarrow> runs_writes m"
  unfolding runs_writes_def by (metis r_into_rtranclp rtranclp.rtrancl_refl)

lemma runs_writesD: "runs_writes m \<Longrightarrow> m d = Inr (x, d') \<Longrightarrow> rtranclp db_write d d'"
  by (simp add: runs_writes_def)

lemma runs_writes_ops [tx_writes]:
  "runs_writes (tx_return x)" "runs_writes (tx_raise e)" "runs_writes (tx_read q)"
  by (auto intro!: runs_writesI simp: tx_ops res_bind_iffs)

lemma runs_writes_bind [tx_writes]:
  assumes "runs_writes m" and "\<And>x. runs_writes (f x)"
  shows "runs_writes (tx_bind m f)"
  unfolding runs_writes_def tx_bind_def
  using assms by (auto simp: res_bind_iffs dest!: runs_writesD intro: rtranclp_trans)

lemma runs_writes_if [tx_writes]:
  "(b \<Longrightarrow> runs_writes m) \<Longrightarrow> (\<not> b \<Longrightarrow> runs_writes n) \<Longrightarrow> runs_writes (if b then m else n)"
  by simp

lemma snd_writes:
  "DEACTIVATE_USER u d = (t, d') \<Longrightarrow> db_write d d'"
  "REACTIVATE_USER u d = (t, d') \<Longrightarrow> db_write d d'"
  "CHANGE_PASSWORD n u old d = (t, d') \<Longrightarrow> db_write d d'"
  "ACCEPT_FRIEND_REQUEST now a b d = (t, d') \<Longrightarrow> db_write d d'"
  "REVOKE_ACCESS_TOKEN h d = (t, d') \<Longrightarrow> db_write d d'"
  "REVOKE_REFRESH_TOKEN h d = (t, d') \<Longrightarrow> db_write d d'"
  "REMOVE_FRIENDSHIP a b d = (t, d') \<Longrightarrow> db_write d d'"
  "EXPIRED_ACCESS_TOKENS now d = (t, d') \<Longrightarrow> db_write d d'"
  "EXPIRED_REFRESH_TOKENS now d = (t, d') \<Longrightarrow> db_write d d'"
  "DELETE_GROUP g c d = (t, d') \<Longrightarrow> db_write d d'"
  "REMOVE_GROUP_MEMBER g u d = (t, d') \<Longrightarrow> db_write d d'"
  by (metis db_write.intros snd_conv)+

lemma user_writes [tx_writes]:
  "runs_writes (db_create_user user)" "runs_writes (db_deactivate_user u)" "runs_writes (db_reactivate_user u)"
  "runs_writes (db_update_user_password u n old)" "runs_writes (db_delete_user u)"
  by (auto intro!: runs_writesI intro: snd_writes w_insert_user w_delete_user
      simp: db_create_user_def db_deactivate_user_def db_reactivate_user_def db_update_user_password_def
        db_delete_user_def split: sum.splits prod.splits if_splits)

lemma friendship_writes [tx_writes]:
  "runs_writes (db_send_friend_request now a b)" "runs_writes (db_accept_friend_request now a b)"
  "runs_writes (db_remove_friendship a b)"
  by (auto intro!: runs_writesI intro: snd_writes w_send_request
      simp: db_send_friend_request_def db_accept_friend_request_def db_remove_friendship_def
      split: sum.splits prod.splits if_splits)

lemma token_writes [tx_writes]:
  "runs_writes (db_create_access_token t)" "runs_writes (db_create_refresh_token rt)"
  "runs_writes (db_revoke_access_token h)" "runs_writes (db_revoke_refresh_token h)"
  "runs_writes (db_revoke_all_user_access_tokens u)" "runs_writes (db_revoke_all_user_refresh_tokens u)"
  "runs_writes (db_purge_expired_access_tokens now)" "runs_writes (db_purge_expired_refresh_tokens now)"
  by (auto intro!: runs_writesI intro: snd_writes w_insert_access w_insert_refresh w_revoke_all_access
        w_revoke_all_refresh
      simp: db_create_access_token_def db_create_refresh_token_def db_revoke_access_token_def
        db_revoke_refresh_token_def db_revoke_all_user_access_tokens_def
        db_revoke_all_user_refresh_tokens_def db_purge_expired_access_tokens_def
        db_purge_expired_refresh_tokens_def res_bind_iffs
      split: sum.splits prod.splits if_splits)

lemma group_writes [tx_writes]:
  "runs_writes (db_create_group g)" "runs_writes (db_delete_group gid c)"
  "runs_writes (db_add_group_member m)" "runs_writes (db_remove_group_member gid u)"
  by (auto intro!: runs_writesI intro: snd_writes w_create_group w_add_member
      simp: db_create_group_def db_delete_group_def db_add_group_member_def db_remove_group_member_def
      split: sum.splits prod.splits if_splits pg_error.splits)

lemma message_writes [tx_writes]:
  "runs_writes (db_send_direct_message m)" "runs_writes (db_send_group_message gm)"
  by (auto intro!: runs_writesI intro: w_send_dm w_send_group_message
      simp: db_send_direct_message_def db_send_group_message_def
      split: sum.splits prod.splits if_splits)

section \<open>Properties of the repository functions\<close>

text \<open>
  Purging expired tokens never fails on the command tag: the number it
  returns is the number of rows removed, and exactly the expired or revoked tokens are gone.
\<close>

theorem purge_reports_removed_rows:
  "\<exists>d'. db_purge_expired_access_tokens now d = Inr (length (access_tokens d) - length (access_tokens d'), d') \<and>
     access_tokens d' = filter (\<lambda>t. now \<le> at_expires_at t \<and> \<not> at_is_revoked t) (access_tokens d)"
proof -
  let ?p = "\<lambda>t. at_expires_at t < now \<or> at_is_revoked t"
  have "delete_where ?p (access_tokens d) =
      filter (\<lambda>t. now \<le> at_expires_at t \<and> \<not> at_is_revoked t) (access_tokens d)"
    unfolding delete_where_def by (rule filter_cong) auto
  moreover have "count_where ?p (access_tokens d) =
      length (access_tokens d) - length (delete_where ?p (access_tokens d))"
    using count_where_delete_where [of ?p "access_tokens d"] by simp
  ultimately show ?thesis
    by (simp add: db_purge_expired_access_tokens_def EXPIRED_ACCESS_TOKENS_def Let_def)
qed

end
