(* ===== verification/Connection.thy ===== *)
theory Connection
  imports Queries
begin

text \<open>
  \<open>DatabaseManager.connection\<close> and \<open>DatabaseManager.transaction\<close> of
  \<open>src/src/database/connection.py\<close>: what happens around the body a service runs on a connection.
  The outcome of the infrastructure is an argument: whether the pool exists, and an error the
  driver may raise on acquiring the connection, in a statement of the block, or at COMMIT.  A
  transaction commits the body's database or leaves the database as it was; the locale
  \<open>atomic_tx\<close> states that contract and derives what every service inherits from it.
\<close>

section \<open>The infrastructure's outcome\<close>

record db_env =
  pool_ready :: bool
  acquire_fault :: "pg_error option"
  body_fault :: "pg_error option"
  commit_fault :: "pg_error option"

definition healthy :: db_env where
  "healthy = \<lparr>pool_ready = True, acquire_fault = None, body_fault = None, commit_fault = None\<rparr>"

text \<open>The text of a driver error, as interpolated into the message of the raised error.\<close>

fun pg_text :: "pg_error \<Rightarrow> string" where
  "pg_text (InterfaceError m) = m"
| "pg_text (QueryCanceledError m) = m"
| "pg_text (PgSerializationError m) = m"
| "pg_text (UniqueViolationError t c) =
     ''duplicate key value violates unique constraint '' @ constraint_value c"
| "pg_text (ForeignKeyViolationError t c) =
     ''insert or update on table '' @ t @ '' violates foreign key constraint '' @ constraint_value c"
| "pg_text (NotNullViolationError t col) =
     ''null value in column '' @ col @ '' of relation '' @ t @ '' violates not-null constraint''"
| "pg_text (OtherPostgresError m) = m"

text \<open>The \<open>except\<close> clauses of \<open>connection\<close>, in their order.\<close>

fun connection_except :: "exn \<Rightarrow> exn" where
  "connection_except (PgExn (InterfaceError m)) =
     DbExn (DatabaseConnectionError (''Database connection lost: '' @ m))"
| "connection_except (PgExn (QueryCanceledError m)) =
     DbExn (DatabaseTimeoutError (''Database query timed out: '' @ m))"
| "connection_except (PgExn e) = DbExn (DatabaseError (''Postgres database error: '' @ pg_text e))"
| "connection_except e = e"

text \<open>The inner \<open>except\<close> clause of \<open>transaction\<close>.\<close>

fun transaction_except :: "exn \<Rightarrow> exn" where
  "transaction_except (PgExn (PgSerializationError m)) =
     DbExn (SerializationError (''Serialization failure: '' @ m))"
| "transaction_except e = e"

section \<open>Connections and transactions\<close>

text \<open>The services use \<open>connection\<close> for reads only.\<close>

definition connection :: "db_env \<Rightarrow> 'a rd \<Rightarrow> db \<Rightarrow> 'a result" where
  "connection env body d =
     (if \<not> pool_ready env then Inl (DbExn ConnectionPoolNotInitializedError)
      else case acquire_fault env of
        Some e \<Rightarrow> Inl (connection_except (PgExn e))
      | None \<Rightarrow>
          (case body_fault env of
             Some e \<Rightarrow> Inl (connection_except (PgExn e))
           | None \<Rightarrow> (case body d of Inl e \<Rightarrow> Inl (connection_except e) | Inr x \<Rightarrow> Inr x)))"

text \<open>
  \<open>transaction\<close> is an asynchronous generator: the retry decorator around it sees only the creation
  of the generator, which raises nothing, so an error of the block is raised once and the block
  runs once.
\<close>

definition transaction :: "db_env \<Rightarrow> 'a tx \<Rightarrow> db \<Rightarrow> 'a result \<times> db" where
  "transaction env body d =
     (if \<not> pool_ready env then (Inl (DbExn ConnectionPoolNotInitializedError), d)
      else case acquire_fault env of
        Some e \<Rightarrow> (Inl (connection_except (PgExn e)), d)
      | None \<Rightarrow>
          (case body_fault env of
             Some e \<Rightarrow> (Inl (connection_except (transaction_except (PgExn e))), d)
           | None \<Rightarrow>
               (case body d of
                  Inl e \<Rightarrow> (Inl (connection_except (transaction_except e)), d)
                | Inr (x, d') \<Rightarrow>
                    (case commit_fault env of
                       Some e \<Rightarrow> (Inl (connection_except (transaction_except (PgExn e))), d)
                     | None \<Rightarrow> (Inr x, d')))))"

lemma healthy_simps [simp]:
  "pool_ready healthy" "acquire_fault healthy = None" "body_fault healthy = None" "commit_fault healthy = None"
  by (simp_all add: healthy_def)

lemma connection_healthy:
  "connection healthy body d = (case body d of Inl e \<Rightarrow> Inl (connection_except e) | Inr x \<Rightarrow> Inr x)"
  by (simp add: connection_def)

lemma transaction_healthy:
  "transaction healthy body d =
     (case body d of Inl e \<Rightarrow> (Inl (connection_except (transaction_except e)), d) | Inr (x, d') \<Rightarrow> (Inr x, d'))"
  by (simp add: transaction_def split: sum.split)

lemma except_pass [simp]:
  "connection_except (ServiceExn s) = ServiceExn s" "transaction_except (ServiceExn s) = ServiceExn s"
  "connection_except (DbExn e) = DbExn e" "transaction_except (DbExn e) = DbExn e"
  by simp_all

lemma connection_success: "connection env body d = Inr x \<Longrightarrow> body d = Inr x"
  by (auto simp: connection_def split: if_splits option.splits sum.splits)

section \<open>The contract of a transaction\<close>

locale atomic_tx =
  fixes run :: "'a tx \<Rightarrow> db \<Rightarrow> 'a result \<times> db"
  assumes rollback: "run body d = (Inl e, d') \<Longrightarrow> d' = d"
    and commit: "run body d = (Inr x, d') \<Longrightarrow> body d = Inr (x, d')"
begin

lemma all_or_nothing: "snd (run body d) = d \<or> (\<exists>x. body d = Inr (x, snd (run body d)))"
  by (cases "run body d"; cases "fst (run body d)") (auto dest: rollback commit)

lemma preserves:
  assumes "P d" and "\<And>x d'. body d = Inr (x, d') \<Longrightarrow> P d'"
  shows "P (snd (run body d))"
  using all_or_nothing [of body d] assms by metis

lemma raising_body: "body d = Inl e \<Longrightarrow> \<exists>e'. run body d = (Inl e', d)"
  by (cases "run body d"; cases "fst (run body d)") (auto dest: rollback commit)

end

interpretation dbm: atomic_tx "transaction env" for env
  by unfold_locales (auto simp: transaction_def split: if_splits option.splits sum.splits)

text \<open>Whatever the infrastructure does, a transaction moves the database by write statements only.\<close>

lemma transaction_writes:
  assumes "runs_writes body"
  shows "rtranclp db_write d (snd (transaction env body d))"
  by (rule dbm.preserves) (auto dest: runs_writesD [OF assms])

end
