(* ===== verification/User_Service.thy ===== *)
theory User_Service
  imports Connection
begin

text \<open>
  \<open>UserService\<close> of \<open>src/src/services/user.py\<close>: account lifecycle and friendships.  A method is a
  function of the infrastructure's outcome, its arguments and the database; a write also returns the
  database it leaves.  The keyword context is the one the routers of
  \<open>src/src/api/routers/user.py\<close> pass: the lookups and the lifecycle calls are positional.
\<close>

section \<open>Decorated methods\<close>

text \<open>
  Both decorators around a method, the constraint decorator outside.  A method decorated with
  \<open>handle_db_not_found_error\<close> returns an option, \<open>None\<close> being the swallowed error.
\<close>

definition guarded ::
    "(Constraint \<times> handler) list \<Rightarrow> (Entity \<times> handler) list \<Rightarrow> kwargs \<Rightarrow> 'a result \<Rightarrow> 'a option result" where
  "guarded constraint_overrides overrides kw r =
     handle_db_constraint_error constraint_overrides kw (handle_db_not_found_error overrides kw r)"

section \<open>Account and profile management\<close>

definition get_by_username :: "db_env \<Rightarrow> string \<Rightarrow> db \<Rightarrow> User option result" where
  "get_by_username env username d =
     handle_db_not_found_error [] [] (connection env (db_get_user_by_username username) d)"

definition get_by_id :: "db_env \<Rightarrow> uuid \<Rightarrow> db \<Rightarrow> User option result" where
  "get_by_id env user_id d =
     handle_db_not_found_error [] [] (connection env (db_get_user_by_id user_id) d)"

definition deactivate_account :: "db_env \<Rightarrow> uuid \<Rightarrow> db \<Rightarrow> unit option result \<times> db" where
  "deactivate_account env user_id d =
     map_prod (handle_db_not_found_error [] []) id (transaction env (db_deactivate_user user_id) d)"

definition reactivate_account :: "db_env \<Rightarrow> uuid \<Rightarrow> db \<Rightarrow> unit option result \<times> db" where
  "reactivate_account env user_id d =
     map_prod (handle_db_not_found_error [] []) id (transaction env (db_reactivate_user user_id) d)"

definition delete_account :: "db_env \<Rightarrow> uuid \<Rightarrow> db \<Rightarrow> unit option result \<times> db" where
  "delete_account env user_id d =
     map_prod (handle_db_not_found_error [] []) id (transaction env (db_delete_user user_id) d)"

section \<open>Friendships\<close>

definition send_friend_request :: "db_env \<Rightarrow> timestamp \<Rightarrow> uuid \<Rightarrow> uuid \<Rightarrow> db \<Rightarrow> unit result \<times> db" where
  "send_friend_request env now requester_id addressee_id d =
     map_prod (handle_db_constraint_error []
         [(''requester_id'', PUuid requester_id), (''addressee_id'', PUuid addressee_id)]) id
       (if requester_id = addressee_id then (Inl (ServiceExn SelfFriendshipError), d)
        else transaction env (db_send_friend_request now requester_id addressee_id) d)"

definition accept_friend_request ::
    "db_env \<Rightarrow> timestamp \<Rightarrow> uuid \<Rightarrow> uuid \<Rightarrow> db \<Rightarrow> unit option result \<times> db" where
  "accept_friend_request env now addressee_id requester_id d =
     map_prod (handle_db_not_found_error []
         [(''addressee_id'', PUuid addressee_id), (''requester_id'', PUuid requester_id)]) id
       (transaction env (db_accept_friend_request now requester_id addressee_id) d)"

definition remove_or_decline_friendship ::
    "db_env \<Rightarrow> uuid \<Rightarrow> uuid \<Rightarrow> db \<Rightarrow> unit option result \<times> db" where
  "remove_or_decline_friendship env user_a user_b d =
     map_prod (handle_db_not_found_error [] [(''user_a'', PUuid user_a), (''user_b'', PUuid user_b)]) id
       (transaction env (db_remove_friendship user_a user_b) d)"

definition get_friendship_status :: "db_env \<Rightarrow> uuid \<Rightarrow> uuid \<Rightarrow> db \<Rightarrow> Friendship option result" where
  "get_friendship_status env user_a user_b d =
     handle_db_not_found_error [] [(''user_a'', PUuid user_a), (''user_b'', PUuid user_b)]
       (connection env (db_get_friendship_status user_a user_b) d)"

definition get_friends :: "db_env \<Rightarrow> uuid \<Rightarrow> db \<Rightarrow> Friendship list result" where
  "get_friends env user_id d = connection env (db_list_accepted_friends user_id) d"

definition get_pending_friend_requests :: "db_env \<Rightarrow> uuid \<Rightarrow> db \<Rightarrow> Friendship list result" where
  "get_pending_friend_requests env user_id d = connection env (db_list_pending_requests user_id) d"

section \<open>What the decorators make of the errors met here\<close>

lemma not_found_default:
  "handle_db_not_found_error [] kw (Inl (not_found USER i)) =
     Inl (ServiceExn (UserNotFoundError
       (py_or (kw_get (kw @ [(''identifier'', PStr i)]) ''identifier'' PNone)
          (kw_get kw ''user_id'' unknown))))"
  "handle_db_not_found_error [] kw (Inl (not_found FRIENDSHIP i)) =
     Inl (ServiceExn (FriendRequestNotFoundError
       (py_or (kw_get (kw @ [(''identifier'', PStr i)]) ''identifier'' PNone)
          (kw_get kw ''requester_id'' unknown))))"
  "handle_db_not_found_error [] kw (Inl (not_found GROUP i)) =
     Inl (ServiceExn (GroupNotFoundError
       (py_or (kw_get (kw @ [(''identifier'', PStr i)]) ''identifier'' PNone)
          (kw_get kw ''group_id'' unknown))))"
  "handle_db_not_found_error [] kw (Inl (not_found MEMBERSHIP i)) =
     Inl (ServiceExn (NotGroupMemberError
       (py_or (kw_get kw ''actor_id'' PNone) (kw_get kw ''user_id'' unknown))
       (kw_get kw ''group_id'' unknown)))"
  by (simp_all add: handle_db_not_found_error_def not_found_def ENTITY_NOT_FOUND_MAP_def kw_get_def
      map_add_def split: option.split)

lemma except_not_found [simp]:
  "connection_except (not_found e i) = not_found e i" "transaction_except (not_found e i) = not_found e i"
  by (simp_all add: not_found_def)

lemma table_handlers:
  "map_of CONSTRAINT_MAP (constraint_value UQ_USERS_USERNAME) =
     Some (HandlerFn (\<lambda>kw. ServiceExn (UserAlreadyExistsError (kw_get kw ''username'' unknown))))"
  "map_of CONSTRAINT_MAP (constraint_value PK_FRIENDSHIPS) =
     Some (HandlerFn (\<lambda>kw. ServiceExn (FriendRequestAlreadyExistsError (kw_get kw ''addressee_id'' unknown))))"
  "map_of CONSTRAINT_MAP (constraint_value FK_FRIENDSHIPS_REQUESTER_ID) =
     Some (HandlerFn (\<lambda>kw. ServiceExn (UserNotFoundError (kw_get kw ''requester_id'' unknown))))"
  "map_of CONSTRAINT_MAP (constraint_value FK_FRIENDSHIPS_ADDRESSEE_ID) =
     Some (HandlerFn (\<lambda>kw. ServiceExn (UserNotFoundError (kw_get kw ''addressee_id'' unknown))))"
  "map_of CONSTRAINT_MAP (constraint_value FK_GROUPS_CREATED_BY) =
     Some (HandlerFn (\<lambda>kw. ServiceExn (UserNotFoundError (kw_get kw ''user_id'' unknown))))"
  "map_of CONSTRAINT_MAP (constraint_value PK_MEMBERSHIPS) =
     Some (HandlerFn (\<lambda>kw. ServiceExn (AlreadyGroupMemberError
       (kw_get kw ''user_id'' unknown) (kw_get kw ''group'' unknown))))"
  "map_of CONSTRAINT_MAP (constraint_value PK_USERS) = None"
  "map_of CONSTRAINT_MAP (constraint_value PK_GROUPS) = None"
  "map_of CONSTRAINT_MAP (constraint_value PK_DIRECT_MESSAGES) = None"
  "map_of CONSTRAINT_MAP (constraint_value PK_GROUP_MESSAGES) = None"
  "map_of CONSTRAINT_MAP (constraint_value PK_ACCESS_TOKENS) = None"
  "map_of CONSTRAINT_MAP (constraint_value PK_REFRESH_TOKENS) = None"
  by (simp_all add: CONSTRAINT_MAP_def)

lemmas constraint_outcomes =
  constraint_decorator_table [OF _ table_handlers(1)] constraint_decorator_table [OF _ table_handlers(2)]
  constraint_decorator_table [OF _ table_handlers(3)] constraint_decorator_table [OF _ table_handlers(4)]
  constraint_decorator_table [OF _ table_handlers(5)] constraint_decorator_table [OF _ table_handlers(6)]
  constraint_decorator_unmapped [OF _ table_handlers(7)] constraint_decorator_unmapped [OF _ table_handlers(8)]
  constraint_decorator_unmapped [OF _ table_handlers(9)] constraint_decorator_unmapped [OF _ table_handlers(10)]
  constraint_decorator_unmapped [OF _ table_handlers(11)] constraint_decorator_unmapped [OF _ table_handlers(12)]

lemmas user_service_defs [tx_defs] =
  deactivate_account_def reactivate_account_def delete_account_def send_friend_request_def
  accept_friend_request_def remove_or_decline_friendship_def

section \<open>The repository functions, row by row\<close>

lemma db_send_friend_request_eq [query_defs]:
  "db_send_friend_request now a b d =
     (if (a, b) \<in> (\<lambda>f. (fr_requester_id f, fr_addressee_id f)) ` set (friendships d)
      then Inl (constraint_violation ''friendships'' PK_FRIENDSHIPS)
      else if a \<notin> user_ids d then Inl (constraint_violation ''friendships'' FK_FRIENDSHIPS_REQUESTER_ID)
      else if b \<notin> user_ids d then Inl (constraint_violation ''friendships'' FK_FRIENDSHIPS_ADDRESSEE_ID)
      else Inr ((), d\<lparr>friendships := friendships d @
                   [\<lparr>fr_requester_id = a, fr_addressee_id = b, fr_accepted = False,
                     fr_created_at = now, fr_updated_at = now\<rparr>]\<rparr>))"
  by (simp add: db_send_friend_request_def SEND_FRIEND_REQUEST_def list_ex_key_pair)

lemma db_accept_friend_request_eq [query_defs]:
  "db_accept_friend_request now r a d =
     (if \<exists>f\<in>set (friendships d). fr_requester_id f = r \<and> fr_addressee_id f = a
      then Inr ((), d\<lparr>friendships := update_where (\<lambda>f. fr_requester_id f = r \<and> fr_addressee_id f = a)
                        (\<lambda>f. f\<lparr>fr_accepted := True, fr_updated_at := now\<rparr>) (friendships d)\<rparr>)
      else Inl (not_found FRIENDSHIP (uuid_str r @ '', '' @ uuid_str a)))"
  by (auto simp: db_accept_friend_request_def ACCEPT_FRIEND_REQUEST_def Let_def)

lemma db_remove_friendship_eq [query_defs]:
  "db_remove_friendship a b d =
     (if \<exists>f\<in>set (friendships d). between a b f
      then Inr ((), d\<lparr>friendships := delete_where (between a b) (friendships d)\<rparr>)
      else Inl (not_found FRIENDSHIP (uuid_str a @ '', '' @ uuid_str b)))"
  by (auto simp: db_remove_friendship_def REMOVE_FRIENDSHIP_def Let_def)

lemma db_delete_user_eq [query_defs]:
  "db_delete_user u d =
     (if u \<notin> user_ids d then Inl (not_found USER (uuid_str u))
      else if \<exists>g\<in>set (groups d). g_created_by g = Some u
      then Inl (PgExn (NotNullViolationError ''groups'' ''created_by''))
      else Inr ((), cascade_user u d))"
proof -
  have "count_where (\<lambda>r. u_user_id r = u) (users d) = 0 \<longleftrightarrow> u \<notin> user_ids d"
    by auto
  then show ?thesis
    by (simp add: db_delete_user_def DELETE_USER_BY_ID_def Let_def list_ex_iff del: count_where_0_iff)
qed

lemma between_commute: "between a b = between b a"
  by (auto simp: between_def fun_eq_iff)

lemma send_friend_request_eq:
  "send_friend_request healthy now a b d =
     (if a = b then (Inl (ServiceExn SelfFriendshipError), d)
      else if \<exists>f\<in>set (friendships d). fr_requester_id f = a \<and> fr_addressee_id f = b
      then (Inl (ServiceExn (FriendRequestAlreadyExistsError (PUuid b))), d)
      else if a \<notin> user_ids d then (Inl (ServiceExn (UserNotFoundError (PUuid a))), d)
      else if b \<notin> user_ids d then (Inl (ServiceExn (UserNotFoundError (PUuid b))), d)
      else (Inr (), d\<lparr>friendships := friendships d @
              [\<lparr>fr_requester_id = a, fr_addressee_id = b, fr_accepted = False,
                fr_created_at = now, fr_updated_at = now\<rparr>]\<rparr>))"
proof -
  have "(a, b) \<in> (\<lambda>f. (fr_requester_id f, fr_addressee_id f)) ` set (friendships d) \<longleftrightarrow>
      (\<exists>f\<in>set (friendships d). fr_requester_id f = a \<and> fr_addressee_id f = b)"
    by force
  then show ?thesis
    by (simp add: send_friend_request_def transaction_healthy query_defs constraint_outcomes kw_get_ctx
        del: bex_simps image_iff)
qed

section \<open>Properties of the user service\<close>

text \<open>
  Every account and friendship operation changes the database by write
  statements of the schema only, or not at all, whatever the infrastructure does; so the schema
  invariant survives every request.
\<close>

theorem user_writes_are_statements:
  "rtranclp db_write d (snd (deactivate_account env u d)) \<and>
   rtranclp db_write d (snd (reactivate_account env u d)) \<and>
   rtranclp db_write d (snd (delete_account env u d)) \<and>
   rtranclp db_write d (snd (send_friend_request env now a b d)) \<and>
   rtranclp db_write d (snd (accept_friend_request env now a b d)) \<and>
   rtranclp db_write d (snd (remove_or_decline_friendship env a b d))"
  by (simp add: tx_defs transaction_writes tx_writes)

text \<open>
  Sending a friend request, branch by branch: to oneself, already sent,
  from or to a user that does not exist, and the success, which adds one pending row.
\<close>

theorem friend_request_outcome:
  "send_friend_request healthy now a b d =
     (if a = b then (Inl (ServiceExn SelfFriendshipError), d)
      else if \<exists>f\<in>set (friendships d). fr_requester_id f = a \<and> fr_addressee_id f = b
      then (Inl (ServiceExn (FriendRequestAlreadyExistsError (PUuid b))), d)
      else if a \<notin> user_ids d then (Inl (ServiceExn (UserNotFoundError (PUuid a))), d)
      else if b \<notin> user_ids d then (Inl (ServiceExn (UserNotFoundError (PUuid b))), d)
      else (Inr (), d\<lparr>friendships := friendships d @
              [\<lparr>fr_requester_id = a, fr_addressee_id = b, fr_accepted = False,
                fr_created_at = now, fr_updated_at = now\<rparr>]\<rparr>))"
  by (rule send_friend_request_eq)

text \<open>
  A friendship becomes accepted only through the addressee: whatever the
  infrastructure does, each row that an accept call turns to accepted names the caller as addressee
  and the given user as requester, and every other row is left as it was.
\<close>

theorem friendship_needs_consent:
  assumes "f' \<in> set (friendships (snd (accept_friend_request env now me other d)))"
  shows "f' \<in> set (friendships d) \<or>
    (fr_addressee_id f' = me \<and> fr_requester_id f' = other \<and> fr_accepted f' \<and>
     (\<exists>f\<in>set (friendships d). fr_addressee_id f = me \<and> fr_requester_id f = other))"
proof -
  let ?d = "snd (transaction env (db_accept_friend_request now other me) d)"
  consider "?d = d" | x where "db_accept_friend_request now other me d = Inr (x, ?d)"
    using dbm.all_or_nothing [of env "db_accept_friend_request now other me" d] by blast
  then show ?thesis
  proof cases
    case 1
    with assms show ?thesis by (simp add: accept_friend_request_def)
  next
    case 2
    then have "friendships ?d = update_where (\<lambda>f. fr_requester_id f = other \<and> fr_addressee_id f = me)
        (\<lambda>f. f\<lparr>fr_accepted := True, fr_updated_at := now\<rparr>) (friendships d)"
      by (auto simp: query_defs split: if_splits dest: sym)
    with assms show ?thesis
      by (auto simp: accept_friend_request_def in_update_where_iff)
  qed
qed

theorem friendship_needs_consent_witness:
  "\<exists>f'\<in>set (friendships (snd (accept_friend_request healthy 9 1 3 sample_db))).
     f' \<notin> set (friendships sample_db) \<and> fr_addressee_id f' = 1 \<and> fr_requester_id f' = 3 \<and> fr_accepted f'"
proof -
  let ?f = "\<lparr>fr_requester_id = 3, fr_addressee_id = 1, fr_accepted = True, fr_created_at = 0, fr_updated_at = 9\<rparr>"
  have "?f \<in> set (friendships (snd (accept_friend_request healthy 9 1 3 sample_db)))"
    by (simp add: accept_friend_request_def transaction_healthy query_defs sample_db_def)
  moreover have "?f \<notin> set (friendships sample_db)" by (simp add: sample_db_def)
  ultimately show ?thesis using friendship_needs_consent by blast
qed

text \<open>
  Where no relation existed before, a request followed by its acceptance makes
  both users see an accepted friendship, and removing it, by either of them, makes both see none.
\<close>

theorem friendship_lifecycle:
  assumes "a \<noteq> b" and "a \<in> user_ids d" and "b \<in> user_ids d"
    and none: "\<forall>f\<in>set (friendships d). \<not> between a b f"
    and "send_friend_request healthy t1 a b d = (r1, d1)"
    and "accept_friend_request healthy t2 b a d1 = (r2, d2)"
    and "remove_or_decline_friendship healthy x y d2 = (r3, d3)"
    and "(x, y) = (a, b) \<or> (x, y) = (b, a)"
  shows "r1 = Inr () \<and> r2 = Inr (Some ()) \<and> r3 = Inr (Some ()) \<and>
    (\<exists>f. fr_accepted f \<and> get_friendship_status healthy a b d2 = Inr (Some f) \<and>
         get_friendship_status healthy b a d2 = Inr (Some f)) \<and>
    friendships d3 = friendships d"
proof -
  let ?new = "\<lparr>fr_requester_id = a, fr_addressee_id = b, fr_accepted = False, fr_created_at = t1, fr_updated_at = t1\<rparr>"
  let ?acc = "?new\<lparr>fr_accepted := True, fr_updated_at := t2\<rparr>"
  have fresh: "\<not> (fr_requester_id f = a \<and> fr_addressee_id f = b)" if "f \<in> set (friendships d)" for f
    using none that by (auto simp: between_def)
  have 1: "r1 = Inr ()" "d1 = d\<lparr>friendships := friendships d @ [?new]\<rparr>"
    using assms(1-3,5) fresh by (auto simp: send_friend_request_eq split: if_splits)
  have 2: "r2 = Inr (Some ())" "friendships d2 = friendships d @ [?acc]"
    using assms(6) 1 fresh
    by (auto simp: accept_friend_request_def transaction_healthy query_defs update_where_def map_idI
        split: if_splits)
  have scan: "fetchrow (between a b) (friendships d2) = Some ?acc"
    "fetchrow (between b a) (friendships d2) = Some ?acc"
    using none fetchrow_None_iff [of "between a b" "friendships d"]
    by (simp_all add: 2 fetchrow_append between_commute [of b a]) (simp_all add: between_def)
  have "r3 = Inr (Some ()) \<and> friendships d3 = friendships d"
    using assms(7,8) none
    by (auto simp: remove_or_decline_friendship_def transaction_healthy query_defs 2 delete_where_def
        between_commute [of b a] filter_id_conv split: if_splits) (auto simp: between_def)
  with 1 2 scan show ?thesis
    by (simp add: get_friendship_status_def connection_healthy db_get_friendship_status_def FRIENDSHIP_STATUS_def)
qed

theorem friendship_lifecycle_witness:
  "let d1 = snd (send_friend_request healthy 5 2 3 sample_db);
       d2 = snd (accept_friend_request healthy 6 3 2 d1)
   in (\<exists>f. fr_accepted f \<and> get_friendship_status healthy 2 3 d2 = Inr (Some f)) \<and>
      friendships (snd (remove_or_decline_friendship healthy 3 2 d2)) = friendships sample_db"
proof -
  have "2 \<in> user_ids sample_db" "3 \<in> user_ids sample_db" "\<forall>f\<in>set (friendships sample_db). \<not> between 2 3 f"
    by (simp_all add: sample_db_def sample_user_def between_def)
  from friendship_lifecycle [OF _ this prod.collapse [symmetric] prod.collapse [symmetric]
      prod.collapse [symmetric], of 3 2 5 6]
  show ?thesis by (auto simp: Let_def)
qed

text \<open>
  C37 (account_deletion_outcome): Deleting an account: an unknown user is reported as such; a user who
  created a group cannot be deleted, the request fails as an internal database error and nothing
  changes; otherwise the user and every row that refers to the user are gone and the others stay.
\<close>

theorem account_deletion_outcome:
  "delete_account healthy u d =
     (if u \<notin> user_ids d then (Inl (ServiceExn (UserNotFoundError (PStr (uuid_str u)))), d)
      else if \<exists>g\<in>set (groups d). g_created_by g = Some u
      then (Inl (DbExn (DatabaseError
              (''Postgres database error: '' @ pg_text (NotNullViolationError ''groups'' ''created_by'')))), d)
      else (Inr (Some ()),
            d\<lparr>users := filter (\<lambda>r. u_user_id r \<noteq> u) (users d),
              friendships := filter (\<lambda>f. fr_requester_id f \<noteq> u \<and> fr_addressee_id f \<noteq> u) (friendships d),
              access_tokens := filter (\<lambda>t. at_user_id t \<noteq> u) (access_tokens d),
              refresh_tokens := filter (\<lambda>t. rt_user_id t \<noteq> u) (refresh_tokens d),
              memberships := filter (\<lambda>m. mb_user_id m \<noteq> u) (memberships d),
              direct_messages := filter (\<lambda>m. dm_sender_id m \<noteq> u \<and> dm_recipient_id m \<noteq> u) (direct_messages d),
              group_messages := filter (\<lambda>m. gm_sender_id m \<noteq> u) (group_messages d)\<rparr>))"
proof -
  have "py_or (PStr (uuid_str u)) x = PStr (uuid_str u)" for x
    using length_uuid_str [of u] by (auto simp: py_or_def)
  then show ?thesis
    by (simp add: delete_account_def transaction_healthy query_defs not_found_default cascade_user_def
        delete_where_def del: pg_text.simps)
qed

text \<open>
  The primary key of a request is directed, so a user who has a
  pending request from another can send one in the opposite direction: two rows then relate the
  two users, although the error for a duplicate speaks of any request or friendship between them.
\<close>

theorem reciprocal_request_accepted:
  assumes "a \<noteq> b" and "a \<in> user_ids d" and "b \<in> user_ids d"
    and "\<exists>f\<in>set (friendships d). fr_requester_id f = b \<and> fr_addressee_id f = a"
    and "\<forall>f\<in>set (friendships d). \<not> (fr_requester_id f = a \<and> fr_addressee_id f = b)"
  shows "\<exists>d'. send_friend_request healthy now a b d = (Inr (), d') \<and>
    count_where (between a b) (friendships d') = count_where (between a b) (friendships d) + 1"
  using assms by (auto simp: send_friend_request_eq count_where_def between_def)

theorem reciprocal_request_accepted_witness:
  "\<exists>d'. send_friend_request healthy 5 1 3 sample_db = (Inr (), d') \<and>
     count_where (between 1 3) (friendships d') = 2"
  using reciprocal_request_accepted [of 1 3 sample_db 5]
  by (simp add: sample_db_def sample_user_def count_where_def between_def numeral_2_eq_2)

end
