(* ===== verification/Py_Time.thy ===== *)
theory Py_Time
  imports Py_Text
begin

text \<open>
  \<open>datetime.isoformat()\<close> of an aware UTC instant, and the lifetimes of
  \<open>src/src/utils/timestamps.py\<close>.  An instant counts microseconds since the epoch; the calendar
  date is computed from the day number in 400-year cycles of 146097 days that start on 1 March.
\<close>

definition civil_from_days :: "int \<Rightarrow> int \<times> int \<times> int" where
  "civil_from_days days =
     (let z = days + 719468;
          era = z div 146097;
          doe = z mod 146097;
          yoe = (doe - doe div 1460 + doe div 36524 - doe div 146096) div 365;
          doy = doe - (365 * yoe + yoe div 4 - yoe div 100);
          mp = (5 * doy + 2) div 153;
          day = doy - (153 * mp + 2) div 5 + 1;
          month = (if mp < 10 then mp + 3 else mp - 9)
      in (yoe + era * 400 + (if month \<le> 2 then 1 else 0), month, day))"

text \<open>\<open>'%0kd' % n\<close> for a non-negative number.\<close>

definition zero_pad :: "nat \<Rightarrow> int \<Rightarrow> string" where
  "zero_pad k n = (let s = nat_str (nat n) in replicate (k - length s) CHR ''0'' @ s)"

definition isoformat :: "timestamp \<Rightarrow> string" where
  "isoformat t =
     (let secs = t div 1000000; micros = t mod 1000000;
          (y, m, d) = civil_from_days (secs div 86400);
          tod = secs mod 86400
      in zero_pad 4 y @ ''-'' @ zero_pad 2 m @ ''-'' @ zero_pad 2 d @ ''T'' @
         zero_pad 2 (tod div 3600) @ '':'' @ zero_pad 2 (tod div 60 mod 60) @ '':'' @ zero_pad 2 (tod mod 60) @
         (if micros = 0 then [] else ''.'' @ zero_pad 6 micros) @ ''+00:00'')"

text \<open>\<open>expiration_ts(ttl)\<close> for a lifetime in seconds.\<close>

definition expiration_ts :: "timestamp \<Rightarrow> int \<Rightarrow> timestamp" where
  "expiration_ts now ttl = now + ttl * 1000000"

end
