(* ===== verification/Events.thy ===== *)
theory Events
  imports Models Py_Time
begin

text \<open>
  The event payloads of \<open>src/src/redis/events.py\<close> and the JSON values they become.  A payload
  leaves a worker as \<open>json.dumps\<close> of a dictionary of texts and reaches the others through
  \<open>json.loads\<close>, which gives back the same dictionary; the model carries the dictionary itself.
  An object is the list of its fields in insertion order.
\<close>

section \<open>JSON values\<close>

datatype json = JNull | JStr string | JObj "(string \<times> json) list"

text \<open>\<open>d.get(k)\<close>; a value that is not a dictionary has no such method.\<close>

fun jget :: "json \<Rightarrow> string \<Rightarrow> json option result" where
  "jget (JObj fs) k = Inr (map_of fs k)"
| "jget _ k = Inl AttributeError"

text \<open>\<open>d[k]\<close>.\<close>

fun jindex :: "json \<Rightarrow> string \<Rightarrow> json result" where
  "jindex (JObj fs) k = (case map_of fs k of None \<Rightarrow> Inl (KeyError k) | Some v \<Rightarrow> Inr v)"
| "jindex _ k = Inl TypeError"

fun jtruthy :: "json \<Rightarrow> bool" where
  "jtruthy JNull = False"
| "jtruthy (JStr s) = (s \<noteq> [])"
| "jtruthy (JObj fs) = (fs \<noteq> [])"

text \<open>\<open>UUID(v)\<close> on a decoded value.\<close>

fun juuid :: "json \<Rightarrow> uuid result" where
  "juuid (JStr s) = (case uuid_parse s of None \<Rightarrow> Inl ValueError | Some u \<Rightarrow> Inr u)"
| "juuid JNull = Inl TypeError"
| "juuid (JObj fs) = Inl AttributeError"

section \<open>Event types\<close>

datatype EventType =
    DIRECT_MESSAGE_EVENT | GROUP_MESSAGE_EVENT | GROUP_MEMBERSHIP_EVENT | GROUP_DELETED_EVENT
  | USER_INVALIDATED_EVENT | TOKEN_REVOKED_EVENT

fun event_type_value :: "EventType \<Rightarrow> string" where
  "event_type_value DIRECT_MESSAGE_EVENT = ''direct_message''"
| "event_type_value GROUP_MESSAGE_EVENT = ''group_message''"
| "event_type_value GROUP_MEMBERSHIP_EVENT = ''group_membership''"
| "event_type_value GROUP_DELETED_EVENT = ''group_deleted''"
| "event_type_value USER_INVALIDATED_EVENT = ''user_invalidated''"
| "event_type_value TOKEN_REVOKED_EVENT = ''token_revoked''"

datatype MembershipAction = JOIN | LEAVE

fun action_value :: "MembershipAction \<Rightarrow> string" where
  "action_value JOIN = ''JOIN''"
| "action_value LEAVE = ''LEAVE''"

text \<open>\<open>MembershipAction(s)\<close> raises \<open>ValueError\<close> on any other text.\<close>

definition membership_action :: "json \<Rightarrow> MembershipAction result" where
  "membership_action v =
     (if v = JStr ''JOIN'' then Inr JOIN else if v = JStr ''LEAVE'' then Inr LEAVE else Inl ValueError)"

section \<open>Events\<close>

datatype RedisEvent =
    DirectMessageEvent (dme_message_id: uuid) (dme_sender_id: uuid) (dme_recipient_id: uuid)
      (dme_content: string) (dme_created_at: timestamp)
  | GroupMessageEvent (gme_message_id: uuid) (gme_group_id: uuid) (gme_sender_id: uuid)
      (gme_content: string) (gme_created_at: timestamp)
  | GroupMembershipEvent MembershipAction (gmb_user_id: uuid) (gmb_group_id: uuid)
  | GroupDeletedEvent uuid
  | UserInvalidatedEvent uuid
  | TokenRevokedEvent string

text \<open>The \<open>event\<close> field of each class, its class default.\<close>

fun event_of :: "RedisEvent \<Rightarrow> EventType" where
  "event_of (DirectMessageEvent m s r c t) = DIRECT_MESSAGE_EVENT"
| "event_of (GroupMessageEvent m g s c t) = GROUP_MESSAGE_EVENT"
| "event_of (GroupMembershipEvent a u g) = GROUP_MEMBERSHIP_EVENT"
| "event_of (GroupDeletedEvent g) = GROUP_DELETED_EVENT"
| "event_of (UserInvalidatedEvent u) = USER_INVALIDATED_EVENT"
| "event_of (TokenRevokedEvent h) = TOKEN_REVOKED_EVENT"

text \<open>
  \<open>RedisEvent.to_dict\<close>: the fields in declaration order, the inherited \<open>event\<close> first; identifiers
  and enumeration members become text, instants their ISO form, other values are kept.
\<close>

fun event_fields :: "RedisEvent \<Rightarrow> (string \<times> json) list" where
  "event_fields (DirectMessageEvent m s r c t) =
     [(''message_id'', JStr (uuid_str m)), (''sender_id'', JStr (uuid_str s)),
      (''recipient_id'', JStr (uuid_str r)), (''content'', JStr c), (''created_at'', JStr (isoformat t))]"
| "event_fields (GroupMessageEvent m g s c t) =
     [(''message_id'', JStr (uuid_str m)), (''group_id'', JStr (uuid_str g)),
      (''sender_id'', JStr (uuid_str s)), (''content'', JStr c), (''created_at'', JStr (isoformat t))]"
| "event_fields (GroupMembershipEvent a u g) =
     [(''action'', JStr (action_value a)), (''user_id'', JStr (uuid_str u)), (''group_id'', JStr (uuid_str g))]"
| "event_fields (GroupDeletedEvent g) = [(''group_id'', JStr (uuid_str g))]"
| "event_fields (UserInvalidatedEvent u) = [(''user_id'', JStr (uuid_str u))]"
| "event_fields (TokenRevokedEvent h) = [(''token_hash'', JStr h)]"

definition to_dict :: "RedisEvent \<Rightarrow> json" where
  "to_dict e = JObj ((''event'', JStr (event_type_value (event_of e))) # event_fields e)"

definition dm_event_from_model :: "DirectMessage \<Rightarrow> RedisEvent" where
  "dm_event_from_model dm =
     DirectMessageEvent (dm_message_id dm) (dm_sender_id dm) (dm_recipient_id dm) (dm_content dm) (dm_created_at dm)"

definition gm_event_from_model :: "GroupMessage \<Rightarrow> RedisEvent" where
  "gm_event_from_model msg =
     GroupMessageEvent (gm_message_id msg) (gm_group_id msg) (gm_sender_id msg) (gm_content msg) (gm_created_at msg)"

lemma juuid_uuid_str [simp]: "juuid (JStr (uuid_str u)) = Inr u"
  by simp

lemma membership_action_value [simp]: "membership_action (JStr (action_value a)) = Inr a"
  by (cases a) (simp_all add: membership_action_def)

lemma event_type_value_inject [simp]: "event_type_value a = event_type_value b \<longleftrightarrow> a = b"
  by (cases a; cases b) simp_all

lemma jget_event [simp]: "jget (to_dict e) ''event'' = Inr (Some (JStr (event_type_value (event_of e))))"
  by (simp add: to_dict_def)

end
