(* ===== verification/Redis_Layer.thy ===== *)
theory Redis_Layer
  imports Events
begin

text \<open>
  The Redis side: the error decorator of \<open>src/src/redis/errors.py\<close>, publishing to the Pub/Sub
  channel and to the event stream, and the presence counters of \<open>src/src/redis/queries.py\<close>.
  The Redis server is not part of the program: its hash commands are the fields of
  \<open>redis_ops\<close>, an argument of the definitions, and \<open>redis_hash_laws\<close> states the documented
  behaviour the counters rely on.
\<close>

section \<open>Driver errors\<close>

datatype redis_exc = DriverTimeoutError string | DriverConnectionError string | DriverRedisError string

text \<open>\<open>handle_redis_errors\<close>: the clauses in their order.\<close>

definition handle_redis_errors :: "string \<Rightarrow> redis_exc + 'a \<Rightarrow> 'a result" where
  "handle_redis_errors fname r =
     (case r of
        Inr x \<Rightarrow> Inr x
      | Inl (DriverTimeoutError m) \<Rightarrow>
          Inl (RedisExn (RedisTimeoutError (''Redis operation timed out in '' @ fname @ '': '' @ m)))
      | Inl (DriverConnectionError m) \<Rightarrow>
          Inl (RedisExn (RedisConnectionError (''Redis connection failed in '' @ fname @ '': '' @ m)))
      | Inl (DriverRedisError m) \<Rightarrow>
          Inl (RedisExn (RedisCommandError (''Redis command failed in '' @ fname @ '': '' @ m))))"

lemma handle_redis_errors_Inr [simp]: "handle_redis_errors f (Inr x) = Inr x"
  by (simp add: handle_redis_errors_def)

lemma handle_redis_errors_cases:
  "(\<exists>x. r = Inr x \<and> handle_redis_errors f r = Inr x) \<or> (\<exists>e. handle_redis_errors f r = Inl (RedisExn e))"
  by (auto simp: handle_redis_errors_def split: sum.splits redis_exc.splits)

section \<open>Side effects outside the database\<close>

text \<open>
  What a request emits, in order: a payload published on the channel \<open>ws_pushes\<close>, an event added
  to the stream, and a transactional pipeline of key commands.
\<close>

datatype redis_cmd = DEL "string list" | SREM string string

datatype effect =
    Publish json
  | StreamAdd json
  | Pipeline "redis_cmd list"

text \<open>
  Publishing to the stream: \<open>fault\<close> is the error the driver raises, if it does; the event is added
  only when it does not.
\<close>

definition publish_stream_event :: "redis_exc option \<Rightarrow> RedisEvent \<Rightarrow> unit result \<times> effect list" where
  "publish_stream_event fault event =
     (case fault of
        None \<Rightarrow> (Inr (), [StreamAdd (to_dict event)])
      | Some e \<Rightarrow> (handle_redis_errors ''publish_stream_event'' (Inl e), []))"

definition publish_ws_push :: "redis_exc option \<Rightarrow> json \<Rightarrow> unit result \<times> effect list" where
  "publish_ws_push fault payload =
     (case fault of
        None \<Rightarrow> (Inr (), [Publish payload])
      | Some e \<Rightarrow> (handle_redis_errors ''publish_ws_push'' (Inl e), []))"

section \<open>Hash commands\<close>

record 'r redis_ops =
  op_hincrby :: "'r \<Rightarrow> string \<Rightarrow> string \<Rightarrow> int \<Rightarrow> int \<times> 'r"
  op_hdel :: "'r \<Rightarrow> string \<Rightarrow> string \<Rightarrow> 'r"
  op_hkeys :: "'r \<Rightarrow> string \<Rightarrow> string list"
  op_hget :: "'r \<Rightarrow> string \<Rightarrow> string \<Rightarrow> int option"

text \<open>
  HINCRBY adds to the field (an absent field counts as 0) and returns the new value, HDEL removes
  the field, HKEYS lists the fields; no command touches another field or another key.
\<close>

definition redis_hash_laws :: "'r redis_ops \<Rightarrow> bool" where
  "redis_hash_laws R \<longleftrightarrow>
     (\<forall>r k f n. fst (op_hincrby R r k f n) = (case op_hget R r k f of None \<Rightarrow> 0 | Some c \<Rightarrow> c) + n) \<and>
     (\<forall>r k f n k' f'. op_hget R (snd (op_hincrby R r k f n)) k' f' =
        (if k' = k \<and> f' = f then Some (fst (op_hincrby R r k f n)) else op_hget R r k' f')) \<and>
     (\<forall>r k f k' f'. op_hget R (op_hdel R r k f) k' f' =
        (if k' = k \<and> f' = f then None else op_hget R r k' f')) \<and>
     (\<forall>r k f. f \<in> set (op_hkeys R r k) \<longleftrightarrow> op_hget R r k f \<noteq> None)"

lemma redis_hash_lawsD:
  assumes "redis_hash_laws R"
  shows "fst (op_hincrby R r k f n) = (case op_hget R r k f of None \<Rightarrow> 0 | Some c \<Rightarrow> c) + n"
    and "op_hget R (snd (op_hincrby R r k f n)) k' f' =
      (if k' = k \<and> f' = f then Some (fst (op_hincrby R r k f n)) else op_hget R r k' f')"
    and "op_hget R (op_hdel R r k f) k' f' = (if k' = k \<and> f' = f then None else op_hget R r k' f')"
    and "f \<in> set (op_hkeys R r k) \<longleftrightarrow> op_hget R r k f \<noteq> None"
  using assms unfolding redis_hash_laws_def by blast+

section \<open>Presence counters\<close>

definition REDIS_KEY :: string where
  "REDIS_KEY = ''active_user_counts''"

definition add_active_user :: "'r redis_ops \<Rightarrow> string \<Rightarrow> 'r \<Rightarrow> 'r" where
  "add_active_user R user_id r = snd (op_hincrby R r REDIS_KEY user_id 1)"

text \<open>Two commands: the decrement, and the removal of the field when the counter is used up.\<close>

definition remove_active_user_decr :: "'r redis_ops \<Rightarrow> string \<Rightarrow> 'r \<Rightarrow> int \<times> 'r" where
  "remove_active_user_decr R user_id r = op_hincrby R r REDIS_KEY user_id (-1)"

definition remove_active_user_drop :: "'r redis_ops \<Rightarrow> string \<Rightarrow> int \<Rightarrow> 'r \<Rightarrow> 'r" where
  "remove_active_user_drop R user_id cnt r =
     (if cnt \<le> 0 then op_hdel R r REDIS_KEY user_id else r)"

definition remove_active_user :: "'r redis_ops \<Rightarrow> string \<Rightarrow> 'r \<Rightarrow> 'r" where
  "remove_active_user R user_id r =
     (case remove_active_user_decr R user_id r of (cnt, r') \<Rightarrow> remove_active_user_drop R user_id cnt r')"

definition get_active_users :: "'r redis_ops \<Rightarrow> 'r \<Rightarrow> string set" where
  "get_active_users R r = set (op_hkeys R r REDIS_KEY)"

text \<open>The commands queued on the pipeline before \<open>execute\<close>.\<close>

definition invalidate_deleted_group_cache :: "string \<Rightarrow> string list \<Rightarrow> effect" where
  "invalidate_deleted_group_cache group_id member_ids =
     Pipeline (DEL [''group:'' @ group_id, ''group:'' @ group_id @ '':members''] #
       map (\<lambda>member_id. SREM (''user:'' @ member_id @ '':groups'') group_id) member_ids)"

end
