(* ===== verification/WebSocket_Manager.thy ===== *)
theory WebSocket_Manager
  imports Connection Redis_Layer
begin

text \<open>
  \<open>WebSocketManager\<close> of \<open>src/src/services/websocket.py\<close>: the worker-local routing registries, the
  registration and removal of sockets, and the dispatch of Pub/Sub payloads to local sockets.
  A coroutine runs without interruption between two \<open>await\<close>s, so an operation with an \<open>await\<close> in
  the middle is split there: \<open>register_connection\<close> into its opening, the Redis and database calls,
  and its completion; the handling of a deleted group into its snapshot and its clean-up.
\<close>

section \<open>The registries\<close>

type_synonym socket = nat

record ws_state =
  local_connections :: "uuid \<rightharpoonup> socket set"
  group_connections :: "uuid \<rightharpoonup> uuid set"
  user_groups :: "uuid \<rightharpoonup> uuid set"

definition empty_ws :: ws_state where
  "empty_ws = \<lparr>local_connections = Map.empty, group_connections = Map.empty, user_groups = Map.empty\<rparr>"

text \<open>\<open>defaultdict(set)\<close>: subscripting a missing key enters an empty set for it.\<close>

definition dget :: "('k \<rightharpoonup> 'v set) \<Rightarrow> 'k \<Rightarrow> 'v set" where
  "dget m k = (case m k of None \<Rightarrow> {} | Some s \<Rightarrow> s)"

definition dadd :: "'k \<Rightarrow> 'v \<Rightarrow> ('k \<rightharpoonup> 'v set) \<Rightarrow> ('k \<rightharpoonup> 'v set)" where
  "dadd k x m = m(k \<mapsto> insert x (dget m k))"

definition ddiscard :: "'k \<Rightarrow> 'v \<Rightarrow> ('k \<rightharpoonup> 'v set) \<Rightarrow> ('k \<rightharpoonup> 'v set)" where
  "ddiscard k x m = m(k \<mapsto> dget m k - {x})"

text \<open>\<open>m[k].discard(x)\<close> followed by \<open>if not m[k]: m.pop(k, None)\<close>.\<close>

definition ddrop :: "'k \<Rightarrow> 'v \<Rightarrow> ('k \<rightharpoonup> 'v set) \<Rightarrow> ('k \<rightharpoonup> 'v set)" where
  "ddrop k x m = (let m' = ddiscard k x m in if dget m' k = {} then m'(k := None) else m')"

text \<open>
  The two loops over a set of groups.  Python visits the set in some order; the result does not
  depend on it, as \<open>add_to_groups_loop\<close> and \<open>drop_from_groups_loop\<close> below state.
\<close>

definition add_to_groups :: "uuid \<Rightarrow> uuid set \<Rightarrow> (uuid \<rightharpoonup> uuid set) \<Rightarrow> (uuid \<rightharpoonup> uuid set)" where
  "add_to_groups u gs m = (\<lambda>g. if g \<in> gs then Some (insert u (dget m g)) else m g)"

definition drop_from_groups :: "uuid \<Rightarrow> uuid set \<Rightarrow> (uuid \<rightharpoonup> uuid set) \<Rightarrow> (uuid \<rightharpoonup> uuid set)" where
  "drop_from_groups u gs m =
     (\<lambda>g. if g \<in> gs then (if dget m g - {u} = {} then None else Some (dget m g - {u})) else m g)"

section \<open>Registration\<close>

text \<open>The opening of \<open>register_connection\<close>, up to its first \<open>await\<close>.\<close>

definition register_begin :: "uuid \<Rightarrow> socket \<Rightarrow> ws_state \<Rightarrow> ws_state" where
  "register_begin user_id ws s = s\<lparr>local_connections := dadd user_id ws (local_connections s)\<rparr>"

text \<open>
  The group ids loaded from the database; a time-out or any error of the query is logged and
  counts as no groups.
\<close>

definition load_group_ids :: "db_env \<Rightarrow> bool \<Rightarrow> uuid \<Rightarrow> db \<Rightarrow> uuid set" where
  "load_group_ids env timed_out user_id d =
     (if timed_out then {}
      else case connection env (db_list_user_groups user_id) d of
        Inl e \<Rightarrow> {}
      | Inr gs \<Rightarrow> g_group_id ` set gs)"

text \<open>The completion, only if the socket was not disconnected meanwhile.\<close>

definition register_finish :: "uuid \<Rightarrow> socket \<Rightarrow> uuid set \<Rightarrow> ws_state \<Rightarrow> ws_state" where
  "register_finish user_id ws user_group_ids s =
     (if ws \<in> dget (local_connections s) user_id
      then s\<lparr>user_groups := (user_groups s)(user_id \<mapsto> dget (user_groups s) user_id \<union> user_group_ids),
             group_connections := add_to_groups user_id user_group_ids (group_connections s)\<rparr>
      else s)"

text \<open>
  \<open>register_connection\<close> without interleaving: \<open>fault\<close> is the driver error \<open>add_active_user\<close> may
  raise, which leaves the socket in the local registry and ends the call.
\<close>

definition register_connection ::
    "'r redis_ops \<Rightarrow> redis_exc option \<Rightarrow> db_env \<Rightarrow> bool \<Rightarrow> db \<Rightarrow> uuid \<Rightarrow> socket \<Rightarrow>
     ws_state \<times> 'r \<Rightarrow> unit result \<times> ws_state \<times> 'r" where
  "register_connection R fault env timed_out d user_id ws sr =
     (let s1 = register_begin user_id ws (fst sr)
      in case fault of
           Some e \<Rightarrow> (handle_redis_errors ''add_active_user'' (Inl e), s1, snd sr)
         | None \<Rightarrow>
             (Inr (),
              register_finish user_id ws (load_group_ids env timed_out user_id d) s1,
              add_active_user R (uuid_str user_id) (snd sr)))"

section \<open>Removal\<close>

text \<open>
  The body of \<open>unregister_connection\<close> before its \<open>await\<close>; the flag says whether the user has no
  socket left, in which case the Redis counter is decremented next.
\<close>

definition unregister_local :: "uuid \<Rightarrow> socket \<Rightarrow> ws_state \<Rightarrow> bool \<times> ws_state" where
  "unregister_local user_id ws s =
     (let lc = local_connections s;
          lc1 = (if dget lc user_id = {} then lc else ddiscard user_id ws lc)
      in if dget lc1 user_id = {}
         then (True,
               s\<lparr>local_connections := lc1(user_id := None),
                 user_groups := (user_groups s)(user_id := None),
                 group_connections :=
                   drop_from_groups user_id (dget (user_groups s) user_id) (group_connections s)\<rparr>)
         else (False, s\<lparr>local_connections := lc1\<rparr>))"

definition unregister_connection ::
    "'r redis_ops \<Rightarrow> uuid \<Rightarrow> socket \<Rightarrow> ws_state \<times> 'r \<Rightarrow> ws_state \<times> 'r" where
  "unregister_connection R user_id ws sr =
     (case unregister_local user_id ws (fst sr) of
        (final, s') \<Rightarrow>
          (s', if final then remove_active_user R (uuid_str user_id) (snd sr) else snd sr))"

definition fetch_active_users :: "'r redis_ops \<Rightarrow> 'r \<Rightarrow> uuid option set" where
  "fetch_active_users R r = uuid_parse ` get_active_users R r"

section \<open>Publishing\<close>

definition push_group_membership_change :: "uuid \<Rightarrow> uuid \<Rightarrow> MembershipAction \<Rightarrow> json" where
  "push_group_membership_change user_id group_id action =
     JObj [(''data'', to_dict (GroupMembershipEvent action user_id group_id))]"

definition push_group_deleted :: "uuid \<Rightarrow> json" where
  "push_group_deleted group_id = JObj [(''data'', to_dict (GroupDeletedEvent group_id))]"

definition push_to_user :: "uuid \<Rightarrow> RedisEvent \<Rightarrow> json" where
  "push_to_user user_id event =
     JObj [(''user_id'', JStr (uuid_str user_id)), (''data'', to_dict event)]"

definition push_to_group :: "uuid \<Rightarrow> RedisEvent \<Rightarrow> uuid option \<Rightarrow> json" where
  "push_to_group group_id event sender_id =
     JObj [(''group_id'', JStr (uuid_str group_id)),
           (''sender_id'', case sender_id of None \<Rightarrow> JNull | Some u \<Rightarrow> JStr (uuid_str u)),
           (''data'', to_dict event)]"

section \<open>Dispatch\<close>

text \<open>
  The frames a dispatch attempts, as pairs of socket and JSON value.  Each attempt is made once per
  socket of the user; a failed or slow send is logged and dropped.
\<close>

type_synonym frames = "(socket \<times> json) set"

definition send_frame_to_user_sockets :: "uuid \<Rightarrow> json \<Rightarrow> ws_state \<Rightarrow> frames" where
  "send_frame_to_user_sockets user_id payload s =
     (\<lambda>ws. (ws, payload)) ` dget (local_connections s) user_id"

definition membership_join :: "uuid \<Rightarrow> uuid \<Rightarrow> ws_state \<Rightarrow> ws_state" where
  "membership_join user_id group_id s =
     (if local_connections s user_id \<noteq> None
      then s\<lparr>group_connections := dadd group_id user_id (group_connections s),
             user_groups := dadd user_id group_id (user_groups s)\<rparr>
      else s)"

definition membership_leave :: "uuid \<Rightarrow> uuid \<Rightarrow> ws_state \<Rightarrow> ws_state" where
  "membership_leave user_id group_id s =
     s\<lparr>group_connections := ddrop group_id user_id (group_connections s),
       user_groups :=
         (if user_groups s user_id \<noteq> None then ddiscard user_id group_id (user_groups s) else user_groups s)\<rparr>"

definition handle_membership_change :: "json \<Rightarrow> ws_state \<Rightarrow> (frames \<times> ws_state) result" where
  "handle_membership_change data s =
     res_bind (res_bind (jindex data ''user_id'') juuid) (\<lambda>user_id.
     res_bind (res_bind (jindex data ''group_id'') juuid) (\<lambda>group_id.
     res_bind (res_bind (jindex data ''action'') membership_action) (\<lambda>action.
       let s' = (case action of
                   JOIN \<Rightarrow> membership_join user_id group_id s
                 | LEAVE \<Rightarrow> membership_leave user_id group_id s)
       in Inr (send_frame_to_user_sockets user_id data s', s'))))"

text \<open>
  A deleted group: the members are read and notified, then, after the sends, the group is removed
  from the index of each member that was read and from the routing table.
\<close>

definition group_deleted_finish :: "uuid \<Rightarrow> uuid set \<Rightarrow> ws_state \<Rightarrow> ws_state" where
  "group_deleted_finish group_id local_members s =
     s\<lparr>user_groups := (\<lambda>m. if m \<in> local_members
                            then map_option (\<lambda>gs. gs - {group_id}) (user_groups s m)
                            else user_groups s m),
       group_connections := (group_connections s)(group_id := None)\<rparr>"

definition handle_group_deleted :: "json \<Rightarrow> ws_state \<Rightarrow> (frames \<times> ws_state) result" where
  "handle_group_deleted data s =
     res_bind (res_bind (jindex data ''group_id'') juuid) (\<lambda>group_id.
       let local_members = dget (group_connections s) group_id
       in Inr (\<Union>m\<in>local_members. send_frame_to_user_sockets m data s,
               group_deleted_finish group_id local_members s))"

definition dispatch_direct_message :: "json \<Rightarrow> json \<Rightarrow> ws_state \<Rightarrow> (frames \<times> ws_state) result" where
  "dispatch_direct_message raw_user_id data s =
     res_bind (juuid raw_user_id) (\<lambda>user_id. Inr (send_frame_to_user_sockets user_id data s, s))"

definition dispatch_group_message :: "json \<Rightarrow> ws_state \<Rightarrow> (frames \<times> ws_state) result" where
  "dispatch_group_message payload s =
     res_bind (res_bind (jindex payload ''group_id'') juuid) (\<lambda>group_id.
     res_bind (jget payload ''sender_id'') (\<lambda>raw_sender.
     res_bind (case raw_sender of
                 Some v \<Rightarrow> if jtruthy v then res_bind (juuid v) (\<lambda>u. Inr (Some u)) else Inr None
               | None \<Rightarrow> Inr None) (\<lambda>sender_id.
     res_bind (jget payload ''data'') (\<lambda>raw_data.
       let data = (case raw_data of Some v \<Rightarrow> if jtruthy v then v else JObj [] | None \<Rightarrow> JObj []);
           local_members = {m \<in> dget (group_connections s) group_id. Some m \<noteq> sender_id}
       in Inr (\<Union>m\<in>local_members. send_frame_to_user_sockets m data s, s)))))"

text \<open>\<open>_dispatch_local_message\<close>: the event type decides first, then the routing hints.\<close>

definition dispatch_local_message :: "json \<Rightarrow> ws_state \<Rightarrow> (frames \<times> ws_state) result" where
  "dispatch_local_message payload s =
     res_bind (jget payload ''data'') (\<lambda>raw_data.
       let data = (case raw_data of Some v \<Rightarrow> v | None \<Rightarrow> JObj [])
       in res_bind (jget data ''event'') (\<lambda>event_type.
         if event_type = Some (JStr (event_type_value GROUP_MEMBERSHIP_EVENT))
         then handle_membership_change data s
         else if event_type = Some (JStr (event_type_value GROUP_DELETED_EVENT))
         then handle_group_deleted data s
         else res_bind (jget payload ''user_id'') (\<lambda>raw_user_id.
           case raw_user_id of
             Some v \<Rightarrow>
               if jtruthy v then dispatch_direct_message v data s
               else res_bind (jget payload ''group_id'') (\<lambda>gid.
                 case gid of Some g \<Rightarrow> if jtruthy g then dispatch_group_message payload s else Inr ({}, s)
                           | None \<Rightarrow> Inr ({}, s))
           | None \<Rightarrow>
               res_bind (jget payload ''group_id'') (\<lambda>gid.
                 case gid of Some g \<Rightarrow> if jtruthy g then dispatch_group_message payload s else Inr ({}, s)
                           | None \<Rightarrow> Inr ({}, s)))))"

text \<open>
  \<open>_safe_dispatch\<close> of \<open>src/src/redis/pubsub.py\<close>: an error of the handler is logged and dropped.
\<close>

definition safe_dispatch :: "json \<Rightarrow> ws_state \<Rightarrow> frames \<times> ws_state" where
  "safe_dispatch payload s =
     (case dispatch_local_message payload s of Inl e \<Rightarrow> ({}, s) | Inr r \<Rightarrow> r)"

section \<open>Facts about the registries\<close>

lemma dget_Some [simp]: "m k = Some s \<Longrightarrow> dget m k = s"
  by (simp add: dget_def)

lemma dget_None [simp]: "m k = None \<Longrightarrow> dget m k = {}"
  by (simp add: dget_def)

lemma dget_upd [simp]: "dget (m(k \<mapsto> s)) k' = (if k' = k then s else dget m k')"
  by (simp add: dget_def)

lemma dget_del [simp]: "dget (m(k := None)) k' = (if k' = k then {} else dget m k')"
  by (simp add: dget_def)

lemma dget_dadd [simp]: "dget (dadd k x m) k' = (if k' = k then insert x (dget m k) else dget m k')"
  by (simp add: dadd_def)

lemma dget_ddiscard [simp]: "dget (ddiscard k x m) k' = (if k' = k then dget m k - {x} else dget m k')"
  by (simp add: ddiscard_def)

lemma dget_ddrop [simp]: "dget (ddrop k x m) k' = (if k' = k then dget m k - {x} else dget m k')"
  by (auto simp: ddrop_def Let_def)

lemma dget_add_to_groups [simp]:
  "dget (add_to_groups u gs m) g = (if g \<in> gs then insert u (dget m g) else dget m g)"
  by (simp add: add_to_groups_def dget_def split: option.split)

lemma dget_drop_from_groups [simp]:
  "dget (drop_from_groups u gs m) g = (if g \<in> gs then dget m g - {u} else dget m g)"
  by (simp add: drop_from_groups_def dget_def split: option.split)

lemma dget_group_deleted [simp]:
  "dget (user_groups (group_deleted_finish g ms s)) u =
     (if u \<in> ms then dget (user_groups s) u - {g} else dget (user_groups s) u)"
  by (simp add: group_deleted_finish_def dget_def split: option.split)

lemma no_empty_entry [simp]:
  "dadd k x m k' = Some {} \<longleftrightarrow> k' \<noteq> k \<and> m k' = Some {}"
  "ddrop k x m k' = Some {} \<longleftrightarrow> k' \<noteq> k \<and> m k' = Some {}"
  "add_to_groups u gs mg g = Some {} \<longleftrightarrow> g \<notin> gs \<and> mg g = Some {}"
  "drop_from_groups u gs mg g = Some {} \<longleftrightarrow> g \<notin> gs \<and> mg g = Some {}"
  by (auto simp: dadd_def ddrop_def ddiscard_def add_to_groups_def drop_from_groups_def Let_def)

lemma dom_registry [simp]:
  "dom (dadd k x m) = insert k (dom m)"
  "dom (ddiscard k x m) = insert k (dom m)"
  by (auto simp: dadd_def ddiscard_def)

lemma in_domI_dget: "x \<in> dget m k \<Longrightarrow> m k \<noteq> None"
  by (auto simp: dget_def split: option.splits)

text \<open>The loops of the source, over any enumeration of the set without repetition.\<close>

lemma add_to_groups_loop:
  "fold (\<lambda>g m. dadd g u m) gs m = add_to_groups u (set gs) m"
proof (induction gs arbitrary: m)
  case Nil
  show ?case by (simp add: add_to_groups_def)
next
  case (Cons g gs)
  have "add_to_groups u (set gs) (dadd g u m) = add_to_groups u (set (g # gs)) m"
    by (rule ext) (auto simp: add_to_groups_def dadd_def)
  with Cons.IH [of "dadd g u m"] show ?case by simp
qed

lemma drop_from_groups_loop:
  "distinct gs \<Longrightarrow> fold (\<lambda>g m. ddrop g u m) gs m = drop_from_groups u (set gs) m"
proof (induction gs arbitrary: m)
  case Nil
  show ?case by (simp add: drop_from_groups_def)
next
  case (Cons g gs)
  have "drop_from_groups u (set gs) (ddrop g u m) = drop_from_groups u (set (g # gs)) m"
    using Cons.prems
    by (intro ext) (auto simp: drop_from_groups_def ddrop_def ddiscard_def Let_def)
  with Cons.IH [of "ddrop g u m"] Cons.prems show ?case by simp
qed

text \<open>Removal in one equation: the last socket takes the user's routing state with it.\<close>

lemma unregister_local_eq:
  "unregister_local u ws s =
     (if dget (local_connections s) u \<subseteq> {ws}
      then (True,
            s\<lparr>local_connections := (local_connections s)(u := None),
              user_groups := (user_groups s)(u := None),
              group_connections := drop_from_groups u (dget (user_groups s) u) (group_connections s)\<rparr>)
      else (False, s\<lparr>local_connections := (local_connections s)(u \<mapsto> dget (local_connections s) u - {ws})\<rparr>))"
proof (cases "dget (local_connections s) u = {}")
  case True
  then show ?thesis by (simp add: unregister_local_def)
next
  case False
  then show ?thesis
    by (simp add: unregister_local_def Let_def ddiscard_def fun_upd_upd)
qed

section \<open>What each published payload does to a worker\<close>

text \<open>A dispatched payload changes the registries through one of two handlers or not at all.\<close>

lemma dispatch_group_message_state:
  "dispatch_group_message payload s = Inr (fr, s') \<Longrightarrow> s' = s"
  by (auto simp: dispatch_group_message_def res_bind_iffs Let_def)

lemma dispatch_local_message_cases:
  assumes "dispatch_local_message payload s = Inr (fr, s')"
  obtains (membership) data where "handle_membership_change data s = Inr (fr, s')"
    | (deleted) data where "handle_group_deleted data s = Inr (fr, s')"
    | (unchanged) "s' = s"
proof -
  from assms obtain raw where
    "(\<exists>data. handle_membership_change data s = Inr (fr, s')) \<or>
     (\<exists>data. handle_group_deleted data s = Inr (fr, s')) \<or>
     (\<exists>v data. dispatch_direct_message v data s = Inr (fr, s')) \<or>
     dispatch_group_message payload s = Inr (fr, s') \<or> s' = s"
    unfolding dispatch_local_message_def Let_def res_bind_iffs
    by (fastforce split: if_splits option.splits simp: res_bind_iffs)
  then show thesis
    using that by (auto simp: dispatch_direct_message_def res_bind_iffs dest: dispatch_group_message_state)
qed

lemma dispatch_membership:
  "dispatch_local_message (push_group_membership_change u g a) s =
     (let s' = (case a of JOIN \<Rightarrow> membership_join u g s | LEAVE \<Rightarrow> membership_leave u g s)
      in Inr (send_frame_to_user_sockets u (to_dict (GroupMembershipEvent a u g)) s', s'))"
  by (simp add: dispatch_local_message_def push_group_membership_change_def handle_membership_change_def
      Let_def to_dict_def)

lemma dispatch_group_deleted:
  "dispatch_local_message (push_group_deleted g) s =
     (let ms = dget (group_connections s) g
      in Inr (\<Union>m\<in>ms. send_frame_to_user_sockets m (to_dict (GroupDeletedEvent g)) s,
              group_deleted_finish g ms s))"
  by (simp add: dispatch_local_message_def push_group_deleted_def handle_group_deleted_def
      Let_def to_dict_def)

text \<open>The events that carry a message, as opposed to a change of the registries.\<close>

definition message_event :: "RedisEvent \<Rightarrow> bool" where
  "message_event e = (event_of e \<noteq> GROUP_MEMBERSHIP_EVENT \<and> event_of e \<noteq> GROUP_DELETED_EVENT)"

lemma dispatch_to_user:
  "message_event e \<Longrightarrow>
     dispatch_local_message (push_to_user u e) s = Inr (send_frame_to_user_sockets u (to_dict e) s, s)"
  by (simp add: dispatch_local_message_def push_to_user_def dispatch_direct_message_def
      message_event_def del: event_type_value.simps)

lemma jtruthy_to_dict [simp]: "jtruthy (to_dict e)"
  by (simp add: to_dict_def)

lemma dispatch_to_group:
  "message_event e \<Longrightarrow>
     dispatch_local_message (push_to_group g e sender) s =
       Inr (\<Union>m \<in> {m \<in> dget (group_connections s) g. Some m \<noteq> sender}.
              send_frame_to_user_sockets m (to_dict e) s, s)"
  by (cases sender)
    (simp_all add: dispatch_local_message_def push_to_group_def dispatch_group_message_def
      message_event_def Let_def del: event_type_value.simps)

lemma in_frames_iff:
  "(ws, j) \<in> send_frame_to_user_sockets u p s \<longleftrightarrow> j = p \<and> ws \<in> dget (local_connections s) u"
  by (auto simp: send_frame_to_user_sockets_def)

end
