(* ===== verification/Group_Service.thy ===== *)
theory Group_Service
  imports User_Service WebSocket_Manager
begin

text \<open>
  \<open>GroupService\<close> of \<open>src/src/services/group.py\<close>.  A method returns its result, the database it
  leaves and what its background task emits: the task is spawned after the transaction block, so
  there is something to emit only when the transaction committed.  The identifiers and instants a
  model constructor draws (\<open>uuid_v4()\<close>, \<open>current_ts()\<close>) are arguments.
\<close>

section \<open>Results with effects\<close>

text \<open>
  \<open>spawn_task\<close> of \<open>src/src/utils/tasks.py\<close>: an error of the task is logged, what it emitted
  before stays.
\<close>

definition spawn_task :: "unit result \<times> effect list \<Rightarrow> effect list" where
  "spawn_task task = snd task"

text \<open>The rest of a method after its transaction block: reached only when the block committed.\<close>

definition after_commit :: "'a result \<times> db \<Rightarrow> ('a \<Rightarrow> effect list) \<Rightarrow> 'a result \<times> db \<times> effect list" where
  "after_commit res k =
     (case res of
        (Inl e, d) \<Rightarrow> (Inl e, d, [])
      | (Inr x, d) \<Rightarrow> (Inr x, d, k x))"

definition decorated :: "('a result \<Rightarrow> 'b result) \<Rightarrow> 'a result \<times> 'c \<Rightarrow> 'b result \<times> 'c" where
  "decorated f p = map_prod f id p"

section \<open>Groups\<close>

definition create_group_body :: "Group \<Rightarrow> Membership \<Rightarrow> Group tx" where
  "create_group_body group_entity membership_entity =
     tx_bind (db_create_group group_entity) (\<lambda>grp.
     tx_bind (db_add_group_member membership_entity) (\<lambda>_. tx_return grp))"

definition create_group ::
    "db_env \<Rightarrow> redis_exc option \<Rightarrow> uuid \<Rightarrow> timestamp \<Rightarrow> timestamp \<Rightarrow> uuid \<Rightarrow> string \<Rightarrow> db \<Rightarrow>
     (Group \<times> Membership) result \<times> db \<times> effect list" where
  "create_group env fault new_id created joined creator_id name d =
     (let group_entity = \<lparr>g_group_id = new_id, g_name = name, g_created_by = Some creator_id, g_created_at = created\<rparr>;
          membership_entity = \<lparr>mb_group_id = g_group_id group_entity, mb_user_id = creator_id, mb_joined_at = joined\<rparr>
      in decorated (\<lambda>r. handle_db_constraint_error []
             [(''creator_id'', PUuid creator_id), (''name'', PStr name)]
             (res_bind r (\<lambda>grp. Inr (grp, membership_entity))))
           (after_commit (transaction env (create_group_body group_entity membership_entity) d)
             (\<lambda>grp. spawn_task (publish_ws_push fault
                (push_group_membership_change creator_id (g_group_id grp) JOIN)))))"

definition list_group_members :: "db_env \<Rightarrow> uuid \<Rightarrow> db \<Rightarrow> Membership list result" where
  "list_group_members env group_id d = connection env (db_list_group_memberships group_id) d"

definition get_group_details :: "db_env \<Rightarrow> uuid \<Rightarrow> uuid \<Rightarrow> db \<Rightarrow> Group option result" where
  "get_group_details env actor_id group_id d =
     guarded [] [] [(''actor_id'', PUuid actor_id), (''group_id'', PUuid group_id)]
       (connection env (\<lambda>d. res_bind (db_get_group_by_id group_id d) (\<lambda>grp.
          res_bind (db_get_membership group_id actor_id d) (\<lambda>_. Inr grp))) d)"

definition list_user_groups :: "db_env \<Rightarrow> uuid \<Rightarrow> db \<Rightarrow> Group list result" where
  "list_user_groups env user_id d = connection env (db_list_user_groups user_id) d"

section \<open>Members\<close>

definition add_member_body :: "timestamp \<Rightarrow> uuid \<Rightarrow> uuid \<Rightarrow> uuid \<Rightarrow> Membership tx" where
  "add_member_body joined actor_id group_id target_user_id =
     tx_bind (tx_read (db_get_group_by_id group_id)) (\<lambda>grp.
       if g_created_by grp \<noteq> Some actor_id
       then tx_raise (ServiceExn (InsufficientGroupPermissionError
              ''Only the group creator can add new members.''))
       else db_add_group_member
              \<lparr>mb_group_id = group_id, mb_user_id = target_user_id, mb_joined_at = joined\<rparr>)"

definition member_kwargs :: "uuid \<Rightarrow> uuid \<Rightarrow> uuid \<Rightarrow> kwargs" where
  "member_kwargs actor_id group_id target_user_id =
     [(''actor_id'', PUuid actor_id), (''group_id'', PUuid group_id), (''target_user_id'', PUuid target_user_id)]"

definition add_member ::
    "db_env \<Rightarrow> redis_exc option \<Rightarrow> timestamp \<Rightarrow> uuid \<Rightarrow> uuid \<Rightarrow> uuid \<Rightarrow> db \<Rightarrow>
     Membership option result \<times> db \<times> effect list" where
  "add_member env fault joined actor_id group_id target_user_id d =
     decorated (guarded [] [] (member_kwargs actor_id group_id target_user_id))
       (after_commit (transaction env (add_member_body joined actor_id group_id target_user_id) d)
         (\<lambda>_. spawn_task (publish_ws_push fault
            (push_group_membership_change target_user_id group_id JOIN))))"

definition remove_member_body :: "uuid \<Rightarrow> uuid \<Rightarrow> uuid \<Rightarrow> unit tx" where
  "remove_member_body actor_id group_id target_user_id =
     tx_bind (tx_read (db_get_group_by_id group_id)) (\<lambda>grp.
       if Some target_user_id = g_created_by grp
       then tx_raise (ServiceExn (InsufficientGroupPermissionError
              ''Group creator cannot leave the group. Delete the group instead.''))
       else
         (let is_self_removal = (actor_id = target_user_id);
              is_creator = (g_created_by grp = Some actor_id)
          in if \<not> (is_self_removal \<or> is_creator)
             then tx_raise (ServiceExn (InsufficientGroupPermissionError
                    ''Only the group creator can remove other members.''))
             else db_remove_group_member group_id target_user_id))"

definition remove_member ::
    "db_env \<Rightarrow> redis_exc option \<Rightarrow> uuid \<Rightarrow> uuid \<Rightarrow> uuid \<Rightarrow> db \<Rightarrow>
     unit option result \<times> db \<times> effect list" where
  "remove_member env fault actor_id group_id target_user_id d =
     decorated (guarded [] [] (member_kwargs actor_id group_id target_user_id))
       (after_commit (transaction env (remove_member_body actor_id group_id target_user_id) d)
         (\<lambda>_. spawn_task (publish_ws_push fault
            (push_group_membership_change target_user_id group_id LEAVE))))"

section \<open>Deletion\<close>

text \<open>The Redis keys go first; when that fails the notification is not sent.\<close>

definition handle_group_deletion_side_effects ::
    "redis_exc option \<Rightarrow> redis_exc option \<Rightarrow> uuid \<Rightarrow> uuid list \<Rightarrow> unit result \<times> effect list" where
  "handle_group_deletion_side_effects pipe_fault push_fault group_id member_user_ids =
     (let str_member_ids = map uuid_str member_user_ids
      in case pipe_fault of
           Some e \<Rightarrow> (handle_redis_errors ''invalidate_deleted_group_cache'' (Inl e), [])
         | None \<Rightarrow>
             (case publish_ws_push push_fault (push_group_deleted group_id) of
                (r, effs) \<Rightarrow> (r, invalidate_deleted_group_cache (uuid_str group_id) str_member_ids # effs)))"

definition delete_group_body :: "uuid \<Rightarrow> uuid \<Rightarrow> Membership list tx" where
  "delete_group_body actor_id group_id =
     tx_bind (tx_read (db_get_group_by_id group_id)) (\<lambda>grp.
       if g_created_by grp \<noteq> Some actor_id
       then tx_raise (ServiceExn (InsufficientGroupPermissionError
              ''Only the group creator can delete this group.''))
       else tx_bind (tx_read (db_list_group_memberships group_id)) (\<lambda>ms.
            tx_bind (db_delete_group group_id actor_id) (\<lambda>_. tx_return ms)))"

definition delete_group ::
    "db_env \<Rightarrow> redis_exc option \<Rightarrow> redis_exc option \<Rightarrow> uuid \<Rightarrow> uuid \<Rightarrow> db \<Rightarrow>
     unit option result \<times> db \<times> effect list" where
  "delete_group env pipe_fault push_fault actor_id group_id d =
     decorated (\<lambda>r. guarded [] [] [(''actor_id'', PUuid actor_id), (''group_id'', PUuid group_id)]
         (res_bind r (\<lambda>_. Inr ())))
       (after_commit (transaction env (delete_group_body actor_id group_id) d)
         (\<lambda>ms. spawn_task (handle_group_deletion_side_effects pipe_fault push_fault group_id
            (map mb_user_id ms))))"

section \<open>What is emitted, and when\<close>

lemma after_commit_simps [simp]:
  "after_commit (Inl e, d) k = (Inl e, d, [])"
  "after_commit (Inr x, d) k = (Inr x, d, k x)"
  by (simp_all add: after_commit_def)

lemma after_commit_db [simp]: "fst (snd (after_commit p k)) = snd p"
  by (cases p; cases "fst p") (auto simp: after_commit_def)

lemma decorated_simps [simp]:
  "fst (decorated f p) = f (fst p)" "snd (decorated f p) = snd p"
  "decorated f (r, x) = (f r, x)"
  by (simp_all add: decorated_def map_prod_def split_beta)

lemma spawn_ws_push [simp]:
  "spawn_task (publish_ws_push None payload) = [Publish payload]"
  "spawn_task (publish_ws_push (Some e) payload) = []"
  by (simp_all add: spawn_task_def publish_ws_push_def)

lemma guarded_Inr [simp]: "guarded cov ov kw (Inr x) = Inr (Some x)"
  by (simp add: guarded_def)

lemma guarded_Service [simp]: "guarded cov ov kw (Inl (ServiceExn s)) = Inl (ServiceExn s)"
  by (simp add: guarded_def)

lemma guarded_Inr_iff: "guarded cov ov kw r = Inr (Some x) \<longleftrightarrow> r = Inr x"
  by (simp add: guarded_def constraint_decorator_Inr_iff not_found_decorator_Inr_iff)

text \<open>A method with effects: they come from a committed transaction only.\<close>

lemma effects_committed:
  assumes "snd (snd (after_commit (transaction env body d) k)) \<noteq> []"
  shows "\<exists>x. body d = Inr (x, snd (transaction env body d)) \<and> fst (transaction env body d) = Inr x"
  using assms dbm.commit [of env body d]
  by (cases "transaction env body d"; cases "fst (transaction env body d)") auto

lemma after_commit_changed:
  "snd (after_commit (transaction env body d) k) \<noteq> (d, []) \<Longrightarrow> \<exists>x d'. body d = Inr (x, d')"
  using dbm.commit [of env body d] dbm.rollback [of env body d]
  by (cases "transaction env body d"; cases "fst (transaction env body d)") auto

text \<open>Case analysis on a decorated method: it failed and emitted nothing, or its body succeeded.\<close>

lemma after_commit_cases:
  assumes "\<And>e. P (f (Inl e)) d []" and "\<And>x d'. body d = Inr (x, d') \<Longrightarrow> P (f (Inr x)) d' (k x)"
  shows "case decorated f (after_commit (transaction env body d) k) of (r, d', effs) \<Rightarrow> P r d' effs"
  using assms dbm.commit [of env body d] dbm.rollback [of env body d]
  by (cases "transaction env body d"; cases "fst (transaction env body d)") auto

lemma spawn_cases:
  "spawn_task (publish_ws_push fault p) = (if fault = None then [Publish p] else [])"
  by (cases fault) simp_all

lemmas group_service_defs [tx_defs] =
  create_group_def add_member_def remove_member_def delete_group_def

lemmas group_bodies =
  create_group_body_def add_member_body_def remove_member_body_def delete_group_body_def

lemma group_body_writes [tx_writes]:
  "runs_writes (create_group_body ge me)" "runs_writes (add_member_body t a g u)"
  "runs_writes (remove_member_body a g u)" "runs_writes (delete_group_body a g)"
  unfolding group_bodies Let_def by (intro tx_writes)+

lemma GROUP_BY_ID_iff:
  "db_ok d \<Longrightarrow> GROUP_BY_ID g d = Some r \<longleftrightarrow> r \<in> set (groups d) \<and> g_group_id r = g"
  unfolding GROUP_BY_ID_def by (rule fetchrow_key_iff) (simp add: db_ok_defs)

lemma db_get_group_by_id_Inr: "db_get_group_by_id g d = Inr r \<longleftrightarrow> GROUP_BY_ID g d = Some r"
  by (simp add: db_get_group_by_id_def split: option.split)

lemma add_member_bodyD:
  assumes "add_member_body t actor g u d = Inr (m, d')"
  shows "\<exists>r. GROUP_BY_ID g d = Some r \<and> g_created_by r = Some actor"
    and "d' = d\<lparr>memberships := memberships d @ [\<lparr>mb_group_id = g, mb_user_id = u, mb_joined_at = t\<rparr>]\<rparr>"
  using assms
  by (auto simp: add_member_body_def tx_ops res_bind_iffs query_defs db_get_group_by_id_Inr split: if_splits)

lemma remove_member_bodyD:
  assumes "remove_member_body actor g u d = Inr (x, d')"
  shows "\<exists>r. GROUP_BY_ID g d = Some r \<and> g_created_by r \<noteq> Some u \<and> (actor = u \<or> g_created_by r = Some actor)"
    and "\<exists>m\<in>set (memberships d). mb_group_id m = g \<and> mb_user_id m = u"
    and "d' = d\<lparr>memberships := delete_where (\<lambda>m. mb_group_id m = g \<and> mb_user_id m = u) (memberships d)\<rparr>"
  using assms
  by (auto simp: remove_member_body_def tx_ops res_bind_iffs db_get_group_by_id_Inr Let_def
      db_remove_group_member_def REMOVE_GROUP_MEMBER_def split: if_splits)

lemma delete_group_bodyD:
  assumes "delete_group_body actor g d = Inr (ms, d')"
  shows "\<exists>r. GROUP_BY_ID g d = Some r \<and> g_created_by r = Some actor"
    and "ms = LIST_GROUP_MEMBERSHIPS g d" and "d' = snd (DELETE_GROUP g actor d)"
  using assms
  by (auto simp: delete_group_body_def tx_ops res_bind_iffs db_get_group_by_id_Inr
      db_list_group_memberships_def db_delete_group_def split: if_splits prod.splits)

lemma create_group_bodyD:
  assumes "create_group_body ge me d = Inr (x, d')"
  shows "x = ge \<and> d' = d\<lparr>groups := groups d @ [ge], memberships := memberships d @ [me]\<rparr>"
  using assms
  by (auto simp: create_group_body_def tx_ops res_bind_iffs query_defs split: if_splits option.splits)

text \<open>The group whose rows are all gone.\<close>

lemma DELETE_GROUP_rows:
  assumes "db_ok d" and "GROUP_BY_ID g d = Some r" and "g_created_by r = Some c"
  shows "snd (DELETE_GROUP g c d) =
    d\<lparr>groups := filter (\<lambda>s. g_group_id s \<noteq> g) (groups d),
      memberships := filter (\<lambda>m. mb_group_id m \<noteq> g) (memberships d),
      group_messages := filter (\<lambda>m. gm_group_id m \<noteq> g) (group_messages d)\<rparr>"
proof -
  from assms(1,2) have r: "r \<in> set (groups d)" "g_group_id r = g" by (simp_all add: GROUP_BY_ID_iff)
  have "g_group_id s = g \<and> g_created_by s = Some c \<longleftrightarrow> g_group_id s = g" if "s \<in> set (groups d)" for s
    using distinct_keyD [of g_group_id "groups d" s r] that r assms(1,3) by (auto simp: db_ok_defs)
  then have "delete_where (\<lambda>s. g_group_id s = g \<and> g_created_by s = Some c) (groups d) =
      filter (\<lambda>s. g_group_id s \<noteq> g) (groups d)"
    unfolding delete_where_def by (intro filter_cong) auto
  with r assms(3) show ?thesis by (auto simp: DELETE_GROUP_def Let_def delete_where_def)
qed

definition creators_are_members :: "db \<Rightarrow> bool" where
  "creators_are_members d \<longleftrightarrow>
     (\<forall>g\<in>set (groups d). \<forall>c. g_created_by g = Some c \<longrightarrow> (g_group_id g, c) \<in> mb_key ` set (memberships d))"

lemma creators_bodies:
  assumes "db_ok d" and "creators_are_members d"
  shows "create_group_body \<lparr>g_group_id = gid, g_name = name, g_created_by = Some c, g_created_at = t1\<rparr>
      \<lparr>mb_group_id = gid, mb_user_id = c, mb_joined_at = t2\<rparr> d = Inr (x1, d') \<Longrightarrow> creators_are_members d'"
    and "add_member_body t actor g u d = Inr (x2, d') \<Longrightarrow> creators_are_members d'"
    and "remove_member_body actor g u d = Inr (x3, d') \<Longrightarrow> creators_are_members d'"
    and "delete_group_body actor g d = Inr (x4, d') \<Longrightarrow> creators_are_members d'"
    and "db_delete_user u d = Inr (x5, d') \<Longrightarrow> creators_are_members d'"
proof -
  show "creators_are_members d'" if "create_group_body \<lparr>g_group_id = gid, g_name = name, g_created_by = Some c,
      g_created_at = t1\<rparr> \<lparr>mb_group_id = gid, mb_user_id = c, mb_joined_at = t2\<rparr> d = Inr (x1, d')"
    using create_group_bodyD [OF that] assms(2) by (auto simp: creators_are_members_def)
  show "creators_are_members d'" if "add_member_body t actor g u d = Inr (x2, d')"
    using add_member_bodyD(2) [OF that] assms(2) by (auto simp: creators_are_members_def)
  show "creators_are_members d'" if body: "remove_member_body actor g u d = Inr (x3, d')"
  proof -
    from remove_member_bodyD(1) [OF body] obtain r where
      r: "GROUP_BY_ID g d = Some r" "g_created_by r \<noteq> Some u" by blast
    have "g_created_by s \<noteq> Some u" if "s \<in> set (groups d)" "g_group_id s = g" for s
      using r that GROUP_BY_ID_iff [OF assms(1), of g s] by simp
    with assms(2) show ?thesis
      unfolding remove_member_bodyD(3) [OF body] creators_are_members_def by fastforce
  qed
  show "creators_are_members d'" if body: "delete_group_body actor g d = Inr (x4, d')"
  proof -
    from delete_group_bodyD [OF body] obtain r where
      r: "GROUP_BY_ID g d = Some r" "g_created_by r = Some actor" and d': "d' = snd (DELETE_GROUP g actor d)"
      by blast
    from assms(2) show ?thesis
      unfolding d' DELETE_GROUP_rows [OF assms(1) r] creators_are_members_def by fastforce
  qed
  show "creators_are_members d'" if "db_delete_user u d = Inr (x5, d')"
    using that assms(2)
    by (fastforce simp: db_delete_user_eq creators_are_members_def cascade_user_def split: if_splits)
qed

section \<open>Properties of the group service\<close>

text \<open>
  Every group operation changes the database by write statements of
  the schema only, whatever the infrastructure does.
\<close>

theorem group_writes_are_statements:
  "rtranclp db_write d (fst (snd (create_group env f gid t1 t2 c name d))) \<and>
   rtranclp db_write d (fst (snd (add_member env f t actor g u d))) \<and>
   rtranclp db_write d (fst (snd (remove_member env f actor g u d))) \<and>
   rtranclp db_write d (fst (snd (delete_group env pf f actor g d)))"
  by (simp add: tx_defs transaction_writes tx_writes Let_def)

text \<open>
  C16 (group_changes_authorised): Authorisation, whatever the infrastructure does and whatever the
  arguments are: when adding a member or deleting a group changes the database or emits anything,
  the caller created the group; when removing a member does, the target is not the creator and the
  caller is the creator or the target.
\<close>

theorem group_changes_authorised:
  "(snd (add_member env f t actor g u d) \<noteq> (d, []) \<longrightarrow>
      (\<exists>r. GROUP_BY_ID g d = Some r \<and> g_created_by r = Some actor)) \<and>
   (snd (delete_group env pf f actor g d) \<noteq> (d, []) \<longrightarrow>
      (\<exists>r. GROUP_BY_ID g d = Some r \<and> g_created_by r = Some actor)) \<and>
   (snd (remove_member env f actor g u d) \<noteq> (d, []) \<longrightarrow>
      (\<exists>r. GROUP_BY_ID g d = Some r \<and> g_created_by r \<noteq> Some u \<and>
           (actor = u \<or> g_created_by r = Some actor)))"
  unfolding tx_defs decorated_simps
  by (intro conjI impI; drule after_commit_changed)
    (auto dest: add_member_bodyD(1) delete_group_bodyD(1) remove_member_bodyD(1))

theorem group_changes_authorised_witness:
  "snd (delete_group healthy None None 1 10 sample_db) \<noteq> (sample_db, []) \<and>
   (\<exists>r. GROUP_BY_ID 10 sample_db = Some r \<and> g_created_by r = Some 1)"
proof -
  have "groups (fst (snd (delete_group healthy None None 1 10 sample_db))) = []"
    by (simp add: delete_group_def delete_group_body_def transaction_healthy tx_ops db_get_group_by_id_def
        GROUP_BY_ID_def db_list_group_memberships_def db_delete_group_def DELETE_GROUP_def sample_db_def
        count_where_def Let_def)
  moreover have "groups sample_db \<noteq> []" by (simp add: sample_db_def)
  ultimately have "snd (delete_group healthy None None 1 10 sample_db) \<noteq> (sample_db, [])" by auto
  with group_changes_authorised [of healthy None 0 1 10 1 sample_db None] show ?thesis by blast
qed

text \<open>
  No phantom broadcast: when a group operation emits anything, its
  transaction committed, its result is the value of the transaction, and the emitted messages are
  about the rows that were committed.
\<close>

theorem broadcasts_follow_commits:
  "(case create_group env f gid t1 t2 c name d of (r, d', effs) \<Rightarrow>
      effs = [] \<or> ((\<exists>m grp. r = Inr (grp, m) \<and> grp \<in> set (groups d') \<and> m \<in> set (memberships d')) \<and>
                   effs = [Publish (push_group_membership_change c gid JOIN)])) \<and>
   (case add_member env f t actor g u d of (r, d', effs) \<Rightarrow>
      effs = [] \<or> ((\<exists>m. r = Inr (Some m) \<and> m \<in> set (memberships d') \<and> mb_key m = (g, u)) \<and>
                   effs = [Publish (push_group_membership_change u g JOIN)])) \<and>
   (case remove_member env f actor g u d of (r, d', effs) \<Rightarrow>
      effs = [] \<or> (r = Inr (Some ()) \<and> (g, u) \<notin> mb_key ` set (memberships d') \<and>
                   effs = [Publish (push_group_membership_change u g LEAVE)]))"
proof (intro conjI)
  show "case create_group env f gid t1 t2 c name d of (r, d', effs) \<Rightarrow>
      effs = [] \<or> ((\<exists>m grp. r = Inr (grp, m) \<and> grp \<in> set (groups d') \<and> m \<in> set (memberships d')) \<and>
                   effs = [Publish (push_group_membership_change c gid JOIN)])"
    unfolding create_group_def Let_def
    by (rule after_commit_cases) (auto dest!: create_group_bodyD simp: spawn_cases)
  show "case add_member env f t actor g u d of (r, d', effs) \<Rightarrow>
      effs = [] \<or> ((\<exists>m. r = Inr (Some m) \<and> m \<in> set (memberships d') \<and> mb_key m = (g, u)) \<and>
                   effs = [Publish (push_group_membership_change u g JOIN)])"
    unfolding add_member_def
    by (rule after_commit_cases)
      (auto dest: add_member_bodyD simp: spawn_cases add_member_body_def tx_ops res_bind_iffs query_defs split: if_splits)
  show "case remove_member env f actor g u d of (r, d', effs) \<Rightarrow>
      effs = [] \<or> (r = Inr (Some ()) \<and> (g, u) \<notin> mb_key ` set (memberships d') \<and>
                   effs = [Publish (push_group_membership_change u g LEAVE)])"
    unfolding remove_member_def
    by (rule after_commit_cases) (auto dest!: remove_member_bodyD(3) simp: spawn_cases)
qed

text \<open>
  Creating a group, branch by branch: the group and the creator's membership
  are stored together and announced, or nothing is stored and nothing announced.  A creator that
  does not exist is reported without its name, because the handler looks for another keyword.
\<close>

theorem group_creation_outcome:
  assumes "db_ok d"
  shows "create_group healthy None gid t1 t2 c name d =
    (let grp = \<lparr>g_group_id = gid, g_name = name, g_created_by = Some c, g_created_at = t1\<rparr>;
         m = \<lparr>mb_group_id = gid, mb_user_id = c, mb_joined_at = t2\<rparr>
     in if gid \<in> group_ids d then (Inl (constraint_violation ''groups'' PK_GROUPS), d, [])
        else if c \<notin> user_ids d then (Inl (ServiceExn (UserNotFoundError unknown)), d, [])
        else (Inr (grp, m), d\<lparr>groups := groups d @ [grp], memberships := memberships d @ [m]\<rparr>,
              [Publish (push_group_membership_change c gid JOIN)]))"
proof -
  have "(gid, c) \<notin> mb_key ` set (memberships d)" if "gid \<notin> group_ids d"
    using assms that by (auto simp: db_ok_defs)
  then show ?thesis
    by (simp add: create_group_def create_group_body_def transaction_healthy tx_ops query_defs Let_def
        constraint_outcomes kw_get_ctx)
qed

theorem group_creation_outcome_witness:
  "fst (create_group healthy None 11 5 5 2 ''chess'' sample_db) =
     Inr (\<lparr>g_group_id = 11, g_name = ''chess'', g_created_by = Some 2, g_created_at = 5\<rparr>,
          \<lparr>mb_group_id = 11, mb_user_id = 2, mb_joined_at = 5\<rparr>)"
  using group_creation_outcome [OF sample_db_ok, of 11 5 5 2 "''chess''"]
  by (simp add: sample_db_def sample_user_def Let_def)

text \<open>
  Deleting a group, branch by branch: an unknown group, a caller who did not
  create it, and the success, which removes the group, its memberships and its messages, clears the
  Redis keys of every former member and then announces the deletion.
\<close>

theorem group_deletion_outcome:
  assumes "db_ok d"
  shows "delete_group healthy None None actor g d =
    (case GROUP_BY_ID g d of
       None \<Rightarrow> (Inl (ServiceExn (GroupNotFoundError (PStr (uuid_str g)))), d, [])
     | Some r \<Rightarrow>
         if g_created_by r \<noteq> Some actor
         then (Inl (ServiceExn (InsufficientGroupPermissionError
                 ''Only the group creator can delete this group.'')), d, [])
         else (Inr (Some ()),
               d\<lparr>groups := filter (\<lambda>s. g_group_id s \<noteq> g) (groups d),
                 memberships := filter (\<lambda>m. mb_group_id m \<noteq> g) (memberships d),
                 group_messages := filter (\<lambda>m. gm_group_id m \<noteq> g) (group_messages d)\<rparr>,
               [invalidate_deleted_group_cache (uuid_str g)
                  (map (\<lambda>m. uuid_str (mb_user_id m)) (filter (\<lambda>m. mb_group_id m = g) (memberships d))),
                Publish (push_group_deleted g)]))"
proof (cases "GROUP_BY_ID g d")
  case None
  have "py_or (PStr (uuid_str g)) x = PStr (uuid_str g)" for x
    by (simp add: py_or_def)
  with None show ?thesis
    by (simp add: delete_group_def delete_group_body_def transaction_healthy tx_ops db_get_group_by_id_def
        guarded_def not_found_default)
next
  case (Some r)
  have "fst (DELETE_GROUP g actor d) \<noteq> DELETE_ZERO" if "g_created_by r = Some actor"
    using Some assms that by (auto simp: DELETE_GROUP_def Let_def GROUP_BY_ID_iff)
  with Some DELETE_GROUP_rows [OF assms Some] show ?thesis
    by (auto simp: delete_group_def delete_group_body_def transaction_healthy tx_ops db_get_group_by_id_def
        db_list_group_memberships_def db_delete_group_def LIST_GROUP_MEMBERSHIPS_def spawn_task_def
        handle_group_deletion_side_effects_def publish_ws_push_def comp_def split: prod.splits)
qed

theorem group_deletion_outcome_witness:
  "fst (delete_group healthy None None 2 10 sample_db) =
     Inl (ServiceExn (InsufficientGroupPermissionError ''Only the group creator can delete this group.''))"
  using group_deletion_outcome [OF sample_db_ok, of 2 10] by (simp add: sample_db_def GROUP_BY_ID_def)

text \<open>
  The creator of a group is always one of its members: every operation of
  the group service and the deletion of accounts keep this, whatever the infrastructure does.
\<close>

theorem creators_stay_members:
  assumes "db_ok d" and "creators_are_members d"
  shows "creators_are_members (fst (snd (create_group env f gid t1 t2 c name d))) \<and>
    creators_are_members (fst (snd (add_member env f t actor g u d))) \<and>
    creators_are_members (fst (snd (remove_member env f actor g u d))) \<and>
    creators_are_members (fst (snd (delete_group env pf f actor g d))) \<and>
    creators_are_members (snd (delete_account env u d))"
  unfolding tx_defs Let_def decorated_simps after_commit_db snd_map_prod id_apply Group.select_convs
  by (intro conjI dbm.preserves [of creators_are_members d, OF assms(2)])
    (erule creators_bodies [OF assms])+

theorem creators_stay_members_witness:
  "creators_are_members (fst (snd (remove_member healthy None 1 10 2 sample_db)))"
  using creators_stay_members [OF sample_db_ok, of healthy None 0 0 0 0 "[]" 0 1 10 2 None]
  by (simp add: creators_are_members_def sample_db_def)

text \<open>
  Adding somebody who is already a member is refused with status 409, but the
  message names neither the user nor the group: the handler looks for the keywords \<open>user_id\<close> and
  \<open>group\<close>, and the call carries \<open>target_user_id\<close> and \<open>group_id\<close>.
\<close>

theorem adding_a_member_twice:
  assumes "GROUP_BY_ID g d = Some r" and "g_created_by r = Some actor"
    and "(g, u) \<in> mb_key ` set (memberships d)"
  shows "add_member healthy None t actor g u d =
    (Inl (ServiceExn (AlreadyGroupMemberError unknown unknown)), d, [])"
  using assms
  by (simp add: add_member_def add_member_body_def transaction_healthy tx_ops query_defs
      db_get_group_by_id_def guarded_def member_kwargs_def constraint_outcomes kw_get_ctx)

theorem adding_a_member_twice_witness:
  "add_member healthy None 5 1 10 2 sample_db =
     (Inl (ServiceExn (AlreadyGroupMemberError unknown unknown)), sample_db, [])"
  by (rule adding_a_member_twice [where r = "hd (groups sample_db)"]) (simp_all add: sample_db_def GROUP_BY_ID_def)

text \<open>
  Group details are shown to members of the group only.
\<close>

theorem group_details_need_membership:
  assumes "get_group_details env actor g d = Inr (Some r)"
  shows "GROUP_BY_ID g d = Some r \<and> (g, actor) \<in> mb_key ` set (memberships d)"
  using assms
  by (auto simp: get_group_details_def guarded_Inr_iff res_bind_iffs db_get_group_by_id_Inr
      db_get_membership_def MEMBERSHIP_BY_IDS_def image_iff
      dest!: connection_success fetchrow_SomeD split: option.splits)

theorem group_details_need_membership_witness:
  "\<exists>r. get_group_details healthy 2 10 sample_db = Inr (Some r) \<and> (10, 2) \<in> mb_key ` set (memberships sample_db)"
proof -
  have "\<exists>r. get_group_details healthy 2 10 sample_db = Inr (Some r)"
    by (simp add: get_group_details_def connection_healthy db_get_group_by_id_def GROUP_BY_ID_def
        db_get_membership_def MEMBERSHIP_BY_IDS_def sample_db_def)
  with group_details_need_membership show ?thesis by blast
qed

end
