(* ===== verification/Messaging_Service.thy ===== *)
theory Messaging_Service
  imports Group_Service
begin

text \<open>
  \<open>MessagingService\<close> of \<open>src/src/services/messaging.py\<close>: direct and group messages, each stored
  after a check of the relation between the users, and announced after the transaction; and the two
  paginated histories behind the same checks.  The keyword context lists the arguments the error
  handlers can read; \<open>before\<close> and \<open>limit\<close>, which no handler reads, are left out of it.
\<close>

section \<open>The overrides\<close>

definition friendship_override :: "(Entity \<times> handler) list" where
  "friendship_override =
     [(FRIENDSHIP, HandlerFn (\<lambda>kw. case map_of kw ''recipient_id'' of
        None \<Rightarrow> KeyError ''recipient_id''
      | Some v \<Rightarrow> ServiceExn (DirectMessageNotAllowedError v)))]"

definition membership_override :: "(Entity \<times> handler) list" where
  "membership_override =
     [(MEMBERSHIP, HandlerFn (\<lambda>kw. case map_of kw ''group_id'' of
        None \<Rightarrow> KeyError ''group_id''
      | Some v \<Rightarrow> ServiceExn (GroupMessageNotAllowedError v)))]"

section \<open>Direct messages\<close>

definition send_direct_message_body ::
    "uuid \<Rightarrow> timestamp \<Rightarrow> uuid \<Rightarrow> uuid \<Rightarrow> string \<Rightarrow> DirectMessage tx" where
  "send_direct_message_body new_id created sender_id recipient_id content =
     tx_bind (tx_read (db_get_friendship_status sender_id recipient_id)) (\<lambda>friendship.
       if \<not> fr_accepted friendship
       then tx_raise (ServiceExn (DirectMessageNotAllowedError (PUuid recipient_id)))
       else db_send_direct_message
              \<lparr>dm_message_id = new_id, dm_sender_id = sender_id, dm_recipient_id = recipient_id,
                dm_content = content, dm_created_at = created\<rparr>)"

definition send_direct_message ::
    "db_env \<Rightarrow> redis_exc option \<Rightarrow> uuid \<Rightarrow> timestamp \<Rightarrow> uuid \<Rightarrow> uuid \<Rightarrow> string \<Rightarrow> db \<Rightarrow>
     DirectMessage option result \<times> db \<times> effect list" where
  "send_direct_message env fault new_id created sender_id recipient_id content d =
     decorated (guarded [] friendship_override
         [(''sender_id'', PUuid sender_id), (''recipient_id'', PUuid recipient_id), (''content'', PStr content)])
       (after_commit (transaction env (send_direct_message_body new_id created sender_id recipient_id content) d)
         (\<lambda>dm. spawn_task (publish_ws_push fault (push_to_user recipient_id (dm_event_from_model dm)))))"

text \<open>\<open>before or datetime.now(UTC)\<close>: an instant is always true, so only \<open>None\<close> is replaced.\<close>

definition history_cutoff :: "timestamp \<Rightarrow> timestamp option \<Rightarrow> timestamp" where
  "history_cutoff now before = (case before of None \<Rightarrow> now | Some t \<Rightarrow> t)"

definition get_dm_history ::
    "db_env \<Rightarrow> timestamp \<Rightarrow> uuid \<Rightarrow> uuid \<Rightarrow> timestamp option \<Rightarrow> nat \<Rightarrow> db \<Rightarrow> DirectMessage list option result" where
  "get_dm_history env now actor_id recipient_id before lim d =
     guarded [] friendship_override [(''actor_id'', PUuid actor_id), (''recipient_id'', PUuid recipient_id)]
       (connection env (\<lambda>d. res_bind (db_get_friendship_status actor_id recipient_id d) (\<lambda>friendship.
          if \<not> fr_accepted friendship
          then Inl (ServiceExn (DirectMessageNotAllowedError (PUuid recipient_id)))
          else db_get_dm_conversation_history actor_id recipient_id (history_cutoff now before) lim d)) d)"

section \<open>Group messages\<close>

definition send_group_message_body ::
    "uuid \<Rightarrow> timestamp \<Rightarrow> uuid \<Rightarrow> uuid \<Rightarrow> string \<Rightarrow> GroupMessage tx" where
  "send_group_message_body new_id created sender_id group_id content =
     tx_bind (tx_read (db_get_membership group_id sender_id)) (\<lambda>_.
       db_send_group_message
         \<lparr>gm_message_id = new_id, gm_group_id = group_id, gm_sender_id = sender_id,
           gm_content = content, gm_created_at = created\<rparr>)"

definition send_group_message ::
    "db_env \<Rightarrow> redis_exc option \<Rightarrow> uuid \<Rightarrow> timestamp \<Rightarrow> uuid \<Rightarrow> uuid \<Rightarrow> string \<Rightarrow> db \<Rightarrow>
     GroupMessage option result \<times> db \<times> effect list" where
  "send_group_message env fault new_id created sender_id group_id content d =
     decorated (guarded [] membership_override
         [(''sender_id'', PUuid sender_id), (''group_id'', PUuid group_id), (''content'', PStr content)])
       (after_commit (transaction env (send_group_message_body new_id created sender_id group_id content) d)
         (\<lambda>msg. spawn_task (publish_ws_push fault
            (push_to_group group_id (gm_event_from_model msg) (Some sender_id)))))"

definition get_group_history ::
    "db_env \<Rightarrow> timestamp \<Rightarrow> uuid \<Rightarrow> uuid \<Rightarrow> timestamp option \<Rightarrow> nat \<Rightarrow> db \<Rightarrow> GroupMessage list option result" where
  "get_group_history env now actor_id group_id before lim d =
     guarded [] membership_override [(''actor_id'', PUuid actor_id), (''group_id'', PUuid group_id)]
       (connection env (\<lambda>d. res_bind (db_get_membership group_id actor_id d) (\<lambda>_.
          db_get_group_messages_timeline group_id (history_cutoff now before) lim d)) d)"

section \<open>Facts\<close>

lemmas messaging_defs [tx_defs] = send_direct_message_def send_group_message_def

lemma messaging_body_writes [tx_writes]:
  "runs_writes (send_direct_message_body i t s r c)" "runs_writes (send_group_message_body i t s g c)"
  unfolding send_direct_message_body_def send_group_message_body_def by (intro tx_writes)+

lemma override_outcomes:
  "guarded [] friendship_override kw (Inl (not_found FRIENDSHIP i)) =
     Inl (case map_of kw ''recipient_id'' of None \<Rightarrow> KeyError ''recipient_id''
          | Some v \<Rightarrow> ServiceExn (DirectMessageNotAllowedError v))"
  "guarded [] membership_override kw (Inl (not_found MEMBERSHIP i)) =
     Inl (case map_of kw ''group_id'' of None \<Rightarrow> KeyError ''group_id''
          | Some v \<Rightarrow> ServiceExn (GroupMessageNotAllowedError v))"
  by (simp_all add: guarded_def handle_db_not_found_error_def not_found_def friendship_override_def
      membership_override_def map_add_def constraint_decorator_other split: option.split)

lemma guarded_unmapped:
  "map_of CONSTRAINT_MAP (constraint_value c) = None \<Longrightarrow>
     guarded [] ov kw (Inl (constraint_violation t c)) = Inl (constraint_violation t c)"
  by (simp add: guarded_def constraint_decorator_unmapped)

lemma FRIENDSHIP_STATUS_users:
  assumes "db_ok d" and "FRIENDSHIP_STATUS a b d = Some f"
  shows "a \<in> user_ids d" and "b \<in> user_ids d"
  using assms by (auto simp: FRIENDSHIP_STATUS_def between_def db_ok_defs dest!: fetchrow_SomeD)

lemma MEMBERSHIP_BY_IDS_refs:
  assumes "db_ok d" and "MEMBERSHIP_BY_IDS g u d = Some m"
  shows "g \<in> group_ids d" and "u \<in> user_ids d"
  using assms by (auto simp: MEMBERSHIP_BY_IDS_def db_ok_defs dest!: fetchrow_SomeD)

text \<open>What a message that was accepted says about the database and the emitted effects.\<close>

lemma send_direct_message_success:
  assumes "send_direct_message env None i t s r c d = (Inr (Some dm), d', effs)"
  shows "dm = \<lparr>dm_message_id = i, dm_sender_id = s, dm_recipient_id = r, dm_content = c, dm_created_at = t\<rparr>"
    and "d' = d\<lparr>direct_messages := direct_messages d @ [dm]\<rparr>"
    and "\<exists>f. FRIENDSHIP_STATUS s r d = Some f \<and> fr_accepted f"
    and "effs = [Publish (push_to_user r (dm_event_from_model dm))]"
proof -
  let ?body = "send_direct_message_body i t s r c"
  have tx: "transaction env ?body d = (Inr dm, d')" and "effs = [Publish (push_to_user r (dm_event_from_model dm))]"
    using assms by (cases "transaction env ?body d"; cases "fst (transaction env ?body d)";
      auto simp: send_direct_message_def decorated_def guarded_Inr_iff spawn_task_def publish_ws_push_def)+
  then show "effs = [Publish (push_to_user r (dm_event_from_model dm))]" by simp
  from dbm.commit [OF tx]
  show "dm = \<lparr>dm_message_id = i, dm_sender_id = s, dm_recipient_id = r, dm_content = c, dm_created_at = t\<rparr>"
    and "d' = d\<lparr>direct_messages := direct_messages d @ [dm]\<rparr>"
    and "\<exists>f. FRIENDSHIP_STATUS s r d = Some f \<and> fr_accepted f"
    by (auto simp: send_direct_message_body_def tx_ops res_bind_iffs db_get_friendship_status_def
        db_send_direct_message_eq table_handlers split: option.splits if_splits)
qed

lemma send_group_message_success:
  assumes "send_group_message env None i t s g c d = (Inr (Some gm), d', effs)"
  shows "gm = \<lparr>gm_message_id = i, gm_group_id = g, gm_sender_id = s, gm_content = c, gm_created_at = t\<rparr>"
    and "d' = d\<lparr>group_messages := group_messages d @ [gm]\<rparr>"
    and "MEMBERSHIP_BY_IDS g s d \<noteq> None"
    and "effs = [Publish (push_to_group g (gm_event_from_model gm) (Some s))]"
proof -
  let ?body = "send_group_message_body i t s g c"
  have tx: "transaction env ?body d = (Inr gm, d')"
    and "effs = [Publish (push_to_group g (gm_event_from_model gm) (Some s))]"
    using assms by (cases "transaction env ?body d"; cases "fst (transaction env ?body d)";
      auto simp: send_group_message_def decorated_def guarded_Inr_iff spawn_task_def publish_ws_push_def)+
  then show "effs = [Publish (push_to_group g (gm_event_from_model gm) (Some s))]" by simp
  from dbm.commit [OF tx]
  show "gm = \<lparr>gm_message_id = i, gm_group_id = g, gm_sender_id = s, gm_content = c, gm_created_at = t\<rparr>"
    and "d' = d\<lparr>group_messages := group_messages d @ [gm]\<rparr>"
    and "MEMBERSHIP_BY_IDS g s d \<noteq> None"
    by (auto simp: send_group_message_body_def tx_ops res_bind_iffs db_get_membership_def
        db_send_group_message_eq table_handlers split: option.splits if_splits)
qed

section \<open>Properties of the messaging service\<close>

text \<open>
  Sending a message changes the database by write statements of the
  schema only, whatever the infrastructure does.
\<close>

theorem message_writes_are_statements:
  "rtranclp db_write d (fst (snd (send_direct_message env f i t s r c d))) \<and>
   rtranclp db_write d (fst (snd (send_group_message env f i t s g c d)))"
  by (simp add: tx_defs transaction_writes tx_writes)



text \<open>
  Sending a group message, branch by branch: a sender who is not a member is
  refused with the group named; a member's message, with a fresh id, is stored and exactly one
  event, carrying the stored row and naming the sender, is published to the group.
\<close>

theorem group_message_outcome:
  assumes "db_ok d"
  shows "send_group_message healthy None i t s g c d =
    (let msg = \<lparr>gm_message_id = i, gm_group_id = g, gm_sender_id = s, gm_content = c, gm_created_at = t\<rparr>
     in case MEMBERSHIP_BY_IDS g s d of
          None \<Rightarrow> (Inl (ServiceExn (GroupMessageNotAllowedError (PUuid g))), d, [])
        | Some m \<Rightarrow>
            if i \<in> gm_message_id ` set (group_messages d)
            then (Inl (constraint_violation ''group_messages'' PK_GROUP_MESSAGES), d, [])
            else (Inr (Some msg), d\<lparr>group_messages := group_messages d @ [msg]\<rparr>,
                  [Publish (push_to_group g (gm_event_from_model msg) (Some s))]))"
proof (cases "MEMBERSHIP_BY_IDS g s d")
  case None
  then show ?thesis
    by (simp add: send_group_message_def send_group_message_body_def transaction_healthy tx_ops
        db_get_membership_def override_outcomes)
next
  case (Some m)
  note refs = MEMBERSHIP_BY_IDS_refs [OF assms Some]
  show ?thesis
    using Some refs
    by (simp add: send_group_message_def send_group_message_body_def transaction_healthy tx_ops
        db_get_membership_def db_send_group_message_eq guarded_unmapped table_handlers Let_def)
qed

theorem group_message_outcome_witness:
  "fst (send_group_message healthy None 30 7 3 10 ''psst'' sample_db) =
     Inl (ServiceExn (GroupMessageNotAllowedError (PUuid 10)))"
  using group_message_outcome [OF sample_db_ok, of 30 7 3 10 "''psst''"]
  by (simp add: sample_db_def MEMBERSHIP_BY_IDS_def Let_def)

text \<open>
  C22 (history_needs_relation): Histories are shown behind the same checks, whatever the infrastructure
  does: a direct history only between accepted friends and a group history only to members, and
  what is shown is the page of the database.
\<close>

theorem history_needs_relation:
  "(get_dm_history env now a b before lim d = Inr (Some ms) \<longrightarrow>
      (\<exists>f. FRIENDSHIP_STATUS a b d = Some f \<and> fr_accepted f) \<and>
      ms = DM_CONVERSATION_HISTORY a b (history_cutoff now before) lim d) \<and>
   (get_group_history env now a g before lim d = Inr (Some gs) \<longrightarrow>
      MEMBERSHIP_BY_IDS g a d \<noteq> None \<and>
      gs = GROUP_MESSAGES_TIMELINE g (history_cutoff now before) lim d)"
  unfolding get_dm_history_def get_group_history_def guarded_Inr_iff
  by (auto dest!: connection_success simp: res_bind_iffs db_get_friendship_status_def
      db_get_dm_conversation_history_def db_get_membership_def db_get_group_messages_timeline_def
      split: option.splits if_splits)

theorem history_needs_relation_witness:
  "\<exists>ms. get_dm_history healthy 100 1 2 None 50 sample_db = Inr (Some ms) \<and>
        ms = DM_CONVERSATION_HISTORY 1 2 100 50 sample_db"
proof -
  have "\<exists>ms. get_dm_history healthy 100 1 2 None 50 sample_db = Inr (Some ms)"
    by (simp add: get_dm_history_def connection_healthy db_get_friendship_status_def FRIENDSHIP_STATUS_def
        between_def db_get_dm_conversation_history_def sample_db_def)
  then show ?thesis
    using history_needs_relation [of healthy 100 1 2 None 50 sample_db _ 10 "[]"]
    by (auto simp: history_cutoff_def)
qed

end
