(* ===== verification/Token_Cache.thy ===== *)
theory Token_Cache
  imports Events
begin

text \<open>
  \<open>TokenCache\<close> of \<open>src/src/services/auth.py\<close>: the worker-local cache from token hashes to users.
  The store behind it is \<open>cachetools.TTLCache\<close>, a third-party container; its operations are the
  fields of \<open>ttl_ops\<close>, an argument of the definitions, and \<open>ttl_laws\<close> states the documented
  behaviour: a stored value is found until its time to live is over, an entry may be evicted
  earlier, and nothing is found that was not stored.
\<close>

section \<open>The container\<close>

record 'c ttl_ops =
  op_get :: "'c \<Rightarrow> timestamp \<Rightarrow> string \<Rightarrow> User option"
  op_set :: "'c \<Rightarrow> timestamp \<Rightarrow> string \<Rightarrow> User \<Rightarrow> 'c"
  op_pop :: "'c \<Rightarrow> timestamp \<Rightarrow> string \<Rightarrow> 'c"
  op_items :: "'c \<Rightarrow> timestamp \<Rightarrow> (string \<times> User) list"
  op_clear :: "'c \<Rightarrow> 'c"

definition ttl_laws :: "'c ttl_ops \<Rightarrow> int \<Rightarrow> bool" where
  "ttl_laws C ttl \<longleftrightarrow>
     (\<forall>c t t' h h' u v. op_get C (op_set C c t h u) t' h' = Some v \<longrightarrow>
        (if h' = h then v = u \<and> t' < t + ttl else op_get C c t' h' = Some v)) \<and>
     (\<forall>c t h u. 0 < ttl \<longrightarrow> op_get C (op_set C c t h u) t h = Some u) \<and>
     (\<forall>c t t' h h'. op_get C (op_pop C c t h) t' h' = (if h' = h then None else op_get C c t' h')) \<and>
     (\<forall>c t h u. (h, u) \<in> set (op_items C c t) \<longleftrightarrow> op_get C c t h = Some u) \<and>
     (\<forall>c t t' h u. t \<le> t' \<longrightarrow> op_get C c t' h = Some u \<longrightarrow> op_get C c t h = Some u) \<and>
     (\<forall>c t h. op_get C (op_clear C c) t h = None)"

lemma ttl_lawsD:
  assumes "ttl_laws C ttl"
  shows "op_get C (op_set C c t h u) t' h = Some v \<Longrightarrow> v = u \<and> t' < t + ttl"
    and "op_get C (op_set C c t h u) t' h' = Some v \<Longrightarrow> h' \<noteq> h \<Longrightarrow> op_get C c t' h' = Some v"
    and "0 < ttl \<Longrightarrow> op_get C (op_set C c t h u) t h = Some u"
    and "op_get C (op_pop C c t h) t' h' = (if h' = h then None else op_get C c t' h')"
    and "(h, u) \<in> set (op_items C c t) \<longleftrightarrow> op_get C c t h = Some u"
    and "t \<le> t' \<Longrightarrow> op_get C c t' h = Some u \<Longrightarrow> op_get C c t h = Some u"
    and "op_get C (op_clear C c) t h = None"
  using assms unfolding ttl_laws_def by metis+

section \<open>The cache\<close>

definition cache_clear :: "'c ttl_ops \<Rightarrow> 'c \<Rightarrow> 'c" where
  "cache_clear C c = op_clear C c"

definition cache_get :: "'c ttl_ops \<Rightarrow> timestamp \<Rightarrow> string \<Rightarrow> 'c \<Rightarrow> User option" where
  "cache_get C t token_hash c = op_get C c t token_hash"

definition cache_set :: "'c ttl_ops \<Rightarrow> timestamp \<Rightarrow> string \<Rightarrow> User \<Rightarrow> 'c \<Rightarrow> 'c" where
  "cache_set C t token_hash user c = op_set C c t token_hash user"

definition cache_evict :: "'c ttl_ops \<Rightarrow> timestamp \<Rightarrow> string \<Rightarrow> 'c \<Rightarrow> 'c" where
  "cache_evict C t token_hash c = op_pop C c t token_hash"

definition cache_evict_user :: "'c ttl_ops \<Rightarrow> timestamp \<Rightarrow> string \<Rightarrow> 'c \<Rightarrow> 'c" where
  "cache_evict_user C t target_id c =
     (let hashes_to_remove =
            map fst (filter (\<lambda>(t_hash, user). uuid_str (u_user_id user) = target_id) (op_items C c t))
      in fold (\<lambda>t_hash c. op_pop C c t t_hash) hashes_to_remove c)"

text \<open>
  The two branches of \<open>handle_invalidation_event\<close>, on the value of the field; a truthy value of
  another type than text is not hashable, and does not print as any user id.
\<close>

fun evict_hash_field :: "'c ttl_ops \<Rightarrow> timestamp \<Rightarrow> json option \<Rightarrow> 'c \<Rightarrow> 'c result" where
  "evict_hash_field C t (Some (JStr h)) c = Inr (if h \<noteq> [] then cache_evict C t h c else c)"
| "evict_hash_field C t (Some (JObj fs)) c = (if fs \<noteq> [] then Inl TypeError else Inr c)"
| "evict_hash_field C t (Some JNull) c = Inr c"
| "evict_hash_field C t None c = Inr c"

fun evict_user_field :: "'c ttl_ops \<Rightarrow> timestamp \<Rightarrow> json option \<Rightarrow> 'c \<Rightarrow> 'c" where
  "evict_user_field C t (Some (JStr s)) c = (if s \<noteq> [] then cache_evict_user C t s c else c)"
| "evict_user_field C t _ c = c"

definition handle_invalidation_event :: "'c ttl_ops \<Rightarrow> timestamp \<Rightarrow> json \<Rightarrow> 'c \<Rightarrow> 'c result" where
  "handle_invalidation_event C t event_dict c =
     res_bind (jget event_dict ''event'') (\<lambda>event_type.
       if event_type = Some (JStr (event_type_value TOKEN_REVOKED_EVENT))
       then res_bind (jget event_dict ''token_hash'') (\<lambda>token_hash. evict_hash_field C t token_hash c)
       else if event_type = Some (JStr (event_type_value USER_INVALIDATED_EVENT))
       then res_bind (jget event_dict ''user_id'') (\<lambda>user_id. Inr (evict_user_field C t user_id c))
       else Inr c)"

section \<open>What eviction removes\<close>

lemma fold_pop:
  assumes "ttl_laws C ttl"
  shows "op_get C (fold (\<lambda>h c. op_pop C c t h) hs c) t' h' = (if h' \<in> set hs then None else op_get C c t' h')"
proof (induction hs arbitrary: c)
  case (Cons h hs)
  then show ?case using ttl_lawsD(4) [OF assms] by simp
qed simp

lemma get_evict:
  assumes "ttl_laws C ttl"
  shows "cache_get C t' h' (cache_evict C t h c) = (if h' = h then None else cache_get C t' h' c)"
  using ttl_lawsD(4) [OF assms] by (simp add: cache_get_def cache_evict_def)

lemma get_evict_user:
  assumes "ttl_laws C ttl" and "t \<le> t'"
  shows "cache_get C t' h (cache_evict_user C t target c) =
    (case cache_get C t' h c of
       None \<Rightarrow> None
     | Some u \<Rightarrow> if uuid_str (u_user_id u) = target then None else Some u)"
proof (cases "op_get C c t' h")
  case None
  then show ?thesis
    by (simp add: cache_get_def cache_evict_user_def Let_def fold_pop [OF assms(1)])
next
  case (Some u)
  with assms(2) have now: "op_get C c t h = Some u" by (rule ttl_lawsD(6) [OF assms(1)])
  have "h \<in> set (map fst (filter (\<lambda>(t_hash, user). uuid_str (u_user_id user) = target) (op_items C c t))) \<longleftrightarrow>
      uuid_str (u_user_id u) = target"
    using now ttl_lawsD(5) [OF assms(1), of h _ c t] by (force simp: image_iff)
  with Some show ?thesis
    by (simp add: cache_get_def cache_evict_user_def Let_def fold_pop [OF assms(1)] del: set_map)
qed

lemma invalidation_of_token:
  "h \<noteq> [] \<Longrightarrow> handle_invalidation_event C t (to_dict (TokenRevokedEvent h)) c = Inr (cache_evict C t h c)"
  by (simp add: handle_invalidation_event_def to_dict_def)

lemma invalidation_of_user:
  "handle_invalidation_event C t (to_dict (UserInvalidatedEvent u)) c = Inr (cache_evict_user C t (uuid_str u) c)"
  using length_uuid_str [of u] by (auto simp: handle_invalidation_event_def to_dict_def)

text \<open>Whatever the event, the cache only loses entries.\<close>

lemma invalidation_only_removes:
  assumes "ttl_laws C ttl" and "t \<le> t'" and "handle_invalidation_event C t e c = Inr c'"
    and "cache_get C t' h c' = Some u"
  shows "cache_get C t' h c = Some u"
proof -
  have "c' = c \<or> (\<exists>k. c' = cache_evict C t k c) \<or> (\<exists>s. c' = cache_evict_user C t s c)"
    using assms(3) unfolding handle_invalidation_event_def res_bind_eq_Inr
    by (auto simp: res_bind_iffs simp del: event_type_value.simps
        split: if_split_asm elim!: evict_hash_field.elims) (metis evict_user_field.elims)+
  then consider "c' = c" | k where "c' = cache_evict C t k c" | s where "c' = cache_evict_user C t s c"
    by blast
  then show ?thesis
  proof cases
    case 1
    with assms(4) show ?thesis by simp
  next
    case 2
    with assms(4) show ?thesis by (simp add: get_evict [OF assms(1)] split: if_splits)
  next
    case 3
    with assms(4) show ?thesis
      by (simp add: get_evict_user [OF assms(1,2)] split: if_splits option.splits)
  qed
qed

section \<open>A container to evaluate with\<close>

text \<open>A list of hash, user and end of life, for a time to live of 300.\<close>

definition list_ttl :: "(string \<times> User \<times> timestamp) list ttl_ops" where
  "list_ttl =
     \<lparr>op_get = (\<lambda>c t h. case map_of c h of Some (u, e) \<Rightarrow> if t < e then Some u else None | None \<Rightarrow> None),
      op_set = (\<lambda>c t h u. (h, u, t + 300) # c),
      op_pop = (\<lambda>c t h. filter (\<lambda>p. fst p \<noteq> h) c),
      op_items = (\<lambda>c t. map (\<lambda>(h, u, e). (h, u)) (filter (\<lambda>(h, u, e). map_of c h = Some (u, e) \<and> t < e) c)),
      op_clear = (\<lambda>c. [])\<rparr>"

lemma map_of_filter_key: "map_of (filter (\<lambda>p. fst p \<noteq> h) c) h' = (if h' = h then None else map_of c h')"
  by (induction c) auto

lemma list_ttl_laws: "ttl_laws list_ttl 300"
proof -
  have "(h, u) \<in> set (op_items list_ttl c t) \<longleftrightarrow> op_get list_ttl c t h = Some u" for h u c t
    by (auto simp: list_ttl_def image_iff split: option.splits if_splits dest: map_of_SomeD)
  then show ?thesis
    unfolding ttl_laws_def by (auto simp: list_ttl_def map_of_filter_key split: option.splits if_splits)
qed

section \<open>Properties of the cache\<close>

text \<open>
  Handling a published invalidation event empties the cache of what it
  names, for all later times: after a token-revoked event the token is not cached, after a
  user-invalidated event no token of that user is, and every other entry stays.
\<close>

theorem invalidation_events_evict:
  assumes "ttl_laws C ttl" and "t \<le> t'" and "h \<noteq> []"
    and "handle_invalidation_event C t (to_dict (TokenRevokedEvent h)) c = r1"
    and "handle_invalidation_event C t (to_dict (UserInvalidatedEvent u)) c = r2"
  shows "\<exists>c1 c2. r1 = Inr c1 \<and> r2 = Inr c2 \<and>
    cache_get C t' h' c1 = (if h' = h then None else cache_get C t' h' c) \<and>
    cache_get C t' h' c2 = (case cache_get C t' h' c of
       None \<Rightarrow> None | Some v \<Rightarrow> if u_user_id v = u then None else Some v)"
  using assms
  by (auto simp: invalidation_of_token invalidation_of_user get_evict [OF assms(1)]
      get_evict_user [OF assms(1,2)] uuid_str_inject split: option.split)

definition sample_cached_user :: User where
  "sample_cached_user = \<lparr>u_user_id = 1, u_username = ''alice'', u_password_hash = ''x'', u_deactivated = False, u_created_at = 0\<rparr>"

theorem invalidation_events_evict_witness:
  "\<exists>c1. handle_invalidation_event list_ttl 10 (to_dict (TokenRevokedEvent ''h'')) [(''h'', sample_cached_user, 300)] = Inr c1 \<and>
     cache_get list_ttl 10 ''h'' [(''h'', sample_cached_user, 300)] = Some sample_cached_user \<and> cache_get list_ttl 20 ''h'' c1 = None"
proof -
  have "cache_get list_ttl 10 ''h'' [(''h'', sample_cached_user, 300)] = Some sample_cached_user"
    by (simp add: cache_get_def list_ttl_def)
  with invalidation_events_evict [OF list_ttl_laws, of 10 20 "''h''" "[(''h'', sample_cached_user, 300)]" _ 1 _ "''h''"]
  show ?thesis by auto
qed

end
