(* ===== verification/Sha256.thy ===== *)
theory Sha256
  imports Py_Text
begin

text \<open>
  \<open>hash_token\<close> of \<open>src/src/crypto/tokens.py\<close>: the hexadecimal SHA-256 digest of the UTF-8
  encoding of a raw token, as \<open>hashlib.sha256\<close> computes it (FIPS 180-4).  A 32-bit word is an integer below \<open>2 ^ 32\<close>, kept
  there by \<open>add32\<close>, \<open>rotr\<close> and \<open>not32\<close>.
\<close>

unbundle bit_operations_syntax

section \<open>Bytes\<close>

text \<open>A character stands for a code point below 256; from 128 on UTF-8 takes two bytes.\<close>

definition utf8_char :: "char \<Rightarrow> int list" where
  "utf8_char c = (let n = of_char c in if n < 128 then [n] else [192 + n div 64, 128 + n mod 64])"

definition utf8 :: "string \<Rightarrow> int list" where
  "utf8 s = concat (map utf8_char s)"

text \<open>The padding: a one bit, zeros, and the length in bits on eight bytes.\<close>

fun be_bytes :: "nat \<Rightarrow> int \<Rightarrow> int list" where
  "be_bytes 0 n = []"
| "be_bytes (Suc k) n = be_bytes k (n div 256) @ [n mod 256]"

definition sha_pad :: "int list \<Rightarrow> int list" where
  "sha_pad bs =
     (let n = length bs
      in bs @ [128] @ replicate ((119 - n mod 64) mod 64) 0 @ be_bytes 8 (8 * int n))"

fun be_word :: "int list \<Rightarrow> int" where
  "be_word bs = fold (\<lambda>b w. 256 * w + b) bs 0"

fun chunks :: "nat \<Rightarrow> nat \<Rightarrow> 'a list \<Rightarrow> 'a list list" where
  "chunks 0 k xs = []"
| "chunks (Suc n) k xs = take k xs # chunks n k (drop k xs)"

section \<open>The compression function\<close>

definition rotr :: "nat \<Rightarrow> int \<Rightarrow> int" where
  "rotr n x = drop_bit n x OR push_bit (32 - n) (take_bit n x)"

definition add32 :: "int \<Rightarrow> int \<Rightarrow> int" where
  "add32 x y = (x + y) mod 4294967296"

definition not32 :: "int \<Rightarrow> int" where
  "not32 x = 4294967295 - x"

text \<open>
  The round constants are the first 32 bits of the fractional parts of the cube roots of the first
  64 primes, and the initial state those of the square roots of the first eight; \<open>SHA_K_roots\<close> and
  \<open>SHA_H0_roots\<close> below check every entry against that description.
\<close>

definition SHA_K :: "int list" where
  "SHA_K =
     [1116352408, 1899447441, 3049323471, 3921009573, 961987163, 1508970993,
      2453635748, 2870763221, 3624381080, 310598401, 607225278, 1426881987,
      1925078388, 2162078206, 2614888103, 3248222580, 3835390401, 4022224774,
      264347078, 604807628, 770255983, 1249150122, 1555081692, 1996064986,
      2554220882, 2821834349, 2952996808, 3210313671, 3336571891, 3584528711,
      113926993, 338241895, 666307205, 773529912, 1294757372, 1396182291,
      1695183700, 1986661051, 2177026350, 2456956037, 2730485921, 2820302411,
      3259730800, 3345764771, 3516065817, 3600352804, 4094571909, 275423344,
      430227734, 506948616, 659060556, 883997877, 958139571, 1322822218,
      1537002063, 1747873779, 1955562222, 2024104815, 2227730452, 2361852424,
      2428436474, 2756734187, 3204031479, 3329325298]"

definition SHA_H0 :: "int list" where
  "SHA_H0 =
     [1779033703, 3144134277, 1013904242, 2773480762,
      1359893119, 2600822924, 528734635, 1541459225]"

definition sha_primes :: "int list" where
  "sha_primes =
     [2, 3, 5, 7, 11, 13, 17, 19, 23, 29, 31, 37, 41, 43, 47, 53,
      59, 61, 67, 71, 73, 79, 83, 89, 97, 101, 103, 107, 109, 113, 127, 131,
      137, 139, 149, 151, 157, 163, 167, 173, 179, 181, 191, 193, 197, 199, 211, 223,
      227, 229, 233, 239, 241, 251, 257, 263, 269, 271, 277, 281, 283, 293, 307, 311]"

text \<open>
  \<open>x\<close> holds the first 32 bits after the point of the \<open>k\<close>-th root of \<open>p\<close>: some integer part \<open>i\<close>
  completes it to the root of \<open>p\<close> scaled by \<open>2\<^sup>3\<^sup>2\<close> and rounded down.
\<close>

definition root_fraction :: "nat \<Rightarrow> int \<Rightarrow> int \<Rightarrow> bool" where
  "root_fraction k p x \<longleftrightarrow>
     (\<exists>i\<in>set [1, 2, 3, 4, 5, 6].
        (4294967296 * i + x) ^ k \<le> p * 4294967296 ^ k \<and>
        p * 4294967296 ^ k < (4294967296 * i + x + 1) ^ k)"

text \<open>
  The message schedule, kept as a sliding window of sixteen words: the next word and the rest.
\<close>

definition schedule_next :: "int list \<Rightarrow> int" where
  "schedule_next w =
     (let a = w ! 1; b = w ! 14;
          s0 = rotr 7 a XOR rotr 18 a XOR drop_bit 3 a;
          s1 = rotr 17 b XOR rotr 19 b XOR drop_bit 10 b
      in add32 (add32 (add32 (w ! 0) s0) (w ! 9)) s1)"

type_synonym sha_state =
  "int \<times> int \<times> int \<times> int \<times> int \<times> int \<times> int \<times> int"

fun sha_round :: "int \<Rightarrow> int \<Rightarrow> sha_state \<Rightarrow> sha_state" where
  "sha_round k w (a, b, c, d, e, f, g, h) =
     (let s1 = rotr 6 e XOR rotr 11 e XOR rotr 25 e;
          ch = (e AND f) XOR (not32 e AND g);
          t1 = add32 (add32 (add32 (add32 h s1) ch) k) w;
          s0 = rotr 2 a XOR rotr 13 a XOR rotr 22 a;
          maj = (a AND b) XOR (a AND c) XOR (b AND c)
      in (add32 (add32 t1 s0) maj, a, b, c, add32 d t1, e, f, g))"

fun sha_rounds :: "int list \<Rightarrow> int list \<Rightarrow> sha_state \<Rightarrow> sha_state" where
  "sha_rounds [] w st = st"
| "sha_rounds (k # ks) w st = sha_rounds ks (tl w @ [schedule_next w]) (sha_round k (hd w) st)"

fun sha_add :: "sha_state \<Rightarrow> sha_state \<Rightarrow> sha_state" where
  "sha_add (a, b, c, d, e, f, g, h) (a', b', c', d', e', f', g', h') =
     (add32 a a', add32 b b', add32 c c', add32 d d', add32 e e', add32 f f', add32 g g', add32 h h')"

definition sha_block :: "int list \<Rightarrow> sha_state \<Rightarrow> sha_state" where
  "sha_block bs st = sha_add st (sha_rounds SHA_K (map be_word (chunks 16 4 bs)) st)"

definition sha_init :: sha_state where
  "sha_init = (SHA_H0 ! 0, SHA_H0 ! 1, SHA_H0 ! 2, SHA_H0 ! 3, SHA_H0 ! 4, SHA_H0 ! 5, SHA_H0 ! 6, SHA_H0 ! 7)"

section \<open>The digest\<close>

definition hex_digit :: "int \<Rightarrow> char" where
  "hex_digit n = ''0123456789abcdef'' ! nat n"

definition hex_byte :: "int \<Rightarrow> string" where
  "hex_byte n = [hex_digit (n div 16 mod 16), hex_digit (n mod 16)]"

definition hex_word :: "int \<Rightarrow> string" where
  "hex_word w = concat (map hex_byte (be_bytes 4 w))"

definition sha256 :: "int list \<Rightarrow> string" where
  "sha256 bs =
     (let padded = sha_pad bs
      in case fold sha_block (chunks (length padded div 64) 64 padded) sha_init of
           (a, b, c, d, e, f, g, h) \<Rightarrow> concat (map hex_word [a, b, c, d, e, f, g, h]))"

definition hash_token :: "string \<Rightarrow> string" where
  "hash_token token = sha256 (utf8 token)"

lemma length_hash_token: "length (hash_token t) = 64"
proof -
  have "length (hex_word w) = 8" for w
    by (simp add: hex_word_def hex_byte_def numeral_eq_Suc)
  then show ?thesis
    by (simp add: hash_token_def sha256_def Let_def split: prod.split)
qed

text \<open>The first test vector of FIPS 180-4, and a second digest for the examples.\<close>

lemma hash_abc: "hash_token ''abc'' = ''ba7816bf8f01cfea414140de5dae2223b00361a396177a9cb410ff61f20015ad''"
  by code_simp

lemma hash_xyz: "hash_token ''xyz'' = ''3608bca1e44ea6c4d268eb6db02260269892c0b42b86bbf1e77a6fa16c3c9282''"
  by code_simp

text \<open>The two tables are what their description says.\<close>

lemma SHA_K_roots: "list_all2 (root_fraction 3) sha_primes SHA_K"
  by code_simp

lemma SHA_H0_roots: "list_all2 (root_fraction 2) (take 8 sha_primes) SHA_H0"
  by code_simp

end
