(* ===== verification/Dependencies.thy ===== *)
theory Dependencies
  imports Connection Token_Cache Sha256
begin

text \<open>
  The authentication dependencies of \<open>src/src/api/dependencies.py\<close>: extracting the bearer token,
  validating it against the worker's cache and then the database, and the variants for deactivated
  accounts and WebSockets.  The cache runs on a monotonic clock (\<open>tick\<close>), expiry on the wall clock
  (\<open>now\<close>).  A request's outcome is its result and the cache it leaves.
\<close>

section \<open>Token validation\<close>

abbreviation unauthorized :: "string \<Rightarrow> exn" where
  "unauthorized detail \<equiv> HTTPException 401 detail"

definition get_raw_access_token :: "string option \<Rightarrow> string option" where
  "get_raw_access_token credentials = credentials"

text \<open>The block under the connection, on a cache miss.\<close>

definition validate_session :: "timestamp \<Rightarrow> string \<Rightarrow> bool \<Rightarrow> User rd" where
  "validate_session now token_hash allow_deactivated d =
     res_bind (db_get_access_token token_hash d) (\<lambda>token_record.
       if at_is_revoked token_record then Inl (unauthorized ''Access token has been revoked.'')
       else if at_is_expired now token_record then Inl (unauthorized ''Access token has expired.'')
       else res_bind (db_get_user_by_id (at_user_id token_record) d) (\<lambda>user.
              if u_deactivated user \<and> \<not> allow_deactivated
              then Inl (unauthorized ''User account is deactivated.'')
              else Inr user))"

text \<open>\<open>except NotFoundError\<close>.\<close>

fun nonexistent_token :: "exn \<Rightarrow> exn" where
  "nonexistent_token (DbExn (NotFoundError en i)) = unauthorized ''Invalid or nonexistent access token.''"
| "nonexistent_token e = e"

definition authenticate_token ::
    "'c ttl_ops \<Rightarrow> db_env \<Rightarrow> timestamp \<Rightarrow> timestamp \<Rightarrow> string \<Rightarrow> bool \<Rightarrow> db \<Rightarrow> 'c \<Rightarrow> User result \<times> 'c" where
  "authenticate_token C env tick now raw_token allow_deactivated d cache =
     (let token_hash = hash_token raw_token
      in case cache_get C tick token_hash cache of
           Some cached_user \<Rightarrow>
             if u_deactivated cached_user \<and> \<not> allow_deactivated
             then (Inl (unauthorized ''User account is deactivated.''), cache)
             else (Inr cached_user, cache)
         | None \<Rightarrow>
             (case connection env (validate_session now token_hash allow_deactivated) d of
                Inl e \<Rightarrow> (Inl (nonexistent_token e), cache)
              | Inr user \<Rightarrow> (Inr user, cache_set C tick token_hash user cache)))"

section \<open>The dependencies of the routes\<close>

definition with_bearer ::
    "string option \<Rightarrow> (string \<Rightarrow> User result \<times> 'c) \<Rightarrow> 'c \<Rightarrow> User result \<times> 'c" where
  "with_bearer credentials k cache =
     (case credentials of
        None \<Rightarrow> (Inl (unauthorized ''Missing Bearer authentication token.''), cache)
      | Some tok \<Rightarrow>
          if tok = [] then (Inl (unauthorized ''Missing Bearer authentication token.''), cache) else k tok)"

definition get_current_user ::
    "'c ttl_ops \<Rightarrow> db_env \<Rightarrow> timestamp \<Rightarrow> timestamp \<Rightarrow> string option \<Rightarrow> db \<Rightarrow> 'c \<Rightarrow> User result \<times> 'c" where
  "get_current_user C env tick now credentials d cache =
     with_bearer credentials (\<lambda>tok. authenticate_token C env tick now tok False d cache) cache"

definition get_current_user_allow_deactivated ::
    "'c ttl_ops \<Rightarrow> db_env \<Rightarrow> timestamp \<Rightarrow> timestamp \<Rightarrow> string option \<Rightarrow> db \<Rightarrow> 'c \<Rightarrow> User result \<times> 'c" where
  "get_current_user_allow_deactivated C env tick now credentials d cache =
     with_bearer credentials (\<lambda>tok. authenticate_token C env tick now tok True d cache) cache"

text \<open>
  For a WebSocket the flag says whether the socket was closed with code 1008 before the error went
  on: any \<open>HTTPException\<close> closes it, another error does not.
\<close>

fun is_http_exception :: "exn \<Rightarrow> bool" where
  "is_http_exception (HTTPException c m) = True"
| "is_http_exception _ = False"

definition get_current_user_ws ::
    "'c ttl_ops \<Rightarrow> db_env \<Rightarrow> timestamp \<Rightarrow> timestamp \<Rightarrow> string option \<Rightarrow> db \<Rightarrow> 'c \<Rightarrow> bool \<times> User result \<times> 'c" where
  "get_current_user_ws C env tick now token d cache =
     (if token = None \<or> token = Some []
      then (True, Inl (unauthorized ''Missing WebSocket authentication token query parameter.''), cache)
      else (case authenticate_token C env tick now (the token) False d cache of
              (Inl e, c) \<Rightarrow> (is_http_exception e, Inl e, c)
            | (Inr u, c) \<Rightarrow> (False, Inr u, c)))"

section \<open>Sessions over time\<close>

text \<open>What the database must hold for a token to stand for a user.\<close>

definition valid_session :: "db \<Rightarrow> timestamp \<Rightarrow> string \<Rightarrow> User \<Rightarrow> bool" where
  "valid_session d now h u \<longleftrightarrow>
     (\<exists>tok. FETCH_ACCESS_TOKEN h d = Some tok \<and> \<not> at_is_revoked tok \<and> now < at_expires_at tok \<and>
            USER_BY_ID (at_user_id tok) d = Some u)"

lemma validate_session_iff:
  "validate_session now h allow d = Inr u \<longleftrightarrow> valid_session d now h u \<and> (u_deactivated u \<longrightarrow> allow)"
proof (cases "FETCH_ACCESS_TOKEN h d")
  case None
  then show ?thesis by (simp add: validate_session_def valid_session_def db_get_access_token_def)
next
  case (Some tok)
  then show ?thesis
    by (cases "USER_BY_ID (at_user_id tok) d")
      (auto simp: validate_session_def valid_session_def db_get_access_token_def db_get_user_by_id_def
        at_is_expired_def)
qed

text \<open>
  One worker's cache over time: requests authenticate against whatever the database holds then,
  invalidation events arrive, time passes.  \<open>validated\<close> records each successful check against the
  database: when, which hash, which user.
\<close>

record 'c session =
  clock :: timestamp
  cache :: 'c
  validated :: "(timestamp \<times> string \<times> User) set"

inductive session_step :: "'c ttl_ops \<Rightarrow> 'c session \<Rightarrow> 'c session \<Rightarrow> bool" for C :: "'c ttl_ops" where
  request:
    "authenticate_token C env (clock s) now raw allow d (cache s) = (r, c') \<Longrightarrow>
     session_step C s (s\<lparr>cache := c',
       validated := validated s \<union>
         {(clock s, hash_token raw, u) |u. r = Inr u \<and> valid_session d now (hash_token raw) u}\<rparr>)"
| event:
    "handle_invalidation_event C (clock s) e (cache s) = Inr c' \<Longrightarrow> session_step C s (s\<lparr>cache := c'\<rparr>)"
| evict: "session_step C s (s\<lparr>cache := cache_evict C (clock s) h (cache s)\<rparr>)"
| clear: "session_step C s (s\<lparr>cache := cache_clear C (cache s)\<rparr>)"
| time_passes: "clock s \<le> t \<Longrightarrow> session_step C s (s\<lparr>clock := t\<rparr>)"

inductive_cases session_stepE: "session_step C s s'"

definition cache_backed :: "'c ttl_ops \<Rightarrow> int \<Rightarrow> 'c session \<Rightarrow> bool" where
  "cache_backed C ttl s \<longleftrightarrow>
     (\<forall>t h u. clock s \<le> t \<longrightarrow> cache_get C t h (cache s) = Some u \<longrightarrow>
        (\<exists>m. (m, h, u) \<in> validated s \<and> m \<le> clock s \<and> t < m + ttl))"

lemma authenticate_cases:
  assumes "authenticate_token C env tick now raw allow d c = (r, c')"
  obtains (hit) u where "cache_get C tick (hash_token raw) c = Some u" "c' = c" "\<And>v. r = Inr v \<Longrightarrow> v = u"
    | (miss) u where "valid_session d now (hash_token raw) u" "r = Inr u" "c' = cache_set C tick (hash_token raw) u c"
    | (failed) e where "r = Inl e" "c' = c"
proof (cases "cache_get C tick (hash_token raw) c")
  case (Some u)
  with assms have "c' = c" "\<And>v. r = Inr v \<Longrightarrow> v = u"
    by (auto simp: authenticate_token_def split: if_splits)
  with Some hit show thesis by blast
next
  case None
  show thesis
  proof (cases "connection env (validate_session now (hash_token raw) allow) d")
    case (Inl e)
    with None assms failed show thesis by (auto simp: authenticate_token_def)
  next
    case (Inr u)
    then have "valid_session d now (hash_token raw) u"
      using connection_success [OF Inr] by (simp add: validate_session_iff)
    with None Inr assms miss show thesis by (auto simp: authenticate_token_def)
  qed
qed

lemma request_backed:
  assumes "ttl_laws C ttl" and "cache_backed C ttl s"
    and step: "authenticate_token C env (clock s) now raw allow d (cache s) = (r, c')"
  shows "cache_backed C ttl (s\<lparr>cache := c', validated := validated s \<union>
    {(clock s, hash_token raw, u) |u. r = Inr u \<and> valid_session d now (hash_token raw) u}\<rparr>)"
  using step
proof (cases rule: authenticate_cases)
  case (miss u)
  have "\<exists>m. (m, h, v) \<in> insert (clock s, hash_token raw, u) (validated s) \<and> m \<le> clock s \<and> t < m + ttl"
    if "clock s \<le> t" "cache_get C t h (cache_set C (clock s) (hash_token raw) u (cache s)) = Some v" for t h v
  proof (cases "h = hash_token raw")
    case True
    have "v = u \<and> t < clock s + ttl"
      using ttl_lawsD(1) [OF assms(1), of "cache s" "clock s" "hash_token raw" u t v] that(2) True
      by (simp add: cache_get_def cache_set_def)
    with True show ?thesis by auto
  next
    case False
    have "cache_get C t h (cache s) = Some v"
      using ttl_lawsD(2) [OF assms(1), of "cache s" "clock s" "hash_token raw" u t h v] that(2) False
      by (simp add: cache_get_def cache_set_def)
    with assms(2) that(1) show ?thesis unfolding cache_backed_def by blast
  qed
  with miss show ?thesis by (auto simp: cache_backed_def)
next
  case (hit u)
  with assms(2) show ?thesis unfolding cache_backed_def by simp blast
next
  case (failed e)
  with assms(2) show ?thesis by (simp add: cache_backed_def)
qed

lemma session_step_backed:
  assumes laws: "ttl_laws C ttl" and "session_step C s s'" and ok: "cache_backed C ttl s"
  shows "cache_backed C ttl s'"
  using assms(2)
proof (cases rule: session_step.cases)
  case (request env now raw allow d r c')
  with request_backed [OF laws ok] show ?thesis by simp
next
  case (event e c')
  with ok invalidation_only_removes [OF laws _ event(2)] show ?thesis
    unfolding cache_backed_def by simp
next
  case (evict h)
  with ok show ?thesis by (auto simp: cache_backed_def get_evict [OF laws] split: if_splits)
next
  case clear
  with ok ttl_lawsD(7) [OF laws] show ?thesis by (auto simp: cache_backed_def cache_get_def cache_clear_def)
next
  case (time_passes t)
  with ok show ?thesis unfolding cache_backed_def by simp (meson order_trans)
qed

interpretation sessions: invariant_system "session_step C"
  "\<lambda>s. ttl_laws C ttl \<longrightarrow> cache_backed C ttl s" for C ttl
  by unfold_locales (auto intro: session_step_backed)

definition fresh_session :: "'c ttl_ops \<Rightarrow> 'c session \<Rightarrow> bool" where
  "fresh_session C s \<longleftrightarrow> (\<forall>t h. cache_get C t h (cache s) = None) \<and> validated s = {}"

lemma run_backed:
  assumes "ttl_laws C ttl" and "fresh_session C s0" and "rtranclp (session_step C) s0 s"
  shows "cache_backed C ttl s"
proof -
  have "cache_backed C ttl s0" using assms(2) by (simp add: cache_backed_def fresh_session_def)
  with sessions.run_inv [OF assms(3), of ttl] assms(1) show ?thesis by blast
qed

text \<open>The example database with the token row keyed by the digest of the raw token \<open>abc\<close>.\<close>

definition session_db :: db where
  "session_db = sample_db\<lparr>access_tokens :=
     [\<lparr>at_token_hash = hash_token ''abc'', at_user_id = 1, at_is_revoked = False, at_expires_at = 900\<rparr>]\<rparr>"

lemma session_db_valid: "valid_session session_db 500 (hash_token ''abc'') (sample_user 1 ''alice'')"
  by (simp add: valid_session_def session_db_def FETCH_ACCESS_TOKEN_def USER_BY_ID_def sample_db_def sample_user_def)

lemma authenticate_refused:
  assumes "cache_get C tick (hash_token tok) c = None" and "\<forall>u. \<not> valid_session d now (hash_token tok) u"
  shows "\<exists>m. authenticate_token C healthy tick now tok allow d c = (Inl (HTTPException 401 m), c)"
proof (cases "validate_session now (hash_token tok) allow d")
  case (Inr u)
  with assms(2) show ?thesis by (simp add: validate_session_iff)
next
  case (Inl e)
  then have "\<exists>m. nonexistent_token (connection_except e) = HTTPException 401 m"
    by (auto simp: validate_session_def res_bind_iffs db_get_access_token_def db_get_user_by_id_def
        not_found_def split: option.splits if_splits)
  with Inl assms(1) show ?thesis by (auto simp: authenticate_token_def connection_healthy)
qed

lemma authenticate_miss:
  assumes "cache_get C tick (hash_token raw) c = None" and "valid_session d now (hash_token raw) u"
    and "\<not> u_deactivated u"
  shows "authenticate_token C healthy tick now raw allow d c =
    (Inr u, cache_set C tick (hash_token raw) u c)"
proof -
  have "validate_session now (hash_token raw) allow d = Inr u"
    using assms(2,3) by (simp add: validate_session_iff)
  with assms(1) show ?thesis by (simp add: authenticate_token_def connection_healthy)
qed

section \<open>Properties of authentication\<close>

text \<open>
  C4 (authentication_staleness_bounded): Authentication is sound up to the cache's time to live.  In
  every run of a worker from an empty cache, with any requests, invalidation events and database
  contents in between, a token is accepted for a user only if that very token was found valid in
  the database, for that user, at most the time to live earlier (or just now).
\<close>

theorem authentication_staleness_bounded:
  assumes "ttl_laws C ttl" and "0 < ttl" and "fresh_session C s0" and "rtranclp (session_step C) s0 s"
    and "authenticate_token C env (clock s) now raw allow d (cache s) = (Inr u, c')"
  shows "(\<exists>m. (m, hash_token raw, u) \<in> validated s \<and> m \<le> clock s \<and> clock s < m + ttl) \<or>
    valid_session d now (hash_token raw) u"
  using assms(5)
proof (cases rule: authenticate_cases)
  case (hit v)
  with run_backed [OF assms(1,3,4)] show ?thesis unfolding cache_backed_def by blast
qed auto

theorem authentication_staleness_bounded_witness:
  "\<exists>c'. authenticate_token list_ttl healthy 0 500 ''abc'' False session_db [] = (Inr (sample_user 1 ''alice''), c') \<and>
     valid_session session_db 500 (hash_token ''abc'') (sample_user 1 ''alice'')"
proof -
  let ?s = "\<lparr>clock = 0, cache = [], validated = {}\<rparr>"
  have fresh: "fresh_session list_ttl ?s" by (simp add: fresh_session_def cache_get_def list_ttl_def)
  have auth: "authenticate_token list_ttl healthy 0 500 ''abc'' False session_db [] =
      (Inr (sample_user 1 ''alice''), cache_set list_ttl 0 (hash_token ''abc'') (sample_user 1 ''alice'') [])"
    by (rule authenticate_miss [OF _ session_db_valid]) (simp_all add: cache_get_def list_ttl_def sample_user_def)
  from authentication_staleness_bounded [OF list_ttl_laws _ fresh rtranclp.rtrancl_refl, of healthy 500 "''abc''"
      False session_db "sample_user 1 ''alice''"] auth show ?thesis by auto
qed

text \<open>
  With nothing cached the database decides alone: a token is accepted if and
  only if it is stored, not revoked, not expired, and its user exists and is active (or deactivated
  users are allowed); then it is cached.  Otherwise the answer is status 401 and the cache is
  unchanged.
\<close>

theorem uncached_authentication:
  assumes "cache_get C tick (hash_token raw) c = None"
  shows "(\<exists>u. valid_session d now (hash_token raw) u \<and> (u_deactivated u \<longrightarrow> allow) \<and>
           authenticate_token C healthy tick now raw allow d c =
             (Inr u, cache_set C tick (hash_token raw) u c)) \<or>
         ((\<forall>u. valid_session d now (hash_token raw) u \<longrightarrow> u_deactivated u \<and> \<not> allow) \<and>
          (\<exists>m. authenticate_token C healthy tick now raw allow d c = (Inl (HTTPException 401 m), c)))"
proof (cases "validate_session now (hash_token raw) allow d")
  case (Inr u)
  with assms show ?thesis
    using validate_session_iff [of now "hash_token raw" allow d u]
    by (auto simp: authenticate_token_def connection_healthy)
next
  case (Inl e)
  then have "\<forall>u. valid_session d now (hash_token raw) u \<longrightarrow> u_deactivated u \<and> \<not> allow"
    using validate_session_iff [of now "hash_token raw" allow d] by auto
  moreover have "\<exists>m. nonexistent_token (connection_except e) = HTTPException 401 m"
    using Inl by (auto simp: validate_session_def res_bind_iffs db_get_access_token_def db_get_user_by_id_def
        not_found_def split: option.splits if_splits)
  ultimately show ?thesis
    using assms Inl by (auto simp: authenticate_token_def connection_healthy)
qed

theorem uncached_authentication_witness:
  "\<exists>m. authenticate_token list_ttl healthy 0 1000 ''abc'' False session_db [] = (Inl (HTTPException 401 m), [])"
proof -
  have "cache_get list_ttl 0 (hash_token ''abc'') [] = None" by (simp add: cache_get_def list_ttl_def)
  from uncached_authentication [OF this, of session_db 1000 False]
  show ?thesis by (auto simp: valid_session_def session_db_def FETCH_ACCESS_TOKEN_def)
qed



text \<open>
  Revocation takes effect on a worker once it has handled the event: if the
  token is revoked in the database and the token-revoked event was processed, a request with that
  token is refused, at any later time.
\<close>

theorem revocation_takes_effect:
  assumes "ttl_laws C ttl" and "t \<le> tick"
    and "handle_invalidation_event C t (to_dict (TokenRevokedEvent (hash_token raw))) c = Inr c'"
    and "FETCH_ACCESS_TOKEN (hash_token raw) d = Some tok" and "at_is_revoked tok"
  shows "authenticate_token C healthy tick now raw allow d c' =
    (Inl (HTTPException 401 ''Access token has been revoked.''), c')"
proof -
  have "hash_token raw \<noteq> []" using length_hash_token [of raw] by auto
  then have "c' = cache_evict C t (hash_token raw) c"
    using assms(3) invalidation_of_token [of "hash_token raw" C t c] by simp
  then have "cache_get C tick (hash_token raw) c' = None" by (simp add: get_evict [OF assms(1)])
  with assms(4,5) show ?thesis
    by (simp add: authenticate_token_def connection_healthy validate_session_def db_get_access_token_def)
qed

theorem revocation_takes_effect_witness:
  "\<exists>c'. handle_invalidation_event list_ttl 5 (to_dict (TokenRevokedEvent (hash_token ''abc'')))
          [(hash_token ''abc'', sample_user 1 ''alice'', 300)] = Inr c' \<and>
        authenticate_token list_ttl healthy 6 500 ''abc'' False
          (snd (REVOKE_ACCESS_TOKEN (hash_token ''abc'') session_db)) c' =
        (Inl (HTTPException 401 ''Access token has been revoked.''), c')"
proof -
  have ne: "hash_token ''abc'' \<noteq> []" using length_hash_token [of "''abc''"] by auto
  have row: "FETCH_ACCESS_TOKEN (hash_token ''abc'') (snd (REVOKE_ACCESS_TOKEN (hash_token ''abc'') session_db)) =
      Some \<lparr>at_token_hash = hash_token ''abc'', at_user_id = 1, at_is_revoked = True, at_expires_at = 900\<rparr>"
    by (simp add: FETCH_ACCESS_TOKEN_def REVOKE_ACCESS_TOKEN_def session_db_def)
  show ?thesis
    using revocation_takes_effect [OF list_ttl_laws _ invalidation_of_token [OF ne] row, of 5 6]
      invalidation_of_token [OF ne, of list_ttl 5] by auto
qed

end
