(* ===== verification/Config.thy ===== *)
theory Config
  imports Py_Text
begin

text \<open>
  Settings and logging: the configuration classes and the loader of \<open>src/src/config/settings.py\<close>, and the
  filter, formatters and configuration of \<open>src/src/config/logging.py\<close>.  The file system, the YAML parser
  and pydantic's construction of the settings from a dictionary are parameters.
\<close>

section \<open>Settings\<close>

record LoggingConfig =
  lc_level :: string

record AuthConfig =
  access_token_ttl :: int
  refresh_token_ttl :: int

text \<open>The time-out is a float in seconds in the source, and in milliseconds here.\<close>

record DatabaseConfig =
  dc_host :: string
  dc_port :: int
  dc_user :: string
  dc_password :: string
  dc_database :: string
  dc_min_pool_size :: int
  dc_max_pool_size :: int
  dc_command_timeout_ms :: int

record RedisConfig =
  rc_url :: string
  rc_max_connections :: int

record AppConfig =
  ac_logging :: LoggingConfig
  ac_database :: DatabaseConfig
  ac_auth :: AuthConfig
  ac_redis :: RedisConfig

definition default_logging :: LoggingConfig where
  "default_logging = \<lparr>lc_level = ''DEBUG''\<rparr>"

definition default_auth_config :: AuthConfig where
  "default_auth_config = \<lparr>access_token_ttl = 900, refresh_token_ttl = 604800\<rparr>"

definition default_database :: DatabaseConfig where
  "default_database =
     \<lparr>dc_host = ''localhost'', dc_port = 5432, dc_user = ''postgres'', dc_password = '''', dc_database = ''app_db'',
      dc_min_pool_size = 5, dc_max_pool_size = 70, dc_command_timeout_ms = 60000\<rparr>"

definition default_redis :: RedisConfig where
  "default_redis = \<lparr>rc_url = ''redis://localhost:6379/0'', rc_max_connections = 100\<rparr>"

definition default_app :: AppConfig where
  "default_app =
     \<lparr>ac_logging = default_logging, ac_database = default_database,
      ac_auth = default_auth_config, ac_redis = default_redis\<rparr>"

text \<open>\<open>load_config_file\<close>: no file, and a file whose YAML value is falsy, give the empty dictionary.\<close>

definition load_config_file :: "(string \<Rightarrow> bool) \<Rightarrow> (string \<Rightarrow> 'y option) \<Rightarrow> 'y \<Rightarrow> string \<Rightarrow> 'y" where
  "load_config_file is_file safe_load empty_dict config_path =
     (if \<not> is_file config_path then empty_dict
      else case safe_load config_path of None \<Rightarrow> empty_dict | Some v \<Rightarrow> v)"

definition settings_path :: "string option \<Rightarrow> string" where
  "settings_path app_config_path =
     (case app_config_path of
        Some p \<Rightarrow> if p \<noteq> [] then p else ''config/messenger.yaml''
      | None \<Rightarrow> ''config/messenger.yaml'')"

definition get_settings ::
    "string option \<Rightarrow> (string \<Rightarrow> bool) \<Rightarrow> (string \<Rightarrow> 'y option) \<Rightarrow> 'y \<Rightarrow> ('y \<Rightarrow> AppConfig) \<Rightarrow> AppConfig" where
  "get_settings app_config_path is_file safe_load empty_dict build =
     build (load_config_file is_file safe_load empty_dict (settings_path app_config_path))"

section \<open>Logging\<close>

text \<open>The attributes of a log record the filter and the formatters read or set.\<close>

record log_record =
  lr_timestamp :: string
  lr_levelname :: string
  lr_process :: int
  lr_name :: string
  lr_message :: string
  lr_exc_text :: "string option"
  lr_req_tag :: "string option"
  lr_request_id :: "string option"

definition active_request :: "string option \<Rightarrow> bool" where
  "active_request req_id \<longleftrightarrow> (case req_id of None \<Rightarrow> False | Some r \<Rightarrow> r \<noteq> [] \<and> r \<noteq> ''system'')"

definition LogContextFilter_filter :: "string option \<Rightarrow> log_record \<Rightarrow> bool \<times> log_record" where
  "LogContextFilter_filter request_id_var record =
     (True,
      if active_request request_id_var
      then record\<lparr>lr_req_tag := Some ('' [req:'' @ the request_id_var @ '']''), lr_request_id := request_id_var\<rparr>
      else record\<lparr>lr_req_tag := Some [], lr_request_id := None\<rparr>)"

text \<open>The record as \<open>SafeStandardFormatter\<close> passes it on: a missing tag becomes the empty one.\<close>

definition SafeStandardFormatter_prepare :: "log_record \<Rightarrow> log_record" where
  "SafeStandardFormatter_prepare record =
     (if lr_req_tag record = None then record\<lparr>lr_req_tag := Some []\<rparr> else record)"

datatype log_value = LogText string | LogInt int

definition JSONFormatter_data :: "string option \<Rightarrow> log_record \<Rightarrow> (string \<times> log_value) list" where
  "JSONFormatter_data request_id_var record =
     (let req_id = (case lr_request_id record of
                      Some r \<Rightarrow> if r \<noteq> [] then Some r else request_id_var
                    | None \<Rightarrow> request_id_var)
      in [(''timestamp'', LogText (lr_timestamp record)), (''level'', LogText (lr_levelname record)),
          (''pid'', LogInt (lr_process record)), (''logger'', LogText (lr_name record)),
          (''message'', LogText (lr_message record))] @
         (if active_request req_id then [(''request_id'', LogText (the req_id))] else []) @
         (case lr_exc_text record of None \<Rightarrow> [] | Some e \<Rightarrow> [(''exception'', LogText e)]))"

text \<open>
  \<open>getattr(settings.logging, "json_format", False)\<close>: the settings class declares no such field, so the
  default is what is read.
\<close>

definition use_json :: "LoggingConfig \<Rightarrow> bool" where
  "use_json logging = False"

definition console_formatter :: "LoggingConfig \<Rightarrow> string" where
  "console_formatter logging = (if use_json logging then ''json'' else ''standard'')"

section \<open>Facts\<close>

lemma defaults_without_file:
  "(\<And>p. \<not> is_file p) \<Longrightarrow> get_settings v is_file safe_load empty_dict build = build empty_dict"
  by (simp add: get_settings_def load_config_file_def)

text \<open>Both formatters name a request exactly when the filter saw an active one.\<close>

lemma formatters_agree_on_request:
  assumes "LogContextFilter_filter var record = (b, record')"
  shows "(\<exists>r. (''request_id'', LogText r) \<in> set (JSONFormatter_data var record')) \<longleftrightarrow>
    lr_req_tag (SafeStandardFormatter_prepare record') \<noteq> Some []"
  using assms
  by (cases var)
    (auto simp: LogContextFilter_filter_def JSONFormatter_data_def SafeStandardFormatter_prepare_def
      active_request_def Let_def split: if_splits option.splits)

end
