(* ===== verification/Auth_Service.thy ===== *)
theory Auth_Service
  imports Group_Service Dependencies Config
begin

text \<open>
  \<open>AuthService\<close> of \<open>src/src/services/auth.py\<close> with the password functions of
  \<open>src/src/crypto/passwords.py\<close>: registration, login, refresh-token rotation with reuse detection,
  and logout.  The Argon2 hasher is third-party code; its three operations are the fields of
  \<open>argon_ops\<close>, an argument.  The raw tokens, identifiers and instants a call draws are arguments.
\<close>

section \<open>Passwords\<close>

datatype argon_error = VerifyMismatchError | InvalidHashError | OtherArgonError string

record argon_ops =
  ph_hash :: "string \<Rightarrow> argon_error + string"
  ph_verify :: "string \<Rightarrow> string \<Rightarrow> argon_error + bool"
  ph_check_needs_rehash :: "string \<Rightarrow> argon_error + bool"

fun argon_exn :: "argon_error \<Rightarrow> exn" where
  "argon_exn VerifyMismatchError = ArgonError ''VerifyMismatchError''"
| "argon_exn InvalidHashError = ArgonError ''InvalidHashError''"
| "argon_exn (OtherArgonError m) = ArgonError m"

definition hash_password :: "argon_ops \<Rightarrow> string \<Rightarrow> string result" where
  "hash_password A password = (case ph_hash A password of Inl e \<Rightarrow> Inl (argon_exn e) | Inr h \<Rightarrow> Inr h)"

definition verify_password :: "argon_ops \<Rightarrow> string \<Rightarrow> string \<Rightarrow> bool result" where
  "verify_password A password hashed_password =
     (case ph_verify A hashed_password password of
        Inr b \<Rightarrow> Inr b
      | Inl VerifyMismatchError \<Rightarrow> Inr False
      | Inl InvalidHashError \<Rightarrow> Inr False
      | Inl e \<Rightarrow> Inl (argon_exn e))"

definition needs_rehash :: "argon_ops \<Rightarrow> string \<Rightarrow> bool result" where
  "needs_rehash A hashed_password =
     (case ph_check_needs_rehash A hashed_password of
        Inr b \<Rightarrow> Inr b
      | Inl InvalidHashError \<Rightarrow> Inr False
      | Inl e \<Rightarrow> Inl (argon_exn e))"

section \<open>Token pairs\<close>

record TokenPair =
  access_token :: string
  refresh_token :: string
  access_token_expires_at :: timestamp
  refresh_token_expires_at :: timestamp

text \<open>What one call of \<open>TokenPair.generate\<close> draws: two random texts and two clock readings.\<close>

record token_draw =
  drawn_access :: string
  drawn_refresh :: string
  access_instant :: timestamp
  refresh_instant :: timestamp

definition TokenPair_generate :: "int \<Rightarrow> int \<Rightarrow> token_draw \<Rightarrow> TokenPair" where
  "TokenPair_generate access_ttl refresh_ttl draw =
     \<lparr>access_token = drawn_access draw, refresh_token = drawn_refresh draw,
      access_token_expires_at = expiration_ts (access_instant draw) access_ttl,
      refresh_token_expires_at = expiration_ts (refresh_instant draw) refresh_ttl\<rparr>"

definition generate_token_pair :: "AuthConfig \<Rightarrow> token_draw \<Rightarrow> TokenPair" where
  "generate_token_pair settings draw =
     TokenPair_generate (access_token_ttl settings) (refresh_token_ttl settings) draw"

definition issue_token_pair :: "uuid \<Rightarrow> TokenPair \<Rightarrow> unit tx" where
  "issue_token_pair user_id token_pair =
     tx_bind (db_create_access_token
        \<lparr>at_token_hash = hash_token (access_token token_pair), at_user_id = user_id,
          at_is_revoked = False, at_expires_at = access_token_expires_at token_pair\<rparr>) (\<lambda>_.
     db_create_refresh_token
        \<lparr>rt_token_hash = hash_token (refresh_token token_pair), rt_user_id = user_id,
          rt_is_revoked = False, rt_expires_at = refresh_token_expires_at token_pair\<rparr>)"

section \<open>Registration\<close>

definition register_body :: "User \<Rightarrow> TokenPair \<Rightarrow> User tx" where
  "register_body user_model token_pair =
     tx_bind (db_create_user user_model) (\<lambda>user.
     tx_bind (issue_token_pair (u_user_id user) token_pair) (\<lambda>_. tx_return user))"

definition register ::
    "argon_ops \<Rightarrow> AuthConfig \<Rightarrow> db_env \<Rightarrow> token_draw \<Rightarrow> uuid \<Rightarrow> timestamp \<Rightarrow> string \<Rightarrow> string \<Rightarrow> db \<Rightarrow>
     (User \<times> TokenPair) result \<times> db" where
  "register A settings env draw new_id created username password d =
     decorated (handle_db_constraint_error [] [(''username'', PStr username), (''password'', PStr password)])
       (case hash_password A password of
          Inl e \<Rightarrow> (Inl e, d)
        | Inr password_hash \<Rightarrow>
            (let user_model = \<lparr>u_user_id = new_id, u_username = username, u_password_hash = password_hash,
                                u_deactivated = False, u_created_at = created\<rparr>;
                 token_pair = generate_token_pair settings draw
             in decorated (\<lambda>r. res_bind r (\<lambda>user. Inr (user, token_pair)))
                  (transaction env (register_body user_model token_pair) d)))"

section \<open>Login\<close>

definition tx_lift :: "'a result \<Rightarrow> 'a tx" where
  "tx_lift r = tx_read (\<lambda>_. r)"

definition login_reactivate :: "User \<Rightarrow> bool tx" where
  "login_reactivate user =
     (if u_deactivated user
      then tx_bind (db_reactivate_user (u_user_id user)) (\<lambda>_. tx_return True)
      else tx_return False)"

definition login_rehash :: "argon_ops \<Rightarrow> string \<Rightarrow> User \<Rightarrow> bool \<Rightarrow> bool tx" where
  "login_rehash A password user cache_needs_invalidation =
     tx_bind (tx_lift (needs_rehash A (u_password_hash user))) (\<lambda>rehash.
       if rehash
       then tx_bind (tx_lift (hash_password A password)) (\<lambda>new_hash.
            tx_bind (db_update_user_password (u_user_id user) new_hash (u_password_hash user))
              (\<lambda>_. tx_return True))
       else tx_return cache_needs_invalidation)"

text \<open>The block of \<open>login\<close>: the user as read, and whether the caches need invalidation.\<close>

definition login_body :: "argon_ops \<Rightarrow> string \<Rightarrow> string \<Rightarrow> TokenPair \<Rightarrow> (User \<times> bool) tx" where
  "login_body A username password token_pair =
     tx_bind (tx_read (db_get_user_by_username username)) (\<lambda>user.
     tx_bind (tx_lift (verify_password A password (u_password_hash user))) (\<lambda>ok.
       if \<not> ok then tx_raise (ServiceExn InvalidCredentialsError)
       else
         tx_bind (login_reactivate user) (\<lambda>reactivated.
         tx_bind (login_rehash A password user reactivated) (\<lambda>cache_needs_invalidation.
         tx_bind (issue_token_pair (u_user_id user) token_pair) (\<lambda>_.
           tx_return (user, cache_needs_invalidation))))))"

text \<open>
  What follows a committed block and may raise: the database stays committed, and what was emitted
  before the error stays emitted.
\<close>

definition then_call ::
    "'a result \<times> db \<Rightarrow> ('a \<Rightarrow> 'b result \<times> effect list) \<Rightarrow> 'b result \<times> db \<times> effect list" where
  "then_call res k =
     (case res of
        (Inl e, d) \<Rightarrow> (Inl e, d, [])
      | (Inr x, d) \<Rightarrow> (case k x of (r, effs) \<Rightarrow> (r, d, effs)))"

definition invalid_credentials_overrides :: "(Constraint \<times> handler) list" where
  "invalid_credentials_overrides =
     [(FK_ACCESS_TOKENS_USER_ID, HandlerType (ServiceExn InvalidCredentialsError)),
      (FK_REFRESH_TOKENS_USER_ID, HandlerType (ServiceExn InvalidCredentialsError))]"

definition login ::
    "argon_ops \<Rightarrow> AuthConfig \<Rightarrow> db_env \<Rightarrow> redis_exc option \<Rightarrow> token_draw \<Rightarrow> string \<Rightarrow> string \<Rightarrow> db \<Rightarrow>
     (User \<times> TokenPair) option result \<times> db \<times> effect list" where
  "login A settings env fault draw username password d =
     (let token_pair = generate_token_pair settings draw
      in decorated (guarded invalid_credentials_overrides
             [(USER, HandlerType (ServiceExn InvalidCredentialsError))]
             [(''username'', PStr username), (''password'', PStr password)])
           (then_call (transaction env (login_body A username password token_pair) d)
             (\<lambda>(user, cache_needs_invalidation).
                if cache_needs_invalidation
                then (case publish_stream_event fault (UserInvalidatedEvent (u_user_id user)) of
                        (r, effs) \<Rightarrow> (res_bind r (\<lambda>_. Inr (user, token_pair)), effs))
                else (Inr (user, token_pair), []))))"

section \<open>Refresh\<close>

text \<open>The block of \<open>refresh\<close>: the token's user and whether the token had been used before.\<close>

definition refresh_body :: "timestamp \<Rightarrow> string \<Rightarrow> TokenPair \<Rightarrow> (uuid \<times> bool) tx" where
  "refresh_body now refresh_hash token_pair =
     tx_bind (tx_read (db_get_refresh_token refresh_hash)) (\<lambda>token_record.
       let user_id = rt_user_id token_record
       in if rt_is_revoked token_record
          then tx_bind (db_revoke_all_user_access_tokens user_id) (\<lambda>_.
               tx_bind (db_revoke_all_user_refresh_tokens user_id) (\<lambda>_. tx_return (user_id, True)))
          else if rt_is_expired now token_record
          then tx_raise (ServiceExn TokenExpiredError)
          else tx_bind (db_revoke_refresh_token refresh_hash) (\<lambda>_.
               tx_bind (issue_token_pair user_id token_pair) (\<lambda>_. tx_return (user_id, False))))"

definition refresh ::
    "AuthConfig \<Rightarrow> db_env \<Rightarrow> redis_exc option \<Rightarrow> token_draw \<Rightarrow> timestamp \<Rightarrow> string \<Rightarrow> db \<Rightarrow>
     TokenPair option result \<times> db \<times> effect list" where
  "refresh settings env fault draw now raw_refresh_token d =
     (let refresh_hash = hash_token raw_refresh_token;
          token_pair = generate_token_pair settings draw
      in decorated (guarded [] [(REFRESH_TOKEN, HandlerType (ServiceExn InvalidTokenError))]
             [(''raw_refresh_token'', PStr raw_refresh_token)])
           (then_call (transaction env (refresh_body now refresh_hash token_pair) d)
             (\<lambda>(user_id, is_reused).
                if is_reused
                then (case publish_stream_event fault (UserInvalidatedEvent user_id) of
                        (r, effs) \<Rightarrow> (res_bind r (\<lambda>_. Inl (ServiceExn TokenRevokedError)), effs))
                else (case publish_stream_event fault (TokenRevokedEvent refresh_hash) of
                        (r, effs) \<Rightarrow> (res_bind r (\<lambda>_. Inr token_pair), effs)))))"

section \<open>Logout\<close>

definition logout_body :: "string \<Rightarrow> string option \<Rightarrow> unit tx" where
  "logout_body refresh_hash access_hash =
     tx_bind (db_revoke_refresh_token refresh_hash) (\<lambda>_.
       case access_hash of
         None \<Rightarrow> tx_return ()
       | Some h \<Rightarrow> db_revoke_access_token h)"

text \<open>
  The two publications, each with its own fault: an error of the first leaves the second undone.
\<close>

definition logout_events ::
    "redis_exc option \<Rightarrow> redis_exc option \<Rightarrow> string \<Rightarrow> string option \<Rightarrow> unit result \<times> effect list" where
  "logout_events fault1 fault2 refresh_hash access_hash =
     (case publish_stream_event fault1 (TokenRevokedEvent refresh_hash) of
        (Inl e, effs) \<Rightarrow> (Inl e, effs)
      | (Inr _, effs) \<Rightarrow>
          (case access_hash of
             None \<Rightarrow> (Inr (), effs)
           | Some h \<Rightarrow>
               (case publish_stream_event fault2 (TokenRevokedEvent h) of (r, effs') \<Rightarrow> (r, effs @ effs'))))"

text \<open>\<open>hash_token(raw_access_token) if raw_access_token else None\<close>.\<close>

definition optional_hash :: "string option \<Rightarrow> string option" where
  "optional_hash raw =
     (case raw of None \<Rightarrow> None | Some t \<Rightarrow> if t = [] then None else Some (hash_token t))"

definition logout ::
    "'c ttl_ops \<Rightarrow> db_env \<Rightarrow> redis_exc option \<Rightarrow> redis_exc option \<Rightarrow> timestamp \<Rightarrow> string \<Rightarrow> string option \<Rightarrow>
     db \<Rightarrow> 'c \<Rightarrow> unit option result \<times> db \<times> 'c \<times> effect list" where
  "logout C env fault1 fault2 tick raw_refresh_token raw_access_token d c =
     (let refresh_hash = hash_token raw_refresh_token;
          access_hash = optional_hash raw_access_token
      in decorated (handle_db_not_found_error [(REFRESH_TOKEN, HandlerNone), (ACCESS_TOKEN, HandlerNone)]
             [(''raw_refresh_token'', PStr raw_refresh_token),
              (''raw_access_token'', case raw_access_token of None \<Rightarrow> PNone | Some t \<Rightarrow> PStr t)])
           (case transaction env (logout_body refresh_hash access_hash) d of
              (Inl e, d') \<Rightarrow> (Inl e, d', c, [])
            | (Inr _, d') \<Rightarrow>
                (let c' = (case access_hash of None \<Rightarrow> c | Some h \<Rightarrow> cache_evict C tick h c)
                 in case logout_events fault1 fault2 refresh_hash access_hash of
                      (r, effs) \<Rightarrow> (r, d', c', effs))))"

section \<open>Writes\<close>

lemma auth_body_writes [tx_writes]:
  "runs_writes (issue_token_pair u p)" "runs_writes (register_body m p)"
  "runs_writes (login_body A n pw p)" "runs_writes (refresh_body now h p)" "runs_writes (logout_body h ah)"
  unfolding issue_token_pair_def register_body_def login_body_def login_reactivate_def login_rehash_def refresh_body_def logout_body_def
    tx_lift_def Let_def
  by (intro tx_writes | (cases ah; simp add: tx_writes))+

lemma then_call_db [simp]: "fst (snd (then_call p k)) = snd p"
  by (cases p; cases "fst p") (auto simp: then_call_def split: prod.split)

lemma then_call_simps [simp]:
  "then_call (Inl e, d) k = (Inl e, d, [])"
  "then_call (Inr x, d) k = (fst (k x), d, snd (k x))"
  by (simp_all add: then_call_def split: prod.split)

section \<open>Token tables\<close>

text \<open>
  What the flows rely on, for access and refresh tokens alike: revoking a token marks its row and
  keeps the others, revoking all tokens of a user marks exactly that user's rows, and a revoked
  token is never made valid again by either.
\<close>

locale token_store =
  fixes fetch :: "string \<Rightarrow> db \<Rightarrow> 't option"
    and revoke :: "string \<Rightarrow> db \<Rightarrow> db"
    and revoke_all :: "uuid \<Rightarrow> db \<Rightarrow> db"
    and revoked :: "'t \<Rightarrow> bool"
    and mark :: "'t \<Rightarrow> 't"
    and owner :: "'t \<Rightarrow> uuid"
  assumes fetch_revoke: "fetch h (revoke k d) = map_option (\<lambda>t. if h = k then mark t else t) (fetch h d)"
    and fetch_revoke_all: "fetch h (revoke_all u d) = map_option (\<lambda>t. if owner t = u then mark t else t) (fetch h d)"
    and mark_revoked: "revoked (mark t)"
    and mark_owner: "owner (mark t) = owner t"
begin

lemma revoked_after_revoke: "fetch h (revoke h d) = Some t \<Longrightarrow> revoked t"
  using fetch_revoke [of h h d] mark_revoked by auto

lemma revoked_after_revoke_all:
  assumes "fetch h (revoke_all u d) = Some t" and "owner t = u"
  shows "revoked t"
proof -
  from assms(1) obtain z where z: "t = (if owner z = u then mark z else z)"
    unfolding fetch_revoke_all by (auto simp only: map_option_eq_Some)
  show ?thesis
  proof (cases "owner z = u")
    case True
    with z mark_revoked [of z] show ?thesis by simp
  next
    case False
    with z assms(2) show ?thesis by simp
  qed
qed

lemma revoked_stays_revoked:
  assumes "fetch h d = Some t" and "revoked t"
  shows "\<exists>t'. fetch h (revoke k d) = Some t' \<and> revoked t' \<and> owner t' = owner t"
    and "\<exists>t'. fetch h (revoke_all u d) = Some t' \<and> revoked t' \<and> owner t' = owner t"
  using assms by (auto simp: fetch_revoke fetch_revoke_all mark_revoked mark_owner)

end

interpretation access: token_store FETCH_ACCESS_TOKEN "\<lambda>h d. snd (REVOKE_ACCESS_TOKEN h d)"
  REVOKE_ALL_USER_ACCESS_TOKENS at_is_revoked "\<lambda>t. t\<lparr>at_is_revoked := True\<rparr>" at_user_id
proof
  fix h k u d
  show "FETCH_ACCESS_TOKEN h (snd (REVOKE_ACCESS_TOKEN k d)) =
      map_option (\<lambda>t. if h = k then t\<lparr>at_is_revoked := True\<rparr> else t) (FETCH_ACCESS_TOKEN h d)"
    by (cases "FETCH_ACCESS_TOKEN h d")
      (auto simp: FETCH_ACCESS_TOKEN_def REVOKE_ACCESS_TOKEN_def fetchrow_update_where dest: fetchrow_SomeD)
  show "FETCH_ACCESS_TOKEN h (REVOKE_ALL_USER_ACCESS_TOKENS u d) =
      map_option (\<lambda>t. if at_user_id t = u then t\<lparr>at_is_revoked := True\<rparr> else t) (FETCH_ACCESS_TOKEN h d)"
    by (simp add: FETCH_ACCESS_TOKEN_def REVOKE_ALL_USER_ACCESS_TOKENS_def fetchrow_update_where)
qed simp_all

interpretation refreshes: token_store FETCH_REFRESH_TOKEN "\<lambda>h d. snd (REVOKE_REFRESH_TOKEN h d)"
  REVOKE_ALL_USER_REFRESH_TOKENS rt_is_revoked "\<lambda>t. t\<lparr>rt_is_revoked := True\<rparr>" rt_user_id
proof
  fix h k u d
  show "FETCH_REFRESH_TOKEN h (snd (REVOKE_REFRESH_TOKEN k d)) =
      map_option (\<lambda>t. if h = k then t\<lparr>rt_is_revoked := True\<rparr> else t) (FETCH_REFRESH_TOKEN h d)"
    by (cases "FETCH_REFRESH_TOKEN h d")
      (auto simp: FETCH_REFRESH_TOKEN_def REVOKE_REFRESH_TOKEN_def fetchrow_update_where dest: fetchrow_SomeD)
  show "FETCH_REFRESH_TOKEN h (REVOKE_ALL_USER_REFRESH_TOKENS u d) =
      map_option (\<lambda>t. if rt_user_id t = u then t\<lparr>rt_is_revoked := True\<rparr> else t) (FETCH_REFRESH_TOKEN h d)"
    by (simp add: FETCH_REFRESH_TOKEN_def REVOKE_ALL_USER_REFRESH_TOKENS_def fetchrow_update_where)
qed simp_all

section \<open>The repository functions on tokens\<close>

lemma db_revoke_refresh_token_eq [query_defs]:
  "db_revoke_refresh_token h d =
     (if FETCH_REFRESH_TOKEN h d = None then Inl (not_found REFRESH_TOKEN h)
      else Inr ((), snd (REVOKE_REFRESH_TOKEN h d)))"
  by (auto simp: db_revoke_refresh_token_def REVOKE_REFRESH_TOKEN_def FETCH_REFRESH_TOKEN_def fetchrow_None_iff)

lemma db_revoke_access_token_eq [query_defs]:
  "db_revoke_access_token h d =
     (if FETCH_ACCESS_TOKEN h d = None then Inl (not_found ACCESS_TOKEN h)
      else Inr ((), snd (REVOKE_ACCESS_TOKEN h d)))"
  by (auto simp: db_revoke_access_token_def REVOKE_ACCESS_TOKEN_def FETCH_ACCESS_TOKEN_def fetchrow_None_iff)

lemma db_get_refresh_token_eq [query_defs]:
  "db_get_refresh_token h d =
     (case FETCH_REFRESH_TOKEN h d of None \<Rightarrow> Inl (not_found REFRESH_TOKEN h) | Some t \<Rightarrow> Inr t)"
  by (simp add: db_get_refresh_token_def)

text \<open>A draw is fresh when neither of its digests is stored yet.\<close>

definition fresh_draw :: "token_draw \<Rightarrow> db \<Rightarrow> bool" where
  "fresh_draw draw d \<longleftrightarrow>
     hash_token (drawn_access draw) \<notin> at_token_hash ` set (access_tokens d) \<and>
     hash_token (drawn_refresh draw) \<notin> rt_token_hash ` set (refresh_tokens d)"

definition access_row :: "uuid \<Rightarrow> TokenPair \<Rightarrow> AccessToken" where
  "access_row u pair = \<lparr>at_token_hash = hash_token (access_token pair), at_user_id = u,
     at_is_revoked = False, at_expires_at = access_token_expires_at pair\<rparr>"

definition refresh_row :: "uuid \<Rightarrow> TokenPair \<Rightarrow> RefreshToken" where
  "refresh_row u pair = \<lparr>rt_token_hash = hash_token (refresh_token pair), rt_user_id = u,
     rt_is_revoked = False, rt_expires_at = refresh_token_expires_at pair\<rparr>"

lemma issue_token_pair_eq:
  "issue_token_pair u pair d =
     (if hash_token (access_token pair) \<in> at_token_hash ` set (access_tokens d)
      then Inl (constraint_violation ''access_tokens'' PK_ACCESS_TOKENS)
      else if u \<notin> user_ids d then Inl (constraint_violation ''access_tokens'' FK_ACCESS_TOKENS_USER_ID)
      else if hash_token (refresh_token pair) \<in> rt_token_hash ` set (refresh_tokens d)
      then Inl (constraint_violation ''refresh_tokens'' PK_REFRESH_TOKENS)
      else Inr ((), d\<lparr>access_tokens := access_tokens d @ [access_row u pair],
                      refresh_tokens := refresh_tokens d @ [refresh_row u pair]\<rparr>))"
  by (simp add: issue_token_pair_def tx_ops query_defs access_row_def refresh_row_def)

lemma fetch_issued:
  assumes "issue_token_pair u pair d = Inr (x, d')"
  shows "FETCH_ACCESS_TOKEN (hash_token (access_token pair)) d' = Some (access_row u pair)"
    and "FETCH_REFRESH_TOKEN (hash_token (refresh_token pair)) d' = Some (refresh_row u pair)"
    and "FETCH_REFRESH_TOKEN h d = Some t \<Longrightarrow> FETCH_REFRESH_TOKEN h d' = Some t"
    and "users d' = users d" and "u \<in> user_ids d"
proof -
  have d': "d' = d\<lparr>access_tokens := access_tokens d @ [access_row u pair],
      refresh_tokens := refresh_tokens d @ [refresh_row u pair]\<rparr>"
    and a: "hash_token (access_token pair) \<notin> at_token_hash ` set (access_tokens d)"
    and r: "hash_token (refresh_token pair) \<notin> rt_token_hash ` set (refresh_tokens d)"
    and u: "u \<in> user_ids d"
    using assms by (auto simp: issue_token_pair_eq split: if_splits)
  have "fetchrow (\<lambda>t. at_token_hash t = hash_token (access_token pair)) (access_tokens d) = None"
    "fetchrow (\<lambda>t. rt_token_hash t = hash_token (refresh_token pair)) (refresh_tokens d) = None"
    using a r by (auto simp: fetchrow_None_iff image_iff)
  then show "FETCH_ACCESS_TOKEN (hash_token (access_token pair)) d' = Some (access_row u pair)"
    "FETCH_REFRESH_TOKEN (hash_token (refresh_token pair)) d' = Some (refresh_row u pair)"
    by (simp_all add: d' FETCH_ACCESS_TOKEN_def FETCH_REFRESH_TOKEN_def fetchrow_append access_row_def refresh_row_def)
  show "FETCH_REFRESH_TOKEN h d = Some t \<Longrightarrow> FETCH_REFRESH_TOKEN h d' = Some t"
    by (simp add: d' FETCH_REFRESH_TOKEN_def fetchrow_append)
  show "users d' = users d" "u \<in> user_ids d" using u by (simp_all add: d')
qed

lemma guarded_refresh_outcomes:
  "guarded [] [(REFRESH_TOKEN, HandlerType (ServiceExn InvalidTokenError))] kw (Inl (not_found REFRESH_TOKEN h)) =
     Inl (ServiceExn InvalidTokenError)"
  by (simp add: guarded_def handle_db_not_found_error_def not_found_def map_add_def)

lemma guarded_login_outcomes:
  "guarded cov [(USER, HandlerType (ServiceExn InvalidCredentialsError))] kw (Inl (not_found USER i)) =
     Inl (ServiceExn InvalidCredentialsError)"
  by (simp add: guarded_def handle_db_not_found_error_def not_found_def map_add_def)

lemma publish_ok [simp]: "publish_stream_event None e = (Inr (), [StreamAdd (to_dict e)])"
  by (simp add: publish_stream_event_def)

lemma pair_simps [simp]:
  "access_token (generate_token_pair cfg draw) = drawn_access draw"
  "refresh_token (generate_token_pair cfg draw) = drawn_refresh draw"
  "access_token_expires_at (generate_token_pair cfg draw) = expiration_ts (access_instant draw) (access_token_ttl cfg)"
  "refresh_token_expires_at (generate_token_pair cfg draw) = expiration_ts (refresh_instant draw) (refresh_token_ttl cfg)"
  by (simp_all add: generate_token_pair_def TokenPair_generate_def)

lemma logout_db:
  "fst (snd (logout C env f f2 tick raw acc d c)) =
     snd (transaction env (logout_body (hash_token raw) (optional_hash acc)) d)"
  by (cases "transaction env (logout_body (hash_token raw) (optional_hash acc)) d")
    (simp add: logout_def Let_def split: sum.split prod.split)

lemma revoke_refresh_same:
  "users (snd (REVOKE_REFRESH_TOKEN h d)) = users d"
  "access_tokens (snd (REVOKE_REFRESH_TOKEN h d)) = access_tokens d"
  "rt_token_hash ` set (refresh_tokens (snd (REVOKE_REFRESH_TOKEN h d))) = rt_token_hash ` set (refresh_tokens d)"
proof -
  have "map rt_token_hash (refresh_tokens (snd (REVOKE_REFRESH_TOKEN h d))) = map rt_token_hash (refresh_tokens d)"
    by (simp add: REVOKE_REFRESH_TOKEN_def)
  then show "rt_token_hash ` set (refresh_tokens (snd (REVOKE_REFRESH_TOKEN h d))) = rt_token_hash ` set (refresh_tokens d)"
    by (metis set_map)
qed (simp_all add: REVOKE_REFRESH_TOKEN_def)

lemma refresh_healthy:
  "refresh cfg healthy None draw now raw d =
     (case refresh_body now (hash_token raw) (generate_token_pair cfg draw) d of
        Inl e \<Rightarrow> (guarded [] [(REFRESH_TOKEN, HandlerType (ServiceExn InvalidTokenError))]
                    [(''raw_refresh_token'', PStr raw)] (Inl (connection_except (transaction_except e))), d, [])
      | Inr ((u, True), d') \<Rightarrow>
          (Inl (ServiceExn TokenRevokedError), d', [StreamAdd (to_dict (UserInvalidatedEvent u))])
      | Inr ((u, False), d') \<Rightarrow>
          (Inr (Some (generate_token_pair cfg draw)), d',
           [StreamAdd (to_dict (TokenRevokedEvent (hash_token raw)))]))"
  by (auto simp: refresh_def transaction_healthy Let_def split: sum.split prod.split bool.split)

text \<open>A successful refresh, whatever the infrastructure did on the way.\<close>

lemma refresh_success:
  assumes "refresh cfg env f draw now raw d = (Inr (Some pair), d', effs)"
  obtains t where "pair = generate_token_pair cfg draw"
    and "FETCH_REFRESH_TOKEN (hash_token raw) d = Some t" and "\<not> rt_is_revoked t" and "now < rt_expires_at t"
    and "FETCH_REFRESH_TOKEN (hash_token raw) d' = Some (t\<lparr>rt_is_revoked := True\<rparr>)"
    and "FETCH_ACCESS_TOKEN (hash_token (access_token pair)) d' = Some (access_row (rt_user_id t) pair)"
    and "users d' = users d" and "rt_user_id t \<in> user_ids d"
proof -
  let ?p = "generate_token_pair cfg draw"
  let ?h = "hash_token raw"
  from assms obtain u where tx: "transaction env (refresh_body now ?h ?p) d = (Inr (u, False), d')"
    and pair: "pair = ?p"
    by (cases "transaction env (refresh_body now ?h ?p) d")
      (auto simp: refresh_def Let_def then_call_def guarded_Inr_iff res_bind_iffs split: sum.splits if_splits prod.splits)
  from dbm.commit [OF tx] obtain t where t: "FETCH_REFRESH_TOKEN ?h d = Some t" "\<not> rt_is_revoked t" "now < rt_expires_at t"
    and issue: "issue_token_pair (rt_user_id t) ?p (snd (REVOKE_REFRESH_TOKEN ?h d)) = Inr ((), d')"
    by (auto simp: refresh_body_def tx_ops res_bind_iffs query_defs rt_is_expired_def Let_def
        simp del: snd_conv split: option.splits if_splits)
  have "FETCH_REFRESH_TOKEN ?h (snd (REVOKE_REFRESH_TOKEN ?h d)) = Some (t\<lparr>rt_is_revoked := True\<rparr>)"
    using refreshes.fetch_revoke [of ?h ?h d] t(1) by simp
  moreover have "users (snd (REVOKE_REFRESH_TOKEN ?h d)) = users d" by (simp add: REVOKE_REFRESH_TOKEN_def)
  ultimately show thesis
    using that [OF pair t] fetch_issued [OF issue] pair by simp
qed

section \<open>Properties of the authentication service\<close>

text \<open>
  Registration, login, refresh and logout change the database by write
  statements of the schema only, or not at all, whatever the infrastructure, the hasher and Redis do.
\<close>

theorem auth_writes_are_statements:
  "rtranclp db_write d (snd (register A cfg env draw uid t name pw d)) \<and>
   rtranclp db_write d (fst (snd (login A cfg env f draw name pw d))) \<and>
   rtranclp db_write d (fst (snd (refresh cfg env f draw now raw d))) \<and>
   rtranclp db_write d (fst (snd (logout C env f f2 tick raw acc d c)))"
proof (intro conjI)
  show "rtranclp db_write d (snd (register A cfg env draw uid t name pw d))"
    by (simp add: register_def Let_def transaction_writes tx_writes split: sum.split)
  show "rtranclp db_write d (fst (snd (login A cfg env f draw name pw d)))"
    by (simp add: login_def Let_def transaction_writes tx_writes)
  show "rtranclp db_write d (fst (snd (refresh cfg env f draw now raw d)))"
    by (simp add: refresh_def Let_def transaction_writes tx_writes)
  show "rtranclp db_write d (fst (snd (logout C env f f2 tick raw acc d c)))"
    by (simp add: logout_db transaction_writes tx_writes)
qed

text \<open>
  C17 (refresh_outcome): Refreshing, branch by branch, with a fresh draw: an unknown token is invalid; a
  token that was used before revokes every token of its user, tells all workers to drop the user,
  and is answered with the reuse alert; an expired one is refused; a valid one is revoked and
  replaced by a new pair for the same user.
\<close>

theorem refresh_outcome:
  assumes "db_ok d" and "fresh_draw draw d"
  shows "refresh cfg healthy None draw now raw d =
    (let h = hash_token raw; pair = generate_token_pair cfg draw
     in case FETCH_REFRESH_TOKEN h d of
          None \<Rightarrow> (Inl (ServiceExn InvalidTokenError), d, [])
        | Some t \<Rightarrow>
            if rt_is_revoked t
            then (Inl (ServiceExn TokenRevokedError),
                  REVOKE_ALL_USER_REFRESH_TOKENS (rt_user_id t) (REVOKE_ALL_USER_ACCESS_TOKENS (rt_user_id t) d),
                  [StreamAdd (to_dict (UserInvalidatedEvent (rt_user_id t)))])
            else if rt_expires_at t \<le> now then (Inl (ServiceExn TokenExpiredError), d, [])
            else (Inr (Some pair),
                  (snd (REVOKE_REFRESH_TOKEN h d))
                    \<lparr>access_tokens := access_tokens d @ [access_row (rt_user_id t) pair],
                     refresh_tokens := refresh_tokens (snd (REVOKE_REFRESH_TOKEN h d)) @ [refresh_row (rt_user_id t) pair]\<rparr>,
                  [StreamAdd (to_dict (TokenRevokedEvent h))]))"
proof (cases "FETCH_REFRESH_TOKEN (hash_token raw) d")
  case None
  then show ?thesis
    by (simp add: refresh_healthy refresh_body_def tx_ops query_defs guarded_refresh_outcomes)
next
  case (Some t)
  then have "t \<in> set (refresh_tokens d)" by (auto simp: FETCH_REFRESH_TOKEN_def dest: fetchrow_SomeD)
  with assms(1) have owner: "rt_user_id t \<in> user_ids d" by (auto simp: db_ok_defs)
  from Some owner assms(2) show ?thesis
    by (auto simp: refresh_healthy refresh_body_def tx_ops query_defs issue_token_pair_eq revoke_refresh_same fresh_draw_def
        rt_is_expired_def Let_def db_revoke_all_user_access_tokens_def db_revoke_all_user_refresh_tokens_def)
qed

definition sample_draw :: token_draw where
  "sample_draw = \<lparr>drawn_access = ''acc'', drawn_refresh = ''xyz'', access_instant = 100, refresh_instant = 100\<rparr>"

text \<open>The example database with a refresh token row keyed by the digest of the raw token \<open>abc\<close>.\<close>

definition refresh_db :: db where
  "refresh_db = sample_db\<lparr>access_tokens := [], refresh_tokens :=
     [\<lparr>rt_token_hash = hash_token ''abc'', rt_user_id = 1, rt_is_revoked = False, rt_expires_at = 9000\<rparr>]\<rparr>"

lemma refresh_db_ok: "db_ok refresh_db"
  using sample_db_ok by (simp add: refresh_db_def db_ok_defs sample_db_def sample_user_def)

lemma refresh_db_fresh: "fresh_draw sample_draw refresh_db"
  by (simp add: fresh_draw_def sample_draw_def refresh_db_def hash_abc hash_xyz)

lemma refresh_db_token:
  "FETCH_REFRESH_TOKEN (hash_token ''abc'') refresh_db =
     Some \<lparr>rt_token_hash = hash_token ''abc'', rt_user_id = 1, rt_is_revoked = False, rt_expires_at = 9000\<rparr>"
  by (simp add: refresh_db_def FETCH_REFRESH_TOKEN_def)

theorem refresh_outcome_witness:
  "fst (refresh default_auth_config healthy None sample_draw 500 ''abc'' refresh_db) =
     Inr (Some (generate_token_pair default_auth_config sample_draw))"
  using refresh_outcome [OF refresh_db_ok refresh_db_fresh, of default_auth_config 500 "''abc''"]
  by (simp add: refresh_db_token Let_def)

lemma sample_refresh:
  "\<exists>d effs. refresh default_auth_config healthy None sample_draw 500 ''abc'' refresh_db =
     (Inr (Some (generate_token_pair default_auth_config sample_draw)), d, effs)"
  by (simp add: refresh_healthy refresh_body_def tx_ops query_defs refresh_db_token issue_token_pair_eq
      revoke_refresh_same rt_is_expired_def Let_def)
    (simp add: refresh_db_def sample_db_def sample_user_def sample_draw_def hash_abc hash_xyz)

text \<open>
  C2 (refresh_tokens_are_single_use): A refresh token works once.  After a refresh that succeeded, however
  the infrastructure behaved, presenting the same token again, at any time and with any draw, is
  answered with the reuse alert, and afterwards every access and refresh token of that user is
  revoked, the pair issued by the first refresh included.
\<close>

theorem refresh_tokens_are_single_use:
  assumes "refresh cfg env f draw now raw d = (Inr (Some pair), d1, effs1)"
    and "refresh cfg' healthy None draw' now' raw d1 = (r, d2, effs2)"
  shows "r = Inl (ServiceExn TokenRevokedError) \<and>
    (\<exists>t. FETCH_REFRESH_TOKEN (hash_token raw) d = Some t \<and>
       (\<forall>a\<in>set (access_tokens d2). at_user_id a = rt_user_id t \<longrightarrow> at_is_revoked a) \<and>
       (\<forall>b\<in>set (refresh_tokens d2). rt_user_id b = rt_user_id t \<longrightarrow> rt_is_revoked b) \<and>
       (\<exists>a. FETCH_ACCESS_TOKEN (hash_token (access_token pair)) d2 = Some a \<and> at_is_revoked a))"
proof -
  from assms(1) obtain t where t: "FETCH_REFRESH_TOKEN (hash_token raw) d = Some t"
    and old: "FETCH_REFRESH_TOKEN (hash_token raw) d1 = Some (t\<lparr>rt_is_revoked := True\<rparr>)"
    and new: "FETCH_ACCESS_TOKEN (hash_token (access_token pair)) d1 = Some (access_row (rt_user_id t) pair)"
    by (rule refresh_success)
  let ?all = "REVOKE_ALL_USER_REFRESH_TOKENS (rt_user_id t) (REVOKE_ALL_USER_ACCESS_TOKENS (rt_user_id t) d1)"
  from assms(2) old have r: "r = Inl (ServiceExn TokenRevokedError)" "d2 = ?all"
    by (simp_all add: refresh_healthy refresh_body_def tx_ops query_defs Let_def
        db_revoke_all_user_access_tokens_def db_revoke_all_user_refresh_tokens_def)
  have "\<exists>a. FETCH_ACCESS_TOKEN (hash_token (access_token pair)) d2 = Some a \<and> at_is_revoked a"
    using access.fetch_revoke_all [of "hash_token (access_token pair)" "rt_user_id t" d1] new r(2)
    by (simp add: access_row_def REVOKE_ALL_USER_REFRESH_TOKENS_def FETCH_ACCESS_TOKEN_def)
  moreover have "\<forall>a\<in>set (access_tokens d2). at_user_id a = rt_user_id t \<longrightarrow> at_is_revoked a"
    "\<forall>b\<in>set (refresh_tokens d2). rt_user_id b = rt_user_id t \<longrightarrow> rt_is_revoked b"
    by (auto simp: r(2) REVOKE_ALL_USER_REFRESH_TOKENS_def REVOKE_ALL_USER_ACCESS_TOKENS_def in_update_where_iff)
  ultimately show ?thesis using r(1) t by blast
qed

theorem refresh_tokens_are_single_use_witness:
  "fst (refresh default_auth_config healthy None sample_draw 600 ''abc''
     (fst (snd (refresh default_auth_config healthy None sample_draw 500 ''abc'' refresh_db)))) =
   Inl (ServiceExn TokenRevokedError)"
proof -
  obtain d1 e1 where 1: "refresh default_auth_config healthy None sample_draw 500 ''abc'' refresh_db =
      (Inr (Some (generate_token_pair default_auth_config sample_draw)), d1, e1)"
    using sample_refresh by blast
  obtain r d2 e2 where 2: "refresh default_auth_config healthy None sample_draw 600 ''abc'' d1 = (r, d2, e2)"
    by (metis prod_cases3)
  from refresh_tokens_are_single_use [OF 1 2] show ?thesis by (simp add: 1 2)
qed

text \<open>
  The access token a refresh returns is accepted for the same user until it
  expires: the new row is stored, not revoked, and expires after the configured lifetime.
\<close>

theorem rotated_pair_is_usable:
  assumes "refresh cfg env f draw now raw d = (Inr (Some pair), d1, effs)" and "db_ok d"
    and "later < access_token_expires_at pair"
  shows "\<exists>t u. FETCH_REFRESH_TOKEN (hash_token raw) d = Some t \<and> u_user_id u = rt_user_id t \<and>
    valid_session d1 later (hash_token (access_token pair)) u \<and>
    access_token_expires_at pair = access_instant draw + access_token_ttl cfg * 1000000"
proof -
  from assms(1) obtain t where t: "pair = generate_token_pair cfg draw"
      "FETCH_REFRESH_TOKEN (hash_token raw) d = Some t"
    and new: "FETCH_ACCESS_TOKEN (hash_token (access_token pair)) d1 = Some (access_row (rt_user_id t) pair)"
    and users: "users d1 = users d" "rt_user_id t \<in> user_ids d"
    by (rule refresh_success)
  from users(2) obtain u where u: "u \<in> set (users d)" "u_user_id u = rt_user_id t" by auto
  then have "USER_BY_ID (rt_user_id t) d1 = Some u"
    using assms(2) fetchrow_key_iff [of u_user_id "users d" "rt_user_id t" u]
    by (simp add: USER_BY_ID_def users(1) db_ok_defs)
  with t u new assms(3) show ?thesis
    by (auto simp: valid_session_def access_row_def expiration_ts_def)
qed

theorem rotated_pair_is_usable_witness:
  "\<exists>u d1. u_user_id u = 1 \<and> valid_session d1 900 (hash_token ''acc'') u"
proof -
  obtain d1 e1 where 1: "refresh default_auth_config healthy None sample_draw 500 ''abc'' refresh_db =
      (Inr (Some (generate_token_pair default_auth_config sample_draw)), d1, e1)"
    using sample_refresh by blast
  from rotated_pair_is_usable [OF 1 refresh_db_ok, of 900] show ?thesis
    by (auto simp: refresh_db_token sample_draw_def expiration_ts_def default_auth_config_def)
qed

text \<open>
  C34 (registration_outcome): Registration, branch by branch: a failing hasher, a user name that is taken
  (named in the error, status 409), and the success, which stores the user with the hashed password
  and a token pair of that user.
\<close>

theorem registration_outcome:
  assumes "fresh_draw draw d" and "uid \<notin> user_ids d"
  shows "register A cfg healthy draw uid t name pw d =
    (case ph_hash A pw of
       Inl e \<Rightarrow> (Inl (argon_exn e), d)
     | Inr h \<Rightarrow>
         (let u = \<lparr>u_user_id = uid, u_username = name, u_password_hash = h, u_deactivated = False, u_created_at = t\<rparr>;
              pair = generate_token_pair cfg draw
          in if name \<in> u_username ` set (users d)
             then (Inl (ServiceExn (UserAlreadyExistsError (PStr name))), d)
             else (Inr (u, pair), d\<lparr>users := users d @ [u],
                     access_tokens := access_tokens d @ [access_row uid pair],
                     refresh_tokens := refresh_tokens d @ [refresh_row uid pair]\<rparr>)))"
proof (cases "ph_hash A pw")
  case (Inl e)
  then show ?thesis by (cases e) (simp_all add: register_def hash_password_def)
next
  case (Inr h)
  with assms show ?thesis
    by (simp add: register_def hash_password_def transaction_healthy register_body_def tx_ops query_defs
        issue_token_pair_eq fresh_draw_def constraint_outcomes kw_get_ctx Let_def)
qed

definition sample_argon :: argon_ops where
  "sample_argon = \<lparr>ph_hash = (\<lambda>pw. Inr (''h:'' @ pw)),
     ph_verify = (\<lambda>h pw. if h = ''h:'' @ pw then Inr True else Inl VerifyMismatchError),
     ph_check_needs_rehash = (\<lambda>h. Inr False)\<rparr>"

theorem registration_outcome_witness:
  "fst (register sample_argon default_auth_config healthy sample_draw 7 5 ''bob'' ''secret'' refresh_db) =
     Inl (ServiceExn (UserAlreadyExistsError (PStr ''bob'')))"
  using registration_outcome [OF refresh_db_fresh, of 7 sample_argon default_auth_config 5 "''bob''" "''secret''"]
  by (simp add: refresh_db_def sample_db_def sample_user_def sample_argon_def Let_def)

text \<open>
  C35 (login_failures_are_uniform): A login for a user that does not exist, and one with a password the
  hasher rejects or a hash it cannot read, give the same error, store nothing and publish nothing:
  the answer does not tell whether the account exists.
\<close>

theorem login_failures_are_uniform:
  assumes "USER_BY_USERNAME name d = None \<or>
    (\<exists>u. USER_BY_USERNAME name d = Some u \<and>
       ph_verify A (u_password_hash u) pw \<in> {Inr False, Inl VerifyMismatchError, Inl InvalidHashError})"
  shows "login A cfg healthy f draw name pw d = (Inl (ServiceExn InvalidCredentialsError), d, [])"
proof (cases "USER_BY_USERNAME name d")
  case None
  then show ?thesis
    by (simp add: login_def login_body_def transaction_healthy tx_ops db_get_user_by_username_def
        guarded_login_outcomes Let_def)
next
  case (Some u)
  with assms have "verify_password A pw (u_password_hash u) = Inr False"
    by (auto simp: verify_password_def)
  with Some show ?thesis
    by (simp add: login_def login_body_def transaction_healthy tx_ops db_get_user_by_username_def tx_lift_def Let_def)
qed

theorem login_failures_are_uniform_witness:
  "login sample_argon default_auth_config healthy None sample_draw ''nobody'' ''pw'' sample_db =
     (Inl (ServiceExn InvalidCredentialsError), sample_db, []) \<and>
   login sample_argon default_auth_config healthy None sample_draw ''alice'' ''wrong'' sample_db =
     (Inl (ServiceExn InvalidCredentialsError), sample_db, [])"
  using login_failures_are_uniform [of "''nobody''" sample_db]
    login_failures_are_uniform [of "''alice''" sample_db sample_argon "''wrong''"]
  by (simp add: USER_BY_USERNAME_def sample_db_def sample_user_def sample_argon_def)

text \<open>The user row behind a login, through the optional reactivation and re-hashing.\<close>

lemma tx_iffs:
  "tx_bind m f d = Inr (y, d') \<longleftrightarrow> (\<exists>x d1. m d = Inr (x, d1) \<and> f x d1 = Inr (y, d'))"
  "tx_read q d = Inr (x, d') \<longleftrightarrow> q d = Inr x \<and> d' = d"
  "tx_lift r d = Inr (x, d') \<longleftrightarrow> r = Inr x \<and> d' = d"
  "tx_return x0 d = Inr (x, d') \<longleftrightarrow> x0 = x \<and> d' = d"
  "tx_raise e d \<noteq> Inr (x, d')"
  by (auto simp: tx_ops tx_lift_def res_bind_iffs)

lemma login_reactivateD:
  assumes "login_reactivate u d = Inr (re, d1)" and "USER_BY_ID (u_user_id u) d = Some u"
  shows "USER_BY_ID (u_user_id u) d1 = Some (u\<lparr>u_deactivated := False\<rparr>)" and "re = u_deactivated u"
proof -
  show "re = u_deactivated u" using assms(1) by (auto simp: login_reactivate_def tx_iffs split: if_splits)
  show "USER_BY_ID (u_user_id u) d1 = Some (u\<lparr>u_deactivated := False\<rparr>)"
  proof (cases "u_deactivated u")
    case True
    then have "d1 = snd (REACTIVATE_USER (u_user_id u) d)"
      using assms(1) by (auto simp: login_reactivate_def tx_iffs db_reactivate_user_def split: prod.splits if_splits)
    with assms(2) show ?thesis by (simp add: REACTIVATE_USER_def USER_BY_ID_def fetchrow_update_where)
  next
    case False
    with assms show ?thesis by (simp add: login_reactivate_def tx_iffs)
  qed
qed

lemma db_update_user_password_Inr:
  "db_update_user_password u nh old d = Inr (x, d') \<Longrightarrow> d' = snd (CHANGE_PASSWORD nh u old d)"
  by (cases "CHANGE_PASSWORD nh u old d") (simp add: db_update_user_password_def split: if_splits)

lemma login_rehashD:
  assumes "login_rehash A pw u re d = Inr (stale, d1)" and "USER_BY_ID (u_user_id u) d = Some v"
  shows "\<exists>h. USER_BY_ID (u_user_id u) d1 = Some (v\<lparr>u_password_hash := h\<rparr>)" and "re \<longrightarrow> stale"
proof -
  show "re \<longrightarrow> stale" using assms(1) by (auto simp: login_rehash_def tx_iffs split: if_splits)
  consider "d1 = d" | nh where "d1 = snd (CHANGE_PASSWORD nh (u_user_id u) (u_password_hash u) d)"
    using assms(1)
    by (auto simp: login_rehash_def tx_iffs dest: db_update_user_password_Inr split: if_splits)
  then show "\<exists>h. USER_BY_ID (u_user_id u) d1 = Some (v\<lparr>u_password_hash := h\<rparr>)"
  proof cases
    case 1
    with assms(2) show ?thesis by (intro exI [of _ "u_password_hash v"]) simp
  next
    case 2
    with assms(2) show ?thesis
      by (auto simp: CHANGE_PASSWORD_def USER_BY_ID_def fetchrow_update_where Let_def
          intro: exI [of _ "u_password_hash v"])
  qed
qed

lemma login_bodyD:
  assumes "login_body A name pw pair d = Inr ((u, stale), d')" and "db_ok d"
  shows "USER_BY_USERNAME name d = Some u" and "verify_password A pw (u_password_hash u) = Inr True"
    and "\<exists>u'. USER_BY_ID (u_user_id u) d' = Some u' \<and> \<not> u_deactivated u' \<and> u_username u' = name"
    and "FETCH_ACCESS_TOKEN (hash_token (access_token pair)) d' = Some (access_row (u_user_id u) pair)"
    and "u_deactivated u \<longrightarrow> stale"
proof -
  from assms(1) obtain d1 d2 re where
    name: "db_get_user_by_username name d = Inr u" and pw: "verify_password A pw (u_password_hash u) = Inr True"
    and 1: "login_reactivate u d = Inr (re, d1)" and 2: "login_rehash A pw u re d1 = Inr (stale, d2)"
    and 3: "issue_token_pair (u_user_id u) pair d2 = Inr ((), d')"
    unfolding login_body_def tx_iffs by (auto simp: tx_iffs split: if_splits)
  show "verify_password A pw (u_password_hash u) = Inr True" by fact
  show n: "USER_BY_USERNAME name d = Some u"
    using name by (simp add: db_get_user_by_username_def split: option.splits)
  then have "u \<in> set (users d)" and uname: "u_username u = name"
    by (auto simp: USER_BY_USERNAME_def dest: fetchrow_SomeD)
  then have "USER_BY_ID (u_user_id u) d = Some u"
    using assms(2) fetchrow_key_iff [of u_user_id "users d" "u_user_id u" u]
    by (simp add: USER_BY_ID_def db_ok_defs)
  note r = login_reactivateD [OF 1 this]
  obtain h where "USER_BY_ID (u_user_id u) d2 = Some (u\<lparr>u_deactivated := False, u_password_hash := h\<rparr>)"
    using login_rehashD(1) [OF 2 r(1)] by auto
  then show "\<exists>u'. USER_BY_ID (u_user_id u) d' = Some u' \<and> \<not> u_deactivated u' \<and> u_username u' = name"
    using fetch_issued(4) [OF 3] uname by (simp add: USER_BY_ID_def)
  show "FETCH_ACCESS_TOKEN (hash_token (access_token pair)) d' = Some (access_row (u_user_id u) pair)"
    by (rule fetch_issued(1) [OF 3])
  show "u_deactivated u \<longrightarrow> stale" using r(2) login_rehashD(2) [OF 2 r(1)] by simp
qed

text \<open>
  C18 (login_opens_a_session): A successful login proves the password and opens a usable session: the
  account of that name verified the password, the returned access token is stored for it, is valid
  until it expires, and the account is active afterwards even if it was deactivated before, in
  which case all workers are told to drop what they cached of the user.
\<close>

theorem login_opens_a_session:
  assumes "login A cfg env f draw name pw d = (Inr (Some (u, pair)), d', effs)" and "db_ok d"
    and "now < access_token_expires_at pair"
  shows "USER_BY_USERNAME name d = Some u \<and> verify_password A pw (u_password_hash u) = Inr True \<and>
    (\<exists>u'. u_username u' = name \<and> \<not> u_deactivated u' \<and>
          valid_session d' now (hash_token (access_token pair)) u') \<and>
    (u_deactivated u \<longrightarrow> effs = [StreamAdd (to_dict (UserInvalidatedEvent (u_user_id u)))])"
proof -
  let ?body = "login_body A name pw (generate_token_pair cfg draw)"
  from assms(1) obtain stale where tx: "transaction env ?body d = (Inr (u, stale), d')"
    and pair: "pair = generate_token_pair cfg draw"
    and effs: "stale \<longrightarrow> effs = [StreamAdd (to_dict (UserInvalidatedEvent (u_user_id u)))]"
    by (cases "transaction env ?body d")
      (auto simp: login_def Let_def then_call_def guarded_Inr_iff res_bind_iffs publish_stream_event_def
        handle_redis_errors_def split: sum.splits if_splits prod.splits option.splits redis_exc.splits)
  note b = login_bodyD [OF dbm.commit [OF tx] assms(2)]
  show ?thesis
    using b effs assms(3) unfolding pair by (auto simp: valid_session_def access_row_def)
qed

theorem login_opens_a_session_witness:
  "\<exists>u d' effs u'. login sample_argon default_auth_config healthy None sample_draw ''alice'' ''alice'' refresh_db =
      (Inr (Some (u, generate_token_pair default_auth_config sample_draw)), d', effs) \<and>
     valid_session d' 900 (hash_token ''acc'') u' \<and> u_username u' = ''alice''"
proof -
  have "\<exists>u d' effs. login sample_argon default_auth_config healthy None sample_draw ''alice'' ''alice'' refresh_db =
      (Inr (Some (u, generate_token_pair default_auth_config sample_draw)), d', effs)"
    by (simp add: login_def login_body_def login_reactivate_def login_rehash_def transaction_healthy tx_ops tx_lift_def
        db_get_user_by_username_def USER_BY_USERNAME_def verify_password_def needs_rehash_def sample_argon_def
        issue_token_pair_eq Let_def refresh_db_def sample_db_def sample_user_def sample_draw_def hash_abc hash_xyz)
  then obtain u d' effs where 1: "login sample_argon default_auth_config healthy None sample_draw ''alice'' ''alice'' refresh_db =
      (Inr (Some (u, generate_token_pair default_auth_config sample_draw)), d', effs)" by blast
  from login_opens_a_session [OF 1 refresh_db_ok, of 900] 1 show ?thesis
    by (fastforce simp: sample_draw_def expiration_ts_def default_auth_config_def)
qed

lemma swallowed:
  "handle_db_not_found_error [(REFRESH_TOKEN, HandlerNone), (ACCESS_TOKEN, HandlerNone)] kw
     (Inl (not_found REFRESH_TOKEN h)) = Inr None"
  "handle_db_not_found_error [(REFRESH_TOKEN, HandlerNone), (ACCESS_TOKEN, HandlerNone)] kw
     (Inl (not_found ACCESS_TOKEN h)) = Inr None"
  by (simp_all add: handle_db_not_found_error_def not_found_def map_add_def)

lemma logout_outcome_aux:
  "logout C healthy None None tick raw acc d c =
     (let rh = hash_token raw; ah = optional_hash acc; d1 = snd (REVOKE_REFRESH_TOKEN rh d)
      in if FETCH_REFRESH_TOKEN rh d = None then (Inr None, d, c, [])
         else case ah of
           None \<Rightarrow> (Inr (Some ()), d1, c, [StreamAdd (to_dict (TokenRevokedEvent rh))])
         | Some h \<Rightarrow>
             if FETCH_ACCESS_TOKEN h d = None then (Inr None, d, c, [])
             else (Inr (Some ()), snd (REVOKE_ACCESS_TOKEN h d1), cache_evict C tick h c,
                   [StreamAdd (to_dict (TokenRevokedEvent rh)), StreamAdd (to_dict (TokenRevokedEvent h))]))"
proof -
  have "FETCH_ACCESS_TOKEN h (snd (REVOKE_REFRESH_TOKEN k d)) = FETCH_ACCESS_TOKEN h d" for h k
    by (simp add: FETCH_ACCESS_TOKEN_def REVOKE_REFRESH_TOKEN_def)
  then show ?thesis
    by (simp add: logout_def logout_body_def transaction_healthy tx_ops query_defs swallowed logout_events_def
        Let_def split: option.split)
qed

text \<open>
  C19 (logout_outcome): Logging out, branch by branch.  When both tokens are stored, both are revoked, the
  access token leaves this worker's cache and both revocations are published.  When the refresh
  token is unknown, or an access token is given and unknown, the answer is still success, nothing
  is published, and nothing is revoked: the missing access token also undoes the revocation of a
  refresh token that was there.
\<close>

theorem logout_outcome:
  "logout C healthy None None tick raw acc d c =
     (let rh = hash_token raw; ah = optional_hash acc; d1 = snd (REVOKE_REFRESH_TOKEN rh d)
      in if FETCH_REFRESH_TOKEN rh d = None then (Inr None, d, c, [])
         else case ah of
           None \<Rightarrow> (Inr (Some ()), d1, c, [StreamAdd (to_dict (TokenRevokedEvent rh))])
         | Some h \<Rightarrow>
             if FETCH_ACCESS_TOKEN h d = None then (Inr None, d, c, [])
             else (Inr (Some ()), snd (REVOKE_ACCESS_TOKEN h d1), cache_evict C tick h c,
                   [StreamAdd (to_dict (TokenRevokedEvent rh)), StreamAdd (to_dict (TokenRevokedEvent h))]))"
  by (rule logout_outcome_aux)

lemma logout_success:
  assumes "t \<noteq> []" and "logout C healthy None None tick raw (Some t) d c = (Inr (Some ()), d', c', effs)"
  shows "\<exists>a. FETCH_ACCESS_TOKEN (hash_token t) d' = Some a \<and> at_is_revoked a"
    and "\<exists>b. FETCH_REFRESH_TOKEN (hash_token raw) d' = Some b \<and> rt_is_revoked b"
    and "c' = cache_evict C tick (hash_token t) c"
    and "effs = [StreamAdd (to_dict (TokenRevokedEvent (hash_token raw))),
                 StreamAdd (to_dict (TokenRevokedEvent (hash_token t)))]"
proof -
  let ?rh = "hash_token raw" and ?ah = "hash_token t"
  let ?d1 = "snd (REVOKE_REFRESH_TOKEN ?rh d)"
  from assms have there: "FETCH_REFRESH_TOKEN ?rh d \<noteq> None" "FETCH_ACCESS_TOKEN ?ah d \<noteq> None"
    and d': "d' = snd (REVOKE_ACCESS_TOKEN ?ah ?d1)"
    by (auto simp: logout_outcome_aux optional_hash_def Let_def split: if_splits)
  from assms show "c' = cache_evict C tick (hash_token t) c"
    and "effs = [StreamAdd (to_dict (TokenRevokedEvent ?rh)), StreamAdd (to_dict (TokenRevokedEvent ?ah))]"
    by (auto simp: logout_outcome_aux optional_hash_def Let_def split: if_splits)
  have "FETCH_ACCESS_TOKEN ?ah ?d1 = FETCH_ACCESS_TOKEN ?ah d"
    by (simp add: FETCH_ACCESS_TOKEN_def REVOKE_REFRESH_TOKEN_def)
  then show "\<exists>a. FETCH_ACCESS_TOKEN ?ah d' = Some a \<and> at_is_revoked a"
    using there(2) access.fetch_revoke [of ?ah ?ah ?d1] d' by auto
  have "FETCH_REFRESH_TOKEN ?rh d' = FETCH_REFRESH_TOKEN ?rh ?d1"
    by (simp add: d' FETCH_REFRESH_TOKEN_def REVOKE_ACCESS_TOKEN_def)
  then show "\<exists>b. FETCH_REFRESH_TOKEN ?rh d' = Some b \<and> rt_is_revoked b"
    using there(1) refreshes.fetch_revoke [of ?rh ?rh d] by auto
qed

lemma authenticate_revoked:
  assumes "cache_get C tick (hash_token tok) c = None"
    and "\<exists>a. FETCH_ACCESS_TOKEN (hash_token tok) d = Some a \<and> at_is_revoked a"
  shows "authenticate_token C healthy tick now tok allow d c =
    (Inl (HTTPException 401 ''Access token has been revoked.''), c)"
  using assms by (auto simp: authenticate_token_def connection_healthy validate_session_def db_get_access_token_def)

text \<open>
  After a logout that found both tokens, the access token is refused at once
  on the worker that handled it, and the refresh token can no longer be exchanged.
\<close>

theorem logout_ends_the_session:
  assumes "ttl_laws C ttl" and "t \<noteq> []"
    and "logout C healthy None None tick raw (Some t) d c = (Inr (Some ()), d', c', effs)"
  shows "authenticate_token C healthy tick' now t allow d' c' =
      (Inl (HTTPException 401 ''Access token has been revoked.''), c') \<and>
    fst (refresh cfg healthy None draw now raw d') = Inl (ServiceExn TokenRevokedError)"
proof
  note ok = logout_success [OF assms(2,3)]
  show "authenticate_token C healthy tick' now t allow d' c' =
      (Inl (HTTPException 401 ''Access token has been revoked.''), c')"
    by (rule authenticate_revoked [OF _ ok(1)]) (simp add: ok(3) get_evict [OF assms(1)])
  show "fst (refresh cfg healthy None draw now raw d') = Inl (ServiceExn TokenRevokedError)"
    using ok(2) by (auto simp: refresh_healthy refresh_body_def tx_ops query_defs Let_def
        db_revoke_all_user_access_tokens_def db_revoke_all_user_refresh_tokens_def)
qed

theorem logout_ends_the_session_witness:
  "\<exists>d' c' effs. logout list_ttl healthy None None 5 ''xyz'' (Some ''abc'')
       (session_db\<lparr>refresh_tokens := [\<lparr>rt_token_hash = hash_token ''xyz'', rt_user_id = 1, rt_is_revoked = False, rt_expires_at = 9000\<rparr>]\<rparr>)
       [(hash_token ''abc'', sample_user 1 ''alice'', 300)] = (Inr (Some ()), d', c', effs) \<and>
     authenticate_token list_ttl healthy 6 500 ''abc'' False d' c' =
       (Inl (HTTPException 401 ''Access token has been revoked.''), c')"
proof -
  let ?d = "session_db\<lparr>refresh_tokens := [\<lparr>rt_token_hash = hash_token ''xyz'', rt_user_id = 1, rt_is_revoked = False, rt_expires_at = 9000\<rparr>]\<rparr>"
  let ?c = "[(hash_token ''abc'', sample_user 1 ''alice'', 300)]"
  have "FETCH_REFRESH_TOKEN (hash_token ''xyz'') ?d \<noteq> None" "FETCH_ACCESS_TOKEN (hash_token ''abc'') ?d \<noteq> None"
    by (simp_all add: FETCH_REFRESH_TOKEN_def FETCH_ACCESS_TOKEN_def session_db_def)
  then obtain d' c' effs where 1: "logout list_ttl healthy None None 5 ''xyz'' (Some ''abc'') ?d ?c = (Inr (Some ()), d', c', effs)"
    by (simp add: logout_outcome_aux optional_hash_def Let_def)
  with logout_ends_the_session [OF list_ttl_laws _ 1, of 6 500 False] show ?thesis by auto
qed

end
