(* ===== verification/Api_Schemas.thy ===== *)
theory Api_Schemas
  imports Messaging_Service Auth_Service
begin

text \<open>
  The request and response schemas of \<open>src/src/api/schemas.py\<close>.  A request class is a record with
  a function from the decoded JSON body to it, which is \<open>None\<close> where the declared field is missing,
  is not a text, is no UUID or breaks the declared length bounds.  A response class is a record with
  the function \<open>model_validate\<close> makes of its fields from an object of the service layer; validating
  \<open>None\<close> raises.  What pydantic itself decides, which texts it reads as an identifier, a number or
  an instant, is a parameter; the laws are the parts of its documentation the properties use.
\<close>

section \<open>What pydantic reads\<close>

record pydantic_ops =
  p_uuid :: "string \<Rightarrow> uuid option"
  p_int :: "string \<Rightarrow> int option"
  p_datetime :: "string \<Rightarrow> timestamp option"

definition pydantic_laws :: "pydantic_ops \<Rightarrow> bool" where
  "pydantic_laws P \<longleftrightarrow>
     (\<forall>u. p_uuid P (uuid_str u) = Some u) \<and> (\<forall>n. p_int P (nat_str n) = Some (int n))"

text \<open>A required text field with its bounds; lengths count characters.\<close>

definition str_field :: "nat \<Rightarrow> nat option \<Rightarrow> string \<Rightarrow> json \<Rightarrow> string option" where
  "str_field lo hi name body =
     (case jget body name of
        Inr (Some (JStr s)) \<Rightarrow>
          if lo \<le> length s \<and> (case hi of None \<Rightarrow> True | Some h \<Rightarrow> length s \<le> h) then Some s else None
      | _ \<Rightarrow> None)"

definition uuid_field :: "pydantic_ops \<Rightarrow> string \<Rightarrow> json \<Rightarrow> uuid option" where
  "uuid_field P name body =
     (case jget body name of Inr (Some (JStr s)) \<Rightarrow> p_uuid P s | _ \<Rightarrow> None)"

section \<open>Requests\<close>

record RegisterRequest =
  rr_username :: string
  rr_password :: string

definition RegisterRequest_validate :: "json \<Rightarrow> RegisterRequest option" where
  "RegisterRequest_validate body =
     (case (str_field 3 (Some 50) ''username'' body, str_field 8 None ''password'' body) of
        (Some u, Some p) \<Rightarrow> Some \<lparr>rr_username = u, rr_password = p\<rparr>
      | _ \<Rightarrow> None)"

record LoginRequest =
  lr_username :: string
  lr_password :: string

definition LoginRequest_validate :: "json \<Rightarrow> LoginRequest option" where
  "LoginRequest_validate body =
     (case (str_field 0 None ''username'' body, str_field 0 None ''password'' body) of
        (Some u, Some p) \<Rightarrow> Some \<lparr>lr_username = u, lr_password = p\<rparr>
      | _ \<Rightarrow> None)"

definition RefreshRequest_validate :: "json \<Rightarrow> string option" where
  "RefreshRequest_validate body = str_field 0 None ''refresh_token'' body"

definition LogoutRequest_validate :: "json \<Rightarrow> string option" where
  "LogoutRequest_validate body = str_field 0 None ''refresh_token'' body"

definition SendFriendRequest_validate :: "pydantic_ops \<Rightarrow> json \<Rightarrow> uuid option" where
  "SendFriendRequest_validate P body = uuid_field P ''addressee_id'' body"

definition CreateGroupRequest_validate :: "json \<Rightarrow> string option" where
  "CreateGroupRequest_validate body = str_field 1 (Some 100) ''name'' body"

definition AddGroupMemberRequest_validate :: "pydantic_ops \<Rightarrow> json \<Rightarrow> uuid option" where
  "AddGroupMemberRequest_validate P body = uuid_field P ''user_id'' body"

record SendDirectMessageRequest =
  sd_recipient_id :: uuid
  sd_content :: string

definition SendDirectMessageRequest_validate :: "pydantic_ops \<Rightarrow> json \<Rightarrow> SendDirectMessageRequest option" where
  "SendDirectMessageRequest_validate P body =
     (case (uuid_field P ''recipient_id'' body, str_field 1 (Some 4096) ''content'' body) of
        (Some r, Some c) \<Rightarrow> Some \<lparr>sd_recipient_id = r, sd_content = c\<rparr>
      | _ \<Rightarrow> None)"

definition SendGroupMessageRequest_validate :: "json \<Rightarrow> string option" where
  "SendGroupMessageRequest_validate body = str_field 1 (Some 4096) ''content'' body"

section \<open>Responses\<close>

record UserResponse =
  ur_user_id :: uuid
  ur_username :: string
  ur_deactivated :: bool
  ur_created_at :: timestamp

definition UserResponse_validate :: "User \<Rightarrow> UserResponse" where
  "UserResponse_validate u =
     \<lparr>ur_user_id = u_user_id u, ur_username = u_username u, ur_deactivated = u_deactivated u,
      ur_created_at = u_created_at u\<rparr>"

record TokenPairResponse =
  tr_access_token :: string
  tr_refresh_token :: string
  tr_access_token_expires_at :: timestamp
  tr_refresh_token_expires_at :: timestamp

definition TokenPairResponse_validate :: "TokenPair \<Rightarrow> TokenPairResponse" where
  "TokenPairResponse_validate t =
     \<lparr>tr_access_token = access_token t, tr_refresh_token = refresh_token t,
      tr_access_token_expires_at = access_token_expires_at t,
      tr_refresh_token_expires_at = refresh_token_expires_at t\<rparr>"

record AuthResponse =
  ar_user :: UserResponse
  ar_tokens :: TokenPairResponse

record GroupResponse =
  gr_group_id :: uuid
  gr_name :: string
  gr_created_by :: "uuid option"
  gr_created_at :: timestamp

definition GroupResponse_validate :: "Group \<Rightarrow> GroupResponse" where
  "GroupResponse_validate g =
     \<lparr>gr_group_id = g_group_id g, gr_name = g_name g, gr_created_by = g_created_by g,
      gr_created_at = g_created_at g\<rparr>"

record MembershipResponse =
  mr_group_id :: uuid
  mr_user_id :: uuid
  mr_joined_at :: timestamp

definition MembershipResponse_validate :: "Membership \<Rightarrow> MembershipResponse" where
  "MembershipResponse_validate m =
     \<lparr>mr_group_id = mb_group_id m, mr_user_id = mb_user_id m, mr_joined_at = mb_joined_at m\<rparr>"

record FriendshipResponse =
  fp_requester_id :: uuid
  fp_addressee_id :: uuid
  fp_accepted :: bool
  fp_created_at :: timestamp
  fp_updated_at :: timestamp

definition FriendshipResponse_validate :: "Friendship \<Rightarrow> FriendshipResponse" where
  "FriendshipResponse_validate f =
     \<lparr>fp_requester_id = fr_requester_id f, fp_addressee_id = fr_addressee_id f,
      fp_accepted = fr_accepted f, fp_created_at = fr_created_at f, fp_updated_at = fr_updated_at f\<rparr>"

record DirectMessageResponse =
  dr_message_id :: uuid
  dr_sender_id :: uuid
  dr_recipient_id :: uuid
  dr_content :: string
  dr_created_at :: timestamp

definition DirectMessageResponse_validate :: "DirectMessage \<Rightarrow> DirectMessageResponse" where
  "DirectMessageResponse_validate m =
     \<lparr>dr_message_id = dm_message_id m, dr_sender_id = dm_sender_id m, dr_recipient_id = dm_recipient_id m,
      dr_content = dm_content m, dr_created_at = dm_created_at m\<rparr>"

record GroupMessageResponse =
  gs_message_id :: uuid
  gs_group_id :: uuid
  gs_sender_id :: uuid
  gs_content :: string
  gs_created_at :: timestamp

definition GroupMessageResponse_validate :: "GroupMessage \<Rightarrow> GroupMessageResponse" where
  "GroupMessageResponse_validate m =
     \<lparr>gs_message_id = gm_message_id m, gs_group_id = gm_group_id m, gs_sender_id = gm_sender_id m,
      gs_content = gm_content m, gs_created_at = gm_created_at m\<rparr>"

text \<open>\<open>model_validate(None)\<close> raises a validation error.\<close>

definition validated_with :: "('a \<Rightarrow> 'b) \<Rightarrow> 'a option \<Rightarrow> 'b result" where
  "validated_with f x = (case x of None \<Rightarrow> Inl ValidationError | Some v \<Rightarrow> Inr (f v))"

section \<open>Facts about the fields\<close>

lemma str_field_bounds:
  "str_field lo hi name body = Some s \<Longrightarrow> lo \<le> length s \<and> (\<forall>h. hi = Some h \<longrightarrow> length s \<le> h)"
  by (auto simp: str_field_def split: sum.splits option.splits json.splits if_splits)

lemma validated_bounds:
  "RegisterRequest_validate body = Some r \<Longrightarrow> 3 \<le> length (rr_username r) \<and> length (rr_username r) \<le> 50"
  "CreateGroupRequest_validate body = Some n \<Longrightarrow> 1 \<le> length n \<and> length n \<le> 100"
  "SendDirectMessageRequest_validate P body = Some m \<Longrightarrow>
     1 \<le> length (sd_content m) \<and> length (sd_content m) \<le> 4096"
  "SendGroupMessageRequest_validate body = Some c \<Longrightarrow> 1 \<le> length c \<and> length c \<le> 4096"
  by (auto simp: RegisterRequest_validate_def CreateGroupRequest_validate_def
      SendDirectMessageRequest_validate_def SendGroupMessageRequest_validate_def
      dest: str_field_bounds split: option.splits)

end
