(* ===== verification/Api_Routers.thy ===== *)
theory Api_Routers
  imports Api_Schemas
begin

text \<open>
  The HTTP routers \<open>src/src/api/routers/auth.py\<close>, \<open>user.py\<close>, \<open>group.py\<close> and \<open>messaging.py\<close>: one
  function per route from the request to the response, the worker's new state and what was emitted.
  FastAPI resolves the dependencies of a route before it reports a parameter or body that fails
  validation, so a request without a valid session is answered 401 even when its body is bad; a
  failed validation answers 422 and the route's own code does not run.
\<close>

section \<open>Responses\<close>

datatype response_body =
    UserBody UserResponse
  | AuthBody AuthResponse
  | TokensBody TokenPairResponse
  | GroupBody GroupResponse
  | GroupsBody "GroupResponse list"
  | MembershipBody MembershipResponse
  | MembershipsBody "MembershipResponse list"
  | FriendshipBody FriendshipResponse
  | FriendshipsBody "FriendshipResponse list"
  | DmBody DirectMessageResponse
  | DmsBody "DirectMessageResponse list"
  | GmBody GroupMessageResponse
  | GmsBody "GroupMessageResponse list"
  | MessageBody string
  | DetailBody string
  | ValidationBody
  | NoBody

record response =
  rs_status :: nat
  rs_body :: response_body

definition error_response :: "exn \<Rightarrow> response" where
  "error_response e = \<lparr>rs_status = fst (http_response e), rs_body = DetailBody (snd (http_response e))\<rparr>"

definition unprocessable :: response where
  "unprocessable = \<lparr>rs_status = 422, rs_body = ValidationBody\<rparr>"

definition respond :: "nat \<Rightarrow> response_body result \<Rightarrow> response" where
  "respond code r =
     (case r of Inl e \<Rightarrow> error_response e | Inr b \<Rightarrow> \<lparr>rs_status = code, rs_body = b\<rparr>)"

definition respond_model :: "nat \<Rightarrow> ('a \<Rightarrow> response_body) \<Rightarrow> 'a option result \<Rightarrow> response" where
  "respond_model code f r = respond code (res_bind r (validated_with f))"

definition respond_list :: "nat \<Rightarrow> ('a list \<Rightarrow> response_body) \<Rightarrow> 'a list result \<Rightarrow> response" where
  "respond_list code f r = respond code (res_bind r (\<lambda>xs. Inr (f xs)))"

text \<open>Iterating over \<open>None\<close> in \<open>[\<dots> for m in messages]\<close> raises \<open>TypeError\<close>.\<close>

definition respond_olist :: "nat \<Rightarrow> ('a list \<Rightarrow> response_body) \<Rightarrow> 'a list option result \<Rightarrow> response" where
  "respond_olist code f r =
     respond code (res_bind r (\<lambda>xs. case xs of None \<Rightarrow> Inl TypeError | Some ys \<Rightarrow> Inr (f ys)))"

definition respond_const :: "nat \<Rightarrow> response_body \<Rightarrow> 'a result \<Rightarrow> response" where
  "respond_const code b r = respond code (res_bind r (\<lambda>_. Inr b))"

section \<open>The worker and the circumstances of a request\<close>

record 'c app =
  app_db :: db
  app_cache :: 'c

text \<open>
  What a request meets: the cache and argon implementations, the outcome of the database pool for
  the authentication and for the route, Redis faults, clocks, and the random draws.
\<close>

record 'c ctx =
  x_ttl :: "'c ttl_ops"
  x_pyd :: pydantic_ops
  x_argon :: argon_ops
  x_settings :: AuthConfig
  x_auth_env :: db_env
  x_env :: db_env
  x_fault1 :: "redis_exc option"
  x_fault2 :: "redis_exc option"
  x_tick :: timestamp
  x_now :: timestamp
  x_new_id :: uuid
  x_created :: timestamp
  x_joined :: timestamp
  x_draw :: token_draw

type_synonym 'c route = "'c app \<Rightarrow> response \<times> 'c app \<times> effect list"

definition reading :: "response \<Rightarrow> 'c route" where
  "reading r st = (r, st, [])"

text \<open>The dependency on the current user, and a validated parameter.\<close>

definition current_user :: "'c ctx \<Rightarrow> string option \<Rightarrow> (User \<Rightarrow> 'c route) \<Rightarrow> 'c route" where
  "current_user x credentials k st =
     (case get_current_user (x_ttl x) (x_auth_env x) (x_tick x) (x_now x) credentials (app_db st) (app_cache st) of
        (Inl e, c) \<Rightarrow> (error_response e, st\<lparr>app_cache := c\<rparr>, [])
      | (Inr u, c) \<Rightarrow> k u (st\<lparr>app_cache := c\<rparr>))"

definition current_user_allow_deactivated ::
    "'c ctx \<Rightarrow> string option \<Rightarrow> (User \<Rightarrow> 'c route) \<Rightarrow> 'c route" where
  "current_user_allow_deactivated x credentials k st =
     (case get_current_user_allow_deactivated (x_ttl x) (x_auth_env x) (x_tick x) (x_now x) credentials
             (app_db st) (app_cache st) of
        (Inl e, c) \<Rightarrow> (error_response e, st\<lparr>app_cache := c\<rparr>, [])
      | (Inr u, c) \<Rightarrow> k u (st\<lparr>app_cache := c\<rparr>))"

definition param :: "'a option \<Rightarrow> ('a \<Rightarrow> 'c route) \<Rightarrow> 'c route" where
  "param p k st = (case p of None \<Rightarrow> (unprocessable, st, []) | Some v \<Rightarrow> k v st)"

section \<open>Authentication (auth.py)\<close>

definition auth_body :: "User \<times> TokenPair \<Rightarrow> response_body" where
  "auth_body ut =
     AuthBody \<lparr>ar_user = UserResponse_validate (fst ut), ar_tokens = TokenPairResponse_validate (snd ut)\<rparr>"

definition route_register :: "'c ctx \<Rightarrow> json \<Rightarrow> 'c route" where
  "route_register x body =
     param (RegisterRequest_validate body) (\<lambda>payload st.
       case register (x_argon x) (x_settings x) (x_env x) (x_draw x) (x_new_id x) (x_created x)
              (rr_username payload) (rr_password payload) (app_db st) of
         (r, d) \<Rightarrow> (respond 201 (res_bind r (\<lambda>ut. Inr (auth_body ut))), st\<lparr>app_db := d\<rparr>, []))"

text \<open>Unpacking the \<open>None\<close> of a swallowed error, \<open>u, t = None\<close>, would raise \<open>TypeError\<close>.\<close>

definition route_login :: "'c ctx \<Rightarrow> json \<Rightarrow> 'c route" where
  "route_login x body =
     param (LoginRequest_validate body) (\<lambda>payload st.
       case login (x_argon x) (x_settings x) (x_env x) (x_fault1 x) (x_draw x)
              (lr_username payload) (lr_password payload) (app_db st) of
         (r, d, effs) \<Rightarrow>
           (respond 200 (res_bind r (\<lambda>ut. case ut of None \<Rightarrow> Inl TypeError | Some p \<Rightarrow> Inr (auth_body p))),
            st\<lparr>app_db := d\<rparr>, effs))"

definition route_refresh :: "'c ctx \<Rightarrow> json \<Rightarrow> 'c route" where
  "route_refresh x body =
     param (RefreshRequest_validate body) (\<lambda>refresh_token st.
       case refresh (x_settings x) (x_env x) (x_fault1 x) (x_draw x) (x_now x) refresh_token (app_db st) of
         (r, d, effs) \<Rightarrow>
           (respond_model 200 (\<lambda>t. TokensBody (TokenPairResponse_validate t)) r, st\<lparr>app_db := d\<rparr>, effs))"

definition route_get_me :: "'c ctx \<Rightarrow> string option \<Rightarrow> 'c route" where
  "route_get_me x credentials =
     current_user x credentials (\<lambda>u. reading (respond 200 (Inr (UserBody (UserResponse_validate u)))))"

definition route_logout :: "'c ctx \<Rightarrow> string option \<Rightarrow> json \<Rightarrow> 'c route" where
  "route_logout x credentials body =
     param (LogoutRequest_validate body) (\<lambda>refresh_token st.
       case logout (x_ttl x) (x_env x) (x_fault1 x) (x_fault2 x) (x_tick x) refresh_token
              (get_raw_access_token credentials) (app_db st) (app_cache st) of
         (r, d, c, effs) \<Rightarrow> (respond_const 204 NoBody r, \<lparr>app_db = d, app_cache = c\<rparr>, effs))"

section \<open>Accounts and friendships (user.py)\<close>

definition route_get_my_profile :: "'c ctx \<Rightarrow> string option \<Rightarrow> 'c route" where
  "route_get_my_profile x credentials =
     current_user x credentials (\<lambda>u. reading (respond 200 (Inr (UserBody (UserResponse_validate u)))))"

definition route_get_user_by_username :: "'c ctx \<Rightarrow> string option \<Rightarrow> string \<Rightarrow> 'c route" where
  "route_get_user_by_username x credentials username =
     current_user x credentials (\<lambda>_ st.
       reading (respond_model 200 (\<lambda>u. UserBody (UserResponse_validate u))
         (get_by_username (x_env x) username (app_db st))) st)"

definition route_get_user_by_id :: "'c ctx \<Rightarrow> string option \<Rightarrow> string \<Rightarrow> 'c route" where
  "route_get_user_by_id x credentials raw_user_id =
     current_user x credentials (\<lambda>_.
       param (p_uuid (x_pyd x) raw_user_id) (\<lambda>user_id st.
         reading (respond_model 200 (\<lambda>u. UserBody (UserResponse_validate u))
           (get_by_id (x_env x) user_id (app_db st))) st))"

definition route_deactivate_my_account :: "'c ctx \<Rightarrow> string option \<Rightarrow> 'c route" where
  "route_deactivate_my_account x credentials =
     current_user x credentials (\<lambda>u st.
       case deactivate_account (x_env x) (u_user_id u) (app_db st) of
         (r, d) \<Rightarrow> (respond_const 204 NoBody r, st\<lparr>app_db := d\<rparr>, []))"

definition route_reactivate_my_account :: "'c ctx \<Rightarrow> string option \<Rightarrow> 'c route" where
  "route_reactivate_my_account x credentials =
     current_user_allow_deactivated x credentials (\<lambda>u st.
       case reactivate_account (x_env x) (u_user_id u) (app_db st) of
         (r, d) \<Rightarrow> (respond_const 204 NoBody r, st\<lparr>app_db := d\<rparr>, []))"

definition route_delete_my_account :: "'c ctx \<Rightarrow> string option \<Rightarrow> 'c route" where
  "route_delete_my_account x credentials =
     current_user x credentials (\<lambda>u st.
       case delete_account (x_env x) (u_user_id u) (app_db st) of
         (r, d) \<Rightarrow> (respond_const 204 NoBody r, st\<lparr>app_db := d\<rparr>, []))"

definition route_send_request :: "'c ctx \<Rightarrow> string option \<Rightarrow> json \<Rightarrow> 'c route" where
  "route_send_request x credentials body =
     current_user x credentials (\<lambda>u.
       param (SendFriendRequest_validate (x_pyd x) body) (\<lambda>addressee_id st.
         case send_friend_request (x_env x) (x_now x) (u_user_id u) addressee_id (app_db st) of
           (r, d) \<Rightarrow> (respond_const 201 (MessageBody ''Friend request sent successfully.'') r,
                      st\<lparr>app_db := d\<rparr>, [])))"

definition route_list_pending_requests :: "'c ctx \<Rightarrow> string option \<Rightarrow> 'c route" where
  "route_list_pending_requests x credentials =
     current_user x credentials (\<lambda>u st.
       reading (respond_list 200 (\<lambda>fs. FriendshipsBody (map FriendshipResponse_validate fs))
         (get_pending_friend_requests (x_env x) (u_user_id u) (app_db st))) st)"

definition route_accept_request :: "'c ctx \<Rightarrow> string option \<Rightarrow> string \<Rightarrow> 'c route" where
  "route_accept_request x credentials raw_requester_id =
     current_user x credentials (\<lambda>u.
       param (p_uuid (x_pyd x) raw_requester_id) (\<lambda>requester_id st.
         case accept_friend_request (x_env x) (x_now x) (u_user_id u) requester_id (app_db st) of
           (r, d) \<Rightarrow> (respond_const 200 (MessageBody ''Friend request accepted.'') r,
                      st\<lparr>app_db := d\<rparr>, [])))"

definition route_list_friends :: "'c ctx \<Rightarrow> string option \<Rightarrow> 'c route" where
  "route_list_friends x credentials =
     current_user x credentials (\<lambda>u st.
       reading (respond_list 200 (\<lambda>fs. FriendshipsBody (map FriendshipResponse_validate fs))
         (get_friends (x_env x) (u_user_id u) (app_db st))) st)"

definition route_get_status :: "'c ctx \<Rightarrow> string option \<Rightarrow> string \<Rightarrow> 'c route" where
  "route_get_status x credentials raw_target_id =
     current_user x credentials (\<lambda>u.
       param (p_uuid (x_pyd x) raw_target_id) (\<lambda>target_id st.
         reading (respond_model 200 (\<lambda>f. FriendshipBody (FriendshipResponse_validate f))
           (get_friendship_status (x_env x) (u_user_id u) target_id (app_db st))) st))"

definition route_remove_or_decline :: "'c ctx \<Rightarrow> string option \<Rightarrow> string \<Rightarrow> 'c route" where
  "route_remove_or_decline x credentials raw_target_id =
     current_user x credentials (\<lambda>u.
       param (p_uuid (x_pyd x) raw_target_id) (\<lambda>target_id st.
         case remove_or_decline_friendship (x_env x) (u_user_id u) target_id (app_db st) of
           (r, d) \<Rightarrow> (respond_const 204 NoBody r, st\<lparr>app_db := d\<rparr>, [])))"

section \<open>Groups (group.py)\<close>

definition route_create_group :: "'c ctx \<Rightarrow> string option \<Rightarrow> json \<Rightarrow> 'c route" where
  "route_create_group x credentials body =
     current_user x credentials (\<lambda>u.
       param (CreateGroupRequest_validate body) (\<lambda>name st.
         case create_group (x_env x) (x_fault1 x) (x_new_id x) (x_created x) (x_joined x)
                (u_user_id u) name (app_db st) of
           (r, d, effs) \<Rightarrow>
             (respond 201 (res_bind r (\<lambda>gm. Inr (GroupBody (GroupResponse_validate (fst gm))))),
              st\<lparr>app_db := d\<rparr>, effs)))"

definition route_list_groups :: "'c ctx \<Rightarrow> string option \<Rightarrow> 'c route" where
  "route_list_groups x credentials =
     current_user x credentials (\<lambda>u st.
       reading (respond_list 200 (\<lambda>gs. GroupsBody (map GroupResponse_validate gs))
         (list_user_groups (x_env x) (u_user_id u) (app_db st))) st)"

definition route_get_group :: "'c ctx \<Rightarrow> string option \<Rightarrow> string \<Rightarrow> 'c route" where
  "route_get_group x credentials raw_group_id =
     current_user x credentials (\<lambda>u.
       param (p_uuid (x_pyd x) raw_group_id) (\<lambda>group_id st.
         reading (respond_model 200 (\<lambda>g. GroupBody (GroupResponse_validate g))
           (get_group_details (x_env x) (u_user_id u) group_id (app_db st))) st))"

definition route_delete_group :: "'c ctx \<Rightarrow> string option \<Rightarrow> string \<Rightarrow> 'c route" where
  "route_delete_group x credentials raw_group_id =
     current_user x credentials (\<lambda>u.
       param (p_uuid (x_pyd x) raw_group_id) (\<lambda>group_id st.
         case delete_group (x_env x) (x_fault1 x) (x_fault2 x) (u_user_id u) group_id (app_db st) of
           (r, d, effs) \<Rightarrow> (respond_const 204 NoBody r, st\<lparr>app_db := d\<rparr>, effs)))"

definition both :: "'a option \<Rightarrow> 'b option \<Rightarrow> ('a \<times> 'b) option" where
  "both p q = (case (p, q) of (Some a, Some b) \<Rightarrow> Some (a, b) | _ \<Rightarrow> None)"

definition route_add_member :: "'c ctx \<Rightarrow> string option \<Rightarrow> string \<Rightarrow> json \<Rightarrow> 'c route" where
  "route_add_member x credentials raw_group_id body =
     current_user x credentials (\<lambda>u.
       param (both (p_uuid (x_pyd x) raw_group_id) (AddGroupMemberRequest_validate (x_pyd x) body))
         (\<lambda>(group_id, user_id) st.
            case add_member (x_env x) (x_fault1 x) (x_joined x) (u_user_id u) group_id user_id (app_db st) of
              (r, d, effs) \<Rightarrow>
                (respond_model 201 (\<lambda>m. MembershipBody (MembershipResponse_validate m)) r,
                 st\<lparr>app_db := d\<rparr>, effs)))"

definition route_remove_member :: "'c ctx \<Rightarrow> string option \<Rightarrow> string \<Rightarrow> string \<Rightarrow> 'c route" where
  "route_remove_member x credentials raw_group_id raw_user_id =
     current_user x credentials (\<lambda>u.
       param (both (p_uuid (x_pyd x) raw_group_id) (p_uuid (x_pyd x) raw_user_id))
         (\<lambda>(group_id, user_id) st.
            case remove_member (x_env x) (x_fault1 x) (u_user_id u) group_id user_id (app_db st) of
              (r, d, effs) \<Rightarrow> (respond_const 204 NoBody r, st\<lparr>app_db := d\<rparr>, effs)))"

definition route_list_group_members :: "'c ctx \<Rightarrow> string option \<Rightarrow> string \<Rightarrow> 'c route" where
  "route_list_group_members x credentials raw_group_id =
     current_user x credentials (\<lambda>_.
       param (p_uuid (x_pyd x) raw_group_id) (\<lambda>group_id st.
         reading (respond_list 200 (\<lambda>ms. MembershipsBody (map MembershipResponse_validate ms))
           (list_group_members (x_env x) group_id (app_db st))) st))"

section \<open>Messages (messaging.py)\<close>

definition route_send_direct_message :: "'c ctx \<Rightarrow> string option \<Rightarrow> json \<Rightarrow> 'c route" where
  "route_send_direct_message x credentials body =
     current_user x credentials (\<lambda>u.
       param (SendDirectMessageRequest_validate (x_pyd x) body) (\<lambda>payload st.
         case send_direct_message (x_env x) (x_fault1 x) (x_new_id x) (x_created x) (u_user_id u)
                (sd_recipient_id payload) (sd_content payload) (app_db st) of
           (r, d, effs) \<Rightarrow>
             (respond_model 201 (\<lambda>m. DmBody (DirectMessageResponse_validate m)) r, st\<lparr>app_db := d\<rparr>, effs)))"

text \<open>\<open>before: datetime | None = Query(default=None)\<close>, \<open>limit: int = Query(default=50, ge=1, le=100)\<close>.\<close>

definition before_param :: "pydantic_ops \<Rightarrow> string option \<Rightarrow> timestamp option option" where
  "before_param P raw =
     (case raw of None \<Rightarrow> Some None | Some s \<Rightarrow> map_option Some (p_datetime P s))"

definition limit_param :: "pydantic_ops \<Rightarrow> string option \<Rightarrow> nat option" where
  "limit_param P raw =
     (case raw of
        None \<Rightarrow> Some 50
      | Some s \<Rightarrow>
          (case p_int P s of
             None \<Rightarrow> None
           | Some n \<Rightarrow> if 1 \<le> n \<and> n \<le> 100 then Some (nat n) else None))"

definition route_get_dm_history ::
    "'c ctx \<Rightarrow> string option \<Rightarrow> string \<Rightarrow> string option \<Rightarrow> string option \<Rightarrow> 'c route" where
  "route_get_dm_history x credentials raw_recipient_id raw_before raw_limit =
     current_user x credentials (\<lambda>u.
       param (both (p_uuid (x_pyd x) raw_recipient_id)
                (both (before_param (x_pyd x) raw_before) (limit_param (x_pyd x) raw_limit)))
         (\<lambda>(recipient_id, before, limit) st.
            reading (respond_olist 200 (\<lambda>ms. DmsBody (map DirectMessageResponse_validate ms))
              (get_dm_history (x_env x) (x_now x) (u_user_id u) recipient_id before limit (app_db st))) st))"

definition route_send_group_message :: "'c ctx \<Rightarrow> string option \<Rightarrow> string \<Rightarrow> json \<Rightarrow> 'c route" where
  "route_send_group_message x credentials raw_group_id body =
     current_user x credentials (\<lambda>u.
       param (both (p_uuid (x_pyd x) raw_group_id) (SendGroupMessageRequest_validate body))
         (\<lambda>(group_id, content) st.
            case send_group_message (x_env x) (x_fault1 x) (x_new_id x) (x_created x) (u_user_id u)
                   group_id content (app_db st) of
              (r, d, effs) \<Rightarrow>
                (respond_model 201 (\<lambda>m. GmBody (GroupMessageResponse_validate m)) r, st\<lparr>app_db := d\<rparr>, effs)))"

definition route_get_group_history ::
    "'c ctx \<Rightarrow> string option \<Rightarrow> string \<Rightarrow> string option \<Rightarrow> string option \<Rightarrow> 'c route" where
  "route_get_group_history x credentials raw_group_id raw_before raw_limit =
     current_user x credentials (\<lambda>u.
       param (both (p_uuid (x_pyd x) raw_group_id)
                (both (before_param (x_pyd x) raw_before) (limit_param (x_pyd x) raw_limit)))
         (\<lambda>(group_id, before, limit) st.
            reading (respond_olist 200 (\<lambda>ms. GmsBody (map GroupMessageResponse_validate ms))
              (get_group_history (x_env x) (x_now x) (u_user_id u) group_id before limit (app_db st))) st))"

section \<open>The application\<close>

datatype request =
    Register json
  | Login json
  | Refresh json
  | GetMe "string option"
  | Logout "string option" json
  | GetMyProfile "string option"
  | GetUserByUsername "string option" string
  | GetUserById "string option" string
  | DeactivateMyAccount "string option"
  | ReactivateMyAccount "string option"
  | DeleteMyAccount "string option"
  | SendRequest "string option" json
  | ListPendingRequests "string option"
  | AcceptRequest "string option" string
  | ListFriends "string option"
  | GetStatus "string option" string
  | RemoveOrDecline "string option" string
  | CreateGroup "string option" json
  | ListGroups "string option"
  | GetGroup "string option" string
  | DeleteGroup "string option" string
  | AddMember "string option" string json
  | RemoveMember "string option" string string
  | ListGroupMembers "string option" string
  | SendDirectMessage "string option" json
  | GetDmHistory "string option" string "string option" "string option"
  | SendGroupMessage "string option" string json
  | GetGroupHistory "string option" string "string option" "string option"

fun handle_request :: "'c ctx \<Rightarrow> request \<Rightarrow> 'c route" where
  "handle_request x (Register body) = route_register x body"
| "handle_request x (Login body) = route_login x body"
| "handle_request x (Refresh body) = route_refresh x body"
| "handle_request x (GetMe cr) = route_get_me x cr"
| "handle_request x (Logout cr body) = route_logout x cr body"
| "handle_request x (GetMyProfile cr) = route_get_my_profile x cr"
| "handle_request x (GetUserByUsername cr n) = route_get_user_by_username x cr n"
| "handle_request x (GetUserById cr u) = route_get_user_by_id x cr u"
| "handle_request x (DeactivateMyAccount cr) = route_deactivate_my_account x cr"
| "handle_request x (ReactivateMyAccount cr) = route_reactivate_my_account x cr"
| "handle_request x (DeleteMyAccount cr) = route_delete_my_account x cr"
| "handle_request x (SendRequest cr body) = route_send_request x cr body"
| "handle_request x (ListPendingRequests cr) = route_list_pending_requests x cr"
| "handle_request x (AcceptRequest cr u) = route_accept_request x cr u"
| "handle_request x (ListFriends cr) = route_list_friends x cr"
| "handle_request x (GetStatus cr u) = route_get_status x cr u"
| "handle_request x (RemoveOrDecline cr u) = route_remove_or_decline x cr u"
| "handle_request x (CreateGroup cr body) = route_create_group x cr body"
| "handle_request x (ListGroups cr) = route_list_groups x cr"
| "handle_request x (GetGroup cr g) = route_get_group x cr g"
| "handle_request x (DeleteGroup cr g) = route_delete_group x cr g"
| "handle_request x (AddMember cr g body) = route_add_member x cr g body"
| "handle_request x (RemoveMember cr g u) = route_remove_member x cr g u"
| "handle_request x (ListGroupMembers cr g) = route_list_group_members x cr g"
| "handle_request x (SendDirectMessage cr body) = route_send_direct_message x cr body"
| "handle_request x (GetDmHistory cr u b l) = route_get_dm_history x cr u b l"
| "handle_request x (SendGroupMessage cr g body) = route_send_group_message x cr g body"
| "handle_request x (GetGroupHistory cr g b l) = route_get_group_history x cr g b l"

end
