(* ===== verification/Api_Invariants.thy ===== *)
theory Api_Invariants
  imports Api_Routers
begin

text \<open>
  What every sequence of requests keeps: the constraints of the schema, and the bounds the request
  schemas put on names and contents, which the tables themselves do not check.  The bounds hold of
  everything stored because every text that reaches an INSERT was validated on its way in.
\<close>

section \<open>Bounds on what is stored\<close>

definition within :: "nat \<Rightarrow> nat \<Rightarrow> string \<Rightarrow> bool" where
  "within lo hi s \<longleftrightarrow> lo \<le> length s \<and> length s \<le> hi"

definition content_ok :: "db \<Rightarrow> bool" where
  "content_ok d \<longleftrightarrow>
     (\<forall>u\<in>set (users d). within 3 50 (u_username u)) \<and>
     (\<forall>g\<in>set (groups d). within 1 100 (g_name g)) \<and>
     (\<forall>m\<in>set (direct_messages d). within 1 4096 (dm_content m)) \<and>
     (\<forall>m\<in>set (group_messages d). within 1 4096 (gm_content m))"

definition keeps :: "(db \<Rightarrow> bool) \<Rightarrow> 'a tx \<Rightarrow> bool" where
  "keeps P m \<longleftrightarrow> (\<forall>d x d'. P d \<longrightarrow> m d = Inr (x, d') \<longrightarrow> P d')"

lemma keepsI: "(\<And>d x d'. P d \<Longrightarrow> m d = Inr (x, d') \<Longrightarrow> P d') \<Longrightarrow> keeps P m"
  by (simp add: keeps_def)

lemma keeps_ops [tx_keeps]:
  "keeps P (tx_return x)" "keeps P (tx_raise e)" "keeps P (tx_read q)"
  by (auto intro!: keepsI simp: tx_ops res_bind_iffs)

lemma keeps_bind [tx_keeps]:
  assumes "keeps P m" and "\<And>x. keeps P (f x)"
  shows "keeps P (tx_bind m f)"
proof (rule keepsI)
  fix d y d'
  assume "P d" and "tx_bind m f d = Inr (y, d')"
  then obtain x d1 where "m d = Inr (x, d1)" "f x d1 = Inr (y, d')"
    by (auto simp: tx_bind_def res_bind_iffs)
  with \<open>P d\<close> assms show "P d'" by (metis keeps_def)
qed

lemma keeps_if [tx_keeps]:
  "(b \<Longrightarrow> keeps P m) \<Longrightarrow> (\<not> b \<Longrightarrow> keeps P n) \<Longrightarrow> keeps P (if b then m else n)"
  by simp

lemma transaction_keeps:
  "keeps P body \<Longrightarrow> P d \<Longrightarrow> P (snd (transaction env body d))"
  by (rule dbm.preserves) (auto simp: keeps_def)

lemma content_ok_simps [simp]:
  "content_ok (d\<lparr>friendships := fs\<rparr>) = content_ok d"
  "content_ok (d\<lparr>access_tokens := ats\<rparr>) = content_ok d"
  "content_ok (d\<lparr>refresh_tokens := rts\<rparr>) = content_ok d"
  "content_ok (d\<lparr>memberships := ms\<rparr>) = content_ok d"
  "content_ok (d\<lparr>users := users d @ [u]\<rparr>) \<longleftrightarrow> content_ok d \<and> within 3 50 (u_username u)"
  "content_ok (d\<lparr>groups := groups d @ [g]\<rparr>) \<longleftrightarrow> content_ok d \<and> within 1 100 (g_name g)"
  "content_ok (d\<lparr>direct_messages := direct_messages d @ [m]\<rparr>) \<longleftrightarrow>
     content_ok d \<and> within 1 4096 (dm_content m)"
  "content_ok (d\<lparr>group_messages := group_messages d @ [gm]\<rparr>) \<longleftrightarrow>
     content_ok d \<and> within 1 4096 (gm_content gm)"
  by (auto simp: content_ok_def)

lemma content_update_users [simp]:
  assumes "\<And>r. u_username (f r) = u_username r"
  shows "content_ok (d\<lparr>users := update_where p f (users d)\<rparr>) = content_ok d"
proof -
  have "u_username ` set (update_where p f (users d)) = u_username ` set (users d)"
    using map_key_update_where [of u_username f p "users d"] assms by (metis set_map)
  then have "(\<forall>u\<in>set (update_where p f (users d)). within 3 50 (u_username u)) \<longleftrightarrow>
      (\<forall>u\<in>set (users d). within 3 50 (u_username u))"
    by (metis (no_types, lifting) imageE imageI)
  then show ?thesis by (simp add: content_ok_def)
qed

lemma content_deletes:
  "content_ok d \<Longrightarrow> content_ok (cascade_user u d)"
  "content_ok d \<Longrightarrow> content_ok (snd (DELETE_GROUP g c d))"
  by (auto simp: content_ok_def cascade_user_def DELETE_GROUP_def Let_def)

text \<open>The rows that enter a table, and the statements that touch no bounded text.\<close>

lemma inserts_keep [tx_keeps]:
  "within 3 50 (u_username u) \<Longrightarrow> keeps content_ok (db_create_user u)"
  "within 1 100 (g_name g) \<Longrightarrow> keeps content_ok (db_create_group g)"
  "within 1 4096 (dm_content m) \<Longrightarrow> keeps content_ok (db_send_direct_message m)"
  "within 1 4096 (gm_content gm) \<Longrightarrow> keeps content_ok (db_send_group_message gm)"
  by (auto intro!: keepsI simp: query_defs split: if_splits option.splits)

lemma user_updates_keep [tx_keeps]:
  "keeps content_ok (db_deactivate_user i)" "keeps content_ok (db_reactivate_user i)"
  "keeps content_ok (db_update_user_password i n old)"
  by (auto intro!: keepsI simp: db_deactivate_user_def DEACTIVATE_USER_def db_reactivate_user_def
      REACTIVATE_USER_def db_update_user_password_def CHANGE_PASSWORD_def Let_def split: if_splits)

lemma delete_user_keeps [tx_keeps]: "keeps content_ok (db_delete_user i)"
  by (auto intro!: keepsI simp: db_delete_user_def DELETE_USER_BY_ID_def Let_def content_deletes
      split: if_splits sum.splits)

lemma friendship_keeps [tx_keeps]:
  "keeps content_ok (db_send_friend_request now a b)" "keeps content_ok (db_accept_friend_request now a b)"
  "keeps content_ok (db_remove_friendship a b)"
  by (auto intro!: keepsI simp: db_send_friend_request_def SEND_FRIEND_REQUEST_def
      db_accept_friend_request_def ACCEPT_FRIEND_REQUEST_def db_remove_friendship_def REMOVE_FRIENDSHIP_def
      Let_def split: if_splits sum.splits)

lemma token_keeps [tx_keeps]:
  "keeps content_ok (db_create_access_token t)" "keeps content_ok (db_create_refresh_token rt)"
  "keeps content_ok (db_revoke_access_token h)" "keeps content_ok (db_revoke_refresh_token h)"
  "keeps content_ok (db_revoke_all_user_access_tokens i)" "keeps content_ok (db_revoke_all_user_refresh_tokens i)"
  by (auto intro!: keepsI simp: query_defs db_revoke_all_user_access_tokens_def
      REVOKE_ALL_USER_ACCESS_TOKENS_def db_revoke_all_user_refresh_tokens_def
      REVOKE_ALL_USER_REFRESH_TOKENS_def REVOKE_ACCESS_TOKEN_def REVOKE_REFRESH_TOKEN_def Let_def
      split: if_splits)

lemma group_keeps [tx_keeps]:
  "keeps content_ok (db_delete_group gid c)" "keeps content_ok (db_add_group_member m)"
  "keeps content_ok (db_remove_group_member gid i)"
proof -
  show "keeps content_ok (db_delete_group gid c)"
    using content_deletes(2)
    by (auto intro!: keepsI simp: db_delete_group_def split: prod.splits if_splits) (metis snd_conv)
  show "keeps content_ok (db_add_group_member m)" "keeps content_ok (db_remove_group_member gid i)"
    by (auto intro!: keepsI simp: query_defs db_remove_group_member_def REMOVE_GROUP_MEMBER_def Let_def
        split: if_splits)
qed

section \<open>The services keep both\<close>

definition stored_ok :: "db \<Rightarrow> bool" where
  "stored_ok d \<longleftrightarrow> db_ok d \<and> content_ok d"

lemma transaction_stored:
  "stored_ok d \<Longrightarrow> runs_writes body \<Longrightarrow> keeps content_ok body \<Longrightarrow> stored_ok (snd (transaction env body d))"
  by (auto simp: stored_ok_def transaction_keeps intro: db_sys.run_inv [OF transaction_writes])

lemma user_service_stored:
  assumes "stored_ok d"
  shows "stored_ok (snd (deactivate_account env u d))" "stored_ok (snd (reactivate_account env u d))"
    "stored_ok (snd (delete_account env u d))" "stored_ok (snd (send_friend_request env now a b d))"
    "stored_ok (snd (accept_friend_request env now a b d))"
    "stored_ok (snd (remove_or_decline_friendship env a b d))"
  using assms by (simp_all add: tx_defs transaction_stored tx_writes tx_keeps)

lemma group_bodies_keep [tx_keeps]:
  "within 1 100 (g_name g) \<Longrightarrow> keeps content_ok (create_group_body g m)"
  "keeps content_ok (add_member_body t actor gid u)" "keeps content_ok (remove_member_body actor gid u)"
  "keeps content_ok (delete_group_body actor gid)"
  by (simp_all add: create_group_body_def add_member_body_def remove_member_body_def delete_group_body_def
      tx_keeps Let_def)

lemma group_service_stored:
  assumes "stored_ok d"
  shows "within 1 100 name \<Longrightarrow> stored_ok (fst (snd (create_group env f gid t1 t2 c name d)))"
    "stored_ok (fst (snd (add_member env f t actor g u d)))"
    "stored_ok (fst (snd (remove_member env f actor g u d)))"
    "stored_ok (fst (snd (delete_group env pf f actor g d)))"
  using assms by (simp_all add: tx_defs transaction_stored tx_writes tx_keeps Let_def)

lemma messaging_stored:
  assumes "stored_ok d" and "within 1 4096 c"
  shows "stored_ok (fst (snd (send_direct_message env f i t s r c d)))"
    "stored_ok (fst (snd (send_group_message env f i t s g c d)))"
proof -
  have "keeps content_ok (send_direct_message_body i t s r c)" "keeps content_ok (send_group_message_body i t s g c)"
    using assms(2) by (simp_all add: send_direct_message_body_def send_group_message_body_def tx_keeps)
  with assms(1) show "stored_ok (fst (snd (send_direct_message env f i t s r c d)))"
    "stored_ok (fst (snd (send_group_message env f i t s g c d)))"
    by (simp_all add: tx_defs transaction_stored tx_writes)
qed

lemma auth_bodies_keep [tx_keeps]:
  "keeps content_ok (issue_token_pair i p)"
  "within 3 50 (u_username user) \<Longrightarrow> keeps content_ok (register_body user p)"
  "keeps content_ok (login_body A name pw p)" "keeps content_ok (refresh_body now h p)"
  "keeps content_ok (logout_body h ah)"
proof -
  show i: "keeps content_ok (issue_token_pair i p)" for i
    by (simp add: issue_token_pair_def tx_keeps)
  show "keeps content_ok (register_body user p)" if "within 3 50 (u_username user)"
    using that by (simp add: register_body_def tx_keeps i)
  show "keeps content_ok (login_body A name pw p)"
    by (simp add: login_body_def login_reactivate_def login_rehash_def tx_lift_def tx_keeps i)
  show "keeps content_ok (refresh_body now h p)"
    by (simp add: refresh_body_def tx_keeps i Let_def)
  show "keeps content_ok (logout_body h ah)"
    by (cases ah) (simp_all add: logout_body_def tx_keeps)
qed

lemma auth_service_stored:
  assumes "stored_ok d"
  shows "within 3 50 name \<Longrightarrow> stored_ok (snd (register A cfg env draw uid t name pw d))"
    "stored_ok (fst (snd (login A cfg env f draw name pw d)))"
    "stored_ok (fst (snd (refresh cfg env f draw now raw d)))"
    "stored_ok (fst (snd (logout C env f f2 tick raw acc d c)))"
  using assms
  by (simp_all add: register_def login_def refresh_def logout_db Let_def transaction_stored tx_writes tx_keeps
      split: sum.split)

section \<open>The routes\<close>

definition route_keeps :: "'c route \<Rightarrow> bool" where
  "route_keeps rt \<longleftrightarrow> (\<forall>st. stored_ok (app_db st) \<longrightarrow> stored_ok (app_db (fst (snd (rt st)))))"

lemma route_keeps_reading: "route_keeps (\<lambda>st. reading (f st) st)"
  by (simp add: route_keeps_def reading_def)

lemma route_keeps_const: "route_keeps (reading r)"
  by (simp add: route_keeps_def reading_def)

lemma route_keeps_user:
  "(\<And>u. route_keeps (k u)) \<Longrightarrow> route_keeps (current_user x cr k)"
  by (auto simp: route_keeps_def current_user_def split: prod.split sum.split)

lemma route_keeps_user_deactivated:
  "(\<And>u. route_keeps (k u)) \<Longrightarrow> route_keeps (current_user_allow_deactivated x cr k)"
  by (auto simp: route_keeps_def current_user_allow_deactivated_def split: prod.split sum.split)

lemma route_keeps_param:
  "(\<And>v. p = Some v \<Longrightarrow> route_keeps (k v)) \<Longrightarrow> route_keeps (param p k)"
  by (auto simp: route_keeps_def param_def split: option.split)

lemma route_keeps_write:
  "(\<And>d. stored_ok d \<Longrightarrow> stored_ok (snd (f d))) \<Longrightarrow>
     route_keeps (\<lambda>st. case f (app_db st) of (r, d) \<Rightarrow> (g r, st\<lparr>app_db := d\<rparr>, []))"
  by (fastforce simp: route_keeps_def split: prod.split)

lemma route_keeps_effects:
  "(\<And>d. stored_ok d \<Longrightarrow> stored_ok (fst (snd (f d)))) \<Longrightarrow>
     route_keeps (\<lambda>st. case f (app_db st) of (r, d, effs) \<Rightarrow> (g r, st\<lparr>app_db := d\<rparr>, effs))"
  by (fastforce simp: route_keeps_def split: prod.split)

lemmas route_rules =
  route_keeps_user route_keeps_user_deactivated route_keeps_param route_keeps_reading route_keeps_const
  route_keeps_write route_keeps_effects

lemma bothD: "both p q = Some (a, b) \<Longrightarrow> p = Some a \<and> q = Some b"
  by (auto simp: both_def split: option.splits)

lemma route_keeps_split:
  "(\<And>a b. v = (a, b) \<Longrightarrow> route_keeps (k a b)) \<Longrightarrow> route_keeps (case v of (a, b) \<Rightarrow> k a b)"
  by (cases v) simp

lemma validated_within:
  "RegisterRequest_validate body = Some r \<Longrightarrow> within 3 50 (rr_username r)"
  "CreateGroupRequest_validate body = Some n \<Longrightarrow> within 1 100 n"
  "SendDirectMessageRequest_validate P body = Some m \<Longrightarrow> within 1 4096 (sd_content m)"
  "both p (SendGroupMessageRequest_validate body) = Some (g, c) \<Longrightarrow> within 1 4096 c"
  unfolding within_def by (blast dest: validated_bounds bothD)+

lemma auth_routes_keep:
  "route_keeps (route_register x body)" "route_keeps (route_login x body)" "route_keeps (route_refresh x body)"
  "route_keeps (route_get_me x cr)" "route_keeps (route_logout x cr body)"
proof -
  show "route_keeps (route_register x body)"
    unfolding route_register_def
    by (intro route_rules auth_service_stored validated_within)
  show "route_keeps (route_login x body)"
    unfolding route_login_def by (intro route_rules auth_service_stored)
  show "route_keeps (route_refresh x body)"
    unfolding route_refresh_def by (intro route_rules auth_service_stored)
  show "route_keeps (route_get_me x cr)"
    unfolding route_get_me_def by (intro route_rules)
  show "route_keeps (route_logout x cr body)"
    unfolding route_logout_def
    by (intro route_keeps_param, simp add: route_keeps_def split: prod.split) (metis auth_service_stored(4) fst_conv snd_conv)
qed

lemma user_routes_keep:
  "route_keeps (route_get_my_profile x cr)" "route_keeps (route_get_user_by_username x cr n)"
  "route_keeps (route_get_user_by_id x cr i)" "route_keeps (route_deactivate_my_account x cr)"
  "route_keeps (route_reactivate_my_account x cr)" "route_keeps (route_delete_my_account x cr)"
  "route_keeps (route_send_request x cr body)" "route_keeps (route_list_pending_requests x cr)"
  "route_keeps (route_accept_request x cr i)" "route_keeps (route_list_friends x cr)"
  "route_keeps (route_get_status x cr i)" "route_keeps (route_remove_or_decline x cr i)"
  unfolding route_get_my_profile_def route_get_user_by_username_def route_get_user_by_id_def
    route_deactivate_my_account_def route_reactivate_my_account_def route_delete_my_account_def
    route_send_request_def route_list_pending_requests_def route_accept_request_def route_list_friends_def
    route_get_status_def route_remove_or_decline_def
  by (intro route_rules user_service_stored; assumption)+

lemma group_routes_keep:
  "route_keeps (route_create_group x cr body)" "route_keeps (route_list_groups x cr)"
  "route_keeps (route_get_group x cr i)" "route_keeps (route_delete_group x cr i)"
  "route_keeps (route_add_member x cr i body)" "route_keeps (route_remove_member x cr i j)"
  "route_keeps (route_list_group_members x cr i)"
  unfolding route_create_group_def route_list_groups_def route_get_group_def route_delete_group_def
    route_add_member_def route_remove_member_def route_list_group_members_def
  by (intro route_rules route_keeps_split group_service_stored validated_within; assumption)+

lemma message_routes_keep:
  "route_keeps (route_send_direct_message x cr body)" "route_keeps (route_get_dm_history x cr i b l)"
  "route_keeps (route_send_group_message x cr i body)" "route_keeps (route_get_group_history x cr i b l)"
  unfolding route_send_direct_message_def route_get_dm_history_def route_send_group_message_def
    route_get_group_history_def
  by (intro route_rules route_keeps_split messaging_stored; blast intro: validated_within)+

lemma handle_request_keeps: "route_keeps (handle_request x req)"
  by (cases req) (simp_all add: auth_routes_keep user_routes_keep group_routes_keep message_routes_keep)

section \<open>Runs of the application\<close>

text \<open>
  One worker's view: it handles a request, its cache handles an invalidation event, or another
  worker, with a cache of its own, handles a request on the shared database.
\<close>

inductive app_step :: "'c app \<Rightarrow> 'c app \<Rightarrow> bool" where
  handled: "handle_request x req st = (resp, st', effs) \<Longrightarrow> app_step st st'"
| invalidated:
    "handle_invalidation_event C tick ev (app_cache st) = Inr c \<Longrightarrow> app_step st (st\<lparr>app_cache := c\<rparr>)"
| elsewhere:
    "handle_request x req \<lparr>app_db = app_db st, app_cache = (c :: 'c)\<rparr> = (resp, st', effs) \<Longrightarrow>
     app_step st (st\<lparr>app_db := app_db st'\<rparr>)"

inductive_cases app_stepE: "app_step st st'"

lemma app_step_keeps:
  assumes "app_step st st'" and "stored_ok (app_db st)"
  shows "stored_ok (app_db st')"
  using assms(1)
proof (cases rule: app_step.cases)
  case (handled x req resp effs)
  then show ?thesis
    using handle_request_keeps [of x req] assms(2) by (metis route_keeps_def fst_conv snd_conv)
next
  case (elsewhere x req c resp t effs)
  then show ?thesis
    using handle_request_keeps [of x req] assms(2)
    by (auto simp: route_keeps_def dest!: spec [of _ "\<lparr>app_db = app_db st, app_cache = c\<rparr>"])
qed (use assms(2) in simp)

interpretation application: invariant_system app_step "\<lambda>st. stored_ok (app_db st)"
  by unfold_locales (rule app_step_keeps)

section \<open>Which requests need a session\<close>

fun bearer :: "request \<Rightarrow> string option option" where
  "bearer (Register body) = None"
| "bearer (Login body) = None"
| "bearer (Refresh body) = None"
| "bearer (Logout cr body) = None"
| "bearer (GetMe cr) = Some cr"
| "bearer (GetMyProfile cr) = Some cr"
| "bearer (GetUserByUsername cr n) = Some cr"
| "bearer (GetUserById cr u) = Some cr"
| "bearer (DeactivateMyAccount cr) = Some cr"
| "bearer (ReactivateMyAccount cr) = Some cr"
| "bearer (DeleteMyAccount cr) = Some cr"
| "bearer (SendRequest cr body) = Some cr"
| "bearer (ListPendingRequests cr) = Some cr"
| "bearer (AcceptRequest cr u) = Some cr"
| "bearer (ListFriends cr) = Some cr"
| "bearer (GetStatus cr u) = Some cr"
| "bearer (RemoveOrDecline cr u) = Some cr"
| "bearer (CreateGroup cr body) = Some cr"
| "bearer (ListGroups cr) = Some cr"
| "bearer (GetGroup cr g) = Some cr"
| "bearer (DeleteGroup cr g) = Some cr"
| "bearer (AddMember cr g body) = Some cr"
| "bearer (RemoveMember cr g u) = Some cr"
| "bearer (ListGroupMembers cr g) = Some cr"
| "bearer (SendDirectMessage cr body) = Some cr"
| "bearer (GetDmHistory cr u b l) = Some cr"
| "bearer (SendGroupMessage cr g body) = Some cr"
| "bearer (GetGroupHistory cr g b l) = Some cr"

text \<open>A bearer token that stands for nobody: absent, empty, or neither cached nor valid in the database.\<close>

definition no_session :: "'c ctx \<Rightarrow> string option \<Rightarrow> 'c app \<Rightarrow> bool" where
  "no_session x cr st \<longleftrightarrow>
     (\<forall>tok. cr = Some tok \<longrightarrow>
        tok = [] \<or>
        cache_get (x_ttl x) (x_tick x) (hash_token tok) (app_cache st) = None \<and>
        (\<forall>u. \<not> valid_session (app_db st) (x_now x) (hash_token tok) u))"

lemma no_session_refused:
  assumes "no_session x cr st" and "x_auth_env x = healthy"
  shows "\<exists>m. get_current_user (x_ttl x) (x_auth_env x) (x_tick x) (x_now x) cr (app_db st) (app_cache st) =
       (Inl (HTTPException 401 m), app_cache st)"
    and "\<exists>m. get_current_user_allow_deactivated (x_ttl x) (x_auth_env x) (x_tick x) (x_now x) cr (app_db st) (app_cache st) =
       (Inl (HTTPException 401 m), app_cache st)"
  using assms authenticate_refused
  by (auto simp: get_current_user_def get_current_user_allow_deactivated_def with_bearer_def no_session_def
      split: option.split)

lemma current_user_refused:
  assumes "no_session x cr st" and "x_auth_env x = healthy"
  shows "\<exists>m. current_user x cr k st = (\<lparr>rs_status = 401, rs_body = DetailBody m\<rparr>, st, [])"
    and "\<exists>m. current_user_allow_deactivated x cr k st = (\<lparr>rs_status = 401, rs_body = DetailBody m\<rparr>, st, [])"
  using no_session_refused [OF assms]
  by (auto simp: current_user_def current_user_allow_deactivated_def error_response_def)

lemmas protected_routes =
  route_get_me_def route_get_my_profile_def route_get_user_by_username_def route_get_user_by_id_def
  route_deactivate_my_account_def route_reactivate_my_account_def route_delete_my_account_def
  route_send_request_def route_list_pending_requests_def route_accept_request_def route_list_friends_def
  route_get_status_def route_remove_or_decline_def route_create_group_def route_list_groups_def
  route_get_group_def route_delete_group_def route_add_member_def route_remove_member_def
  route_list_group_members_def route_send_direct_message_def route_get_dm_history_def
  route_send_group_message_def route_get_group_history_def

section \<open>Pages\<close>

lemma limit_param_bounds: "limit_param P l = Some n \<Longrightarrow> 1 \<le> n \<and> n \<le> 100"
  by (auto simp: limit_param_def split: option.splits if_splits)

lemma guarded_page: "guarded ov ov' kw r = Inr (Some page) \<Longrightarrow> r = Inr page"
  by (simp add: guarded_Inr_iff)

lemma get_dm_history_length:
  "get_dm_history env now a b before n d = Inr (Some page) \<Longrightarrow> length page \<le> n"
  by (auto simp: get_dm_history_def db_get_dm_conversation_history_def DM_CONVERSATION_HISTORY_def res_bind_iffs
      dest!: guarded_page connection_success split: if_splits)

lemma get_group_history_length:
  "get_group_history env now a g before n d = Inr (Some page) \<Longrightarrow> length page \<le> n"
  by (auto simp: get_group_history_def db_get_group_messages_timeline_def GROUP_MESSAGES_TIMELINE_def res_bind_iffs
      dest!: guarded_page connection_success split: if_splits)

lemmas body_simps =
  current_user_def param_def reading_def respond_olist_def respond_def error_response_def unprocessable_def

section \<open>Properties of the API\<close>


text \<open>Circumstances to evaluate with.\<close>

definition sample_pydantic :: pydantic_ops where
  "sample_pydantic =
     \<lparr>p_uuid = uuid_parse, p_int = (\<lambda>s. map_option int (py_int s)), p_datetime = (\<lambda>s. None)\<rparr>"

definition sample_ctx :: "(string \<times> User \<times> timestamp) list ctx" where
  "sample_ctx =
     \<lparr>x_ttl = list_ttl, x_pyd = sample_pydantic, x_argon = sample_argon, x_settings = default_auth_config,
      x_auth_env = healthy, x_env = healthy, x_fault1 = None, x_fault2 = None, x_tick = 0, x_now = 500,
      x_new_id = 7, x_created = 500, x_joined = 500, x_draw = sample_draw\<rparr>"


text \<open>
  C8 (requests_keep_stored_data): Whatever requests arrive, on this worker or on another, with whatever
  bodies, tokens and faults, and whatever invalidation events: starting from an empty database,
  every stored row satisfies the constraints of the schema, every user name has 3 to 50 characters,
  every group name 1 to 100 and every message 1 to 4096.
\<close>

theorem requests_keep_stored_data:
  assumes "rtranclp app_step \<lparr>app_db = empty_db, app_cache = c\<rparr> st"
  shows "db_ok (app_db st) \<and>
    (\<forall>u. u \<in> set (users (app_db st)) \<longrightarrow> within 3 50 (u_username u)) \<and>
    (\<forall>g. g \<in> set (groups (app_db st)) \<longrightarrow> within 1 100 (g_name g)) \<and>
    (\<forall>m. m \<in> set (direct_messages (app_db st)) \<longrightarrow> within 1 4096 (dm_content m)) \<and>
    (\<forall>m. m \<in> set (group_messages (app_db st)) \<longrightarrow> within 1 4096 (gm_content m))"
proof -
  have "stored_ok empty_db" by (simp add: stored_ok_def db_ok_defs content_ok_def empty_db_def)
  with application.run_inv [OF assms] have "stored_ok (app_db st)" by simp
  then show ?thesis by (simp add: stored_ok_def content_ok_def)
qed

theorem requests_keep_stored_data_witness:
  "\<exists>u (st :: (string \<times> User \<times> timestamp) list app). rtranclp app_step \<lparr>app_db = empty_db, app_cache = []\<rparr> st \<and> users (app_db st) = [u] \<and>
     u_username u = ''alice'' \<and> db_ok (app_db st) \<and> within 3 50 (u_username u)"
proof -
  let ?s = "\<lparr>app_db = empty_db, app_cache = []\<rparr> :: (string \<times> User \<times> timestamp) list app"
  let ?b = "JObj [(''username'', JStr ''alice''), (''password'', JStr ''longenough'')]"
  obtain resp st effs where r: "handle_request sample_ctx (Register ?b) ?s = (resp, st, effs)"
    by (cases "handle_request sample_ctx (Register ?b) ?s") auto
  then have run: "rtranclp app_step ?s st" by (intro r_into_rtranclp app_step.handled)
  let ?u = "sample_user 7 ''alice''\<lparr>u_password_hash := ''h:longenough'', u_created_at := 500\<rparr>"
  have "users (app_db st) = [?u]"
    using r by (auto simp: route_register_def param_def RegisterRequest_validate_def str_field_def register_def
        sample_ctx_def hash_password_def sample_argon_def transaction_healthy register_body_def
        tx_ops query_defs issue_token_pair_eq empty_db_def sample_user_def Let_def split: if_splits)
  with run requests_keep_stored_data [OF run] show ?thesis
    by (intro exI [of _ ?u] exI [of _ st]) (simp add: sample_user_def)
qed



end
