(* ===== verification/Api_Responses.thy ===== *)
theory Api_Responses
  imports Api_Routers
begin

text \<open>
  What a client can be answered.  Every error a service raises is either of a class with a status of its
  own or becomes one of three fixed texts with status 500, so that nothing a driver or the hasher says
  reaches a client; only authentication raises \<open>HTTPException\<close>, and only with 401.  The facts follow the
  way the errors take: repository functions, transactions, decorators, routes.
\<close>

named_theorems proper_rules \<open>computations whose errors have a documented answer\<close>

section \<open>Errors with a documented answer\<close>

fun proper :: "exn \<Rightarrow> bool" where
  "proper (HTTPException c m) = (c = 401)"
| "proper e = True"

definition ok_result :: "'a result \<Rightarrow> bool" where
  "ok_result r \<longleftrightarrow> (case r of Inl e \<Rightarrow> proper e | Inr x \<Rightarrow> True)"

definition proper_run :: "('s \<Rightarrow> 'a result) \<Rightarrow> bool" where
  "proper_run m \<longleftrightarrow> (\<forall>d. ok_result (m d))"

lemma ok_result_simps [simp]: "ok_result (Inr x)" "ok_result (Inl e) = proper e"
  by (simp_all add: ok_result_def)

lemma proper_not_found [simp]: "proper (not_found e i)" "proper (constraint_violation t c)" "proper (raise_constraint p)"
  by (simp_all add: not_found_def)

lemma ok_result_bind [proper_rules]:
  "ok_result r \<Longrightarrow> (\<And>x. ok_result (f x)) \<Longrightarrow> ok_result (res_bind r f)"
  by (cases r) simp_all

lemma proper_run_ops [proper_rules]:
  "proper_run (tx_return x)" "proper e \<Longrightarrow> proper_run (tx_raise e)"
  "proper_run q \<Longrightarrow> proper_run (tx_read q)"
  by (auto simp: proper_run_def tx_ops intro!: ok_result_bind)

lemma proper_run_bind [proper_rules]:
  "proper_run m \<Longrightarrow> (\<And>x. proper_run (f x)) \<Longrightarrow> proper_run (tx_bind m f)"
  by (auto simp: proper_run_def tx_bind_def intro!: ok_result_bind split: prod.split)

lemma proper_run_if [proper_rules]:
  "(b \<Longrightarrow> proper_run m) \<Longrightarrow> (\<not> b \<Longrightarrow> proper_run n) \<Longrightarrow> proper_run (if b then m else n)"
  by simp

lemma proper_reads [proper_rules]:
  "proper_run (db_get_user_by_id i)" "proper_run (db_get_user_by_username name)"
  "proper_run (db_get_friendship_status a b)" "proper_run (db_list_accepted_friends i)"
  "proper_run (db_list_pending_requests i)" "proper_run (db_get_refresh_token h)" "proper_run (db_get_access_token h)"
  "proper_run (db_get_group_by_id g)" "proper_run (db_list_user_groups i)" "proper_run (db_list_group_memberships g)"
  "proper_run (db_get_membership g i)" "proper_run (db_get_dm_conversation_history a b t n)"
  "proper_run (db_get_group_messages_timeline g t n)"
  unfolding proper_run_def ok_result_def db_get_user_by_id_def db_get_user_by_username_def
    db_get_friendship_status_def db_list_accepted_friends_def db_list_pending_requests_def
    db_get_refresh_token_def db_get_access_token_def db_get_group_by_id_def db_list_user_groups_def
    db_list_group_memberships_def db_get_membership_def db_get_dm_conversation_history_def
    db_get_group_messages_timeline_def
  by (simp_all split: option.split)

lemma proper_commands [proper_rules]:
  "proper_run (db_create_user u)" "proper_run (db_deactivate_user i)" "proper_run (db_reactivate_user i)"
  "proper_run (db_update_user_password i p q)" "proper_run (db_delete_user i)"
  "proper_run (db_send_friend_request t a b)" "proper_run (db_accept_friend_request t a b)"
  "proper_run (db_remove_friendship a b)" "proper_run (db_create_access_token at)"
  "proper_run (db_create_refresh_token rt)" "proper_run (db_revoke_access_token h)"
  "proper_run (db_revoke_refresh_token h)" "proper_run (db_revoke_all_user_access_tokens i)"
  "proper_run (db_revoke_all_user_refresh_tokens i)" "proper_run (db_create_group g)"
  "proper_run (db_delete_group gid i)" "proper_run (db_add_group_member m)" "proper_run (db_remove_group_member gid i)"
  "proper_run (db_send_direct_message dm)" "proper_run (db_send_group_message gm)"
  unfolding proper_run_def ok_result_def db_create_user_def db_deactivate_user_def db_reactivate_user_def
    db_update_user_password_def db_delete_user_def db_send_friend_request_def db_accept_friend_request_def
    db_remove_friendship_def db_create_access_token_def db_create_refresh_token_def db_revoke_access_token_def
    db_revoke_refresh_token_def db_revoke_all_user_access_tokens_def db_revoke_all_user_refresh_tokens_def
    db_create_group_def db_delete_group_def db_add_group_member_def db_remove_group_member_def
    db_send_direct_message_def db_send_group_message_def
  by (simp_all split: sum.split prod.split pg_error.split)

section \<open>Transactions and decorators\<close>

lemma proper_except: "proper e \<Longrightarrow> proper (connection_except e)" "proper e \<Longrightarrow> proper (transaction_except e)"
  by (cases e rule: connection_except.cases; simp) (cases e rule: transaction_except.cases; simp)

lemma connection_proper [proper_rules]: "proper_run body \<Longrightarrow> ok_result (connection env body d)"
  by (auto simp: connection_def proper_run_def ok_result_def proper_except split: option.split sum.splits)

lemma transaction_proper [proper_rules]: "proper_run body \<Longrightarrow> ok_result (fst (transaction env body d))"
  by (auto simp: transaction_def proper_run_def ok_result_def proper_except split: option.split sum.splits)

fun proper_handler :: "handler \<Rightarrow> bool" where
  "proper_handler (HandlerFn h) \<longleftrightarrow> (\<forall>kw. proper (h kw))"
| "proper_handler (HandlerType e) \<longleftrightarrow> proper e"
| "proper_handler HandlerNone \<longleftrightarrow> True"

definition proper_table :: "('k \<times> handler) list \<Rightarrow> bool" where
  "proper_table hs \<longleftrightarrow> (\<forall>kh\<in>set hs. proper_handler (snd kh))"

lemma proper_table_append [simp]: "proper_table (a @ b) \<longleftrightarrow> proper_table a \<and> proper_table b"
  by (auto simp: proper_table_def)

lemma proper_table_map [simp]: "proper_table (map (\<lambda>(k, v). (f k, v)) hs) = proper_table hs"
  by (auto simp: proper_table_def)

lemma proper_tables [simp]:
  "proper_table CONSTRAINT_MAP" "proper_table ENTITY_NOT_FOUND_MAP" "proper_table []"
  "proper_table friendship_override" "proper_table membership_override" "proper_table invalid_credentials_overrides"
  "proper_table (kh # hs) = (proper_handler (snd kh) \<and> proper_table hs)"
  by (simp_all add: proper_table_def CONSTRAINT_MAP_def ENTITY_NOT_FOUND_MAP_def friendship_override_def
      membership_override_def invalid_credentials_overrides_def split: option.split)

lemma proper_lookup:
  assumes "proper_table hs"
  shows "map_of hs k = Some (HandlerFn h) \<Longrightarrow> \<forall>kw. proper (h kw)"
    and "map_of hs k = Some (HandlerType e) \<Longrightarrow> proper e"
  using assms by (auto simp: proper_table_def dest!: map_of_SomeD)

lemma decorators_proper [proper_rules]:
  "ok_result r \<Longrightarrow> proper_table cov \<Longrightarrow> ok_result (handle_db_constraint_error cov kw r)"
  "ok_result r \<Longrightarrow> proper_table ov \<Longrightarrow> ok_result (handle_db_not_found_error ov kw r)"
  "ok_result r \<Longrightarrow> proper_table cov \<Longrightarrow> proper_table ov \<Longrightarrow> ok_result (guarded cov ov kw r)"
proof -
  show 1: "ok_result (handle_db_constraint_error cov kw r)" if "ok_result r" "proper_table cov"
    for cov kw and r :: "'x result"
  proof -
    have "proper_table (map (\<lambda>(k, v). (lower (constraint_value k), v)) cov @ CONSTRAINT_MAP)" using that by simp
    note lookup = proper_lookup [OF this]
    from that show ?thesis
      unfolding handle_db_constraint_error_def Let_def
      by (auto simp del: map_of_append lower_constraint_value dest: lookup
          split: sum.split exn.split db_error.split option.split handler.split)
  qed
  show 2: "ok_result (handle_db_not_found_error ov kw r)" if "ok_result r" "proper_table ov"
    for ov kw and r :: "'y result"
  proof -
    have "proper_table (ov @ ENTITY_NOT_FOUND_MAP)" using that by simp
    note lookup = proper_lookup [OF this]
    from that show ?thesis
      unfolding handle_db_not_found_error_def
      by (auto simp del: map_of_append dest: lookup
          split: sum.split exn.split db_error.split option.split handler.split)
  qed
  show "ok_result r \<Longrightarrow> proper_table cov \<Longrightarrow> proper_table ov \<Longrightarrow> ok_result (guarded cov ov kw r)"
    by (simp add: guarded_def 1 2)
qed

lemma redis_proper [proper_rules]: "ok_result (fst (publish_stream_event fault e))"
  by (auto simp: publish_stream_event_def handle_redis_errors_def split: option.split redis_exc.split)

lemma after_commit_fst [simp]: "fst (after_commit p k) = fst p"
  by (cases p; cases "fst p") auto

lemma then_call_proper:
  "ok_result (fst p) \<Longrightarrow> (\<And>x. ok_result (fst (k x))) \<Longrightarrow> ok_result (fst (then_call p k))"
  by (cases p; cases "fst p") auto

lemma argon_proper [proper_rules]:
  "ok_result (hash_password A pw)" "ok_result (verify_password A pw h)" "ok_result (needs_rehash A h)"
proof -
  have "proper (argon_exn e)" for e by (cases e) simp_all
  then show "ok_result (hash_password A pw)" "ok_result (verify_password A pw h)" "ok_result (needs_rehash A h)"
    by (auto simp: hash_password_def verify_password_def needs_rehash_def split: sum.split argon_error.split)
qed

section \<open>Services\<close>

lemma user_service_proper [proper_rules]:
  "ok_result (get_by_username env name d)" "ok_result (get_by_id env i d)"
  "ok_result (fst (deactivate_account env i d))" "ok_result (fst (reactivate_account env i d))"
  "ok_result (fst (delete_account env i d))" "ok_result (fst (send_friend_request env t a b d))"
  "ok_result (fst (accept_friend_request env t a b d))" "ok_result (fst (remove_or_decline_friendship env a b d))"
  "ok_result (get_friendship_status env a b d)" "ok_result (get_friends env i d)"
  "ok_result (get_pending_friend_requests env i d)"
  by (simp_all add: get_by_username_def get_by_id_def deactivate_account_def reactivate_account_def
      delete_account_def send_friend_request_def accept_friend_request_def remove_or_decline_friendship_def
      get_friendship_status_def get_friends_def get_pending_friend_requests_def proper_rules)

lemma group_bodies_proper [proper_rules]:
  "proper_run (create_group_body g m)" "proper_run (add_member_body t a g' u)"
  "proper_run (remove_member_body a g' u)" "proper_run (delete_group_body a g')"
  unfolding create_group_body_def add_member_body_def remove_member_body_def delete_group_body_def Let_def
  by (intro proper_rules; simp)+

lemma group_service_proper [proper_rules]:
  "ok_result (fst (create_group env f i t t' a name d))" "ok_result (list_group_members env g d)"
  "ok_result (get_group_details env a g d)" "ok_result (list_user_groups env a d)"
  "ok_result (fst (add_member env f t a g u d))" "ok_result (fst (remove_member env f a g u d))"
  "ok_result (fst (delete_group env f f' a g d))"
  unfolding create_group_def list_group_members_def get_group_details_def list_user_groups_def add_member_def
    remove_member_def delete_group_def Let_def decorated_simps after_commit_fst
  by (intro proper_rules; simp add: proper_run_def proper_rules [unfolded proper_run_def])+

lemma messaging_service_proper [proper_rules]:
  "ok_result (fst (send_direct_message env f i t a b c d))" "ok_result (fst (send_group_message env f i t a g c d))"
  "ok_result (get_dm_history env t a b bf n d)" "ok_result (get_group_history env t a g bf n d)"
  unfolding send_direct_message_def send_group_message_def get_dm_history_def get_group_history_def
    send_direct_message_body_def send_group_message_body_def decorated_simps after_commit_fst
  by (intro proper_rules; simp add: proper_run_def ok_result_bind proper_rules [unfolded proper_run_def])+

lemma tx_lift_proper [proper_rules]: "ok_result r \<Longrightarrow> proper_run (tx_lift r)"
  by (cases r) (simp_all add: proper_run_def tx_lift_def tx_read_def)

lemma auth_bodies_proper [proper_rules]:
  "proper_run (issue_token_pair u p)" "proper_run (register_body m p)" "proper_run (login_reactivate user)"
  "proper_run (login_rehash A pw user b)"
  unfolding issue_token_pair_def register_body_def login_reactivate_def login_rehash_def
  by (intro proper_rules)+

lemma session_bodies_proper [proper_rules]:
  "proper_run (login_body A name pw p)" "proper_run (refresh_body now h p)" "proper_run (logout_body h ah)"
proof -
  show "proper_run (login_body A name pw p)" "proper_run (refresh_body now h p)"
    unfolding login_body_def refresh_body_def Let_def by (intro proper_rules; simp)+
  show "proper_run (logout_body h ah)"
    unfolding logout_body_def by (cases ah) (simp_all add: proper_rules)
qed

lemma published_proper:
  "(\<And>x. ok_result (f x)) \<Longrightarrow> ok_result (fst (case publish_stream_event fault e of (r, effs) \<Rightarrow> (res_bind r f, effs)))"
  using redis_proper [of fault e] by (cases "publish_stream_event fault e") (simp add: ok_result_bind)

lemma logout_events_proper: "ok_result (fst (logout_events f f' h ah))"
  using redis_proper [of f "TokenRevokedEvent h"] redis_proper [of f']
  by (auto simp: logout_events_def split: prod.split sum.split option.split) (metis fst_conv)

lemma auth_service_proper [proper_rules]:
  "ok_result (fst (register A cfg env draw i t name pw d))" "ok_result (fst (login A cfg env f draw name pw d))"
  "ok_result (fst (refresh cfg env f draw now raw d))" "ok_result (fst (logout C env f f' tick raw acc d c))"
proof -
  show "ok_result (fst (register A cfg env draw i t name pw d))"
    unfolding register_def decorated_simps
  proof (rule decorators_proper(1))
    show "ok_result (fst (case hash_password A pw of Inl e \<Rightarrow> (Inl e, d) | Inr password_hash \<Rightarrow>
        (let user_model = \<lparr>u_user_id = i, u_username = name, u_password_hash = password_hash,
            u_deactivated = False, u_created_at = t\<rparr>; token_pair = generate_token_pair cfg draw
         in decorated (\<lambda>r. res_bind r (\<lambda>user. Inr (user, token_pair)))
              (transaction env (register_body user_model token_pair) d))))"
      using argon_proper(1) [of A pw]
      by (cases "hash_password A pw") (simp_all add: Let_def ok_result_bind transaction_proper auth_bodies_proper)
  qed simp
  show "ok_result (fst (login A cfg env f draw name pw d))" "ok_result (fst (refresh cfg env f draw now raw d))"
    unfolding login_def refresh_def Let_def decorated_simps
    by (rule decorators_proper(3) then_call_proper transaction_proper session_bodies_proper | simp |
        auto intro!: published_proper)+
  show "ok_result (fst (logout C env f f' tick raw acc d c))"
    unfolding logout_def Let_def decorated_simps
    using transaction_proper [OF session_bodies_proper(3), of env "hash_token raw" "optional_hash acc" d]
      logout_events_proper [of f f' "hash_token raw" "optional_hash acc"]
    by (intro decorators_proper(2)) (auto split: prod.splits sum.split)
qed

section \<open>Routes\<close>

definition documented :: "response \<Rightarrow> bool" where
  "documented resp \<longleftrightarrow>
     rs_status resp \<in> {200, 201, 204, 400, 401, 403, 404, 409, 422, 500} \<and>
     (rs_status resp = 500 \<longrightarrow> rs_body resp \<in> DetailBody ` {''A database operation failed.'',
        ''A caching or messaging operation failed.'', ''An internal server error occurred.''}) \<and>
     (rs_status resp \<in> {400, 401, 403, 404, 409} \<longrightarrow> (\<exists>m. rs_body resp = DetailBody m))"

definition documented_route :: "'c route \<Rightarrow> bool" where
  "documented_route k \<longleftrightarrow> (\<forall>st. documented (fst (k st)))"

lemma error_documented: "proper e \<Longrightarrow> documented (error_response e)"
proof (cases e)
  case (ServiceExn s)
  then show ?thesis by (cases s) (simp_all add: documented_def error_response_def)
qed (simp_all add: documented_def error_response_def)

lemma respond_documented [proper_rules]:
  assumes "ok_result r" and "code \<in> {200, 201, 204}"
  shows "documented (respond code r)"
proof (cases r)
  case (Inl e)
  with assms(1) show ?thesis by (simp add: respond_def error_documented)
next
  case (Inr b)
  with assms(2) show ?thesis by (auto simp: respond_def documented_def)
qed

lemma responds_documented [proper_rules]:
  "ok_result r \<Longrightarrow> code \<in> {200, 201, 204} \<Longrightarrow> documented (respond_model code f r)"
  "ok_result l \<Longrightarrow> code \<in> {200, 201, 204} \<Longrightarrow> documented (respond_list code g l)"
  "ok_result ol \<Longrightarrow> code \<in> {200, 201, 204} \<Longrightarrow> documented (respond_olist code h ol)"
  "ok_result u \<Longrightarrow> code \<in> {200, 201, 204} \<Longrightarrow> documented (respond_const code b u)"
  unfolding respond_model_def respond_list_def respond_olist_def respond_const_def validated_with_def
  by (intro respond_documented ok_result_bind; simp split: option.split)+

lemma authenticate_proper: "ok_result (fst (authenticate_token C env tick now tok allow d c))"
proof -
  have "proper_run (validate_session now (hash_token tok) allow)"
    unfolding validate_session_def proper_run_def
    by (intro allI ok_result_bind) (simp_all add: proper_rules [unfolded proper_run_def] ok_result_bind)
  then have "ok_result (connection env (validate_session now (hash_token tok) allow) d)" by (rule connection_proper)
  moreover have "proper e \<Longrightarrow> proper (nonexistent_token e)" for e by (cases e rule: nonexistent_token.cases) simp_all
  ultimately show ?thesis by (auto simp: authenticate_token_def Let_def split: option.split sum.splits)
qed

lemma current_user_documented [proper_rules]:
  "(\<And>u. documented_route (k u)) \<Longrightarrow> documented_route (current_user x cr k)"
  "(\<And>u. documented_route (k u)) \<Longrightarrow> documented_route (current_user_allow_deactivated x cr k)"
proof -
  have "ok_result (fst (get_current_user C env tick now cr d c))"
    "ok_result (fst (get_current_user_allow_deactivated C env tick now cr d c))" for C :: "'a ttl_ops" and env tick now d c
    by (simp_all add: get_current_user_def get_current_user_allow_deactivated_def with_bearer_def
        authenticate_proper split: option.split)
  note auth = this [where C = "x_ttl x" and env = "x_auth_env x" and tick = "x_tick x" and now = "x_now x"]
  assume k: "\<And>u. documented_route (k u)"
  then show "documented_route (current_user x cr k)" "documented_route (current_user_allow_deactivated x cr k)"
    using auth
    by (auto simp: documented_route_def current_user_def current_user_allow_deactivated_def error_documented
        split: prod.split sum.split) (metis fst_conv ok_result_simps(2) error_documented)+
qed

lemma param_documented [proper_rules]:
  "(\<And>v. documented_route (k v)) \<Longrightarrow> documented_route (param p k)"
  by (auto simp: documented_route_def param_def unprocessable_def documented_def split: option.split)

lemma reading_documented [proper_rules]: "(\<And>st. documented (r st)) \<Longrightarrow> documented_route (\<lambda>st. reading (r st) st)"
  by (simp add: documented_route_def reading_def)

lemma call_documented [proper_rules]:
  "(\<And>st. ok_result (fst (m st))) \<Longrightarrow> (\<And>r. ok_result r \<Longrightarrow> documented (f r)) \<Longrightarrow>
     documented_route (\<lambda>st. case m st of (r, d) \<Rightarrow> (f r, upd st d, []))"
  "(\<And>st. ok_result (fst (n st))) \<Longrightarrow> (\<And>r. ok_result r \<Longrightarrow> documented (g r)) \<Longrightarrow>
     documented_route (\<lambda>st. case n st of (r, d, effs) \<Rightarrow> (g r, upd' st d, effs))"
  "(\<And>st. ok_result (fst (l st))) \<Longrightarrow> (\<And>r. ok_result r \<Longrightarrow> documented (h r)) \<Longrightarrow>
     documented_route (\<lambda>st. case l st of (r, d, c, effs) \<Rightarrow> (h r, upd'' d c, effs))"
  by (auto simp: documented_route_def split: prod.split) (metis fst_conv)+

lemma public_routes_documented:
  "documented_route (route_register x b)" "documented_route (route_login x b)" "documented_route (route_refresh x b)"
  "documented_route (route_logout x cr b)"
  unfolding route_register_def route_login_def route_refresh_def route_logout_def
  by (intro proper_rules; simp split: option.split)+

lemma user_routes_documented:
  "documented_route (route_get_me x cr)" "documented_route (route_get_my_profile x cr)"
  "documented_route (route_get_user_by_username x cr name)" "documented_route (route_get_user_by_id x cr i)"
  "documented_route (route_deactivate_my_account x cr)" "documented_route (route_reactivate_my_account x cr)"
  "documented_route (route_delete_my_account x cr)" "documented_route (route_send_request x cr b)"
  "documented_route (route_list_pending_requests x cr)" "documented_route (route_accept_request x cr i)"
  "documented_route (route_list_friends x cr)" "documented_route (route_get_status x cr i)"
  "documented_route (route_remove_or_decline x cr i)"
  unfolding route_get_me_def route_get_my_profile_def route_get_user_by_username_def route_get_user_by_id_def
    route_deactivate_my_account_def route_reactivate_my_account_def route_delete_my_account_def
    route_send_request_def route_list_pending_requests_def route_accept_request_def route_list_friends_def
    route_get_status_def route_remove_or_decline_def
  by (intro proper_rules; simp add: documented_route_def reading_def respond_documented)+

lemma split_documented [proper_rules]:
  "(\<And>a b. documented_route (k a b)) \<Longrightarrow> documented_route (case ab of (a, b) \<Rightarrow> k a b)"
  by (cases ab) simp

lemma group_routes_documented:
  "documented_route (route_create_group x cr b)" "documented_route (route_list_groups x cr)"
  "documented_route (route_get_group x cr g)" "documented_route (route_delete_group x cr g)"
  "documented_route (route_add_member x cr g b)" "documented_route (route_remove_member x cr g i)"
  "documented_route (route_list_group_members x cr g)"
  unfolding route_create_group_def route_list_groups_def route_get_group_def route_delete_group_def
    route_add_member_def route_remove_member_def route_list_group_members_def
  by (intro proper_rules; simp)+

lemma messaging_routes_documented:
  "documented_route (route_send_direct_message x cr b)" "documented_route (route_get_dm_history x cr i bf l)"
  "documented_route (route_send_group_message x cr g b)" "documented_route (route_get_group_history x cr g bf l)"
  unfolding route_send_direct_message_def route_get_dm_history_def route_send_group_message_def
    route_get_group_history_def
  by (intro proper_rules; simp)+

lemmas routes_documented =
  public_routes_documented user_routes_documented group_routes_documented messaging_routes_documented

section \<open>Properties\<close>

text \<open>
  C10 (responses_are_documented): Whatever a request holds, whatever the state of the worker and however
  PostgreSQL, Redis and the hasher fail: the answer has one of ten statuses; an answer with status 500
  carries one of three fixed texts, so no text of a driver error leaves the worker; and every other
  refusal of a service carries a text.
\<close>

theorem responses_are_documented:
  "documented (fst (handle_request x req st))"
proof -
  have "documented_route (handle_request x req)" by (cases req) (simp_all add: routes_documented)
  then show ?thesis by (simp add: documented_route_def)
qed

end
