(* ===== verification/Social_Spec.thy ===== *)
theory Social_Spec
  imports Api_Invariants
begin

text \<open>
  What the service promises, without its tables, tokens, caches, transactions and faults: a social
  network of accounts, requests, friendships, groups and messages, and the rules by which one actor
  may change it.  Every request the application handles takes one step of this network in the name
  of the user its bearer token stands for, or leaves the network as it is.
\<close>

section \<open>The social network\<close>

record social =
  accounts :: "(uuid \<times> string) set"
  asked :: "(uuid \<times> uuid) set"
  friends :: "(uuid \<times> uuid) set"
  founded :: "(uuid \<times> uuid) set"
  belongs :: "(uuid \<times> uuid) set"
  letters :: "(uuid \<times> uuid \<times> uuid \<times> string) set"
  posts :: "(uuid \<times> uuid \<times> uuid \<times> string) set"

definition nobody :: social where
  "nobody = \<lparr>accounts = {}, asked = {}, friends = {}, founded = {}, belongs = {}, letters = {}, posts = {}\<rparr>"

abbreviation people :: "social \<Rightarrow> uuid set" where
  "people s \<equiv> fst ` accounts s"

text \<open>The tables as relations: what a client can tell apart, timestamps and credentials left out.\<close>

definition social_of :: "db \<Rightarrow> social" where
  "social_of d =
     \<lparr>accounts = (\<lambda>u. (u_user_id u, u_username u)) ` set (users d),
      asked = fr_key ` {f \<in> set (friendships d). \<not> fr_accepted f},
      friends = fr_key ` {f \<in> set (friendships d). fr_accepted f},
      founded = (\<lambda>g. (g_group_id g, the (g_created_by g))) ` set (groups d),
      belongs = mb_key ` set (memberships d),
      letters = (\<lambda>m. (dm_message_id m, dm_sender_id m, dm_recipient_id m, dm_content m)) ` set (direct_messages d),
      posts = (\<lambda>m. (gm_message_id m, gm_group_id m, gm_sender_id m, gm_content m)) ` set (group_messages d)\<rparr>"

text \<open>
  The rules.  The first argument is the actor; signing up is the one step without.  A pair of the
  relations \<open>asked\<close> and \<open>friends\<close> is the user who asked and the user who was asked.
\<close>

inductive social_step :: "uuid option \<Rightarrow> social \<Rightarrow> social \<Rightarrow> bool" where
  sign_up:
    "u \<notin> people s \<Longrightarrow> n \<notin> snd ` accounts s \<Longrightarrow>
     social_step None s (s\<lparr>accounts := insert (u, n) (accounts s)\<rparr>)"
| ask:
    "a \<noteq> b \<Longrightarrow> a \<in> people s \<Longrightarrow> b \<in> people s \<Longrightarrow> (a, b) \<notin> asked s \<union> friends s \<Longrightarrow>
     social_step (Some a) s (s\<lparr>asked := insert (a, b) (asked s)\<rparr>)"
| accept:
    "(b, a) \<in> asked s \<Longrightarrow>
     social_step (Some a) s (s\<lparr>asked := asked s - {(b, a)}, friends := insert (b, a) (friends s)\<rparr>)"
| part:
    "social_step (Some a) s (s\<lparr>asked := asked s - {(a, b), (b, a)}, friends := friends s - {(a, b), (b, a)}\<rparr>)"
| found:
    "c \<in> people s \<Longrightarrow> g \<notin> fst ` founded s \<Longrightarrow>
     social_step (Some c) s (s\<lparr>founded := insert (g, c) (founded s), belongs := insert (g, c) (belongs s)\<rparr>)"
| admit:
    "(g, c) \<in> founded s \<Longrightarrow> u \<in> people s \<Longrightarrow> (g, u) \<notin> belongs s \<Longrightarrow>
     social_step (Some c) s (s\<lparr>belongs := insert (g, u) (belongs s)\<rparr>)"
| expel:
    "(g, c) \<in> founded s \<Longrightarrow> u \<noteq> c \<Longrightarrow> a = u \<or> a = c \<Longrightarrow> (g, u) \<in> belongs s \<Longrightarrow>
     social_step (Some a) s (s\<lparr>belongs := belongs s - {(g, u)}\<rparr>)"
| disband:
    "(g, c) \<in> founded s \<Longrightarrow>
     social_step (Some c) s
       (s\<lparr>founded := {p \<in> founded s. fst p \<noteq> g}, belongs := {p \<in> belongs s. fst p \<noteq> g},
         posts := {p \<in> posts s. fst (snd p) \<noteq> g}\<rparr>)"
| write_letter:
    "(a, b) \<in> friends s \<or> (b, a) \<in> friends s \<Longrightarrow> m \<notin> fst ` letters s \<Longrightarrow>
     social_step (Some a) s (s\<lparr>letters := insert (m, a, b, text) (letters s)\<rparr>)"
| write_post:
    "(g, a) \<in> belongs s \<Longrightarrow> m \<notin> fst ` posts s \<Longrightarrow>
     social_step (Some a) s (s\<lparr>posts := insert (m, g, a, text) (posts s)\<rparr>)"
| close_account:
    "u \<in> people s \<Longrightarrow> u \<notin> snd ` founded s \<Longrightarrow>
     social_step (Some u) s
       (s\<lparr>accounts := {p \<in> accounts s. fst p \<noteq> u},
         asked := {p \<in> asked s. fst p \<noteq> u \<and> snd p \<noteq> u}, friends := {p \<in> friends s. fst p \<noteq> u \<and> snd p \<noteq> u},
         belongs := {p \<in> belongs s. snd p \<noteq> u},
         letters := {(m, a, b, t) \<in> letters s. a \<noteq> u \<and> b \<noteq> u},
         posts := {(m, g, a, t) \<in> posts s. a \<noteq> u}\<rparr>)"

inductive_cases social_stepE: "social_step actor s t"

section \<open>Moves of the database\<close>

text \<open>A change of the database that the rules allow the actor, or that they do not see.\<close>

definition moves :: "uuid option \<Rightarrow> db \<Rightarrow> db \<Rightarrow> bool" where
  "moves actor d d' \<longleftrightarrow> social_of d' = social_of d \<or> social_step actor (social_of d) (social_of d')"

definition moving :: "uuid option \<Rightarrow> 'a tx \<Rightarrow> bool" where
  "moving actor m \<longleftrightarrow> (\<forall>d x d'. db_ok d \<longrightarrow> m d = Inr (x, d') \<longrightarrow> moves actor d d')"

named_theorems social_moves \<open>the transaction bodies that follow the rules\<close>

lemma moves_refl [simp]: "moves actor d d"
  by (simp add: moves_def)

lemma movingI: "(\<And>d x d'. db_ok d \<Longrightarrow> m d = Inr (x, d') \<Longrightarrow> moves actor d d') \<Longrightarrow> moving actor m"
  by (simp add: moving_def)

lemma movesI:
  "social_step actor (social_of d) s \<Longrightarrow> social_of d' = s \<Longrightarrow> moves actor d d'"
  by (simp add: moves_def)

lemma transaction_moves: "moving actor body \<Longrightarrow> db_ok d \<Longrightarrow> moves actor d (snd (transaction env body d))"
  by (rule dbm.preserves) (auto simp: moving_def)

lemma social_accounts:
  "accounts (social_of d) = (\<lambda>u. (u_user_id u, u_username u)) ` set (users d)"
  by (simp add: social_of_def)

lemma social_people [simp]:
  "people (social_of d) = user_ids d" "snd ` accounts (social_of d) = u_username ` set (users d)"
  by (simp_all add: social_accounts image_image)

lemma social_select [simp]:
  "asked (social_of d) = fr_key ` {f \<in> set (friendships d). \<not> fr_accepted f}"
  "friends (social_of d) = fr_key ` {f \<in> set (friendships d). fr_accepted f}"
  "founded (social_of d) = (\<lambda>g. (g_group_id g, the (g_created_by g))) ` set (groups d)"
  "belongs (social_of d) = mb_key ` set (memberships d)"
  "letters (social_of d) =
     (\<lambda>m. (dm_message_id m, dm_sender_id m, dm_recipient_id m, dm_content m)) ` set (direct_messages d)"
  "posts (social_of d) =
     (\<lambda>m. (gm_message_id m, gm_group_id m, gm_sender_id m, gm_content m)) ` set (group_messages d)"
  by (simp_all add: social_of_def)

text \<open>The social network of a changed table.\<close>

lemma social_update:
  "social_of (d\<lparr>access_tokens := ats\<rparr>) = social_of d"
  "social_of (d\<lparr>refresh_tokens := rts\<rparr>) = social_of d"
  "social_of (d\<lparr>users := us\<rparr>) = (social_of d)\<lparr>accounts := (\<lambda>u. (u_user_id u, u_username u)) ` set us\<rparr>"
  "social_of (d\<lparr>friendships := fs\<rparr>) =
     (social_of d)\<lparr>asked := fr_key ` {f \<in> set fs. \<not> fr_accepted f}, friends := fr_key ` {f \<in> set fs. fr_accepted f}\<rparr>"
  "social_of (d\<lparr>groups := gs\<rparr>) =
     (social_of d)\<lparr>founded := (\<lambda>g. (g_group_id g, the (g_created_by g))) ` set gs\<rparr>"
  "social_of (d\<lparr>memberships := ms\<rparr>) = (social_of d)\<lparr>belongs := mb_key ` set ms\<rparr>"
  "social_of (d\<lparr>direct_messages := dms\<rparr>) =
     (social_of d)\<lparr>letters := (\<lambda>m. (dm_message_id m, dm_sender_id m, dm_recipient_id m, dm_content m)) ` set dms\<rparr>"
  "social_of (d\<lparr>group_messages := gms\<rparr>) =
     (social_of d)\<lparr>posts := (\<lambda>m. (gm_message_id m, gm_group_id m, gm_sender_id m, gm_content m)) ` set gms\<rparr>"
  by (simp_all add: social_of_def)


lemma social_update_users:
  assumes "\<And>r. u_user_id (f r) = u_user_id r" and "\<And>r. u_username (f r) = u_username r"
  shows "social_of (d\<lparr>users := update_where p f (users d)\<rparr>) = social_of d"
proof -
  have "(\<lambda>u. (u_user_id u, u_username u)) ` set (update_where p f (users d)) =
      (\<lambda>u. (u_user_id u, u_username u)) ` set (users d)"
    unfolding set_map [symmetric] by (simp add: map_key_update_where assms)
  then show ?thesis by (simp add: social_of_def)
qed

section \<open>What the rules do not see\<close>

text \<open>Tokens, passwords and the state of an account.\<close>

lemma unseen_keeps [tx_keeps]:
  "keeps (\<lambda>d. social_of d = s) (db_create_access_token t)"
  "keeps (\<lambda>d. social_of d = s) (db_create_refresh_token rt)"
  "keeps (\<lambda>d. social_of d = s) (db_revoke_access_token h)"
  "keeps (\<lambda>d. social_of d = s) (db_revoke_refresh_token h)"
  "keeps (\<lambda>d. social_of d = s) (db_revoke_all_user_access_tokens i)"
  "keeps (\<lambda>d. social_of d = s) (db_revoke_all_user_refresh_tokens i)"
  "keeps (\<lambda>d. social_of d = s) (db_deactivate_user i)"
  "keeps (\<lambda>d. social_of d = s) (db_reactivate_user i)"
  "keeps (\<lambda>d. social_of d = s) (db_update_user_password i n old)"
  by (auto intro!: keepsI simp: query_defs db_revoke_all_user_access_tokens_def
      REVOKE_ALL_USER_ACCESS_TOKENS_def db_revoke_all_user_refresh_tokens_def
      REVOKE_ALL_USER_REFRESH_TOKENS_def REVOKE_ACCESS_TOKEN_def REVOKE_REFRESH_TOKEN_def
      db_deactivate_user_def DEACTIVATE_USER_def db_reactivate_user_def
      REACTIVATE_USER_def db_update_user_password_def CHANGE_PASSWORD_def Let_def
      social_update(1,2) social_update_users split: if_splits)

lemma sessions_keep [tx_keeps]:
  "keeps (\<lambda>d. social_of d = s) (issue_token_pair i p)"
  "keeps (\<lambda>d. social_of d = s) (login_body A name pw p)"
  "keeps (\<lambda>d. social_of d = s) (refresh_body now h p)"
  "keeps (\<lambda>d. social_of d = s) (logout_body h ah)"
proof -
  show i: "keeps (\<lambda>d. social_of d = s) (issue_token_pair i p)" for i
    by (simp add: issue_token_pair_def tx_keeps)
  show "keeps (\<lambda>d. social_of d = s) (login_body A name pw p)"
    by (simp add: login_body_def login_reactivate_def login_rehash_def tx_lift_def tx_keeps i)
  show "keeps (\<lambda>d. social_of d = s) (refresh_body now h p)"
    by (simp add: refresh_body_def tx_keeps i Let_def)
  show "keeps (\<lambda>d. social_of d = s) (logout_body h ah)"
    by (cases ah) (simp_all add: logout_body_def tx_keeps)
qed

lemma keeps_sameD: "keeps (\<lambda>d. social_of d = social_of e) m \<Longrightarrow> m e = Inr (x, d') \<Longrightarrow> social_of d' = social_of e"
  unfolding keeps_def by blast

lemma keeps_moving:
  assumes "\<And>s. keeps (\<lambda>d. social_of d = s) m"
  shows "moving actor m"
  by (rule movingI) (auto dest: keeps_sameD [OF assms] simp: moves_def)

lemma moving_then:
  assumes "moving actor m" and "\<And>x s. keeps (\<lambda>d. social_of d = s) (f x)"
  shows "moving actor (tx_bind m f)"
proof (rule movingI)
  fix d y d'
  assume "db_ok d" and "tx_bind m f d = Inr (y, d')"
  then obtain x d1 where m: "m d = Inr (x, d1)" and f: "f x d1 = Inr (y, d')"
    by (auto simp: tx_bind_def res_bind_iffs)
  from assms(1) m \<open>db_ok d\<close> have "moves actor d d1" by (simp add: moving_def)
  with keeps_sameD [OF assms(2) f] show "moves actor d d'" by (simp add: moves_def)
qed

lemmas unseen_moving [social_moves] = unseen_keeps(7,8) [THEN keeps_moving] sessions_keep(2-4) [THEN keeps_moving]

section \<open>What each committed body does to the network\<close>

lemma register_effect:
  "db_create_user user d = Inr (x, d') \<Longrightarrow>
     social_of d' = (social_of d)\<lparr>accounts := insert (u_user_id user, u_username user) (accounts (social_of d))\<rparr>"
  by (auto simp: query_defs social_update social_accounts split: if_splits)

lemma friendship_effects:
  "db_send_friend_request now a b d = Inr (x, d') \<Longrightarrow>
     social_of d' = (social_of d)\<lparr>asked := insert (a, b) (asked (social_of d))\<rparr>"
  "db_remove_friendship a b d = Inr (x, d') \<Longrightarrow>
     social_of d' = (social_of d)\<lparr>asked := asked (social_of d) - {(a, b), (b, a)},
       friends := friends (social_of d) - {(a, b), (b, a)}\<rparr>"
proof -
  assume "db_send_friend_request now a b d = Inr (x, d')"
  then have "d' = d\<lparr>friendships := friendships d @
                   [\<lparr>fr_requester_id = a, fr_addressee_id = b, fr_accepted = False,
                     fr_created_at = now, fr_updated_at = now\<rparr>]\<rparr>"
    by (auto simp: query_defs split: if_splits)
  then show "social_of d' = (social_of d)\<lparr>asked := insert (a, b) (asked (social_of d))\<rparr>"
    by (intro social.equality) (force simp: social_of_def)+
next
  assume "db_remove_friendship a b d = Inr (x, d')"
  then have "d' = d\<lparr>friendships := delete_where (between a b) (friendships d)\<rparr>"
    by (auto simp: query_defs split: if_splits)
  then show "social_of d' = (social_of d)\<lparr>asked := asked (social_of d) - {(a, b), (b, a)},
       friends := friends (social_of d) - {(a, b), (b, a)}\<rparr>"
    by (intro social.equality) (auto simp: social_of_def between_def)
qed

lemma accept_effect:
  assumes ok: "db_ok d" and "db_accept_friend_request now b a d = Inr (x, d')"
  shows "social_of d' = (social_of d)\<lparr>asked := asked (social_of d) - {(b, a)},
      friends := insert (b, a) (friends (social_of d))\<rparr>"
    and "(b, a) \<in> asked (social_of d) \<union> friends (social_of d)"
proof -
  from assms(2) obtain f where f: "f \<in> set (friendships d)" "fr_key f = (b, a)"
    and d': "d' = d\<lparr>friendships := update_where (\<lambda>f. fr_requester_id f = b \<and> fr_addressee_id f = a)
                        (\<lambda>f. f\<lparr>fr_accepted := True, fr_updated_at := now\<rparr>) (friendships d)\<rparr>"
    by (auto simp: query_defs split: if_splits)
  have key: "fr_requester_id h = b \<and> fr_addressee_id h = a \<longleftrightarrow> h = f" if "h \<in> set (friendships d)" for h
    using distinct_keyD [of fr_key "friendships d" h f] ok f that by (auto simp: db_ok_defs)
  define f' where "f' = f\<lparr>fr_accepted := True, fr_updated_at := now\<rparr>"
  have f': "fr_key f' = fr_key f" "fr_accepted f'" by (simp_all add: f'_def)
  have rows: "set (friendships d') = insert f' (set (friendships d) - {f})"
    unfolding d' f'_def using f(1) key by (auto simp: in_update_where_iff)
  have inj: "inj_on fr_key (set (friendships d))"
    using ok by (simp add: db_ok_defs distinct_map)
  have "{h \<in> set (friendships d'). \<not> fr_accepted h} = {h \<in> set (friendships d). \<not> fr_accepted h} - {f}"
    unfolding rows using f' by auto
  then have asked': "asked (social_of d') = asked (social_of d) - {(b, a)}"
    using inj_on_image_set_diff [OF inj, of "{h \<in> set (friendships d). \<not> fr_accepted h}" "{f}"] f by auto
  have "{h \<in> set (friendships d'). fr_accepted h} = insert f' ({h \<in> set (friendships d). fr_accepted h} - {f})"
    unfolding rows using f' by auto
  then have friends': "friends (social_of d') = insert (b, a) (friends (social_of d))"
    using f f' by auto
  have same: "social_of d' = (social_of d)\<lparr>asked := asked (social_of d'), friends := friends (social_of d')\<rparr>"
    unfolding d' by (intro social.equality) (simp_all add: social_of_def)
  show "social_of d' = (social_of d)\<lparr>asked := asked (social_of d) - {(b, a)},
      friends := insert (b, a) (friends (social_of d))\<rparr>"
    by (rule same [unfolded asked' friends'])
  from f show "(b, a) \<in> asked (social_of d) \<union> friends (social_of d)" by force
qed

lemma close_account_effect:
  assumes "db_delete_user u d = Inr (x, d')"
  shows "social_of d' =
    (social_of d)\<lparr>accounts := {p \<in> accounts (social_of d). fst p \<noteq> u},
       asked := {p \<in> asked (social_of d). fst p \<noteq> u \<and> snd p \<noteq> u},
       friends := {p \<in> friends (social_of d). fst p \<noteq> u \<and> snd p \<noteq> u},
       belongs := {p \<in> belongs (social_of d). snd p \<noteq> u},
       letters := {(m, a, b, t) \<in> letters (social_of d). a \<noteq> u \<and> b \<noteq> u},
       posts := {(m, g, a, t) \<in> posts (social_of d). a \<noteq> u}\<rparr>"
proof -
  from assms have "d' = cascade_user u d" by (auto simp: query_defs split: if_splits)
  then show ?thesis by (intro social.equality) (force simp: social_of_def cascade_user_def)+
qed

lemma founded_iff:
  assumes "db_ok d"
  shows "(g, c) \<in> founded (social_of d) \<longleftrightarrow> (\<exists>r. GROUP_BY_ID g d = Some r \<and> g_created_by r = Some c)"
  using assms by (force simp: GROUP_BY_ID_iff db_ok_defs image_iff)

lemma group_effects:
  assumes "db_ok d"
  shows "create_group_body \<lparr>g_group_id = g, g_name = n, g_created_by = Some c, g_created_at = t1\<rparr>
      \<lparr>mb_group_id = g, mb_user_id = c, mb_joined_at = t2\<rparr> d = Inr (x1, d') \<Longrightarrow>
      social_of d' = (social_of d)\<lparr>founded := insert (g, c) (founded (social_of d)),
        belongs := insert (g, c) (belongs (social_of d))\<rparr>"
    and "add_member_body t a g u d = Inr (x2, d') \<Longrightarrow>
      social_of d' = (social_of d)\<lparr>belongs := insert (g, u) (belongs (social_of d))\<rparr>"
    and "remove_member_body a g u d = Inr (x3, d') \<Longrightarrow>
      social_of d' = (social_of d)\<lparr>belongs := belongs (social_of d) - {(g, u)}\<rparr>"
    and "delete_group_body a g d = Inr (x4, d') \<Longrightarrow>
      social_of d' = (social_of d)\<lparr>founded := {p \<in> founded (social_of d). fst p \<noteq> g},
        belongs := {p \<in> belongs (social_of d). fst p \<noteq> g}, posts := {p \<in> posts (social_of d). fst (snd p) \<noteq> g}\<rparr>"
proof -
  assume "create_group_body \<lparr>g_group_id = g, g_name = n, g_created_by = Some c, g_created_at = t1\<rparr>
      \<lparr>mb_group_id = g, mb_user_id = c, mb_joined_at = t2\<rparr> d = Inr (x1, d')"
  from create_group_bodyD [OF this]
  show "social_of d' = (social_of d)\<lparr>founded := insert (g, c) (founded (social_of d)),
        belongs := insert (g, c) (belongs (social_of d))\<rparr>"
    by (auto intro!: social.equality simp: social_of_def)
next
  assume "add_member_body t a g u d = Inr (x2, d')"
  from add_member_bodyD(2) [OF this]
  show "social_of d' = (social_of d)\<lparr>belongs := insert (g, u) (belongs (social_of d))\<rparr>"
    by (auto intro!: social.equality simp: social_of_def)
next
  assume "remove_member_body a g u d = Inr (x3, d')"
  from remove_member_bodyD(3) [OF this]
  show "social_of d' = (social_of d)\<lparr>belongs := belongs (social_of d) - {(g, u)}\<rparr>"
    by (intro social.equality) (force simp: social_of_def)+
next
  assume "delete_group_body a g d = Inr (x4, d')"
  then obtain r where "GROUP_BY_ID g d = Some r" "g_created_by r = Some a" and "d' = snd (DELETE_GROUP g a d)"
    using delete_group_bodyD by blast
  with DELETE_GROUP_rows [OF assms this(1,2)]
  show "social_of d' = (social_of d)\<lparr>founded := {p \<in> founded (social_of d). fst p \<noteq> g},
        belongs := {p \<in> belongs (social_of d). fst p \<noteq> g}, posts := {p \<in> posts (social_of d). fst (snd p) \<noteq> g}\<rparr>"
    by (intro social.equality) (force simp: social_of_def)+
qed

lemma message_effects:
  "send_direct_message_body m t a b text d = Inr (x, d') \<Longrightarrow>
     social_of d' = (social_of d)\<lparr>letters := insert (m, a, b, text) (letters (social_of d))\<rparr>"
  "send_group_message_body m t a g text d = Inr (y, d') \<Longrightarrow>
     social_of d' = (social_of d)\<lparr>posts := insert (m, g, a, text) (posts (social_of d))\<rparr>"
  by (auto intro!: social.equality simp: send_direct_message_body_def send_group_message_body_def tx_ops
      res_bind_iffs query_defs social_of_def split: if_splits)

section \<open>Every committed body follows the rules\<close>

lemma register_moves [social_moves]: "moving None (register_body user p)"
proof -
  have "moving None (db_create_user user)"
  proof (rule movingI)
    fix d x d'
    assume body: "db_create_user user d = Inr (x, d')"
    then have "u_user_id user \<notin> people (social_of d)" "u_username user \<notin> snd ` accounts (social_of d)"
      by (auto simp: query_defs split: if_splits)
    from sign_up [OF this] register_effect [OF body] show "moves None d d'" by (rule movesI)
  qed
  then show ?thesis unfolding register_body_def by (rule moving_then) (simp add: tx_keeps)
qed

lemma friendship_moves [social_moves]:
  "a \<noteq> b \<Longrightarrow> moving (Some a) (db_send_friend_request now a b)"
  "moving (Some a) (db_accept_friend_request now b a)"
  "moving (Some a) (db_remove_friendship a b)"
proof -
  show "moving (Some a) (db_send_friend_request now a b)" if "a \<noteq> b"
  proof (rule movingI)
    fix d x d'
    assume body: "db_send_friend_request now a b d = Inr (x, d')"
    then have "a \<in> people (social_of d)" "b \<in> people (social_of d)" "(a, b) \<notin> asked (social_of d) \<union> friends (social_of d)"
      by (auto simp: query_defs split: if_splits)
    from ask [OF that this] friendship_effects(1) [OF body] show "moves (Some a) d d'" by (rule movesI)
  qed
  show "moving (Some a) (db_accept_friend_request now b a)"
  proof (rule movingI)
    fix d x d'
    assume ok: "db_ok d" and body: "db_accept_friend_request now b a d = Inr (x, d')"
    note effect = accept_effect [OF ok body]
    show "moves (Some a) d d'"
    proof (cases "(b, a) \<in> asked (social_of d)")
      case True
      from accept [OF this] effect(1) show ?thesis by (rule movesI)
    next
      case False
      with effect(2) have "social_of d' = social_of d"
        unfolding effect(1) by (cases "social_of d") (simp del: social_select add: insert_absorb)
      then show ?thesis by (simp add: moves_def)
    qed
  qed
  show "moving (Some a) (db_remove_friendship a b)"
    by (rule movingI) (rule movesI [OF part friendship_effects(2)])
qed

lemma close_account_moves [social_moves]: "moving (Some u) (db_delete_user u)"
proof (rule movingI)
  fix d x d'
  assume ok: "db_ok d" and body: "db_delete_user u d = Inr (x, d')"
  then have "u \<in> people (social_of d)" "u \<notin> snd ` founded (social_of d)"
    by (fastforce simp: query_defs db_ok_defs split: if_splits)+
  from close_account [OF this] close_account_effect [OF body] show "moves (Some u) d d'" by (rule movesI)
qed

lemma group_moves [social_moves]:
  "moving (Some c) (create_group_body \<lparr>g_group_id = g, g_name = n, g_created_by = Some c, g_created_at = t1\<rparr>
     \<lparr>mb_group_id = g, mb_user_id = c, mb_joined_at = t2\<rparr>)" (is "moving _ ?create")
  "moving (Some a) (add_member_body t a g u)"
  "moving (Some a) (remove_member_body a g u)"
  "moving (Some a) (delete_group_body a g)"
proof -
  show "moving (Some c) ?create"
  proof (rule movingI)
    fix d x d'
    assume ok: "db_ok d" and body: "?create d = Inr (x, d')"
    then have "c \<in> people (social_of d)" "g \<notin> fst ` founded (social_of d)"
      by (auto simp: create_group_body_def tx_ops res_bind_iffs query_defs split: if_splits)
    from found [OF this] group_effects(1) [OF ok body] show "moves (Some c) d d'" by (rule movesI)
  qed
  show "moving (Some a) (add_member_body t a g u)"
  proof (rule movingI)
    fix d x d'
    assume ok: "db_ok d" and body: "add_member_body t a g u d = Inr (x, d')"
    then have "(g, a) \<in> founded (social_of d)" using founded_iff add_member_bodyD(1) by blast
    moreover from body have "u \<in> people (social_of d)" "(g, u) \<notin> belongs (social_of d)"
      by (auto simp: add_member_body_def tx_ops res_bind_iffs query_defs split: if_splits)
    ultimately show "moves (Some a) d d'" by (rule movesI [OF admit group_effects(2) [OF ok body]])
  qed
  show "moving (Some a) (remove_member_body a g u)"
  proof (rule movingI)
    fix d x d'
    assume ok: "db_ok d" and body: "remove_member_body a g u d = Inr (x, d')"
    from remove_member_bodyD(1) [OF body] obtain r where
      r: "GROUP_BY_ID g d = Some r" "g_created_by r \<noteq> Some u" "a = u \<or> g_created_by r = Some a" by blast
    with ok obtain c where c: "g_created_by r = Some c" by (force simp: GROUP_BY_ID_iff db_ok_defs)
    have "(g, c) \<in> founded (social_of d)" using founded_iff [OF ok] r(1) c by blast
    moreover have "u \<noteq> c" "a = u \<or> a = c" using r c by auto
    moreover have "(g, u) \<in> belongs (social_of d)" using remove_member_bodyD(2) [OF body] by force
    ultimately show "moves (Some a) d d'" by (rule movesI [OF expel group_effects(3) [OF ok body]])
  qed
  show "moving (Some a) (delete_group_body a g)"
  proof (rule movingI)
    fix d x d'
    assume ok: "db_ok d" and body: "delete_group_body a g d = Inr (x, d')"
    then have "(g, a) \<in> founded (social_of d)" using founded_iff delete_group_bodyD(1) by blast
    from disband [OF this] group_effects(4) [OF ok body] show "moves (Some a) d d'" by (rule movesI)
  qed
qed

lemma message_moves [social_moves]:
  "moving (Some a) (send_direct_message_body m t a b text)"
  "moving (Some a) (send_group_message_body m t a g text)"
proof -
  show "moving (Some a) (send_direct_message_body m t a b text)"
  proof (rule movingI)
    fix d x d'
    assume body: "send_direct_message_body m t a b text d = Inr (x, d')"
    then obtain f where "FRIENDSHIP_STATUS a b d = Some f" "fr_accepted f"
      and m: "m \<notin> fst ` letters (social_of d)"
      by (auto simp: send_direct_message_body_def tx_ops res_bind_iffs query_defs db_get_friendship_status_def image_image
          split: if_splits option.splits)
    then have "(a, b) \<in> friends (social_of d) \<or> (b, a) \<in> friends (social_of d)"
      by (force simp: FRIENDSHIP_STATUS_def between_def dest!: fetchrow_SomeD)
    from write_letter [OF this m] message_effects(1) [OF body] show "moves (Some a) d d'" by (rule movesI)
  qed
  show "moving (Some a) (send_group_message_body m t a g text)"
  proof (rule movingI)
    fix d x d'
    assume body: "send_group_message_body m t a g text d = Inr (x, d')"
    then obtain s where "MEMBERSHIP_BY_IDS g a d = Some s" and m: "m \<notin> fst ` posts (social_of d)"
      by (auto simp: send_group_message_body_def tx_ops res_bind_iffs query_defs db_get_membership_def image_image
          split: if_splits option.splits)
    then have "(g, a) \<in> belongs (social_of d)"
      by (force simp: MEMBERSHIP_BY_IDS_def dest!: fetchrow_SomeD)
    from write_post [OF this m] message_effects(2) [OF body] show "moves (Some a) d d'" by (rule movesI)
  qed
qed

section \<open>The requests\<close>

text \<open>The user a request is made for: the one its bearer token stands for, if any.\<close>

definition caller :: "'c ctx \<Rightarrow> string option \<Rightarrow> 'c app \<Rightarrow> uuid option" where
  "caller x credentials st =
     (case fst (get_current_user_allow_deactivated (x_ttl x) (x_auth_env x) (x_tick x) (x_now x) credentials
            (app_db st) (app_cache st)) of
        Inl e \<Rightarrow> None
      | Inr u \<Rightarrow> Some (u_user_id u))"

definition acting_user :: "'c ctx \<Rightarrow> request \<Rightarrow> 'c app \<Rightarrow> uuid option" where
  "acting_user x req st = (case bearer req of None \<Rightarrow> None | Some credentials \<Rightarrow> caller x credentials st)"

lemma connection_Inr_mono:
  assumes "connection env body d = Inr v" and "\<And>v. body d = Inr v \<Longrightarrow> body' d = Inr v"
  shows "connection env body' d = Inr v"
  using assms by (auto simp: connection_def split: if_splits option.splits sum.splits)

lemma caller_current:
  assumes "get_current_user (x_ttl x) (x_auth_env x) (x_tick x) (x_now x) cr (app_db st) (app_cache st) = (Inr u, c)"
  shows "caller x cr st = Some (u_user_id u)"
proof -
  have "connection env (validate_session now h True) d = Inr v"
    if "connection env (validate_session now h False) d = Inr v" for env now h d v
    using that by (rule connection_Inr_mono) (auto simp: validate_session_def res_bind_iffs split: if_splits)
  then have "fst (authenticate_token C env tick now tok True d cache) = Inr v"
    if "fst (authenticate_token C env tick now tok False d cache) = Inr v" for C env tick now tok d v and cache :: 'a
    using that by (auto simp: authenticate_token_def Let_def split: option.splits sum.splits if_splits)
  from this [of "x_ttl x" "x_auth_env x" "x_tick x" "x_now x"] show ?thesis
    using assms
    by (fastforce simp: caller_def get_current_user_def get_current_user_allow_deactivated_def with_bearer_def
        split: option.splits if_splits sum.splits)
qed

definition route_moves :: "uuid option \<Rightarrow> 'c route \<Rightarrow> bool" where
  "route_moves actor rt \<longleftrightarrow>
     (\<forall>st. db_ok (app_db st) \<longrightarrow> moves actor (app_db st) (app_db (fst (snd (rt st)))))"

lemma route_movesD:
  "route_moves a rt \<Longrightarrow> db_ok (app_db st) \<Longrightarrow> moves a (app_db st) (app_db (fst (snd (rt st))))"
  by (simp add: route_moves_def)

lemma route_moves_read:
  "route_moves a (\<lambda>st. reading (f st) st)" "route_moves a (reading r)"
  by (simp_all add: route_moves_def reading_def)

lemma route_moves_param: "(\<And>v. p = Some v \<Longrightarrow> route_moves a (k v)) \<Longrightarrow> route_moves a (param p k)"
  by (auto simp: route_moves_def param_def split: option.split)

lemma route_moves_split:
  "(\<And>b c. v = (b, c) \<Longrightarrow> route_moves a (k b c)) \<Longrightarrow> route_moves a (case v of (b, c) \<Rightarrow> k b c)"
  by (cases v) simp

lemma route_moves_call:
  "(\<And>d. db_ok d \<Longrightarrow> moves a d (snd (f d))) \<Longrightarrow>
     route_moves a (\<lambda>st. case f (app_db st) of (r, d) \<Rightarrow> (g r, st\<lparr>app_db := d\<rparr>, []))"
  "(\<And>d. db_ok d \<Longrightarrow> moves a d (fst (snd (h d)))) \<Longrightarrow>
     route_moves a (\<lambda>st. case h (app_db st) of (r, d, effs) \<Rightarrow> (g' r, st\<lparr>app_db := d\<rparr>, effs))"
  by (fastforce simp: route_moves_def split: prod.split)+

lemmas route_moves_rules = route_moves_read route_moves_param route_moves_split route_moves_call

lemma current_user_moves:
  assumes "\<And>u. route_moves (Some (u_user_id u)) (k u)" and "db_ok (app_db st)"
  shows "moves (caller x cr st) (app_db st) (app_db (fst (snd (current_user x cr k st))))"
    and "moves (caller x cr st) (app_db st) (app_db (fst (snd (current_user_allow_deactivated x cr k st))))"
proof -
  have k: "moves (Some (u_user_id u)) (app_db st) (app_db (fst (snd (k u (st\<lparr>app_cache := c\<rparr>)))))" for u c
    using route_movesD [OF assms(1), of "st\<lparr>app_cache := c\<rparr>"] assms(2) by simp
  then show "moves (caller x cr st) (app_db st) (app_db (fst (snd (current_user x cr k st))))"
    by (auto simp: current_user_def caller_current split: prod.split sum.split)
  show "moves (caller x cr st) (app_db st) (app_db (fst (snd (current_user_allow_deactivated x cr k st))))"
    using k by (auto simp: current_user_allow_deactivated_def caller_def split: prod.split sum.split)
qed

lemma service_moves:
  assumes "db_ok d"
  shows "moves (Some u) d (snd (deactivate_account env u d))" "moves (Some u) d (snd (reactivate_account env u d))"
    "moves (Some u) d (snd (delete_account env u d))" "moves (Some u) d (snd (send_friend_request env now u b d))"
    "moves (Some u) d (snd (accept_friend_request env now u b d))"
    "moves (Some u) d (snd (remove_or_decline_friendship env u b d))"
    "moves (Some u) d (fst (snd (create_group env f gid t1 t2 u name d)))"
    "moves (Some u) d (fst (snd (add_member env f t u g b d)))"
    "moves (Some u) d (fst (snd (remove_member env f u g b d)))"
    "moves (Some u) d (fst (snd (delete_group env pf f u g d)))"
    "moves (Some u) d (fst (snd (send_direct_message env f i t u b c d)))"
    "moves (Some u) d (fst (snd (send_group_message env f i t u g c d)))"
  using assms by (simp_all add: tx_defs transaction_moves social_moves Let_def)

lemma session_moves:
  assumes "db_ok d"
  shows "moves None d (snd (register A cfg env draw uid t name pw d))"
    "moves None d (fst (snd (login A cfg env f draw name pw d)))"
    "moves None d (fst (snd (refresh cfg env f draw now raw d)))"
    "moves None d (fst (snd (logout C env f f2 tick raw acc d c)))"
  using assms
  by (simp_all add: register_def login_def refresh_def logout_db Let_def transaction_moves social_moves
      split: sum.split)

lemma public_moves:
  "route_moves None (route_register x body)" "route_moves None (route_login x body)"
  "route_moves None (route_refresh x body)" "route_moves None (route_logout x cr body)"
proof -
  show "route_moves None (route_register x body)" "route_moves None (route_login x body)"
    "route_moves None (route_refresh x body)"
    unfolding route_register_def route_login_def route_refresh_def
    by (intro route_moves_rules session_moves; assumption)+
  show "route_moves None (route_logout x cr body)"
    unfolding route_logout_def
    by (intro route_moves_param, simp add: route_moves_def split: prod.split) (metis session_moves(4) fst_conv snd_conv)
qed

lemma request_moves_db:
  assumes "db_ok (app_db st)"
  shows "moves (acting_user x req st) (app_db st) (app_db (fst (snd (handle_request x req st))))"
proof (cases "bearer req")
  case None
  then show ?thesis
    using assms by (cases req) (auto simp: acting_user_def intro: route_movesD public_moves)
next
  case (Some cr)
  then have caller: "acting_user x req st = caller x cr st" by (simp add: acting_user_def)
  from Some show ?thesis
    unfolding caller
    by (cases req; simp only: bearer.simps option.inject option.distinct handle_request.simps protected_routes;
        intro current_user_moves route_moves_rules service_moves assms)
qed


section \<open>Runs\<close>

text \<open>Whatever becomes true in a run, and only by steps from states where something else holds, has such a state before it.\<close>

context simulation
begin

lemma origin:
  assumes "rtranclp cstep s t" and "inv s" and "\<not> Q (abs s)" and "Q (abs t)"
    and step: "\<And>a b. astep a b \<Longrightarrow> Q b \<Longrightarrow> \<not> Q a \<Longrightarrow> R a"
  shows "\<exists>u. rtranclp cstep s u \<and> rtranclp cstep u t \<and> R (abs u)"
  using assms(1,4)
proof (induction rule: rtranclp_induct)
  case base
  with assms(3) show ?case by blast
next
  case (step y z)
  show ?case
  proof (cases "Q (abs y)")
    case True
    with step show ?thesis by (meson rtranclp.rtrancl_into_rtrancl)
  next
    case False
    from run_inv [OF step(1) assms(2)] simulate [OF step(2)] have "abs z = abs y \<or> astep (abs y) (abs z)" by blast
    with False step.prems assms(5) have "R (abs y)" by metis
    with step(1,2) show ?thesis by blast
  qed
qed

end

lemma app_step_moves:
  assumes "app_step st st'" and "db_ok (app_db st)"
  shows "\<exists>actor. moves actor (app_db st) (app_db st')"
  using assms(1)
proof (cases rule: app_step.cases)
  case (handled x req resp effs)
  then show ?thesis using request_moves_db [OF assms(2), of x req] by auto
next
  case (elsewhere x req c resp t effs)
  then show ?thesis
    using request_moves_db [of "\<lparr>app_db = app_db st, app_cache = c\<rparr>" x req] assms(2) by auto
qed (use assms(2) in simp)

interpretation network: simulation app_step "\<lambda>st. stored_ok (app_db st)"
  "\<lambda>s t. \<exists>actor. social_step actor s t" "\<lambda>st. social_of (app_db st)"
  by unfold_locales (use app_step_moves in \<open>auto simp: stored_ok_def moves_def\<close>)

lemma social_nobody: "social_of empty_db = nobody"
  by (simp add: social_of_def nobody_def empty_db_def)

section \<open>Properties\<close>

text \<open>
  C5 (requests_follow_social_rules): Refinement: whatever a request holds, whatever the infrastructure does
  and whatever the cache says, the request leaves the social network as it is or takes one step the
  rules allow the user its bearer token stands for.  In particular nobody acts for somebody else: only
  the user asked accepts a request, only the founder admits members or disbands a group, a message is
  stored under the sender's own name and between friends or in a group the sender belongs to, and only
  registration works without a user.
\<close>

theorem requests_follow_social_rules:
  assumes "db_ok (app_db st)" and "handle_request x req st = (resp, st', effs)"
  shows "social_of (app_db st') = social_of (app_db st) \<or>
    social_step (acting_user x req st) (social_of (app_db st)) (social_of (app_db st'))"
  using request_moves_db [OF assms(1), of x req] by (simp add: assms(2) moves_def)

text \<open>The same for whole runs from the empty database, with several workers and invalidation events.\<close>

theorem runs_follow_social_rules:
  assumes "rtranclp app_step \<lparr>app_db = empty_db, app_cache = c\<rparr> st"
  shows "rtranclp (\<lambda>s t. \<exists>actor. social_step actor s t) nobody (social_of (app_db st))"
proof -
  have "stored_ok empty_db" by (simp add: stored_ok_def db_ok_defs content_ok_def empty_db_def)
  with network.run_simulates [OF assms] show ?thesis by (simp add: social_nobody)
qed

text \<open>
  C7 (stored_messages_were_permitted): In every run of requests, on this worker or others: a direct message
  that was not there at the start was preceded by a state in which its sender and its recipient were
  friends, a group message by one in which its sender belonged to the group, and a friendship by one
  in which the one user's request to the other was pending.
\<close>

theorem stored_messages_were_permitted:
  assumes "stored_ok (app_db s0)" and "rtranclp app_step s0 st"
  shows "((m, a, b, text) \<in> letters (social_of (app_db st)) - letters (social_of (app_db s0)) \<longrightarrow>
       (\<exists>s1. rtranclp app_step s0 s1 \<and> rtranclp app_step s1 st \<and>
             ((a, b) \<in> friends (social_of (app_db s1)) \<or> (b, a) \<in> friends (social_of (app_db s1))))) \<and>
    ((m, g, a, text) \<in> posts (social_of (app_db st)) - posts (social_of (app_db s0)) \<longrightarrow>
       (\<exists>s1. rtranclp app_step s0 s1 \<and> rtranclp app_step s1 st \<and> (g, a) \<in> belongs (social_of (app_db s1)))) \<and>
    ((a, b) \<in> friends (social_of (app_db st)) - friends (social_of (app_db s0)) \<longrightarrow>
       (\<exists>s1. rtranclp app_step s0 s1 \<and> rtranclp app_step s1 st \<and> (a, b) \<in> asked (social_of (app_db s1))))"
proof (intro conjI impI)
  note origin = network.origin [OF assms(2,1)]
  show "\<exists>s1. rtranclp app_step s0 s1 \<and> rtranclp app_step s1 st \<and>
      ((a, b) \<in> friends (social_of (app_db s1)) \<or> (b, a) \<in> friends (social_of (app_db s1)))"
    if "(m, a, b, text) \<in> letters (social_of (app_db st)) - letters (social_of (app_db s0))"
    by (rule origin [of "\<lambda>s. (m, a, b, text) \<in> letters s"]) (use that in \<open>auto elim!: social_stepE simp del: social_select\<close>)
  show "\<exists>s1. rtranclp app_step s0 s1 \<and> rtranclp app_step s1 st \<and> (g, a) \<in> belongs (social_of (app_db s1))"
    if "(m, g, a, text) \<in> posts (social_of (app_db st)) - posts (social_of (app_db s0))"
    by (rule origin [of "\<lambda>s. (m, g, a, text) \<in> posts s"]) (use that in \<open>auto elim!: social_stepE simp del: social_select\<close>)
  show "\<exists>s1. rtranclp app_step s0 s1 \<and> rtranclp app_step s1 st \<and> (a, b) \<in> asked (social_of (app_db s1))"
    if "(a, b) \<in> friends (social_of (app_db st)) - friends (social_of (app_db s0))"
    by (rule origin [of "\<lambda>s. (a, b) \<in> friends s"]) (use that in \<open>auto elim!: social_stepE simp del: social_select\<close>)
qed


text \<open>Carol has asked Alice; Alice, whose session is cached, accepts.\<close>

definition alice_waiting :: "(string \<times> User \<times> timestamp) list app" where
  "alice_waiting = \<lparr>app_db = sample_db, app_cache = [(hash_token ''abc'', sample_user 1 ''alice'', 300)]\<rparr>"

abbreviation accepting :: request where
  "accepting \<equiv> AcceptRequest (Some ''abc'') (uuid_str 3)"

lemma alice_accepts:
  obtains resp st effs where "handle_request sample_ctx accepting alice_waiting = (resp, st, effs)"
    and "(3, 1) \<in> friends (social_of (app_db st))"
proof -
  obtain resp st effs where r: "handle_request sample_ctx accepting alice_waiting = (resp, st, effs)"
    by (cases "handle_request sample_ctx accepting alice_waiting") auto
  then have "friendships (app_db st) = update_where (\<lambda>f. fr_requester_id f = 3 \<and> fr_addressee_id f = 1)
        (\<lambda>f. f\<lparr>fr_accepted := True, fr_updated_at := 500\<rparr>) (friendships sample_db)"
    by (auto simp: alice_waiting_def route_accept_request_def body_simps sample_ctx_def sample_pydantic_def
        get_current_user_def with_bearer_def authenticate_token_def cache_get_def list_ttl_def
        accept_friend_request_def transaction_healthy db_accept_friend_request_eq sample_db_def sample_user_def)
  then have "\<lparr>fr_requester_id = 3, fr_addressee_id = 1, fr_accepted = True, fr_created_at = 0, fr_updated_at = 500\<rparr>
      \<in> set (friendships (app_db st))"
    by (simp add: sample_db_def)
  then have "(3, 1) \<in> friends (social_of (app_db st))" by force
  with r that show thesis by blast
qed

lemma alice_waits:
  "(3, 1) \<notin> friends (social_of (app_db alice_waiting))" "stored_ok (app_db alice_waiting)"
  "acting_user sample_ctx accepting alice_waiting = Some 1"
proof -
  show "(3, 1) \<notin> friends (social_of (app_db alice_waiting))"
    by (auto simp: alice_waiting_def sample_db_def)
  show "stored_ok (app_db alice_waiting)"
    using sample_db_ok by (simp add: alice_waiting_def stored_ok_def content_ok_def sample_db_def sample_user_def within_def)
  show "acting_user sample_ctx accepting alice_waiting = Some 1"
    by (simp add: acting_user_def caller_def alice_waiting_def sample_ctx_def get_current_user_allow_deactivated_def
        with_bearer_def authenticate_token_def cache_get_def list_ttl_def sample_user_def)
qed

theorem requests_follow_social_rules_witness:
  "\<exists>st :: (string \<times> User \<times> timestamp) list app. social_step (Some 1) (social_of (app_db alice_waiting)) (social_of (app_db st)) \<and>
     (3, 1) \<notin> friends (social_of (app_db alice_waiting)) \<and> (3, 1) \<in> friends (social_of (app_db st))"
proof -
  obtain resp st effs where r: "handle_request sample_ctx accepting alice_waiting = (resp, st, effs)"
    and now: "(3, 1) \<in> friends (social_of (app_db st))"
    by (rule alice_accepts)
  from alice_waits(2) have "db_ok (app_db alice_waiting)" by (simp add: stored_ok_def)
  from requests_follow_social_rules [OF this r]
  have "social_of (app_db st) = social_of (app_db alice_waiting) \<or>
      social_step (Some 1) (social_of (app_db alice_waiting)) (social_of (app_db st))"
    unfolding alice_waits(3) .
  moreover have "social_of (app_db st) \<noteq> social_of (app_db alice_waiting)"
    using now alice_waits(1) by metis
  ultimately show ?thesis using now alice_waits(1) by blast
qed

theorem stored_messages_were_permitted_witness:
  "\<exists>st s1. rtranclp app_step alice_waiting st \<and> (3, 1) \<in> friends (social_of (app_db st)) \<and>
     rtranclp app_step alice_waiting s1 \<and> rtranclp app_step s1 st \<and> (3, 1) \<in> asked (social_of (app_db s1))"
proof -
  obtain resp st effs where r: "handle_request sample_ctx accepting alice_waiting = (resp, st, effs)"
    and now: "(3, 1) \<in> friends (social_of (app_db st))"
    by (rule alice_accepts)
  from r have run: "rtranclp app_step alice_waiting st" by (blast intro: app_step.handled)
  from stored_messages_were_permitted [OF alice_waits(2) run] now alice_waits(1) run show ?thesis
    by (metis DiffI)
qed

end
