(* ===== verification/Social_Progress.thy ===== *)
theory Social_Progress
  imports Social_Spec
begin

text \<open>
  The converse of the refinement: what the rules of the social network allow a user, one request of
  that user does.  The infrastructure is up and the request carries a token of the user; texts have
  the lengths the request schemas take, and no pair of users is at once asked in one direction and
  befriended in the other, where the status lookup may read the pending row.
\<close>

section \<open>What the rules allow, the bodies do\<close>

lemma friendship_enabled:
  "a \<in> people (social_of d) \<Longrightarrow> b \<in> people (social_of d) \<Longrightarrow> (a, b) \<notin> asked (social_of d) \<union> friends (social_of d) \<Longrightarrow>
     \<exists>x d'. db_send_friend_request now a b d = Inr (x, d')"
  "(b, a) \<in> asked (social_of d) \<Longrightarrow> \<exists>x d'. db_accept_friend_request now b a d = Inr (x, d')"
  "db_remove_friendship a b d = Inl e \<Longrightarrow>
     {(a, b), (b, a)} \<inter> (asked (social_of d) \<union> friends (social_of d)) = {}"
proof -
  show "\<exists>x d'. db_send_friend_request now a b d = Inr (x, d')"
    if "a \<in> people (social_of d)" "b \<in> people (social_of d)" "(a, b) \<notin> asked (social_of d) \<union> friends (social_of d)"
    using that by (auto simp: query_defs image_iff)
  show "\<exists>x d'. db_accept_friend_request now b a d = Inr (x, d')" if "(b, a) \<in> asked (social_of d)"
    using that by (auto simp: query_defs)
  show "{(a, b), (b, a)} \<inter> (asked (social_of d) \<union> friends (social_of d)) = {}"
    if "db_remove_friendship a b d = Inl e"
    using that by (auto simp: query_defs between_def split: if_splits)
qed

lemma account_enabled:
  assumes "u \<in> people (social_of d)" and "u \<notin> snd ` founded (social_of d)"
  shows "\<exists>x d'. db_delete_user u d = Inr (x, d')"
proof -
  have "g_created_by g \<noteq> Some u" if "g \<in> set (groups d)" for g
    using assms(2) that by (force simp: image_image)
  moreover from assms(1) have "u \<in> user_ids d" by (simp only: social_people)
  ultimately show ?thesis unfolding db_delete_user_eq by simp
qed

lemma group_enabled:
  assumes ok: "db_ok d"
  shows "c \<in> people (social_of d) \<Longrightarrow> g \<notin> fst ` founded (social_of d) \<Longrightarrow>
      \<exists>x d'. create_group_body \<lparr>g_group_id = g, g_name = n, g_created_by = Some c, g_created_at = t1\<rparr>
        \<lparr>mb_group_id = g, mb_user_id = c, mb_joined_at = t2\<rparr> d = Inr (x, d')"
    and "(g, c) \<in> founded (social_of d) \<Longrightarrow> u \<in> people (social_of d) \<Longrightarrow> (g, u) \<notin> belongs (social_of d) \<Longrightarrow>
      \<exists>x d'. add_member_body t c g u d = Inr (x, d')"
    and "(g, c) \<in> founded (social_of d) \<Longrightarrow> u \<noteq> c \<Longrightarrow> a = u \<or> a = c \<Longrightarrow> (g, u) \<in> belongs (social_of d) \<Longrightarrow>
      \<exists>x d'. remove_member_body a g u d = Inr (x, d')"
    and "(g, c) \<in> founded (social_of d) \<Longrightarrow> \<exists>x d'. delete_group_body c g d = Inr (x, d')"
proof -
  show "\<exists>x d'. create_group_body \<lparr>g_group_id = g, g_name = n, g_created_by = Some c, g_created_at = t1\<rparr>
        \<lparr>mb_group_id = g, mb_user_id = c, mb_joined_at = t2\<rparr> d = Inr (x, d')"
    if "c \<in> people (social_of d)" "g \<notin> fst ` founded (social_of d)"
  proof -
    from that have "c \<in> user_ids d" "g \<notin> group_ids d" by (simp_all add: image_image)
    moreover from this ok have "(g, c) \<notin> mb_key ` set (memberships d)" by (auto simp: db_ok_defs)
    ultimately show ?thesis by (simp add: create_group_body_def tx_ops query_defs)
  qed
  show "\<exists>x d'. add_member_body t c g u d = Inr (x, d')"
    if "(g, c) \<in> founded (social_of d)" "u \<in> people (social_of d)" "(g, u) \<notin> belongs (social_of d)"
  proof -
    from that(1) ok obtain r where r: "GROUP_BY_ID g d = Some r" "g_created_by r = Some c"
      using founded_iff by blast
    with ok have "g \<in> group_ids d" by (auto simp: GROUP_BY_ID_iff)
    with r that(2,3) show ?thesis
      by (simp add: add_member_body_def tx_ops query_defs db_get_group_by_id_def)
  qed
  show "\<exists>x d'. remove_member_body a g u d = Inr (x, d')"
    if "(g, c) \<in> founded (social_of d)" "u \<noteq> c" "a = u \<or> a = c" "(g, u) \<in> belongs (social_of d)"
  proof -
    from that(1) ok obtain r where r: "GROUP_BY_ID g d = Some r" "g_created_by r = Some c"
      using founded_iff by blast
    from that(4) have "\<exists>m\<in>set (memberships d). mb_group_id m = g \<and> mb_user_id m = u" by auto
    with r that(2,3) show ?thesis
      by (auto simp: remove_member_body_def tx_ops db_get_group_by_id_def Let_def
          db_remove_group_member_def REMOVE_GROUP_MEMBER_def)
  qed
  show "\<exists>x d'. delete_group_body c g d = Inr (x, d')" if "(g, c) \<in> founded (social_of d)"
  proof -
    from that ok obtain r where r: "GROUP_BY_ID g d = Some r" "g_created_by r = Some c"
      using founded_iff by blast
    have "fst (DELETE_GROUP g c d) \<noteq> DELETE_ZERO"
      using r ok by (auto simp: DELETE_GROUP_def Let_def GROUP_BY_ID_iff)
    with r show ?thesis
      by (auto simp: delete_group_body_def tx_ops db_get_group_by_id_def db_list_group_memberships_def
          db_delete_group_def split: prod.split)
  qed
qed

text \<open>No request is pending against the direction of a friendship.\<close>

definition uncrossed :: "social \<Rightarrow> bool" where
  "uncrossed s \<longleftrightarrow> (\<forall>(a, b)\<in>asked s. (b, a) \<notin> friends s)"

lemma asked_not_friends:
  assumes "db_ok d" and "p \<in> asked (social_of d)"
  shows "p \<notin> friends (social_of d)"
  using assms distinct_keyD [of fr_key "friendships d"] by (auto simp: db_ok_defs)

lemma message_enabled:
  assumes ok: "db_ok d"
  shows "uncrossed (social_of d) \<Longrightarrow> (a, b) \<in> friends (social_of d) \<or> (b, a) \<in> friends (social_of d) \<Longrightarrow>
      m \<notin> fst ` letters (social_of d) \<Longrightarrow> \<exists>x d'. send_direct_message_body m t a b text d = Inr (x, d')"
    and "(g, a) \<in> belongs (social_of d) \<Longrightarrow> m \<notin> fst ` posts (social_of d) \<Longrightarrow>
      \<exists>x d'. send_group_message_body m t a g text d = Inr (x, d')"
proof -
  show "\<exists>x d'. send_direct_message_body m t a b text d = Inr (x, d')"
    if un: "uncrossed (social_of d)" and fr: "(a, b) \<in> friends (social_of d) \<or> (b, a) \<in> friends (social_of d)"
      and fresh: "m \<notin> fst ` letters (social_of d)"
  proof -
    from fr have "\<exists>f\<in>set (friendships d). between a b f" by (auto simp: between_def)
    then obtain f where f: "FRIENDSHIP_STATUS a b d = Some f"
      unfolding FRIENDSHIP_STATUS_def by (metis fetchrow_None_iff option.exhaust)
    then have row: "f \<in> set (friendships d)" "fr_key f = (a, b) \<or> fr_key f = (b, a)"
      by (auto simp: FRIENDSHIP_STATUS_def between_def dest!: fetchrow_SomeD)
    have "fr_accepted f"
    proof (rule ccontr)
      assume "\<not> fr_accepted f"
      with row have "(a, b) \<in> asked (social_of d) \<or> (b, a) \<in> asked (social_of d)" by force
      with fr un asked_not_friends [OF ok] show False unfolding uncrossed_def by blast
    qed
    moreover note FRIENDSHIP_STATUS_users [OF ok f]
    moreover from fresh have "m \<notin> dm_message_id ` set (direct_messages d)" by (simp add: image_image)
    ultimately show ?thesis
      using f by (simp add: send_direct_message_body_def tx_ops db_get_friendship_status_def db_send_direct_message_eq)
  qed
  show "\<exists>x d'. send_group_message_body m t a g text d = Inr (x, d')"
    if mem: "(g, a) \<in> belongs (social_of d)" and fresh: "m \<notin> fst ` posts (social_of d)"
  proof -
    from mem have "\<exists>s\<in>set (memberships d). mb_group_id s = g \<and> mb_user_id s = a" by auto
    then obtain s where s: "MEMBERSHIP_BY_IDS g a d = Some s"
      unfolding MEMBERSHIP_BY_IDS_def by (metis (mono_tags, lifting) fetchrow_None_iff option.exhaust)
    note MEMBERSHIP_BY_IDS_refs [OF ok s]
    moreover from fresh have "m \<notin> gm_message_id ` set (group_messages d)" by (simp add: image_image)
    ultimately show ?thesis
      using s by (simp add: send_group_message_body_def tx_ops db_get_membership_def db_send_group_message_eq)
  qed
qed

section \<open>The request for each rule\<close>

text \<open>A bearer token that stands for the user, with the infrastructure up.\<close>

definition signed_in :: "'c ctx \<Rightarrow> string option \<Rightarrow> 'c app \<Rightarrow> User \<Rightarrow> bool" where
  "signed_in x cr st u \<longleftrightarrow>
     x_env x = healthy \<and> pydantic_laws (x_pyd x) \<and>
     fst (get_current_user (x_ttl x) (x_auth_env x) (x_tick x) (x_now x) cr (app_db st) (app_cache st)) = Inr u"

text \<open>Some request with this token, handled with some new identifier, leads to the network.\<close>

definition realised :: "'c ctx \<Rightarrow> string option \<Rightarrow> 'c app \<Rightarrow> social \<Rightarrow> bool" where
  "realised x cr st s \<longleftrightarrow>
     (\<exists>new req. bearer req = Some cr \<and>
        social_of (app_db (fst (snd (handle_request (x\<lparr>x_new_id := new\<rparr>) req st)))) = s)"

lemma realisedI:
  assumes "app_db (fst (snd (handle_request (x\<lparr>x_new_id := new\<rparr>) req st))) = d'"
    and "bearer req = Some cr" and "social_of d' = s"
  shows "realised x cr st s"
  using assms unfolding realised_def by blast

lemma signed_in_new_id: "signed_in x cr st u \<Longrightarrow> signed_in (x\<lparr>x_new_id := n\<rparr>) cr st u"
  by (simp add: signed_in_def)

lemma signed_inD:
  assumes "signed_in x cr st u"
  shows "current_user x cr k st = k u
      (st\<lparr>app_cache := snd (get_current_user (x_ttl x) (x_auth_env x) (x_tick x) (x_now x) cr (app_db st) (app_cache st))\<rparr>)"
    and "x_env x = healthy" and "p_uuid (x_pyd x) (uuid_str v) = Some v"
  using assms by (auto simp: signed_in_def pydantic_laws_def current_user_def split: prod.split)

lemma request_calls:
  assumes "signed_in x cr st u"
  shows "app_db (fst (snd (handle_request x (SendRequest cr (JObj [(''addressee_id'', JStr (uuid_str b))])) st))) =
      snd (send_friend_request healthy (x_now x) (u_user_id u) b (app_db st))"
    "app_db (fst (snd (handle_request x (AcceptRequest cr (uuid_str b)) st))) =
      snd (accept_friend_request healthy (x_now x) (u_user_id u) b (app_db st))"
    "app_db (fst (snd (handle_request x (RemoveOrDecline cr (uuid_str b)) st))) =
      snd (remove_or_decline_friendship healthy (u_user_id u) b (app_db st))"
    "app_db (fst (snd (handle_request x (DeleteMyAccount cr) st))) =
      snd (delete_account healthy (u_user_id u) (app_db st))"
    "app_db (fst (snd (handle_request x (CreateGroup cr (JObj [(''name'', JStr ''g'')])) st))) =
      fst (snd (create_group healthy (x_fault1 x) (x_new_id x) (x_created x) (x_joined x) (u_user_id u) ''g'' (app_db st)))"
    "app_db (fst (snd (handle_request x (AddMember cr (uuid_str g) (JObj [(''user_id'', JStr (uuid_str b))])) st))) =
      fst (snd (add_member healthy (x_fault1 x) (x_joined x) (u_user_id u) g b (app_db st)))"
    "app_db (fst (snd (handle_request x (RemoveMember cr (uuid_str g) (uuid_str b)) st))) =
      fst (snd (remove_member healthy (x_fault1 x) (u_user_id u) g b (app_db st)))"
    "app_db (fst (snd (handle_request x (DeleteGroup cr (uuid_str g)) st))) =
      fst (snd (delete_group healthy (x_fault1 x) (x_fault2 x) (u_user_id u) g (app_db st)))"
    "text \<noteq> [] \<Longrightarrow> length text \<le> 4096 \<Longrightarrow>
      app_db (fst (snd (handle_request x (SendDirectMessage cr
        (JObj [(''recipient_id'', JStr (uuid_str b)), (''content'', JStr text)])) st))) =
      fst (snd (send_direct_message healthy (x_fault1 x) (x_new_id x) (x_created x) (u_user_id u) b text (app_db st)))"
    "text \<noteq> [] \<Longrightarrow> length text \<le> 4096 \<Longrightarrow>
      app_db (fst (snd (handle_request x (SendGroupMessage cr (uuid_str g) (JObj [(''content'', JStr text)])) st))) =
      fst (snd (send_group_message healthy (x_fault1 x) (x_new_id x) (x_created x) (u_user_id u) g text (app_db st)))"
  by (simp_all add: protected_routes signed_inD [OF assms] param_def both_def
      SendFriendRequest_validate_def CreateGroupRequest_validate_def AddGroupMemberRequest_validate_def
      SendDirectMessageRequest_validate_def SendGroupMessageRequest_validate_def str_field_def uuid_field_def
      Suc_le_eq split: prod.split)

lemma friendship_realised:
  assumes ok: "db_ok (app_db st)" and on: "signed_in x cr st u"
  shows "u_user_id u \<noteq> b \<Longrightarrow> u_user_id u \<in> people (social_of (app_db st)) \<Longrightarrow> b \<in> people (social_of (app_db st)) \<Longrightarrow>
      (u_user_id u, b) \<notin> asked (social_of (app_db st)) \<union> friends (social_of (app_db st)) \<Longrightarrow>
      realised x cr st ((social_of (app_db st))\<lparr>asked := insert (u_user_id u, b) (asked (social_of (app_db st)))\<rparr>)"
    and "(b, u_user_id u) \<in> asked (social_of (app_db st)) \<Longrightarrow>
      realised x cr st ((social_of (app_db st))\<lparr>asked := asked (social_of (app_db st)) - {(b, u_user_id u)},
        friends := insert (b, u_user_id u) (friends (social_of (app_db st)))\<rparr>)"
    and "realised x cr st ((social_of (app_db st))
       \<lparr>asked := asked (social_of (app_db st)) - {(u_user_id u, b), (b, u_user_id u)},
        friends := friends (social_of (app_db st)) - {(u_user_id u, b), (b, u_user_id u)}\<rparr>)"
proof -
  let ?d = "app_db st" and ?s = "social_of (app_db st)" and ?u = "u_user_id u"
  note call = request_calls [OF signed_in_new_id [OF on, of 0]]
  show "realised x cr st (?s\<lparr>asked := insert (?u, b) (asked ?s)\<rparr>)"
    if new: "?u \<noteq> b" "?u \<in> people ?s" "b \<in> people ?s" "(?u, b) \<notin> asked ?s \<union> friends ?s"
  proof -
    from friendship_enabled(1) [OF new(2-4)] obtain y d'
      where body: "db_send_friend_request (x_now x) ?u b ?d = Inr (y, d')" by blast
    from new(1) friendship_effects(1) [OF body] show ?thesis
      by (intro realisedI [OF call(1) [of b]]) (simp_all add: send_friend_request_def transaction_healthy body)
  qed
  show "realised x cr st (?s\<lparr>asked := asked ?s - {(b, ?u)}, friends := insert (b, ?u) (friends ?s)\<rparr>)"
    if "(b, ?u) \<in> asked ?s"
  proof -
    from friendship_enabled(2) [OF that] obtain y d'
      where body: "db_accept_friend_request (x_now x) b ?u ?d = Inr (y, d')" by blast
    from accept_effect(1) [OF ok body] show ?thesis
      by (intro realisedI [OF call(2) [of b]]) (simp_all add: accept_friend_request_def transaction_healthy body)
  qed
  show "realised x cr st (?s\<lparr>asked := asked ?s - {(?u, b), (b, ?u)}, friends := friends ?s - {(?u, b), (b, ?u)}\<rparr>)"
  proof (cases "db_remove_friendship ?u b ?d")
    case (Inl e)
    have "?s = ?s\<lparr>asked := asked ?s - {(?u, b), (b, ?u)}, friends := friends ?s - {(?u, b), (b, ?u)}\<rparr>"
      using friendship_enabled(3) [OF Inl] by (intro social.equality) (auto simp del: social_select)
    with Inl show ?thesis
      by (intro realisedI [OF call(3) [of b]]) (simp_all add: remove_or_decline_friendship_def transaction_healthy)
  next
    case (Inr r)
    then obtain y d' where body: "db_remove_friendship ?u b ?d = Inr (y, d')" by (cases r) simp
    from friendship_effects(2) [OF body] show ?thesis
      by (intro realisedI [OF call(3) [of b]]) (simp_all add: remove_or_decline_friendship_def transaction_healthy body)
  qed
qed

lemma account_realised:
  assumes on: "signed_in x cr st u" and "u_user_id u \<in> people (social_of (app_db st))"
    and "u_user_id u \<notin> snd ` founded (social_of (app_db st))"
    and close: "\<And>y d'. db_delete_user (u_user_id u) (app_db st) = Inr (y, d') \<Longrightarrow> social_of d' = s"
  shows "realised x cr st s"
proof -
  from account_enabled [OF assms(2,3)] obtain y d'
    where body: "db_delete_user (u_user_id u) (app_db st) = Inr (y, d')" by blast
  from close [OF this] show ?thesis
    by (intro realisedI [OF request_calls(4) [OF signed_in_new_id [OF on, of 0]]])
      (simp_all add: delete_account_def transaction_healthy body)
qed

lemma group_realised:
  assumes ok: "db_ok (app_db st)" and on: "signed_in x cr st u"
  shows "u_user_id u \<in> people (social_of (app_db st)) \<Longrightarrow> g \<notin> fst ` founded (social_of (app_db st)) \<Longrightarrow>
      realised x cr st ((social_of (app_db st))\<lparr>founded := insert (g, u_user_id u) (founded (social_of (app_db st))),
        belongs := insert (g, u_user_id u) (belongs (social_of (app_db st)))\<rparr>)"
    and "(g, u_user_id u) \<in> founded (social_of (app_db st)) \<Longrightarrow> b \<in> people (social_of (app_db st)) \<Longrightarrow>
      (g, b) \<notin> belongs (social_of (app_db st)) \<Longrightarrow>
      realised x cr st ((social_of (app_db st))\<lparr>belongs := insert (g, b) (belongs (social_of (app_db st)))\<rparr>)"
    and "(g, c) \<in> founded (social_of (app_db st)) \<Longrightarrow> b \<noteq> c \<Longrightarrow> u_user_id u = b \<or> u_user_id u = c \<Longrightarrow>
      (g, b) \<in> belongs (social_of (app_db st)) \<Longrightarrow>
      realised x cr st ((social_of (app_db st))\<lparr>belongs := belongs (social_of (app_db st)) - {(g, b)}\<rparr>)"
    and "(g, u_user_id u) \<in> founded (social_of (app_db st)) \<Longrightarrow>
      realised x cr st ((social_of (app_db st))\<lparr>founded := {p \<in> founded (social_of (app_db st)). fst p \<noteq> g},
        belongs := {p \<in> belongs (social_of (app_db st)). fst p \<noteq> g},
        posts := {p \<in> posts (social_of (app_db st)). fst (snd p) \<noteq> g}\<rparr>)"
proof -
  let ?d = "app_db st" and ?s = "social_of (app_db st)" and ?u = "u_user_id u"
  note call = request_calls [OF signed_in_new_id [OF on]]
  show "realised x cr st (?s\<lparr>founded := insert (g, ?u) (founded ?s), belongs := insert (g, ?u) (belongs ?s)\<rparr>)"
    if "?u \<in> people ?s" "g \<notin> fst ` founded ?s"
  proof -
    from group_enabled(1) [OF ok that] obtain y d'
      where body: "create_group_body \<lparr>g_group_id = g, g_name = ''g'', g_created_by = Some ?u,
        g_created_at = x_created x\<rparr> \<lparr>mb_group_id = g, mb_user_id = ?u, mb_joined_at = x_joined x\<rparr> ?d = Inr (y, d')"
      by blast
    from group_effects(1) [OF ok body] show ?thesis
      by (intro realisedI [OF call(5) [of g]]) (simp_all add: create_group_def Let_def transaction_healthy body)
  qed
  show "realised x cr st (?s\<lparr>belongs := insert (g, b) (belongs ?s)\<rparr>)"
    if "(g, ?u) \<in> founded ?s" "b \<in> people ?s" "(g, b) \<notin> belongs ?s"
  proof -
    from group_enabled(2) [OF ok that] obtain y d'
      where body: "add_member_body (x_joined x) ?u g b ?d = Inr (y, d')" by blast
    from group_effects(2) [OF ok body] show ?thesis
      by (intro realisedI [OF call(6) [of 0 g b]]) (simp_all add: add_member_def transaction_healthy body)
  qed
  show "realised x cr st (?s\<lparr>belongs := belongs ?s - {(g, b)}\<rparr>)"
    if "(g, c) \<in> founded ?s" "b \<noteq> c" "?u = b \<or> ?u = c" "(g, b) \<in> belongs ?s"
  proof -
    from group_enabled(3) [OF ok that] obtain y d'
      where body: "remove_member_body ?u g b ?d = Inr (y, d')" by blast
    from group_effects(3) [OF ok body] show ?thesis
      by (intro realisedI [OF call(7) [of 0 g b]]) (simp_all add: remove_member_def transaction_healthy body)
  qed
  show "realised x cr st (?s\<lparr>founded := {p \<in> founded ?s. fst p \<noteq> g}, belongs := {p \<in> belongs ?s. fst p \<noteq> g},
      posts := {p \<in> posts ?s. fst (snd p) \<noteq> g}\<rparr>)"
    if "(g, ?u) \<in> founded ?s"
  proof -
    from group_enabled(4) [OF ok that] obtain y d'
      where body: "delete_group_body ?u g ?d = Inr (y, d')" by blast
    from group_effects(4) [OF ok body] show ?thesis
      by (intro realisedI [OF call(8) [of 0 g]]) (simp_all add: delete_group_def transaction_healthy body)
  qed
qed

lemma message_realised:
  assumes ok: "db_ok (app_db st)" and on: "signed_in x cr st u" and size: "content \<noteq> []" "length content \<le> 4096"
  shows "uncrossed (social_of (app_db st)) \<Longrightarrow>
      (u_user_id u, b) \<in> friends (social_of (app_db st)) \<or> (b, u_user_id u) \<in> friends (social_of (app_db st)) \<Longrightarrow>
      m \<notin> fst ` letters (social_of (app_db st)) \<Longrightarrow>
      realised x cr st ((social_of (app_db st))\<lparr>letters := insert (m, u_user_id u, b, content) (letters (social_of (app_db st)))\<rparr>)"
    and "(g, u_user_id u) \<in> belongs (social_of (app_db st)) \<Longrightarrow> m \<notin> fst ` posts (social_of (app_db st)) \<Longrightarrow>
      realised x cr st ((social_of (app_db st))\<lparr>posts := insert (m, g, u_user_id u, content) (posts (social_of (app_db st)))\<rparr>)"
proof -
  let ?d = "app_db st" and ?s = "social_of (app_db st)" and ?u = "u_user_id u"
  note call = request_calls(9,10) [OF signed_in_new_id [OF on] size]
  show "realised x cr st (?s\<lparr>letters := insert (m, ?u, b, content) (letters ?s)\<rparr>)"
    if "uncrossed ?s" "(?u, b) \<in> friends ?s \<or> (b, ?u) \<in> friends ?s" "m \<notin> fst ` letters ?s"
  proof -
    from message_enabled(1) [OF ok that] obtain y d'
      where body: "send_direct_message_body m (x_created x) ?u b content ?d = Inr (y, d')" by blast
    from message_effects(1) [OF body] show ?thesis
      by (intro realisedI [OF call(1) [of m b]]) (simp_all add: send_direct_message_def transaction_healthy body)
  qed
  show "realised x cr st (?s\<lparr>posts := insert (m, g, ?u, content) (posts ?s)\<rparr>)"
    if "(g, ?u) \<in> belongs ?s" "m \<notin> fst ` posts ?s"
  proof -
    from message_enabled(2) [OF ok that] obtain y d'
      where body: "send_group_message_body m (x_created x) ?u g content ?d = Inr (y, d')" by blast
    from message_effects(2) [OF body] show ?thesis
      by (intro realisedI [OF call(2) [of m g]]) (simp_all add: send_group_message_def transaction_healthy body)
  qed
qed

section \<open>Properties\<close>

text \<open>
  C6 (rules_are_realised): Progress, the converse of the refinement: with the infrastructure up,
  whatever step the rules of the social network allow the user a bearer token stands for, some
  request with that token takes it.  The texts of the network have 1 to 4096 characters, and no
  friendship has a pending request in the other direction; where one has, the lookup of the
  relation may find the pending row and refuse the message.
\<close>

theorem rules_are_realised:
  assumes "db_ok (app_db st)" and "uncrossed (social_of (app_db st))" and "signed_in x cr st u"
    and step: "social_step (Some (u_user_id u)) (social_of (app_db st)) s"
    and texts: "\<forall>(m, a, b, t)\<in>letters s \<union> posts s. t \<noteq> [] \<and> length t \<le> 4096"
  shows "\<exists>new req. bearer req = Some cr \<and>
    social_of (app_db (fst (snd (handle_request (x\<lparr>x_new_id := new\<rparr>) req st)))) = s"
proof -
  note realised = friendship_realised [OF assms(1,3)] group_realised [OF assms(1,3)]
    message_realised(1) [OF assms(1,3) _ _ assms(2)] message_realised(2) [OF assms(1,3)]
  from step have "realised x cr st s"
  proof (cases rule: social_step.cases)
    case close_account
    then show ?thesis by (intro account_realised [OF assms(3)]) (simp_all only: close_account_effect simp_thms)
  next
    case (write_letter b m content)
    with texts have "content \<noteq> []" "length content \<le> 4096" by auto
    with write_letter show ?thesis by (simp only: realised simp_thms)
  next
    case (write_post g m content)
    with texts have "content \<noteq> []" "length content \<le> 4096" by auto
    with write_post show ?thesis by (simp only: realised simp_thms)
  qed (simp_all only: realised simp_thms)
  then show ?thesis by (simp add: realised_def)
qed

text \<open>Alice, who founded the group, admits Carol to it.\<close>

theorem rules_are_realised_witness:
  "\<exists>new req. bearer req = Some (Some ''abc'') \<and>
     (10, 3) \<in> belongs (social_of (app_db (fst (snd (handle_request (sample_ctx\<lparr>x_new_id := new\<rparr>) req alice_waiting)))))"
proof -
  let ?s = "social_of (app_db alice_waiting)" and ?u = "sample_user 1 ''alice''"
  have ok: "db_ok (app_db alice_waiting)" using alice_waits(2) by (simp add: stored_ok_def)
  have un: "uncrossed ?s" by (auto simp: uncrossed_def alice_waiting_def sample_db_def)
  have on: "signed_in sample_ctx (Some ''abc'') alice_waiting ?u"
    by (simp add: signed_in_def get_current_user_def with_bearer_def authenticate_token_def cache_get_def list_ttl_def
        sample_ctx_def sample_pydantic_def pydantic_laws_def alice_waiting_def sample_user_def)
  have "(10, 1) \<in> founded ?s" "3 \<in> people ?s" "(10, 3) \<notin> belongs ?s"
    unfolding social_people by (auto simp: alice_waiting_def sample_db_def sample_user_def)
  from admit [OF this] have step: "social_step (Some (u_user_id ?u)) ?s (?s\<lparr>belongs := insert (10, 3) (belongs ?s)\<rparr>)"
    by (simp add: sample_user_def)
  have texts: "\<forall>(m, a, b, t)\<in>letters (?s\<lparr>belongs := insert (10, 3) (belongs ?s)\<rparr>) \<union>
      posts (?s\<lparr>belongs := insert (10, 3) (belongs ?s)\<rparr>). t \<noteq> [] \<and> length t \<le> 4096"
    by (simp add: alice_waiting_def sample_db_def)
  obtain new req where "bearer req = Some (Some ''abc'')"
    and now: "social_of (app_db (fst (snd (handle_request (sample_ctx\<lparr>x_new_id := new\<rparr>) req alice_waiting)))) =
      ?s\<lparr>belongs := insert (10, 3) (belongs ?s)\<rparr>"
    using rules_are_realised [OF ok un on step texts] by blast
  then have "bearer req = Some (Some ''abc'') \<and>
      (10, 3) \<in> belongs (social_of (app_db (fst (snd (handle_request (sample_ctx\<lparr>x_new_id := new\<rparr>) req alice_waiting)))))"
    unfolding now by simp
  then show ?thesis by blast
qed

end
