(* ===== verification/Interleaving.thy ===== *)
theory Interleaving
  imports Messaging_Service
begin

text \<open>
  Transactions that check and then act.  The services of \<open>src/src/services/messaging.py\<close> and
  \<open>src/src/services/group.py\<close> first read the row that permits a change and then make the change with one
  statement, in a transaction at READ COMMITTED that locks nothing.  Here transactions of any number of
  requests and workers are interleaved between the two, and with every other write of the database.
\<close>

section \<open>The isolation level\<close>

datatype IsolationLevel = READ_COMMITTED | REPEATABLE_READ | SERIALIZABLE

fun isolation_value :: "IsolationLevel \<Rightarrow> string" where
  "isolation_value READ_COMMITTED = ''read_committed''"
| "isolation_value REPEATABLE_READ = ''repeatable_read''"
| "isolation_value SERIALIZABLE = ''serializable''"

text \<open>No caller of \<open>transaction\<close> gives one, so every transaction has the default.\<close>

definition transaction_isolation :: "IsolationLevel option \<Rightarrow> IsolationLevel" where
  "transaction_isolation given = (case given of None \<Rightarrow> READ_COMMITTED | Some level \<Rightarrow> level)"

section \<open>Interleaved transactions\<close>

datatype ('c, 'a) phase = Started | Checked 'c | Done 'a | Failed exn

record ('c, 'a) tx_race =
  shared_db :: db
  phases :: "nat \<Rightarrow> ('c, 'a) phase"

text \<open>
  Transaction \<open>i\<close> carries out \<open>job i\<close>.  A statement sees what is committed when it runs; the acting one
  is the last of its transaction, so its effect is committed with it or, when the commit fails, not at
  all.
\<close>

inductive interleaved ::
    "('k \<Rightarrow> 'c rd) \<Rightarrow> ('k \<Rightarrow> 'c \<Rightarrow> 'a tx) \<Rightarrow> (nat \<Rightarrow> 'k) \<Rightarrow> ('c, 'a) tx_race \<Rightarrow> ('c, 'a) tx_race \<Rightarrow> bool"
  for check act job where
  checked:
    "phases s i = Started \<Longrightarrow> check (job i) (shared_db s) = Inr c \<Longrightarrow>
     interleaved check act job s (s\<lparr>phases := (phases s)(i := Checked c)\<rparr>)"
| refused:
    "phases s i = Started \<Longrightarrow> check (job i) (shared_db s) = Inl e \<Longrightarrow>
     interleaved check act job s (s\<lparr>phases := (phases s)(i := Failed e)\<rparr>)"
| acted:
    "phases s i = Checked c \<Longrightarrow> act (job i) c (shared_db s) = Inr (x, d') \<Longrightarrow>
     interleaved check act job s (s\<lparr>shared_db := d', phases := (phases s)(i := Done x)\<rparr>)"
| failed:
    "phases s i = Checked c \<Longrightarrow> interleaved check act job s (s\<lparr>phases := (phases s)(i := Failed e)\<rparr>)"
| others:
    "db_write (shared_db s) d' \<Longrightarrow> interleaved check act job s (s\<lparr>shared_db := d'\<rparr>)"

definition all_started :: "('c, 'a) tx_race \<Rightarrow> bool" where
  "all_started s \<longleftrightarrow> (\<forall>i. phases s i = Started)"

section \<open>The contract of a transaction in two parts\<close>

locale check_then_act =
  fixes check :: "'k \<Rightarrow> 'c rd" and act :: "'k \<Rightarrow> 'c \<Rightarrow> 'a tx" and body :: "'k \<Rightarrow> 'a tx"
  assumes split: "body k = tx_bind (tx_read (check k)) (act k)"
    and act_writes: "runs_writes (act k c)"
begin

text \<open>Without interference the two parts are the transaction.\<close>

lemma alone:
  assumes "phases s i = Started" and "body (job i) (shared_db s) = Inr (x, d')"
  shows "rtranclp (interleaved check act job) s (s\<lparr>shared_db := d', phases := (phases s)(i := Done x)\<rparr>)"
proof -
  from assms(2) obtain c where c: "check (job i) (shared_db s) = Inr c" "act (job i) c (shared_db s) = Inr (x, d')"
    by (auto simp: split tx_bind_def tx_read_def res_bind_iffs)
  let ?t = "s\<lparr>phases := (phases s)(i := Checked c)\<rparr>"
  have "interleaved check act job s ?t" using assms(1) c(1) by (rule interleaved.checked)
  moreover have "interleaved check act job ?t (?t\<lparr>shared_db := d', phases := (phases ?t)(i := Done x)\<rparr>)"
    using c(2) by (intro interleaved.acted) simp_all
  ultimately show ?thesis by simp
qed

lemma step_ok: "interleaved check act job s t \<Longrightarrow> db_ok (shared_db s) \<Longrightarrow> db_ok (shared_db t)"
  by (induction rule: interleaved.induct) (auto intro: db_sys.run_inv dest: runs_writesD [OF act_writes] db_write_ok)

lemma run_ok: "rtranclp (interleaved check act job) s t \<Longrightarrow> db_ok (shared_db s) \<Longrightarrow> db_ok (shared_db t)"
  by (induction rule: rtranclp_induct) (auto intro: step_ok)

text \<open>What has been done was permitted when it was checked, and was then done on some later state.\<close>

lemma done_was_checked:
  assumes "rtranclp (interleaved check act job) s t" and "all_started s"
  shows "(\<forall>c. phases t i = Checked c \<longrightarrow>
        (\<exists>s1. rtranclp (interleaved check act job) s s1 \<and> rtranclp (interleaved check act job) s1 t \<and>
              check (job i) (shared_db s1) = Inr c)) \<and>
    (\<forall>x. phases t i = Done x \<longrightarrow>
        (\<exists>s1 s2 c d'. rtranclp (interleaved check act job) s s1 \<and> rtranclp (interleaved check act job) s1 s2 \<and>
              rtranclp (interleaved check act job) s2 t \<and> check (job i) (shared_db s1) = Inr c \<and>
              act (job i) c (shared_db s2) = Inr (x, d')))"
  using assms(1)
proof (induction rule: rtranclp_induct)
  case base
  from assms(2) show ?case by (simp add: all_started_def)
next
  case (step y z)
  note old = step.IH and run = step.hyps(1) and last = step.hyps(2)
  have more: "rtranclp (interleaved check act job) u z" if "rtranclp (interleaved check act job) u y" for u
    using that last by (rule rtranclp.rtrancl_into_rtrancl)
  from last show ?case
  proof (cases rule: interleaved.cases)
    case (checked j c)
    then show ?thesis using old run more by (cases "j = i") fastforce+
  next
    case (acted j c x d')
    then show ?thesis using old run more by (cases "j = i") fastforce+
  qed (use old more in \<open>fastforce split: if_splits\<close>)+
qed

end

section \<open>The transactions of the program\<close>

record dm_job =
  dj_id :: uuid
  dj_created :: timestamp
  dj_sender :: uuid
  dj_recipient :: uuid
  dj_content :: string

definition dm_check :: "dm_job \<Rightarrow> Friendship rd" where
  "dm_check j d =
     res_bind (db_get_friendship_status (dj_sender j) (dj_recipient j) d) (\<lambda>friendship.
       if \<not> fr_accepted friendship
       then Inl (ServiceExn (DirectMessageNotAllowedError (PUuid (dj_recipient j))))
       else Inr friendship)"

definition dm_store :: "dm_job \<Rightarrow> Friendship \<Rightarrow> DirectMessage tx" where
  "dm_store j friendship =
     db_send_direct_message
       \<lparr>dm_message_id = dj_id j, dm_sender_id = dj_sender j, dm_recipient_id = dj_recipient j,
        dm_content = dj_content j, dm_created_at = dj_created j\<rparr>"

record gm_job =
  gj_id :: uuid
  gj_created :: timestamp
  gj_sender :: uuid
  gj_group :: uuid
  gj_content :: string

definition gm_check :: "gm_job \<Rightarrow> Membership rd" where
  "gm_check j = db_get_membership (gj_group j) (gj_sender j)"

definition gm_store :: "gm_job \<Rightarrow> Membership \<Rightarrow> GroupMessage tx" where
  "gm_store j membership =
     db_send_group_message
       \<lparr>gm_message_id = gj_id j, gm_group_id = gj_group j, gm_sender_id = gj_sender j,
        gm_content = gj_content j, gm_created_at = gj_created j\<rparr>"

record member_job =
  mj_joined :: timestamp
  mj_actor :: uuid
  mj_group :: uuid
  mj_target :: uuid

definition admit_check :: "member_job \<Rightarrow> Group rd" where
  "admit_check j d =
     res_bind (db_get_group_by_id (mj_group j) d) (\<lambda>grp.
       if g_created_by grp \<noteq> Some (mj_actor j)
       then Inl (ServiceExn (InsufficientGroupPermissionError ''Only the group creator can add new members.''))
       else Inr grp)"

definition admit_store :: "member_job \<Rightarrow> Group \<Rightarrow> Membership tx" where
  "admit_store j grp =
     db_add_group_member \<lparr>mb_group_id = mj_group j, mb_user_id = mj_target j, mb_joined_at = mj_joined j\<rparr>"

definition expel_check :: "member_job \<Rightarrow> Group rd" where
  "expel_check j d =
     res_bind (db_get_group_by_id (mj_group j) d) (\<lambda>grp.
       if Some (mj_target j) = g_created_by grp
       then Inl (ServiceExn (InsufficientGroupPermissionError
              ''Group creator cannot leave the group. Delete the group instead.''))
       else if \<not> (mj_actor j = mj_target j \<or> g_created_by grp = Some (mj_actor j))
       then Inl (ServiceExn (InsufficientGroupPermissionError ''Only the group creator can remove other members.''))
       else Inr grp)"

definition expel_store :: "member_job \<Rightarrow> Group \<Rightarrow> unit tx" where
  "expel_store j grp = db_remove_group_member (mj_group j) (mj_target j)"

lemma bind_checks:
  "tx_bind (tx_read q) (\<lambda>v. if P v then tx_raise e else m v) =
     tx_bind (tx_read (\<lambda>d. res_bind (q d) (\<lambda>v. if P v then Inl e else Inr v))) m"
proof
  fix d
  show "tx_bind (tx_read q) (\<lambda>v. if P v then tx_raise e else m v) d =
     tx_bind (tx_read (\<lambda>d. res_bind (q d) (\<lambda>v. if P v then Inl e else Inr v))) m d"
    by (cases "q d") (simp_all add: tx_ops)
qed

interpretation direct_race: check_then_act dm_check dm_store
  "\<lambda>j. send_direct_message_body (dj_id j) (dj_created j) (dj_sender j) (dj_recipient j) (dj_content j)"
  by unfold_locales
    (simp_all add: send_direct_message_body_def dm_check_def [abs_def] dm_store_def [abs_def] bind_checks message_writes)

interpretation group_race: check_then_act gm_check gm_store
  "\<lambda>j. send_group_message_body (gj_id j) (gj_created j) (gj_sender j) (gj_group j) (gj_content j)"
  by unfold_locales (simp_all add: send_group_message_body_def gm_check_def gm_store_def [abs_def] message_writes)

interpretation admit_race: check_then_act admit_check admit_store
  "\<lambda>j. add_member_body (mj_joined j) (mj_actor j) (mj_group j) (mj_target j)"
  by unfold_locales
    (simp_all add: add_member_body_def admit_check_def [abs_def] admit_store_def [abs_def] bind_checks group_writes)

interpretation expel_race: check_then_act expel_check expel_store
  "\<lambda>j. remove_member_body (mj_actor j) (mj_group j) (mj_target j)"
proof
  fix k c
  show "runs_writes (expel_store k c)" by (simp add: expel_store_def group_writes)
  show "remove_member_body (mj_actor k) (mj_group k) (mj_target k) = tx_bind (tx_read (expel_check k)) (expel_store k)"
  proof
    fix d
    show "remove_member_body (mj_actor k) (mj_group k) (mj_target k) d =
        tx_bind (tx_read (expel_check k)) (expel_store k) d"
      by (cases "db_get_group_by_id (mj_group k) d")
        (simp_all add: remove_member_body_def expel_check_def expel_store_def tx_ops Let_def)
  qed
qed

section \<open>Properties\<close>

text \<open>
  C20 (interleaved_messages_were_permitted): Messages sent by any number of requests at the same time, with any other
  writes in between: the schema invariant holds throughout, and a direct message that was stored is the
  one that was asked for and was checked, earlier in the same run, on a state where its sender and its
  recipient were friends.
\<close>

theorem interleaved_messages_were_permitted:
  assumes "rtranclp (interleaved dm_check dm_store job) s t" and "all_started s" and "db_ok (shared_db s)"
    and "phases t i = Done m"
  shows "db_ok (shared_db t) \<and>
    m = \<lparr>dm_message_id = dj_id (job i), dm_sender_id = dj_sender (job i), dm_recipient_id = dj_recipient (job i),
         dm_content = dj_content (job i), dm_created_at = dj_created (job i)\<rparr> \<and>
    (\<exists>s1. rtranclp (interleaved dm_check dm_store job) s s1 \<and> rtranclp (interleaved dm_check dm_store job) s1 t \<and>
       (\<exists>f. f \<in> set (friendships (shared_db s1)) \<and> fr_accepted f \<and>
            between (dj_sender (job i)) (dj_recipient (job i)) f))"
proof -
  from direct_race.done_was_checked [OF assms(1,2)] assms(4) obtain s1 s2 f d'
    where run: "rtranclp (interleaved dm_check dm_store job) s s1" "rtranclp (interleaved dm_check dm_store job) s1 s2"
      "rtranclp (interleaved dm_check dm_store job) s2 t"
    and f: "dm_check (job i) (shared_db s1) = Inr f" and m: "dm_store (job i) f (shared_db s2) = Inr (m, d')"
    by blast
  from f have "f \<in> set (friendships (shared_db s1))" "fr_accepted f" "between (dj_sender (job i)) (dj_recipient (job i)) f"
    by (auto simp: dm_check_def db_get_friendship_status_def FRIENDSHIP_STATUS_def res_bind_iffs
        split: if_splits option.splits dest!: fetchrow_SomeD)
  with run m direct_race.run_ok [OF assms(1,3)] show ?thesis
    by (auto simp: dm_store_def db_send_direct_message_eq split: if_splits intro: rtranclp_trans)
qed

text \<open>Alice writes to Bob; between the check and the insert, Bob ends the friendship.\<close>

definition alice_to_bob :: "nat \<Rightarrow> dm_job" where
  "alice_to_bob i = \<lparr>dj_id = 40, dj_created = 7, dj_sender = 1, dj_recipient = 2, dj_content = ''hey''\<rparr>"

definition about_to_send :: "(Friendship, DirectMessage) tx_race" where
  "about_to_send = \<lparr>shared_db = sample_db, phases = (\<lambda>i. Started)\<rparr>"

lemma unfriended_while_sending:
  obtains s1 t m where "rtranclp (interleaved dm_check dm_store alice_to_bob) about_to_send s1"
    and "rtranclp (interleaved dm_check dm_store alice_to_bob) s1 t"
    and "\<forall>f\<in>set (friendships (shared_db s1)). \<not> between 1 2 f"
    and "40 \<notin> dm_message_id ` set (direct_messages (shared_db s1))"
    and "phases t 0 = Done m" and "m \<in> set (direct_messages (shared_db t))" and "dm_message_id m = 40"
proof -
  let ?f = "\<lparr>fr_requester_id = 1, fr_addressee_id = 2, fr_accepted = True, fr_created_at = 0, fr_updated_at = 1\<rparr>"
  let ?m = "\<lparr>dm_message_id = 40, dm_sender_id = 1, dm_recipient_id = 2, dm_content = ''hey'', dm_created_at = 7\<rparr>"
  let ?d = "snd (REMOVE_FRIENDSHIP 2 1 sample_db)"
  let ?d' = "?d\<lparr>direct_messages := direct_messages ?d @ [?m]\<rparr>"
  let ?s0 = "\<lparr>shared_db = sample_db, phases = (\<lambda>i. Started)(0 := Checked ?f)\<rparr> :: (Friendship, DirectMessage) tx_race"
  let ?s1 = "?s0\<lparr>shared_db := ?d\<rparr>"
  let ?t = "?s1\<lparr>shared_db := ?d', phases := (phases ?s1)(0 := Done ?m)\<rparr>"
  have 1: "interleaved dm_check dm_store alice_to_bob about_to_send ?s0"
    using interleaved.checked [of about_to_send 0 dm_check alice_to_bob ?f dm_store]
    by (simp add: about_to_send_def alice_to_bob_def dm_check_def db_get_friendship_status_def
        FRIENDSHIP_STATUS_def between_def sample_db_def)
  have 2: "interleaved dm_check dm_store alice_to_bob ?s0 ?s1"
    by (rule interleaved.others) (simp add: db_write.w_remove_friendship)
  have 3: "interleaved dm_check dm_store alice_to_bob ?s1 ?t"
    by (rule interleaved.acted)
      (simp_all add: dm_store_def alice_to_bob_def db_send_direct_message_eq REMOVE_FRIENDSHIP_def sample_db_def sample_user_def)
  show thesis
  proof (rule that [of ?s1 ?t ?m])
    show "rtranclp (interleaved dm_check dm_store alice_to_bob) about_to_send ?s1" using 1 2 by (meson r_into_rtranclp rtranclp.rtrancl_into_rtrancl)
    show "rtranclp (interleaved dm_check dm_store alice_to_bob) ?s1 ?t" using 3 by (rule r_into_rtranclp)
  qed (simp_all add: REMOVE_FRIENDSHIP_def sample_db_def between_def)
qed

theorem interleaved_messages_were_permitted_witness:
  "\<exists>t m s1. rtranclp (interleaved dm_check dm_store alice_to_bob) about_to_send t \<and> phases t 0 = Done m \<and>
     db_ok (shared_db t) \<and> dm_content m = ''hey'' \<and>
     rtranclp (interleaved dm_check dm_store alice_to_bob) s1 t \<and>
     (\<exists>f. f \<in> set (friendships (shared_db s1)) \<and> fr_accepted f \<and> between 1 2 f)"
proof -
  obtain s1 t m where "rtranclp (interleaved dm_check dm_store alice_to_bob) about_to_send s1"
    and "rtranclp (interleaved dm_check dm_store alice_to_bob) s1 t" and d: "phases t 0 = Done m"
    by (rule unfriended_while_sending)
  then have run: "rtranclp (interleaved dm_check dm_store alice_to_bob) about_to_send t" by (meson rtranclp_trans)
  have "all_started about_to_send" "db_ok (shared_db about_to_send)"
    by (simp_all add: all_started_def about_to_send_def sample_db_ok)
  note sent = interleaved_messages_were_permitted [OF run this d]
  then have "dm_content m = ''hey''" by (simp add: alice_to_bob_def)
  moreover from sent obtain s2 f where "rtranclp (interleaved dm_check dm_store alice_to_bob) s2 t"
    "f \<in> set (friendships (shared_db s2))" "fr_accepted f" "between 1 2 f"
    by (auto simp: alice_to_bob_def)
  ultimately show ?thesis using run d sent by blast
qed

text \<open>
  No lock is held in between, so the permission may be gone when the message is stored: in this run
  the two are no longer friends in any direction and the message is stored all the same.
\<close>

theorem message_after_unfriending:
  "\<exists>s1 t m. rtranclp (interleaved dm_check dm_store alice_to_bob) about_to_send s1 \<and>
     rtranclp (interleaved dm_check dm_store alice_to_bob) s1 t \<and>
     (\<forall>f\<in>set (friendships (shared_db s1)). \<not> between 1 2 f) \<and>
     m \<notin> set (direct_messages (shared_db s1)) \<and> m \<in> set (direct_messages (shared_db t)) \<and> phases t 0 = Done m"
  by (rule unfriended_while_sending) (metis imageI)

text \<open>Group messages and memberships, likewise: permitted when checked.\<close>

theorem interleaved_posts_were_permitted:
  assumes "rtranclp (interleaved gm_check gm_store job) s t" and "all_started s" and "phases t i = Done m"
  shows "\<exists>s1. rtranclp (interleaved gm_check gm_store job) s s1 \<and> rtranclp (interleaved gm_check gm_store job) s1 t \<and>
    (gj_group (job i), gj_sender (job i)) \<in> mb_key ` set (memberships (shared_db s1))"
proof -
  from group_race.done_was_checked [OF assms(1,2)] assms(3) obtain s1 s2 mb
    where run: "rtranclp (interleaved gm_check gm_store job) s s1" "rtranclp (interleaved gm_check gm_store job) s1 s2"
      "rtranclp (interleaved gm_check gm_store job) s2 t"
    and mb: "gm_check (job i) (shared_db s1) = Inr mb"
    by blast
  from mb have "(gj_group (job i), gj_sender (job i)) \<in> mb_key ` set (memberships (shared_db s1))"
    by (force simp: gm_check_def db_get_membership_def MEMBERSHIP_BY_IDS_def split: option.splits dest!: fetchrow_SomeD)
  with run show ?thesis by (blast intro: rtranclp_trans)
qed

theorem interleaved_admissions_were_permitted:
  assumes "rtranclp (interleaved admit_check admit_store job) s t" and "all_started s" and "phases t i = Done m"
  shows "\<exists>s1 r. rtranclp (interleaved admit_check admit_store job) s s1 \<and>
    rtranclp (interleaved admit_check admit_store job) s1 t \<and>
    GROUP_BY_ID (mj_group (job i)) (shared_db s1) = Some r \<and> g_created_by r = Some (mj_actor (job i))"
proof -
  from admit_race.done_was_checked [OF assms(1,2)] assms(3) obtain s1 s2 r
    where run: "rtranclp (interleaved admit_check admit_store job) s s1"
      "rtranclp (interleaved admit_check admit_store job) s1 s2" "rtranclp (interleaved admit_check admit_store job) s2 t"
    and r: "admit_check (job i) (shared_db s1) = Inr r"
    by blast
  from r have "GROUP_BY_ID (mj_group (job i)) (shared_db s1) = Some r \<and> g_created_by r = Some (mj_actor (job i))"
    by (auto simp: admit_check_def res_bind_iffs db_get_group_by_id_Inr split: if_splits)
  with run show ?thesis by (blast intro: rtranclp_trans)
qed

theorem interleaved_removals_were_permitted:
  assumes "rtranclp (interleaved expel_check expel_store job) s t" and "all_started s" and "phases t i = Done m"
  shows "\<exists>s1 r. rtranclp (interleaved expel_check expel_store job) s s1 \<and>
    rtranclp (interleaved expel_check expel_store job) s1 t \<and>
    GROUP_BY_ID (mj_group (job i)) (shared_db s1) = Some r \<and> g_created_by r \<noteq> Some (mj_target (job i)) \<and>
    (mj_actor (job i) = mj_target (job i) \<or> g_created_by r = Some (mj_actor (job i)))"
proof -
  from expel_race.done_was_checked [OF assms(1,2)] assms(3) obtain s1 s2 r
    where run: "rtranclp (interleaved expel_check expel_store job) s s1"
      "rtranclp (interleaved expel_check expel_store job) s1 s2" "rtranclp (interleaved expel_check expel_store job) s2 t"
    and r: "expel_check (job i) (shared_db s1) = Inr r"
    by blast
  from r have "GROUP_BY_ID (mj_group (job i)) (shared_db s1) = Some r \<and> g_created_by r \<noteq> Some (mj_target (job i)) \<and>
      (mj_actor (job i) = mj_target (job i) \<or> g_created_by r = Some (mj_actor (job i)))"
    by (auto simp: expel_check_def res_bind_iffs db_get_group_by_id_Inr split: if_splits)
  with run show ?thesis by (blast intro: rtranclp_trans)
qed

end
