(* ===== verification/Routing.thy ===== *)
theory Routing
  imports WebSocket_Manager
begin

text \<open>
  One worker as a transition system: the coroutines of \<open>WebSocketManager\<close> interleave at their
  \<open>await\<close>s, so a registration that waits for Redis or for the database, and the clean-up of a
  deleted group that waits for its sends, may meet any other operation in between.  The invariant
  \<open>routing_ok\<close> ties the three registries together and holds in every reachable state.
\<close>

section \<open>Suspended coroutines and steps\<close>

datatype task =
    AwaitRedis uuid socket
  | AwaitGroups uuid socket "uuid set"
  | AwaitSends uuid "uuid set"

record worker =
  registries :: ws_state
  tasks :: "task multiset"

definition initial_worker :: worker where
  "initial_worker = \<lparr>registries = empty_ws, tasks = {#}\<rparr>"

inductive worker_step :: "worker \<Rightarrow> worker \<Rightarrow> bool" where
  register: "worker_step w
     (w\<lparr>registries := register_begin u ws (registries w), tasks := add_mset (AwaitRedis u ws) (tasks w)\<rparr>)"
| redis_failed: "AwaitRedis u ws \<in># tasks w \<Longrightarrow>
     worker_step w (w\<lparr>tasks := tasks w - {#AwaitRedis u ws#}\<rparr>)"
| load_groups: "AwaitRedis u ws \<in># tasks w \<Longrightarrow>
     worker_step w (w\<lparr>tasks := add_mset (AwaitGroups u ws (load_group_ids env timed_out u d))
                               (tasks w - {#AwaitRedis u ws#})\<rparr>)"
| registered: "AwaitGroups u ws gs \<in># tasks w \<Longrightarrow>
     worker_step w (w\<lparr>registries := register_finish u ws gs (registries w),
                      tasks := tasks w - {#AwaitGroups u ws gs#}\<rparr>)"
| unregister: "unregister_local u ws (registries w) = (final, s') \<Longrightarrow>
     worker_step w (w\<lparr>registries := s'\<rparr>)"
| membership_changed: "handle_membership_change data (registries w) = Inr (frames, s') \<Longrightarrow>
     worker_step w (w\<lparr>registries := s'\<rparr>)"
| group_deleted: "worker_step w
     (w\<lparr>tasks := add_mset (AwaitSends g (dget (group_connections (registries w)) g)) (tasks w)\<rparr>)"
| group_cleaned: "AwaitSends g ms \<in># tasks w \<Longrightarrow>
     worker_step w (w\<lparr>registries := group_deleted_finish g ms (registries w),
                      tasks := tasks w - {#AwaitSends g ms#}\<rparr>)"

inductive_cases worker_stepE: "worker_step w w'"

section \<open>The invariant\<close>

text \<open>
  No empty entries; a routed user's index names the group; an indexed user holds a socket.
\<close>

definition routing_ok :: "ws_state \<Rightarrow> bool" where
  "routing_ok s \<longleftrightarrow>
     (\<forall>u. local_connections s u \<noteq> Some {}) \<and>
     (\<forall>g. group_connections s g \<noteq> Some {}) \<and>
     (\<forall>g. \<forall>u\<in>dget (group_connections s) g. g \<in> dget (user_groups s) u) \<and>
     (\<forall>u. user_groups s u \<noteq> None \<longrightarrow> local_connections s u \<noteq> None)"

lemma routing_okD:
  assumes "routing_ok s"
  shows "local_connections s u \<noteq> Some {}"
    and "group_connections s g \<noteq> Some {}"
    and "u \<in> dget (group_connections s) g \<Longrightarrow> g \<in> dget (user_groups s) u"
    and "u \<in> dget (group_connections s) g \<Longrightarrow> dget (local_connections s) u \<noteq> {}"
proof -
  from assms show 1: "local_connections s u \<noteq> Some {}" and "group_connections s g \<noteq> Some {}"
    by (auto simp: routing_ok_def)
  show 2: "g \<in> dget (user_groups s) u" if "u \<in> dget (group_connections s) g"
    using assms that by (auto simp: routing_ok_def)
  show "dget (local_connections s) u \<noteq> {}" if "u \<in> dget (group_connections s) g"
  proof -
    have "user_groups s u \<noteq> None" using in_domI_dget [OF 2 [OF that]] .
    with assms obtain S where "local_connections s u = Some S" by (auto simp: routing_ok_def)
    with 1 show ?thesis by auto
  qed
qed

lemma empty_ws_ok: "routing_ok empty_ws"
  by (simp add: routing_ok_def empty_ws_def)

lemma register_begin_ok: "routing_ok s \<Longrightarrow> routing_ok (register_begin u ws s)"
  by (auto simp: routing_ok_def register_begin_def dadd_def)

lemma register_finish_ok:
  assumes "routing_ok s"
  shows "routing_ok (register_finish u ws gs s)"
proof (cases "ws \<in> dget (local_connections s) u")
  case True
  then have "local_connections s u \<noteq> None" by (rule in_domI_dget)
  with assms True show ?thesis
    by (auto simp: routing_ok_def register_finish_def split: if_splits)
next
  case False
  with assms show ?thesis by (simp add: register_finish_def)
qed

lemma unregister_local_ok:
  assumes "routing_ok s" and "unregister_local u ws s = (final, s')"
  shows "routing_ok s'"
  using assms by (auto simp: routing_ok_def unregister_local_eq split: if_splits)

lemma membership_join_ok: "routing_ok s \<Longrightarrow> routing_ok (membership_join u g s)"
  by (auto simp: routing_ok_def membership_join_def dadd_def)

lemma membership_leave_ok: "routing_ok s \<Longrightarrow> routing_ok (membership_leave u g s)"
  by (auto simp: routing_ok_def membership_leave_def ddiscard_def split: if_splits)

lemma membership_action_ok:
  "routing_ok s \<Longrightarrow>
     routing_ok (case a of JOIN \<Rightarrow> membership_join u g s | LEAVE \<Rightarrow> membership_leave u g s)"
  by (cases a) (simp_all add: membership_join_ok membership_leave_ok)

lemma handle_membership_change_ok:
  "handle_membership_change data s = Inr (frames, s') \<Longrightarrow> routing_ok s \<Longrightarrow> routing_ok s'"
  by (auto simp: handle_membership_change_def res_bind_iffs Let_def
      intro: membership_action_ok)

lemma group_deleted_finish_ok:
  assumes "routing_ok s"
  shows "routing_ok (group_deleted_finish g ms s)"
proof -
  let ?s = "group_deleted_finish g ms s"
  have "h \<in> dget (user_groups ?s) u" if "u \<in> dget (group_connections ?s) h" for h u
  proof -
    from that have "u \<in> dget (group_connections s) h" "h \<noteq> g"
      by (auto simp: group_deleted_finish_def split: if_splits)
    with routing_okD(3) [OF assms] show ?thesis by auto
  qed
  moreover have "user_groups ?s u \<noteq> None \<longleftrightarrow> user_groups s u \<noteq> None" for u
    by (simp add: group_deleted_finish_def)
  ultimately show ?thesis
    using assms by (auto simp: routing_ok_def group_deleted_finish_def)
qed

lemma worker_step_ok: "worker_step w w' \<Longrightarrow> routing_ok (registries w) \<Longrightarrow> routing_ok (registries w')"
  by (elim worker_stepE)
    (auto intro: register_begin_ok register_finish_ok unregister_local_ok
      handle_membership_change_ok group_deleted_finish_ok)

interpretation routing: invariant_system worker_step "\<lambda>w. routing_ok (registries w)"
  by unfold_locales (rule worker_step_ok)

text \<open>Any dispatched payload keeps the invariant, whatever it contains.\<close>

lemma handle_membership_change_connections:
  "handle_membership_change data s = Inr (fr, s') \<Longrightarrow> local_connections s' = local_connections s"
proof -
  have "local_connections (case a of JOIN \<Rightarrow> membership_join u g s | LEAVE \<Rightarrow> membership_leave u g s) =
      local_connections s" for a u g
    by (cases a) (simp_all add: membership_join_def membership_leave_def)
  then show "handle_membership_change data s = Inr (fr, s') \<Longrightarrow> local_connections s' = local_connections s"
    by (auto simp: handle_membership_change_def res_bind_iffs Let_def)
qed

lemma dispatch_keeps_connections:
  assumes "dispatch_local_message payload s = Inr (fr, s')"
  shows "local_connections s' = local_connections s"
  using assms
  by (cases rule: dispatch_local_message_cases)
    (auto simp: handle_group_deleted_def group_deleted_finish_def res_bind_iffs Let_def
      dest: handle_membership_change_connections)

lemma dispatch_ok:
  assumes "dispatch_local_message payload s = Inr (fr, s')" and "routing_ok s"
  shows "routing_ok s'"
  using assms
  by (cases rule: dispatch_local_message_cases)
    (auto simp: handle_group_deleted_def res_bind_iffs Let_def
      intro: handle_membership_change_ok group_deleted_finish_ok)

lemma safe_dispatch_connections: "local_connections (snd (safe_dispatch payload s)) = local_connections s"
  by (auto simp: safe_dispatch_def split: sum.split dest: dispatch_keeps_connections)

lemma run_routing_ok: "rtranclp worker_step initial_worker w \<Longrightarrow> routing_ok (registries w)"
  using routing.run_inv [of initial_worker w] empty_ws_ok by (simp add: initial_worker_def)

text \<open>A run to evaluate with: user 1 opens socket 7, and a JOIN of group 2 arrives.\<close>

definition sample_registered :: worker where
  "sample_registered =
     initial_worker\<lparr>registries := register_begin 1 7 empty_ws, tasks := {#AwaitRedis 1 7#}\<rparr>"

definition sample_joined :: worker where
  "sample_joined =
     sample_registered\<lparr>registries := membership_join 1 2 (register_begin 1 7 empty_ws)\<rparr>"

lemma sample_run: "rtranclp worker_step initial_worker sample_joined"
proof -
  have "worker_step initial_worker sample_registered"
    using worker_step.register [of initial_worker 1 7]
    by (simp add: sample_registered_def initial_worker_def)
  moreover have "\<exists>fr. handle_membership_change (to_dict (GroupMembershipEvent JOIN 1 2))
      (registries sample_registered) = Inr (fr, registries sample_joined)"
    by (simp add: handle_membership_change_def to_dict_def sample_registered_def sample_joined_def
        membership_action_def Let_def)
  then have "worker_step sample_registered sample_joined"
    using worker_step.membership_changed [of _ sample_registered _ "registries sample_joined"]
    by (fastforce simp: sample_joined_def sample_registered_def)
  ultimately show ?thesis by (meson rtranclp.rtrancl_into_rtrancl rtranclp.rtrancl_refl)
qed

lemma sample_joined_simps [simp]:
  "dget (group_connections (registries sample_joined)) 2 = {1}"
  "dget (local_connections (registries sample_joined)) 1 = {7}"
  "dget (user_groups (registries sample_joined)) 1 = {2}"
  by (simp_all add: sample_joined_def sample_registered_def membership_join_def register_begin_def
      empty_ws_def) (simp_all add: dadd_def)

section \<open>Properties of the routing registries\<close>

text \<open>
  C15 (routed_users_are_connected): However the coroutines of a worker interleave, a user on the routing
  list of a group holds at least one open socket on that worker, and the user's own index names the
  group, so that removing the user can find every routing list the user is on.
\<close>

theorem routed_users_are_connected:
  assumes "rtranclp worker_step initial_worker w"
    and "u \<in> dget (group_connections (registries w)) g"
  shows "dget (local_connections (registries w)) u \<noteq> {} \<and> g \<in> dget (user_groups (registries w)) u"
  using routing_okD(3,4) [OF run_routing_ok [OF assms(1)] assms(2)] by blast

theorem routed_users_are_connected_witness:
  "1 \<in> dget (group_connections (registries sample_joined)) 2 \<and>
   dget (local_connections (registries sample_joined)) 1 \<noteq> {} \<and>
   2 \<in> dget (user_groups (registries sample_joined)) 1"
  using routed_users_are_connected [OF sample_run, of 1 2] by simp

text \<open>
  When a worker closes the last socket of a user, whatever happened
  before on that worker, the user is gone from all three registries: no later group message or
  notification is routed to the user there.
\<close>

theorem last_socket_clears_routing:
  assumes "rtranclp worker_step initial_worker w"
    and "unregister_local u ws (registries w) = (True, s')"
  shows "local_connections s' u = None \<and> user_groups s' u = None \<and>
    (\<forall>g. u \<notin> dget (group_connections s') g)"
proof -
  have "g \<in> dget (user_groups (registries w)) u" if "u \<in> dget (group_connections (registries w)) g" for g
    using routing_okD(3) [OF run_routing_ok [OF assms(1)] that] .
  with assms(2) show ?thesis by (auto simp: unregister_local_eq split: if_splits)
qed

theorem last_socket_clears_routing_witness:
  "fst (unregister_local 1 7 (registries sample_joined)) = True \<and>
   local_connections (snd (unregister_local 1 7 (registries sample_joined))) 1 = None \<and>
   1 \<notin> dget (group_connections (snd (unregister_local 1 7 (registries sample_joined)))) 2"
  using last_socket_clears_routing
    [OF sample_run, of 1 7 "snd (unregister_local 1 7 (registries sample_joined))"]
  by (simp add: unregister_local_eq)

text \<open>
  A direct message published for a user reaches exactly the sockets the user has on
  the worker, and a group message exactly the sockets of the group's routed users other than the
  sender; neither changes the registries.
\<close>

theorem message_fanout:
  "safe_dispatch (push_to_user u (dm_event_from_model dm)) s =
     ({(ws, to_dict (dm_event_from_model dm)) |ws. ws \<in> dget (local_connections s) u}, s) \<and>
   safe_dispatch (push_to_group g (gm_event_from_model gm) (Some sender)) s =
     ({(ws, to_dict (gm_event_from_model gm)) |ws m.
         m \<in> dget (group_connections s) g \<and> m \<noteq> sender \<and> ws \<in> dget (local_connections s) m}, s)"
proof -
  have "message_event (dm_event_from_model dm)" "message_event (gm_event_from_model gm)"
    by (simp_all add: message_event_def dm_event_from_model_def gm_event_from_model_def)
  then show ?thesis
    by (auto simp: safe_dispatch_def dispatch_to_user dispatch_to_group send_frame_to_user_sockets_def)
qed

text \<open>
  A published JOIN adds a connected user to the routing list of the group and
  leaves an unconnected one off it; a published LEAVE takes the user off; a published deletion
  clears the list.  In each case the other groups' lists stay as they were.
\<close>

theorem membership_events:
  "dget (group_connections (snd (safe_dispatch (push_group_membership_change u g JOIN) s))) h =
     (if h = g \<and> local_connections s u \<noteq> None then insert u (dget (group_connections s) g)
      else dget (group_connections s) h) \<and>
   dget (group_connections (snd (safe_dispatch (push_group_membership_change u g LEAVE) s))) h =
     (if h = g then dget (group_connections s) g - {u} else dget (group_connections s) h) \<and>
   dget (group_connections (snd (safe_dispatch (push_group_deleted g) s))) h =
     (if h = g then {} else dget (group_connections s) h)"
  by (auto simp: safe_dispatch_def dispatch_membership dispatch_group_deleted Let_def
      membership_join_def membership_leave_def group_deleted_finish_def)

text \<open>
  A registration that meets no fault puts the socket into the user's
  set and the user on the routing list of every group the database says the user belongs to.
\<close>

theorem registration_routes_groups:
  assumes "register_connection R None healthy False d u ws (s, r) = (x, s', r')"
    and "MEMBERSHIP_BY_IDS g u d \<noteq> None" and "db_ok d"
  shows "x = Inr () \<and> ws \<in> dget (local_connections s') u \<and> u \<in> dget (group_connections s') g"
proof -
  from assms(2) obtain m where m: "m \<in> set (memberships d)" "mb_group_id m = g" "mb_user_id m = u"
    by (auto simp: MEMBERSHIP_BY_IDS_def dest!: fetchrow_SomeD)
  with assms(3) obtain r where "r \<in> set (groups d)" "g_group_id r = g"
    by (fastforce simp: db_ok_defs)
  with m have "r \<in> set (LIST_USER_GROUPS u d)"
    by (auto simp: LIST_USER_GROUPS_def)
  then have "g \<in> load_group_ids healthy False u d"
    using \<open>g_group_id r = g\<close>
    by (auto simp: load_group_ids_def connection_healthy db_list_user_groups_def)
  with assms(1) show ?thesis
    by (auto simp: register_connection_def register_finish_def register_begin_def Let_def)
qed

text \<open>
  A LEAVE that a worker handles while a registration still
  holds the group ids it read before is undone by the registration: the user is routed to the group
  again although the membership is gone.
\<close>

theorem leave_during_registration_is_lost:
  assumes "ws \<in> dget (local_connections s) u" and "g \<in> gs"
  shows "u \<in> dget (group_connections
    (register_finish u ws gs (snd (safe_dispatch (push_group_membership_change u g LEAVE) s)))) g"
  using assms
  by (simp add: safe_dispatch_def dispatch_membership Let_def membership_leave_def register_finish_def)

theorem leave_during_registration_is_lost_witness:
  "1 \<in> dget (group_connections (register_finish 1 7 {2}
     (snd (safe_dispatch (push_group_membership_change 1 2 LEAVE) (register_begin 1 7 empty_ws))))) 2"
  by (rule leave_during_registration_is_lost) (simp_all add: register_begin_def)

text \<open>
  When Redis refuses the presence increment, registration raises
  a Redis error and the socket stays in the local registry; the endpoint, which unregisters only
  registered sockets, never removes it.
\<close>

theorem failed_registration_keeps_socket:
  "\<exists>e. register_connection R (Some fault) env timed_out d u ws (s, r) =
     (Inl (RedisExn e), register_begin u ws s, r) \<and>
     ws \<in> dget (local_connections (register_begin u ws s)) u"
  by (cases fault) (simp_all add: register_connection_def handle_redis_errors_def register_begin_def Let_def)

end
