(* ===== verification/Presence.thy ===== *)
theory Presence
  imports Routing
begin

text \<open>
  Presence over the whole cluster: \<open>n\<close> workers with their registries and the shared Redis hash of
  counters.  A counter is incremented for every registered socket and decremented when the last
  socket of the user on a worker closes.
\<close>

section \<open>The cluster\<close>

record 'r cluster =
  workers :: "nat \<Rightarrow> ws_state"
  redis :: 'r

text \<open>
  \<open>single\<close> restricts the runs to users with at most one socket per worker at a time.  An operation
  runs to its end before the next one starts; the race of two operations is treated separately.
\<close>

inductive cluster_step :: "'r redis_ops \<Rightarrow> nat \<Rightarrow> bool \<Rightarrow> 'r cluster \<Rightarrow> 'r cluster \<Rightarrow> bool"
  for R :: "'r redis_ops" and n :: nat and single :: bool where
  connect:
    "i < n \<Longrightarrow> ws \<notin> dget (local_connections (workers c i)) u \<Longrightarrow>
     (single \<longrightarrow> local_connections (workers c i) u = None) \<Longrightarrow>
     register_connection R None env timed_out d u ws (workers c i, redis c) = (Inr (), s', r') \<Longrightarrow>
     cluster_step R n single c (c\<lparr>workers := (workers c)(i := s'), redis := r'\<rparr>)"
| disconnect:
    "i < n \<Longrightarrow> ws \<in> dget (local_connections (workers c i)) u \<Longrightarrow>
     unregister_connection R u ws (workers c i, redis c) = (s', r') \<Longrightarrow>
     cluster_step R n single c (c\<lparr>workers := (workers c)(i := s'), redis := r'\<rparr>)"
| dispatch:
    "i < n \<Longrightarrow> safe_dispatch payload (workers c i) = (frames, s') \<Longrightarrow>
     cluster_step R n single c (c\<lparr>workers := (workers c)(i := s')\<rparr>)"

definition connected :: "'r cluster \<Rightarrow> nat \<Rightarrow> uuid \<Rightarrow> bool" where
  "connected c i u \<longleftrightarrow> local_connections (workers c i) u \<noteq> None"

definition online_workers :: "nat \<Rightarrow> 'r cluster \<Rightarrow> uuid \<Rightarrow> nat set" where
  "online_workers n c u = {i. i < n \<and> connected c i u}"

definition presence_count :: "'r redis_ops \<Rightarrow> 'r \<Rightarrow> uuid \<Rightarrow> int" where
  "presence_count R r u = (case op_hget R r REDIS_KEY (uuid_str u) of None \<Rightarrow> 0 | Some c \<Rightarrow> c)"

definition initial_cluster :: "'r redis_ops \<Rightarrow> 'r cluster \<Rightarrow> bool" where
  "initial_cluster R c \<longleftrightarrow>
     (\<forall>i. workers c i = empty_ws) \<and> (\<forall>f. op_hget R (redis c) REDIS_KEY f = None)"

section \<open>What the counter commands do\<close>

lemma presence_add:
  assumes "redis_hash_laws R"
  shows "op_hget R (add_active_user R (uuid_str u) r) REDIS_KEY (uuid_str v) =
    (if v = u then Some (presence_count R r u + 1) else op_hget R r REDIS_KEY (uuid_str v))"
  using redis_hash_lawsD(1,2) [OF assms] by (simp add: add_active_user_def presence_count_def uuid_str_inject)

lemma presence_remove:
  assumes "redis_hash_laws R"
  shows "op_hget R (remove_active_user R (uuid_str u) r) REDIS_KEY (uuid_str v) =
    (if v = u then if presence_count R r u \<le> 1 then None else Some (presence_count R r u - 1)
     else op_hget R r REDIS_KEY (uuid_str v))"
  using redis_hash_lawsD(1-3) [OF assms]
  by (simp add: remove_active_user_def remove_active_user_decr_def remove_active_user_drop_def
      presence_count_def split_beta uuid_str_inject)

lemma active_iff:
  assumes "redis_hash_laws R"
  shows "uuid_str u \<in> get_active_users R r \<longleftrightarrow> op_hget R r REDIS_KEY (uuid_str u) \<noteq> None"
  using redis_hash_lawsD(4) [OF assms] by (simp add: get_active_users_def)

section \<open>The invariant\<close>

text \<open>
  A stored counter is positive and at least the number of workers the user is connected to, and
  equal to it when every user keeps one socket per worker.
\<close>

definition tracked :: "'r redis_ops \<Rightarrow> nat \<Rightarrow> bool \<Rightarrow> 'r cluster \<Rightarrow> uuid \<Rightarrow> bool" where
  "tracked R n single c u \<longleftrightarrow>
     int (card (online_workers n c u)) \<le> presence_count R (redis c) u \<and>
     (single \<longrightarrow> int (card (online_workers n c u)) = presence_count R (redis c) u) \<and>
     op_hget R (redis c) REDIS_KEY (uuid_str u) \<noteq> Some 0"

definition presence_ok :: "'r redis_ops \<Rightarrow> nat \<Rightarrow> bool \<Rightarrow> 'r cluster \<Rightarrow> bool" where
  "presence_ok R n single c \<longleftrightarrow>
     (\<forall>i u. local_connections (workers c i) u \<noteq> Some {}) \<and> (\<forall>u. tracked R n single c u)"

lemma register_connection_effect:
  assumes "register_connection R None env timed_out d u ws (s, r) = (x, s', r')"
  shows "local_connections s' = dadd u ws (local_connections s)"
    and "r' = add_active_user R (uuid_str u) r"
  using assms
  by (auto simp: register_connection_def register_begin_def register_finish_def Let_def split: if_splits)

lemma unregister_connection_effect:
  assumes "unregister_connection R u ws (s, r) = (s', r')"
  shows "local_connections s' =
      (if dget (local_connections s) u \<subseteq> {ws} then (local_connections s)(u := None)
       else (local_connections s)(u \<mapsto> dget (local_connections s) u - {ws}))"
    and "r' = (if dget (local_connections s) u \<subseteq> {ws} then remove_active_user R (uuid_str u) r else r)"
  using assms by (auto simp: unregister_connection_def unregister_local_eq split: if_splits)

lemma finite_online [simp]: "finite (online_workers n c u)"
  by (rule finite_subset [of _ "{..<n}"]) (auto simp: online_workers_def)

lemma online_upd:
  "i < n \<Longrightarrow> online_workers n (c\<lparr>workers := (workers c)(i := s'), redis := r'\<rparr>) v =
     (if local_connections s' v \<noteq> None then insert i (online_workers n c v) else online_workers n c v - {i})"
  by (auto simp: online_workers_def connected_def)

lemma online_upd_same:
  "i < n \<Longrightarrow> local_connections s' v = local_connections (workers c i) v \<Longrightarrow>
     online_workers n (c\<lparr>workers := (workers c)(i := s'), redis := r'\<rparr>) v = online_workers n c v"
  by (auto simp: online_workers_def connected_def)

lemma connect_tracked:
  assumes R: "redis_hash_laws R" and i: "i < n" and ok: "tracked R n single c v"
    and new: "single \<longrightarrow> local_connections (workers c i) u = None"
    and lc: "local_connections s' = dadd u ws (local_connections (workers c i))"
    and r: "r' = add_active_user R (uuid_str u) (redis c)"
  shows "tracked R n single (c\<lparr>workers := (workers c)(i := s'), redis := r'\<rparr>) v"
proof (cases "v = u")
  case False
  then have "online_workers n (c\<lparr>workers := (workers c)(i := s'), redis := r'\<rparr>) v = online_workers n c v"
    using i lc by (intro online_upd_same) (simp_all add: dadd_def)
  with False ok show ?thesis by (simp add: tracked_def presence_count_def r presence_add [OF R])
next
  case True
  have on: "online_workers n (c\<lparr>workers := (workers c)(i := s'), redis := r'\<rparr>) u =
      insert i (online_workers n c u)"
    using i lc by (simp add: online_upd dadd_def)
  have "i \<notin> online_workers n c u" if single
    using that new by (simp add: online_workers_def connected_def)
  moreover have "card (insert i (online_workers n c u)) \<le> card (online_workers n c u) + 1"
    by (simp add: card_insert_if)
  ultimately show ?thesis
    using ok True on by (auto simp: tracked_def presence_count_def r presence_add [OF R])
qed

lemma disconnect_tracked:
  assumes R: "redis_hash_laws R" and i: "i < n" and ok: "tracked R n single c v"
    and there: "ws \<in> dget (local_connections (workers c i)) u"
    and eff: "unregister_connection R u ws (workers c i, redis c) = (s', r')"
  shows "tracked R n single (c\<lparr>workers := (workers c)(i := s'), redis := r'\<rparr>) v"
proof (cases "v = u \<and> dget (local_connections (workers c i)) u \<subseteq> {ws}")
  case True
  have on: "online_workers n (c\<lparr>workers := (workers c)(i := s'), redis := r'\<rparr>) u = online_workers n c u - {i}"
    using i True unregister_connection_effect(1) [OF eff] by (simp add: online_upd)
  have "i \<in> online_workers n c u"
    using i in_domI_dget [OF there] by (simp add: online_workers_def connected_def)
  then obtain k where k: "card (online_workers n c u - {i}) = k" "card (online_workers n c u) = k + 1"
    using card_Suc_Diff1 [of "online_workers n c u" i] by (metis Suc_eq_plus1 finite_online)
  have "op_hget R r' REDIS_KEY (uuid_str u) =
      (if presence_count R (redis c) u \<le> 1 then None else Some (presence_count R (redis c) u - 1))"
    using True unregister_connection_effect(2) [OF eff] by (simp add: presence_remove [OF R])
  then have "presence_count R r' u = (if presence_count R (redis c) u \<le> 1 then 0 else presence_count R (redis c) u - 1)"
    "op_hget R r' REDIS_KEY (uuid_str u) \<noteq> Some 0"
    by (simp_all add: presence_count_def)
  moreover have "int (k + 1) \<le> presence_count R (redis c) u"
    "single \<longrightarrow> int (k + 1) = presence_count R (redis c) u"
    using ok True k by (simp_all add: tracked_def)
  ultimately have "int k \<le> presence_count R r' u" "single \<longrightarrow> int k = presence_count R r' u"
    by auto
  with \<open>op_hget R r' REDIS_KEY (uuid_str u) \<noteq> Some 0\<close> show ?thesis
    using True on k by (simp add: tracked_def)
next
  case False
  have "local_connections s' v \<noteq> None \<longleftrightarrow> connected c i v"
    using False unregister_connection_effect(1) [OF eff] in_domI_dget [OF there]
    by (auto simp: connected_def)
  then have "online_workers n (c\<lparr>workers := (workers c)(i := s'), redis := r'\<rparr>) v = online_workers n c v"
    using i by (auto simp: online_workers_def connected_def split: if_splits)
  moreover have "op_hget R r' REDIS_KEY (uuid_str v) = op_hget R (redis c) REDIS_KEY (uuid_str v)"
    using False unregister_connection_effect(2) [OF eff] by (auto simp: presence_remove [OF R])
  ultimately show ?thesis using ok by (simp add: tracked_def presence_count_def)
qed

lemma dispatch_tracked:
  assumes "i < n" and "tracked R n single c v" and "safe_dispatch payload (workers c i) = (frames, s')"
  shows "tracked R n single (c\<lparr>workers := (workers c)(i := s')\<rparr>) v"
proof -
  have "local_connections s' = local_connections (workers c i)"
    using safe_dispatch_connections [of payload "workers c i"] assms(3) by simp
  then have "online_workers n (c\<lparr>workers := (workers c)(i := s')\<rparr>) v = online_workers n c v"
    by (auto simp: online_workers_def connected_def)
  with assms(2) show ?thesis by (simp add: tracked_def)
qed

lemma cluster_step_ok:
  assumes R: "redis_hash_laws R" and step: "cluster_step R n single c c'" and ok: "presence_ok R n single c"
  shows "presence_ok R n single c'"
  using step
proof cases
  case (connect i ws u env timed_out d s' r')
  note eff = register_connection_effect [OF connect(5)]
  have "tracked R n single c' v" for v
    using ok connect connect_tracked [OF R _ _ _ eff] by (auto simp: presence_ok_def)
  moreover have "local_connections (workers c' j) v \<noteq> Some {}" for j v
    using ok connect(1) eff by (auto simp: presence_ok_def)
  ultimately show ?thesis by (simp add: presence_ok_def)
next
  case (disconnect i ws u s' r')
  have "tracked R n single c' v" for v
    using ok disconnect disconnect_tracked [OF R] by (auto simp: presence_ok_def)
  moreover have "local_connections (workers c' j) v \<noteq> Some {}" for j v
    using ok disconnect(1,3) unregister_connection_effect(1) [OF disconnect(4)]
    by (auto simp: presence_ok_def)
  ultimately show ?thesis by (simp add: presence_ok_def)
next
  case (dispatch i payload frames s')
  have "local_connections s' = local_connections (workers c i)"
    using safe_dispatch_connections [of payload "workers c i"] dispatch by simp
  moreover have "tracked R n single c' v" for v
    using ok dispatch_tracked [OF dispatch(2) _ dispatch(3)] dispatch(1) by (simp add: presence_ok_def)
  ultimately show ?thesis using ok dispatch(1) by (auto simp: presence_ok_def)
qed

lemma initial_cluster_ok: "initial_cluster R c \<Longrightarrow> presence_ok R n single c"
  by (simp add: initial_cluster_def presence_ok_def tracked_def online_workers_def connected_def
      empty_ws_def presence_count_def)

text \<open>The laws are a hypothesis, so the system carries them in its invariant.\<close>

interpretation presence: invariant_system "cluster_step R n single"
  "\<lambda>c. redis_hash_laws R \<longrightarrow> presence_ok R n single c" for R n single
  by unfold_locales (auto intro: cluster_step_ok)

lemma presence_run:
  "redis_hash_laws R \<Longrightarrow> initial_cluster R c \<Longrightarrow> rtranclp (cluster_step R n single) c c' \<Longrightarrow>
     tracked R n single c' u"
  using presence.run_inv [of R n single c c'] initial_cluster_ok [of R c n single]
  unfolding presence_ok_def by blast

section \<open>A Redis hash to evaluate with\<close>

text \<open>An association list from key and field to the counter.\<close>

definition hash_get :: "((string \<times> string) \<times> int) list \<Rightarrow> string \<Rightarrow> string \<Rightarrow> int option" where
  "hash_get r k f = map_of r (k, f)"

definition hash_del ::
    "((string \<times> string) \<times> int) list \<Rightarrow> string \<Rightarrow> string \<Rightarrow> ((string \<times> string) \<times> int) list" where
  "hash_del r k f = filter (\<lambda>p. fst p \<noteq> (k, f)) r"

definition assoc_redis :: "((string \<times> string) \<times> int) list redis_ops" where
  "assoc_redis =
     \<lparr>op_hincrby = (\<lambda>r k f n.
        let v = (case hash_get r k f of None \<Rightarrow> 0 | Some c \<Rightarrow> c) + n in (v, ((k, f), v) # hash_del r k f)),
      op_hdel = hash_del,
      op_hkeys = (\<lambda>r k. map (snd \<circ> fst) (filter (\<lambda>p. fst (fst p) = k) r)),
      op_hget = hash_get\<rparr>"

lemma map_of_hash_del: "map_of (hash_del r k f) (k', f') = (if k' = k \<and> f' = f then None else map_of r (k', f'))"
  unfolding hash_del_def by (induction r) auto

lemma assoc_redis_laws: "redis_hash_laws assoc_redis"
proof -
  have "f \<in> set (map (snd \<circ> fst) (filter (\<lambda>p. fst (fst p) = k) r)) \<longleftrightarrow> map_of r (k, f) \<noteq> None"
    for f k and r :: "((string \<times> string) \<times> int) list"
    by (induction r) auto
  then show ?thesis
    by (simp add: redis_hash_laws_def assoc_redis_def hash_get_def map_of_hash_del Let_def)
qed

section \<open>Properties of presence\<close>

text \<open>A cluster of two workers to evaluate with: user 1 opens socket 7 on worker 0.\<close>

definition sample_start :: "((string \<times> string) \<times> int) list cluster" where
  "sample_start = \<lparr>workers = (\<lambda>i. empty_ws), redis = []\<rparr>"

definition sample_online :: "((string \<times> string) \<times> int) list cluster" where
  "sample_online =
     (case register_connection assoc_redis None healthy True empty_db 1 7 (empty_ws, []) of
        (x, s, r) \<Rightarrow> \<lparr>workers = (\<lambda>i. empty_ws)(0 := s), redis = r\<rparr>)"

lemma sample_start_initial: "initial_cluster assoc_redis sample_start"
  by (simp add: initial_cluster_def sample_start_def assoc_redis_def hash_get_def)

lemma sample_online_run: "rtranclp (cluster_step assoc_redis 2 single) sample_start sample_online"
proof (rule r_into_rtranclp)
  obtain s r where r: "register_connection assoc_redis None healthy True empty_db 1 7 (empty_ws, []) = (Inr (), s, r)"
    by (simp add: register_connection_def Let_def)
  have "cluster_step assoc_redis 2 single sample_start
      (sample_start\<lparr>workers := (workers sample_start)(0 := s), redis := r\<rparr>)"
    using r by (intro cluster_step.connect) (simp_all add: sample_start_def empty_ws_def)
  then show "cluster_step assoc_redis 2 single sample_start sample_online"
    by (simp add: sample_online_def sample_start_def r)
qed

lemma sample_online_connected: "connected sample_online 0 1"
  by (simp add: sample_online_def register_connection_def Let_def connected_def register_finish_def
      register_begin_def dadd_def)





text \<open>
  C31 (second_socket_leaks_presence): Every registration increments the counter but only the last removal
  on a worker decrements it: a user who opens two sockets on one worker and closes both stays
  active although no socket is left.
\<close>

theorem second_socket_leaks_presence:
  assumes "redis_hash_laws R" and "op_hget R r REDIS_KEY (uuid_str u) = None" and "a \<noteq> b"
  shows "let opened = snd (register_connection R None env timed_out d u b
               (snd (register_connection R None env timed_out d u a (empty_ws, r))));
             closed = unregister_connection R u b (unregister_connection R u a opened)
         in local_connections (fst closed) u = None \<and> uuid_str u \<in> get_active_users R (snd closed) \<and>
            presence_count R (snd closed) u = 1"
proof -
  obtain x1 s1 r1 where 1: "register_connection R None env timed_out d u a (empty_ws, r) = (x1, s1, r1)"
    by (metis prod_cases3)
  obtain x2 s2 r2 where 2: "register_connection R None env timed_out d u b (s1, r1) = (x2, s2, r2)"
    by (metis prod_cases3)
  obtain s3 r3 where 3: "unregister_connection R u a (s2, r2) = (s3, r3)" by fastforce
  obtain s4 r4 where 4: "unregister_connection R u b (s3, r3) = (s4, r4)" by fastforce
  have "local_connections s2 u = Some {a, b}"
    using register_connection_effect(1) [OF 1] register_connection_effect(1) [OF 2]
    by (auto simp: dadd_def empty_ws_def)
  then have "local_connections s3 u = Some {b}" "r3 = r2"
    using unregister_connection_effect [OF 3] assms(3) by auto
  then have s4: "local_connections s4 u = None" and r4: "r4 = remove_active_user R (uuid_str u) r2"
    using unregister_connection_effect [OF 4] by auto
  have "presence_count R r2 u = 2"
    using register_connection_effect(2) [OF 1] register_connection_effect(2) [OF 2] assms(2)
    by (simp add: presence_count_def presence_add [OF assms(1)])
  then have "op_hget R r4 REDIS_KEY (uuid_str u) = Some 1"
    by (simp add: r4 presence_remove [OF assms(1)])
  with s4 show ?thesis
    by (simp add: 1 2 3 4 active_iff [OF assms(1)] presence_count_def)
qed

theorem second_socket_leaks_presence_witness:
  "uuid_str 1 \<in> get_active_users assoc_redis (snd
     (unregister_connection assoc_redis 1 8 (unregister_connection assoc_redis 1 7
       (snd (register_connection assoc_redis None healthy True empty_db 1 8
         (snd (register_connection assoc_redis None healthy True empty_db 1 7 (empty_ws, []))))))))"
proof -
  have "op_hget assoc_redis [] REDIS_KEY (uuid_str 1) = None"
    by (simp add: assoc_redis_def hash_get_def)
  from second_socket_leaks_presence [OF assoc_redis_laws this, of 7 8 healthy True empty_db]
  show ?thesis by (simp add: Let_def)
qed

text \<open>
  The decrement and the removal of the field are two commands: an increment
  of another worker that falls between them is lost, and the newly connected user is not active.
\<close>

theorem decrement_delete_race:
  assumes "redis_hash_laws R" and "presence_count R r u = 1"
    and "remove_active_user_decr R (uuid_str u) r = (cnt, r1)"
  shows "cnt = 0 \<and> presence_count R (add_active_user R (uuid_str u) r1) u = 1 \<and>
    uuid_str u \<notin> get_active_users R
      (remove_active_user_drop R (uuid_str u) cnt (add_active_user R (uuid_str u) r1))"
proof -
  have "cnt = fst (op_hincrby R r REDIS_KEY (uuid_str u) (-1))"
    and r1: "r1 = snd (op_hincrby R r REDIS_KEY (uuid_str u) (-1))"
    using assms(3) by (simp_all add: remove_active_user_decr_def)
  then have cnt: "cnt = 0"
    using redis_hash_lawsD(1) [OF assms(1)] assms(2) by (simp add: presence_count_def)
  then have "op_hget R r1 REDIS_KEY (uuid_str u) = Some 0"
    using redis_hash_lawsD(2) [OF assms(1)] \<open>cnt = fst _\<close> by (simp add: r1)
  then show ?thesis
    using redis_hash_lawsD(3) [OF assms(1)] cnt
    by (simp add: active_iff [OF assms(1)] remove_active_user_drop_def presence_count_def presence_add [OF assms(1)])
qed

theorem decrement_delete_race_witness:
  "uuid_str 1 \<notin> get_active_users assoc_redis
     (remove_active_user_drop assoc_redis (uuid_str 1) 0
       (add_active_user assoc_redis (uuid_str 1)
         (snd (remove_active_user_decr assoc_redis (uuid_str 1) [((REDIS_KEY, uuid_str 1), 1)]))))"
proof -
  let ?r = "[((REDIS_KEY, uuid_str 1), 1)]"
  have "presence_count assoc_redis ?r 1 = 1"
    by (simp add: presence_count_def assoc_redis_def hash_get_def)
  from decrement_delete_race [OF assoc_redis_laws this prod.collapse [symmetric]] show ?thesis by metis
qed

end
