(* ===== verification/Ws_Endpoint.thy ===== *)
theory Ws_Endpoint
  imports Presence Dependencies
begin

text \<open>
  The WebSocket endpoint of \<open>src/src/api/routers/websocket.py\<close>: authentication of the handshake,
  registration of the socket, the receive loop, and the clean-up of the \<open>finally\<close> block.  Frames the
  client sends are read and ignored, so the loop is what the rest of the worker does meanwhile, an
  arbitrary function on the registries and Redis, and the way it ends.
\<close>

section \<open>Removal with faults\<close>

text \<open>
  \<open>unregister_connection\<close> when Redis may fail: at the decrement, or at the removal of a used-up
  counter.  The registries are cleaned before the first command is sent.
\<close>

datatype removal_fault = NoFault | DecrementFails redis_exc | DropFails redis_exc

definition unregister_faulty ::
    "'r redis_ops \<Rightarrow> removal_fault \<Rightarrow> uuid \<Rightarrow> socket \<Rightarrow> ws_state \<times> 'r \<Rightarrow> unit result \<times> ws_state \<times> 'r" where
  "unregister_faulty R fault user_id ws sr =
     (case unregister_local user_id ws (fst sr) of
        (final, s') \<Rightarrow>
          if \<not> final then (Inr (), s', snd sr)
          else (case fault of
                  DecrementFails e \<Rightarrow> (handle_redis_errors ''remove_active_user'' (Inl e), s', snd sr)
                | NoFault \<Rightarrow> (Inr (), s', remove_active_user R (uuid_str user_id) (snd sr))
                | DropFails e \<Rightarrow>
                    (case remove_active_user_decr R (uuid_str user_id) (snd sr) of
                       (cnt, r') \<Rightarrow>
                         if cnt \<le> 0 then (handle_redis_errors ''remove_active_user'' (Inl e), s', r')
                         else (Inr (), s', r'))))"

lemma unregister_faulty_none: "snd (unregister_faulty R NoFault u ws sr) = unregister_connection R u ws sr"
  by (simp add: unregister_faulty_def unregister_connection_def split: prod.split)

section \<open>The session\<close>

text \<open>How the receive loop ends: the client goes away, or anything else is raised; both are caught.\<close>

datatype session_end = WebSocketDisconnect | UnexpectedError exn

text \<open>
  The endpoint after the handshake.  An error of \<open>register_connection\<close> is caught with \<open>is_registered\<close>
  still false, so the \<open>finally\<close> block does nothing; an error of \<open>unregister_connection\<close> is logged.
\<close>

definition websocket_session ::
    "'r redis_ops \<Rightarrow> redis_exc option \<Rightarrow> db_env \<Rightarrow> bool \<Rightarrow> db \<Rightarrow> (ws_state \<times> 'r \<Rightarrow> ws_state \<times> 'r) \<Rightarrow>
     session_end \<Rightarrow> removal_fault \<Rightarrow> uuid \<Rightarrow> socket \<Rightarrow> ws_state \<times> 'r \<Rightarrow> ws_state \<times> 'r" where
  "websocket_session R fault env timed_out d meanwhile ending rem_fault user_id ws sr =
     (case register_connection R fault env timed_out d user_id ws sr of
        (Inl e, sr') \<Rightarrow> sr'
      | (Inr _, sr') \<Rightarrow> snd (unregister_faulty R rem_fault user_id ws (meanwhile sr')))"

text \<open>
  The whole endpoint: a handshake whose token is refused never reaches the registries.
\<close>

definition websocket_endpoint ::
    "'c ttl_ops \<Rightarrow> db_env \<Rightarrow> timestamp \<Rightarrow> timestamp \<Rightarrow> string option \<Rightarrow>
     'r redis_ops \<Rightarrow> redis_exc option \<Rightarrow> db_env \<Rightarrow> bool \<Rightarrow> db \<Rightarrow> (ws_state \<times> 'r \<Rightarrow> ws_state \<times> 'r) \<Rightarrow>
     session_end \<Rightarrow> removal_fault \<Rightarrow> socket \<Rightarrow> 'c \<Rightarrow> ws_state \<times> 'r \<Rightarrow> bool \<times> 'c \<times> ws_state \<times> 'r" where
  "websocket_endpoint C auth_env tick now token R fault env timed_out d meanwhile ending rem_fault ws c sr =
     (case get_current_user_ws C auth_env tick now token d c of
        (closed, Inl e, c') \<Rightarrow> (closed, c', sr)
      | (closed, Inr user, c') \<Rightarrow>
          (False, c',
           websocket_session R fault env timed_out d meanwhile ending rem_fault (u_user_id user) ws sr))"

section \<open>Facts\<close>

lemma unregister_faulty_local:
  "fst (snd (unregister_faulty R fault u ws sr)) = snd (unregister_local u ws (fst sr))"
  by (auto simp: unregister_faulty_def split: prod.splits removal_fault.splits)

lemma unregister_local_removes: "ws \<notin> dget (local_connections (snd (unregister_local u ws s))) u"
  by (auto simp: unregister_local_eq)

lemma registration_registers:
  "register_connection R fault env timed_out d u ws sr = (r, sr') \<Longrightarrow> ws \<in> dget (local_connections (fst sr')) u"
  by (auto simp: register_connection_def register_begin_def register_finish_def Let_def
      split: option.splits if_splits)

lemma registration_fails_iff:
  "(\<exists>e. fst (register_connection R fault env timed_out d u ws sr) = Inl e) \<longleftrightarrow> fault \<noteq> None"
  by (cases fault)
    (auto simp: register_connection_def Let_def handle_redis_errors_def split: redis_exc.splits)

section \<open>Properties of the endpoint\<close>

text \<open>
  C32 (ended_sessions_leave_no_socket): However a session ends, whatever the worker did meanwhile and
  even when Redis fails during the clean-up: once the endpoint of a registered socket returns, the
  socket is out of the registry, and if it was the user's last one on a worker whose registries were
  consistent the user is out of all routing.
\<close>

theorem ended_sessions_leave_no_socket:
  assumes "routing_ok (fst (meanwhile (snd (register_connection R None env timed_out d u ws sr))))"
  shows "let s = fst (websocket_session R None env timed_out d meanwhile ending rem_fault u ws sr)
    in ws \<notin> dget (local_connections s) u \<and>
       (local_connections s u = None \<longrightarrow> user_groups s u = None \<and> (\<forall>g. u \<notin> dget (group_connections s) g))"
proof -
  let ?m = "meanwhile (snd (register_connection R None env timed_out d u ws sr))"
  have eq: "fst (websocket_session R None env timed_out d meanwhile ending rem_fault u ws sr) =
      snd (unregister_local u ws (fst ?m))"
    by (simp add: websocket_session_def register_connection_def Let_def unregister_faulty_local)
  have "g \<in> dget (user_groups (fst ?m)) u" if "u \<in> dget (group_connections (fst ?m)) g" for g
    using routing_okD(3) [OF assms that] .
  then show ?thesis
    using unregister_local_removes [of ws u "fst ?m"]
    by (auto simp: eq Let_def unregister_local_eq split: if_splits)
qed

theorem ended_sessions_leave_no_socket_witness:
  "local_connections (fst (websocket_session assoc_redis None healthy True empty_db id WebSocketDisconnect
      (DecrementFails (DriverTimeoutError ''t'')) 1 7 (empty_ws, []))) 1 = None \<and>
   7 \<notin> dget (local_connections (fst (websocket_session assoc_redis None healthy True empty_db id WebSocketDisconnect
      (DecrementFails (DriverTimeoutError ''t'')) 1 7 (empty_ws, [])))) 1"
proof -
  have "routing_ok (fst (id (snd (register_connection assoc_redis None healthy True empty_db 1 7 (empty_ws, [])))))"
    by (simp add: register_connection_def register_begin_def register_finish_def load_group_ids_def routing_ok_def
        dadd_def empty_ws_def add_to_groups_def Let_def)
  note ended_sessions_leave_no_socket [where meanwhile = id, OF this,
      of WebSocketDisconnect "DecrementFails (DriverTimeoutError ''t'')"]
  then show ?thesis
    by (simp add: websocket_session_def register_connection_def register_begin_def register_finish_def
        load_group_ids_def unregister_faulty_local unregister_local_eq dadd_def empty_ws_def Let_def)
qed

text \<open>
  C33 (failed_registration_leaks_socket): When Redis refuses the presence increment the endpoint returns
  with the socket still registered: every later frame for the user is sent to the dead socket, and
  the user counts as connected on this worker.
\<close>

theorem failed_registration_leaks_socket:
  "let s = fst (websocket_session R (Some fault) env timed_out d meanwhile ending rem_fault u ws sr)
   in ws \<in> dget (local_connections s) u \<and> (ws, frame) \<in> send_frame_to_user_sockets u frame s"
proof -
  obtain e sr' where r: "register_connection R (Some fault) env timed_out d u ws sr = (Inl e, sr')"
    using registration_fails_iff [of R "Some fault" env timed_out d u ws sr]
    by (cases "register_connection R (Some fault) env timed_out d u ws sr") auto
  from registration_registers [OF r] show ?thesis
    by (simp add: websocket_session_def r send_frame_to_user_sockets_def Let_def)
qed

text \<open>
  A handshake without a token, or with one that is neither
  cached nor valid in the database, is closed with the policy-violation code and touches neither the
  registries nor Redis.
\<close>

theorem refused_handshakes_register_nothing:
  assumes "\<And>tok. token = Some tok \<Longrightarrow> tok \<noteq> [] \<Longrightarrow>
      cache_get C tick (hash_token tok) c = None \<and> (\<forall>v. \<not> valid_session d now (hash_token tok) v)"
  shows "websocket_endpoint C healthy tick now token R fault env timed_out d meanwhile ending rem_fault ws c sr =
    (True, c, sr)"
proof (cases "token = None \<or> token = Some []")
  case True
  then show ?thesis by (auto simp: websocket_endpoint_def get_current_user_ws_def)
next
  case False
  then obtain tok where tok: "token = Some tok" "tok \<noteq> []" by auto
  then have "cache_get C tick (hash_token tok) c = None" "\<forall>v. \<not> valid_session d now (hash_token tok) v"
    using assms by auto
  from authenticate_refused [OF this, of False] tok show ?thesis
    by (auto simp: websocket_endpoint_def get_current_user_ws_def)
qed

theorem refused_handshakes_register_nothing_witness:
  "websocket_endpoint list_ttl healthy 0 1000 (Some ''abc'') assoc_redis None healthy False session_db id
     WebSocketDisconnect NoFault 7 [] (empty_ws, []) = (True, [], empty_ws, [])"
  by (rule refused_handshakes_register_nothing)
    (auto simp: cache_get_def list_ttl_def valid_session_def session_db_def FETCH_ACCESS_TOKEN_def)

end
