(* ===== verification/Json_Text.thy ===== *)
theory Json_Text
  imports Events
begin

text \<open>
  The text of a payload: \<open>json.dumps\<close>, which every publication applies, and \<open>json.loads\<close>, which
  every listener applies, of the standard library's \<open>json\<close> module.  The encoder is the default one:
  separators with a space, every character outside the printable ASCII range escaped.  The decoder
  covers the values the program writes, which are null, texts and objects of these; on numbers,
  arrays and the two truth values, which no publisher of the program writes, it fails like on
  malformed text.
\<close>

section \<open>Encoding\<close>

definition esc_char :: "char \<Rightarrow> string" where
  "esc_char c =
     (if c = CHR 0x22 then [CHR 0x5C, CHR 0x22]
      else if c = CHR 0x5C then [CHR 0x5C, CHR 0x5C]
      else if c = CHR 0x0A then [CHR 0x5C, CHR ''n'']
      else if c = CHR 0x0D then [CHR 0x5C, CHR ''r'']
      else if c = CHR 0x09 then [CHR 0x5C, CHR ''t'']
      else if c = CHR 0x0C then [CHR 0x5C, CHR ''f'']
      else if c = CHR 0x08 then [CHR 0x5C, CHR ''b'']
      else if 32 \<le> char_code c \<and> char_code c \<le> 126 then [c]
      else [CHR 0x5C, CHR ''u'', CHR ''0'', CHR ''0'', digit_char (char_code c div 16),
            digit_char (char_code c mod 16)])"

definition dumps_str :: "string \<Rightarrow> string" where
  "dumps_str s = CHR 0x22 # concat (map esc_char s) @ [CHR 0x22]"

fun dumps :: "json \<Rightarrow> string" and dumps_fields :: "(string \<times> json) list \<Rightarrow> string" where
  "dumps JNull = ''null''"
| "dumps (JStr s) = dumps_str s"
| "dumps (JObj fs) = ''{'' @ dumps_fields fs @ ''}''"
| "dumps_fields [] = []"
| "dumps_fields ((k, v) # fs) =
     dumps_str k @ '': '' @ dumps v @ (case fs of [] \<Rightarrow> [] | f # fs' \<Rightarrow> '', '' @ dumps_fields fs)"

section \<open>Decoding\<close>

definition json_ws :: "char \<Rightarrow> bool" where
  "json_ws c \<longleftrightarrow> c \<in> {CHR '' '', CHR 0x09, CHR 0x0A, CHR 0x0D}"

abbreviation skip_ws :: "string \<Rightarrow> string" where
  "skip_ws s \<equiv> dropWhile json_ws s"

definition simple_escape :: "char \<Rightarrow> char option" where
  "simple_escape e =
     map_of [(CHR 0x22, CHR 0x22), (CHR 0x5C, CHR 0x5C), (CHR ''/'', CHR ''/''), (CHR ''b'', CHR 0x08),
             (CHR ''f'', CHR 0x0C), (CHR ''n'', CHR 0x0A), (CHR ''r'', CHR 0x0D), (CHR ''t'', CHR 0x09)] e"

text \<open>The four digits of an escape; a code beyond the range of a character of the model fails.\<close>

definition hex4 :: "char \<Rightarrow> char \<Rightarrow> char \<Rightarrow> char \<Rightarrow> char option" where
  "hex4 a b c d =
     (case (hex_value a, hex_value b, hex_value c, hex_value d) of
        (Some w, Some x, Some y, Some z) \<Rightarrow>
          if w = 0 \<and> x = 0 then Some (char_of (16 * y + z :: nat)) else None
      | _ \<Rightarrow> None)"

fun scan_str :: "string \<Rightarrow> (string \<times> string) option" where
  "scan_str [] = None"
| "scan_str (c # cs) =
     (if c = CHR 0x22 then Some ([], cs)
      else if c = CHR 0x5C then
        (case cs of
           [] \<Rightarrow> None
         | e # rest \<Rightarrow>
             if e = CHR ''u'' then
               (case rest of
                  h1 # h2 # h3 # h4 # rest' \<Rightarrow>
                    (case hex4 h1 h2 h3 h4 of
                       None \<Rightarrow> None
                     | Some ch \<Rightarrow> map_option (apfst ((#) ch)) (scan_str rest'))
                | _ \<Rightarrow> None)
             else
               (case simple_escape e of
                  None \<Rightarrow> None
                | Some ch \<Rightarrow> map_option (apfst ((#) ch)) (scan_str rest)))
      else if char_code c < 32 then None
      else map_option (apfst ((#) c)) (scan_str cs))"

text \<open>Building a dictionary from the pairs read: a repeated key keeps its place, the last value wins.\<close>

fun dict_set :: "string \<Rightarrow> json \<Rightarrow> (string \<times> json) list \<Rightarrow> (string \<times> json) list" where
  "dict_set k v [] = [(k, v)]"
| "dict_set k v ((k', v') # fs) = (if k' = k then (k, v) # fs else (k', v') # dict_set k v fs)"

definition dict_of :: "(string \<times> json) list \<Rightarrow> (string \<times> json) list" where
  "dict_of ps = fold (\<lambda>(k, v). dict_set k v) ps []"

text \<open>
  A value, and the members of an object after the opening quote of the first key.  The fuel bounds
  the nesting and the number of members; the length of the text is always enough.
\<close>

fun scan_value :: "nat \<Rightarrow> string \<Rightarrow> (json \<times> string) option"
  and scan_members :: "nat \<Rightarrow> string \<Rightarrow> ((string \<times> json) list \<times> string) option" where
  "scan_value 0 s = None"
| "scan_value (Suc n) s =
     (case s of
        [] \<Rightarrow> None
      | c # cs \<Rightarrow>
          if c = CHR 0x22 then map_option (apfst JStr) (scan_str cs)
          else if c = CHR ''{'' then
            (case skip_ws cs of
               [] \<Rightarrow> None
             | c1 # cs1 \<Rightarrow>
                 if c1 = CHR ''}'' then Some (JObj [], cs1)
                 else if c1 = CHR 0x22 then map_option (apfst (\<lambda>ps. JObj (dict_of ps))) (scan_members n cs1)
                 else None)
          else if take 4 s = ''null'' then Some (JNull, drop 4 s)
          else None)"
| "scan_members 0 s = None"
| "scan_members (Suc n) s =
     (case scan_str s of
        None \<Rightarrow> None
      | Some (k, s1) \<Rightarrow>
          (case skip_ws s1 of
             [] \<Rightarrow> None
           | c # s2 \<Rightarrow>
               if c \<noteq> CHR '':'' then None
               else
                 (case scan_value n (skip_ws s2) of
                    None \<Rightarrow> None
                  | Some (v, s3) \<Rightarrow>
                      (case skip_ws s3 of
                         [] \<Rightarrow> None
                       | c3 # s4 \<Rightarrow>
                           if c3 = CHR ''}'' then Some ([(k, v)], s4)
                           else if c3 = CHR '','' then
                             (case skip_ws s4 of
                                [] \<Rightarrow> None
                              | q # s5 \<Rightarrow>
                                  if q = CHR 0x22 then map_option (apfst ((#) (k, v))) (scan_members n s5)
                                  else None)
                           else None))))"

definition loads :: "string \<Rightarrow> json option" where
  "loads s =
     (case scan_value (length s) (skip_ws s) of
        None \<Rightarrow> None
      | Some (v, rest) \<Rightarrow> if skip_ws rest = [] then Some v else None)"

section \<open>Decoding what was encoded\<close>

text \<open>Python dictionaries have each key once.\<close>

fun json_distinct :: "json \<Rightarrow> bool" and fields_distinct :: "(string \<times> json) list \<Rightarrow> bool" where
  "json_distinct JNull = True"
| "json_distinct (JStr s) = True"
| "json_distinct (JObj fs) = fields_distinct fs"
| "fields_distinct [] = True"
| "fields_distinct ((k, v) # fs) = (k \<notin> fst ` set fs \<and> json_distinct v \<and> fields_distinct fs)"

declare scan_str.simps(2) [simp del] scan_value.simps [simp del] scan_members.simps [simp del]

lemma hex4_digits:
  "hex4 (CHR ''0'') (CHR ''0'') (digit_char (char_code c div 16)) (digit_char (char_code c mod 16)) = Some c"
proof -
  have "char_code c < 256" by (rule nat_of_char_less_256)
  then have "char_code c div 16 < 16" by linarith
  then show ?thesis by (simp add: hex4_def digit_char_cases hex_value_def [of "CHR ''0''"])
qed

lemma scan_esc: "scan_str (esc_char c @ t) = map_option (apfst ((#) c)) (scan_str t)"
proof (cases "c \<in> {CHR 0x22, CHR 0x5C, CHR 0x0A, CHR 0x0D, CHR 0x09, CHR 0x0C, CHR 0x08}")
  case True
  then show ?thesis by (auto simp: esc_char_def scan_str.simps simple_escape_def)
next
  case False
  then show ?thesis
    by (cases "32 \<le> char_code c \<and> char_code c \<le> 126") (simp_all add: esc_char_def scan_str.simps hex4_digits)
qed

lemma scan_str_dumps: "scan_str (concat (map esc_char s) @ CHR 0x22 # rest) = Some (s, rest)"
  by (induction s) (simp_all add: scan_esc scan_str.simps(2))

lemma dumps_head: "\<exists>c cs. dumps j = c # cs \<and> \<not> json_ws c"
  by (cases j) (auto simp: dumps_str_def json_ws_def)

lemma skip_ws_dumps: "skip_ws (dumps j @ t) = dumps j @ t"
  using dumps_head [of j] by auto

lemma json_ws_simps [simp]:
  "json_ws (CHR '' '')" "\<not> json_ws (CHR '':'')" "\<not> json_ws (CHR '','')" "\<not> json_ws (CHR ''}'')"
  "\<not> json_ws (CHR 0x22)"
  by (simp_all add: json_ws_def)

lemma dict_set_new: "k \<notin> fst ` set fs \<Longrightarrow> dict_set k v fs = fs @ [(k, v)]"
  by (induction k v fs rule: dict_set.induct) auto

lemma fold_dict_set:
  "distinct (map fst (acc @ ps)) \<Longrightarrow> fold (\<lambda>(k, v). dict_set k v) ps acc = acc @ ps"
proof (induction ps arbitrary: acc)
  case (Cons p ps)
  then show ?case by (cases p) (simp add: dict_set_new image_iff)
qed simp

lemma fields_distinct_keys: "fields_distinct fs \<Longrightarrow> distinct (map fst fs)"
proof (induction fs)
  case (Cons p fs)
  then show ?case by (cases p) simp
qed simp

lemma dict_of_distinct: "fields_distinct fs \<Longrightarrow> dict_of fs = fs"
  using fold_dict_set [of "[]" fs] by (simp add: dict_of_def fields_distinct_keys)

lemma dumps_fields_Cons:
  "dumps_fields ((k, v) # fs) = CHR 0x22 # concat (map esc_char k) @ CHR 0x22 # '': '' @ dumps v @
     (case fs of [] \<Rightarrow> [] | f # fs' \<Rightarrow> '', '' @ dumps_fields fs)"
  by (simp add: dumps_str_def split: list.split)

lemma scan_dumps:
  "json_distinct j \<Longrightarrow> length (dumps j) \<le> n \<Longrightarrow> scan_value n (dumps j @ rest) = Some (j, rest)"
  "fields_distinct fs \<Longrightarrow> fs \<noteq> [] \<Longrightarrow> length (dumps_fields fs) \<le> n \<Longrightarrow>
     scan_members n (tl (dumps_fields fs) @ CHR ''}'' # rest) = Some (fs, rest)"
proof (induction j and fs arbitrary: n rest and n rest rule: dumps_dumps_fields.induct)
  case 1
  then show ?case by (cases n) (simp_all add: scan_value.simps)
next
  case (2 s)
  then show ?case by (cases n) (simp_all add: scan_value.simps dumps_str_def scan_str_dumps)
next
  case (3 fs)
  then obtain m where n: "n = Suc m" by (cases n) auto
  show ?case
  proof (cases fs)
    case Nil
    then show ?thesis by (simp add: n scan_value.simps)
  next
    case (Cons f fs')
    then have "scan_members m (tl (dumps_fields fs) @ CHR ''}'' # rest) = Some (fs, rest)"
      using 3 n by simp
    moreover obtain body where "dumps_fields fs = CHR 0x22 # body"
      using Cons by (cases f) (simp add: dumps_str_def)
    ultimately show ?thesis
      using 3 dict_of_distinct [of fs] by (simp add: n scan_value.simps)
  qed
next
  case (5 k v fs)
  then obtain m where n: "n = Suc m" by (cases n) auto
  have v: "scan_value m (dumps v @ t) = Some (v, t)" for t
    using 5 n by (simp add: dumps_str_def)
  show ?case
  proof (cases fs)
    case Nil
    then show ?thesis
      using v by (simp add: n dumps_fields_Cons scan_members.simps scan_str_dumps skip_ws_dumps del: dumps_fields.simps)
  next
    case (Cons f fs')
    then have "scan_members m (tl (dumps_fields fs) @ CHR ''}'' # rest) = Some (fs, rest)"
      using 5 n by simp
    moreover obtain body where "dumps_fields fs = CHR 0x22 # body"
      using Cons by (cases f) (simp add: dumps_str_def)
    ultimately show ?thesis
      using Cons v
      by (simp add: n dumps_fields_Cons scan_members.simps scan_str_dumps skip_ws_dumps del: dumps_fields.simps)
  qed
qed simp

lemma loads_dumps: "json_distinct j \<Longrightarrow> loads (dumps j) = Some j"
  using scan_dumps(1) [of j "length (dumps j)" "[]"] skip_ws_dumps [of j "[]"] by (simp add: loads_def)



text \<open>Every event and every payload of the program is such a dictionary.\<close>

lemma to_dict_distinct [simp]: "json_distinct (to_dict e)"
  by (cases e) (simp_all add: to_dict_def)

end
