(* ===== verification/Stream_Listener.thy ===== *)
theory Stream_Listener
  imports Json_Text Token_Cache Redis_Layer
begin

text \<open>
  \<open>listen_to_stream\<close> of \<open>src/src/redis/stream.py\<close>: a worker reads the system stream behind a local
  cursor and hands each decoded event to the token cache.  Redis numbers the entries in increasing
  order; the model uses the position in the log, counted from 1, as the number.  A blocked XREAD is a
  state of its own, since what \<open>$\<close> stands for is fixed when the call is made.  Handlers that raise,
  entries without a payload and malformed payloads are logged and skipped.
\<close>

section \<open>One entry\<close>

type_synonym entry = "(string \<times> string) list"

definition SYSTEM_STREAM_KEY :: string where
  "SYSTEM_STREAM_KEY = ''system_events_stream''"

definition MAX_STREAM_LENGTH :: nat where
  "MAX_STREAM_LENGTH = 10000"

text \<open>What \<open>xadd\<close> is given for an event.\<close>

definition stream_entry :: "json \<Rightarrow> entry" where
  "stream_entry event_dict = [(''payload'', dumps event_dict)]"

definition process_entry :: "(json \<Rightarrow> 'c \<Rightarrow> 'c result) \<Rightarrow> entry \<Rightarrow> 'c \<Rightarrow> 'c" where
  "process_entry message_handler message_data c =
     (case map_of message_data ''payload'' of
        None \<Rightarrow> c
      | Some raw_payload \<Rightarrow>
          if raw_payload = [] then c
          else (case loads raw_payload of
                  None \<Rightarrow> c
                | Some event_dict \<Rightarrow> (case message_handler event_dict c of Inl e \<Rightarrow> c | Inr c' \<Rightarrow> c')))"

section \<open>The listener\<close>

text \<open>
  \<open>cursor\<close> is \<open>last_id\<close>, \<open>None\<close> for \<open>$\<close>; \<open>pending\<close> the position a blocked read waits behind;
  \<open>trimmed\<close> the number of oldest entries Redis has discarded; \<open>handled\<close> records the numbers of the
  entries processed, in order.
\<close>

record 'c listener =
  log :: "entry list"
  trimmed :: nat
  cursor :: "nat option"
  pending :: "nat option"
  handled :: "nat list"
  target :: 'c

definition available :: "'c listener \<Rightarrow> nat \<Rightarrow> entry list" where
  "available s k = drop (max k (trimmed s)) (log s)"

text \<open>The loop over one batch: each entry is processed and the cursor moves to it.\<close>

definition process_batch ::
    "(json \<Rightarrow> 'c \<Rightarrow> 'c result) \<Rightarrow> nat \<Rightarrow> entry list \<Rightarrow> 'c listener \<Rightarrow> 'c listener" where
  "process_batch message_handler start batch s =
     s\<lparr>target := fold (process_entry message_handler) batch (target s),
       cursor := Some (start + length batch),
       handled := handled s @ [Suc start..<Suc (start + length batch)],
       pending := None\<rparr>"

text \<open>
  The steps: another coroutine or worker publishes; Redis trims the log, never below
  \<open>MAX_STREAM_LENGTH\<close> entries; the listener calls XREAD; the read times out with nothing to return;
  it returns some of what is available; the connection drops and the listener starts over.
\<close>

inductive listener_step :: "(json \<Rightarrow> 'c \<Rightarrow> 'c result) \<Rightarrow> 'c listener \<Rightarrow> 'c listener \<Rightarrow> bool"
  for message_handler where
  published: "listener_step message_handler s (s\<lparr>log := log s @ [data]\<rparr>)"
| discarded:
    "trimmed s \<le> k \<Longrightarrow> k + MAX_STREAM_LENGTH \<le> length (log s) \<Longrightarrow>
     listener_step message_handler s (s\<lparr>trimmed := k\<rparr>)"
| called:
    "pending s = None \<Longrightarrow>
     listener_step message_handler s
       (s\<lparr>pending := Some (case cursor s of None \<Rightarrow> length (log s) | Some c \<Rightarrow> c)\<rparr>)"
| timed_out:
    "pending s = Some k \<Longrightarrow> available s k = [] \<Longrightarrow> listener_step message_handler s (s\<lparr>pending := None\<rparr>)"
| returned:
    "pending s = Some k \<Longrightarrow> batch = take n (available s k) \<Longrightarrow> batch \<noteq> [] \<Longrightarrow>
     listener_step message_handler s (process_batch message_handler (max k (trimmed s)) batch s)"
| dropped: "listener_step message_handler s (s\<lparr>pending := None\<rparr>)"

inductive_cases listener_stepE: "listener_step message_handler s t"

definition fresh_listener :: "'c listener \<Rightarrow> bool" where
  "fresh_listener s \<longleftrightarrow> trimmed s \<le> length (log s) \<and> cursor s = None \<and> pending s = None \<and> handled s = []"

section \<open>Order\<close>

definition listener_ok :: "'c listener \<Rightarrow> bool" where
  "listener_ok s \<longleftrightarrow>
     trimmed s \<le> length (log s) \<and>
     (\<forall>k. pending s = Some k \<longrightarrow> k \<le> length (log s)) \<and>
     (case cursor s of
        None \<Rightarrow> handled s = []
      | Some c \<Rightarrow> c \<le> length (log s) \<and> (\<forall>i\<in>set (handled s). i \<le> c) \<and>
                  (\<forall>k. pending s = Some k \<longrightarrow> k = c)) \<and>
     sorted_wrt (<) (handled s)"

lemma process_batch_simps [simp]:
  "log (process_batch h a b s) = log s" "trimmed (process_batch h a b s) = trimmed s"
  "cursor (process_batch h a b s) = Some (a + length b)" "pending (process_batch h a b s) = None"
  "handled (process_batch h a b s) = handled s @ [Suc a..<Suc (a + length b)]"
  "target (process_batch h a b s) = fold (process_entry h) b (target s)"
  by (simp_all add: process_batch_def)

lemma batch_length:
  "batch = take n (available s k) \<Longrightarrow> batch \<noteq> [] \<Longrightarrow> max k (trimmed s) + length batch \<le> length (log s)"
  by (auto simp: available_def)

lemma returned_ok:
  assumes "listener_ok s" and "pending s = Some k" and "batch = take n (available s k)" and "batch \<noteq> []"
  shows "listener_ok (process_batch h (max k (trimmed s)) batch s)"
proof -
  have le: "\<forall>i\<in>set (handled s). i \<le> max k (trimmed s)"
    using assms(1,2) by (fastforce simp: listener_ok_def split: option.splits)
  then have "\<forall>i\<in>set (handled s). i < Suc (max k (trimmed s))" by auto
  with assms(1) le batch_length [OF assms(3,4)] show ?thesis
    by (auto simp: listener_ok_def sorted_wrt_append simp del: max.bounded_iff upt_Suc)
qed

lemma listener_step_ok: "listener_step h s t \<Longrightarrow> listener_ok s \<Longrightarrow> listener_ok t"
proof (induction rule: listener_step.induct)
  case (returned s k batch n)
  then show ?case using returned_ok by blast
qed (auto simp: listener_ok_def split: option.splits)

interpretation stream_reader: invariant_system "listener_step h" listener_ok for h
  by unfold_locales (rule listener_step_ok)

lemma fresh_listener_ok: "fresh_listener s \<Longrightarrow> listener_ok s"
  by (simp add: fresh_listener_def listener_ok_def)

section \<open>A listener that keeps up\<close>

text \<open>
  Redis keeps the latest \<open>MAX_STREAM_LENGTH\<close> entries, so a listener that is never further behind
  loses nothing.
\<close>

definition keeps_up :: "'c listener \<Rightarrow> bool" where
  "keeps_up s \<longleftrightarrow> (\<forall>c. cursor s = Some c \<longrightarrow> length (log s) \<le> c + MAX_STREAM_LENGTH)"

definition timely_step :: "(json \<Rightarrow> 'c \<Rightarrow> 'c result) \<Rightarrow> 'c listener \<Rightarrow> 'c listener \<Rightarrow> bool" where
  "timely_step h s t \<longleftrightarrow> listener_step h s t \<and> keeps_up t"

definition gapless :: "'c listener \<Rightarrow> bool" where
  "gapless s \<longleftrightarrow>
     listener_ok s \<and>
     (\<forall>c. cursor s = Some c \<longrightarrow> trimmed s \<le> c \<and> (\<exists>start\<le>c. handled s = [Suc start..<Suc c]))"

lemma gapless_returned:
  assumes "gapless s" and "pending s = Some k" and "batch = take n (available s k)" and "batch \<noteq> []"
  shows "gapless (process_batch h (max k (trimmed s)) batch s)"
proof (cases "cursor s")
  case None
  then have "handled s = []" using assms(1) by (simp add: gapless_def listener_ok_def)
  moreover have "listener_ok (process_batch h (max k (trimmed s)) batch s)"
    using assms returned_ok unfolding gapless_def by blast
  ultimately show ?thesis
    by (auto simp: gapless_def intro!: exI [of _ "max k (trimmed s)"] simp del: upt_Suc)
next
  case (Some c)
  then have "k = c" "trimmed s \<le> c"
    using assms(1,2) by (auto simp: gapless_def listener_ok_def)
  moreover obtain start where "start \<le> c" "handled s = [Suc start..<Suc c]"
    using assms(1) Some by (auto simp: gapless_def)
  moreover have "[Suc start..<Suc c] @ [Suc c..<Suc (c + length batch)] = [Suc start..<Suc (c + length batch)]"
    using \<open>start \<le> c\<close> upt_add_eq_append [of "Suc start" "Suc c" "length batch"] by simp
  moreover have "listener_ok (process_batch h (max k (trimmed s)) batch s)"
    using assms returned_ok unfolding gapless_def by blast
  ultimately show ?thesis
    by (auto simp: gapless_def max_absorb1 intro!: exI [of _ start] simp del: upt_Suc)
qed

lemma timely_step_gapless:
  assumes "timely_step h s t" and "gapless s"
  shows "gapless t"
proof -
  from assms(1) have step: "listener_step h s t" and up: "keeps_up t" by (simp_all add: timely_step_def)
  have ok: "listener_ok t" using listener_step_ok [OF step] assms(2) by (simp add: gapless_def)
  from step show ?thesis
  proof (cases rule: listener_step.cases)
    case (discarded k)
    with up have "\<forall>c. cursor s = Some c \<longrightarrow> k \<le> c" by (force simp: keeps_up_def)
    with ok assms(2) discarded show ?thesis by (simp add: gapless_def)
  next
    case (returned k batch n)
    then show ?thesis using gapless_returned [OF assms(2)] by blast
  qed (use ok assms(2) in \<open>auto simp: gapless_def\<close>)
qed

section \<open>The listener as a reader of a queue\<close>

text \<open>
  The abstract contract: a queue of entries not read yet and the list of those consumed; entries are
  put at the end and taken from the front.
\<close>

record feed =
  unread :: "entry list"
  consumed :: "entry list"

inductive feed_step :: "feed \<Rightarrow> feed \<Rightarrow> bool" where
  put: "feed_step f (f\<lparr>unread := unread f @ [data]\<rparr>)"
| got: "unread f = xs @ ys \<Longrightarrow> feed_step f (f\<lparr>unread := ys, consumed := consumed f @ xs\<rparr>)"

definition feed_of :: "'c listener \<Rightarrow> feed" where
  "feed_of s = \<lparr>unread = drop (the (cursor s)) (log s), consumed = map (\<lambda>i. log s ! (i - 1)) (handled s)\<rparr>"

definition reading_ok :: "'c listener \<Rightarrow> bool" where
  "reading_ok s \<longleftrightarrow> gapless s \<and> cursor s \<noteq> None"

lemma handled_bound: "listener_ok s \<Longrightarrow> i \<in> set (handled s) \<Longrightarrow> i \<le> length (log s)"
  by (fastforce simp: listener_ok_def split: option.splits)

lemma nth_slice: "map (\<lambda>i. xs ! (i - 1)) [Suc a..<Suc (a + n)] = take n (drop a xs)" if "a + n \<le> length xs"
  using that by (intro nth_equalityI) (auto simp del: upt_Suc)

lemma feed_published:
  assumes "reading_ok s" and "\<And>i. i \<in> set (handled s) \<Longrightarrow> 1 \<le> i"
  shows "feed_of (s\<lparr>log := log s @ [data]\<rparr>) = (feed_of s)\<lparr>unread := unread (feed_of s) @ [data]\<rparr>"
proof -
  obtain c where c: "cursor s = Some c" "c \<le> length (log s)"
    using assms(1) by (auto simp: reading_ok_def gapless_def listener_ok_def)
  have "map (\<lambda>i. (log s @ [data]) ! (i - 1)) (handled s) = map (\<lambda>i. log s ! (i - 1)) (handled s)"
    using assms handled_bound [of s] by (force simp: reading_ok_def gapless_def nth_append)
  with c show ?thesis by (simp add: feed_of_def)
qed

lemma reading_handled: "reading_ok s \<Longrightarrow> i \<in> set (handled s) \<Longrightarrow> 1 \<le> i"
  by (auto simp: reading_ok_def gapless_def)

lemma feed_returned:
  assumes "reading_ok s" and "pending s = Some k" and "batch = take n (available s k)" and "batch \<noteq> []"
  shows "feed_step (feed_of s) (feed_of (process_batch h (max k (trimmed s)) batch s))"
proof -
  obtain c where c: "cursor s = Some c" "c \<le> length (log s)" "k = c" "trimmed s \<le> c"
    using assms(1,2) by (auto simp: reading_ok_def gapless_def listener_ok_def)
  let ?n = "length batch"
  have b: "batch = take ?n (drop c (log s))" and len: "c + ?n \<le> length (log s)"
    using assms(3,4) c batch_length [OF assms(3,4)] by (auto simp: available_def max_absorb1 min_def)
  have "feed_of (process_batch h (max k (trimmed s)) batch s) =
      (feed_of s)\<lparr>unread := drop ?n (drop c (log s)), consumed := consumed (feed_of s) @ batch\<rparr>"
    using c b len nth_slice [of c ?n "log s"]
    by (simp add: feed_of_def max_absorb1 add.commute del: upt_Suc)
  moreover have "unread (feed_of s) = batch @ drop ?n (drop c (log s))"
    using c b by (metis append_take_drop_id feed.select_convs(1) feed_of_def option.sel)
  ultimately show ?thesis using feed_step.got by metis
qed

interpretation reader: simulation "timely_step h" reading_ok feed_step feed_of for h
proof unfold_locales
  fix s t :: "'a listener"
  assume step: "timely_step h s t" and ok: "reading_ok s"
  have "cursor t \<noteq> None"
    using step ok by (auto simp: timely_step_def reading_ok_def elim!: listener_stepE)
  then show "reading_ok t"
    using step ok timely_step_gapless by (auto simp: reading_ok_def)
  from step have "listener_step h s t" by (simp add: timely_step_def)
  then show "feed_of t = feed_of s \<or> feed_step (feed_of s) (feed_of t)"
  proof (cases rule: listener_step.cases)
    case (published data)
    then show ?thesis
      using feed_published [OF ok reading_handled [OF ok]] feed_step.put by metis
  next
    case (returned k batch n)
    then show ?thesis using feed_returned [OF ok] by blast
  qed (auto simp: feed_of_def)
qed

section \<open>Properties of the listener\<close>

text \<open>
  C27 (stream_events_in_order): Every entry is handled at most once and in the order of publication,
  whatever drops, time-outs and trimming happen; and as long as the listener is never more than
  10000 entries behind, the numbers handled are consecutive: nothing after the first entry it saw is
  skipped up to its cursor.
\<close>

theorem stream_events_in_order:
  assumes "fresh_listener s"
  shows "(rtranclp (listener_step h) s t \<longrightarrow> sorted_wrt (<) (handled t)) \<and>
    (rtranclp (timely_step h) s t \<longrightarrow> cursor t = Some c \<longrightarrow> (\<exists>start\<le>c. handled t = [Suc start..<Suc c]))"
proof (intro conjI impI)
  assume "rtranclp (listener_step h) s t"
  then show "sorted_wrt (<) (handled t)"
    using stream_reader.run_inv fresh_listener_ok [OF assms] by (fastforce simp: listener_ok_def)
next
  assume run: "rtranclp (timely_step h) s t" and c: "cursor t = Some c"
  have "gapless s" using assms fresh_listener_ok [OF assms] by (simp add: gapless_def fresh_listener_def)
  with run have "gapless t" by (induction rule: rtranclp_induct) (auto intro: timely_step_gapless)
  with c show "\<exists>start\<le>c. handled t = [Suc start..<Suc c]" by (simp add: gapless_def)
qed

definition sample_listener :: "entry list \<Rightarrow> nat listener" where
  "sample_listener l = \<lparr>log = l, trimmed = 0, cursor = None, pending = None, handled = [], target = 0\<rparr>"

text \<open>A handler to evaluate with, which counts.\<close>

definition count_handler :: "json \<Rightarrow> nat \<Rightarrow> nat result" where
  "count_handler j n = Inr (Suc n)"

definition sample_read :: "nat listener" where
  "sample_read = \<lparr>log = [[], []], trimmed = 0, cursor = Some 2, pending = None, handled = [2], target = 0\<rparr>"

lemma sample_read_run: "rtranclp (timely_step count_handler) (sample_listener [[]]) sample_read"
proof -
  let ?s1 = "(sample_listener [[]])\<lparr>pending := Some 1\<rparr>"
  let ?s2 = "?s1\<lparr>log := [[], []]\<rparr>"
  have "timely_step count_handler (sample_listener [[]]) ?s1"
    using listener_step.called [of "sample_listener [[]]" count_handler]
    by (simp add: timely_step_def keeps_up_def sample_listener_def)
  moreover have "timely_step count_handler ?s1 ?s2"
    using listener_step.published [of count_handler ?s1 "[]"]
    by (simp add: timely_step_def keeps_up_def sample_listener_def)
  moreover have "timely_step count_handler ?s2 sample_read"
    using listener_step.returned [of ?s2 1 "[[]]" 1 count_handler]
    by (simp add: timely_step_def keeps_up_def sample_listener_def available_def process_batch_def
        process_entry_def sample_read_def MAX_STREAM_LENGTH_def numeral_2_eq_2)
  ultimately show ?thesis
    by (intro converse_rtranclp_into_rtranclp [OF _ converse_rtranclp_into_rtranclp [OF _ r_into_rtranclp]])
qed

theorem stream_events_in_order_witness:
  "\<exists>start\<le>2. handled sample_read = [Suc start..<Suc 2]"
proof -
  have "fresh_listener (sample_listener [[]])" by (simp add: fresh_listener_def sample_listener_def)
  from stream_events_in_order [OF this, of count_handler sample_read 2] sample_read_run
  show ?thesis by (simp add: sample_read_def)
qed

text \<open>
  C14 (listener_implements_queue): Refinement: once it has seen an entry, a listener that keeps up
  implements a queue.  Every run of it is a run of the abstract queue whose unread part is the log
  behind the cursor and whose consumed part is what was handled.
\<close>

theorem listener_implements_queue:
  assumes "fresh_listener s" and "rtranclp (timely_step h) s t" and "cursor t = Some c"
    and "rtranclp (timely_step h) t u"
  shows "rtranclp feed_step (feed_of t) (feed_of u)"
proof -
  have "gapless s"
    using assms(1) fresh_listener_ok [OF assms(1)] by (simp add: gapless_def fresh_listener_def)
  with assms(2) have "gapless t" by (induction rule: rtranclp_induct) (auto intro: timely_step_gapless)
  with assms(3) have "reading_ok t" by (simp add: reading_ok_def)
  with assms(4) show ?thesis by (rule reader.run_simulates)
qed

theorem listener_implements_queue_witness:
  "rtranclp feed_step (feed_of sample_read) (feed_of (sample_read\<lparr>log := log sample_read @ [[]]\<rparr>)) \<and>
   feed_of (sample_read\<lparr>log := log sample_read @ [[]]\<rparr>) = \<lparr>unread = [[]], consumed = [[]]\<rparr>"
proof -
  have "fresh_listener (sample_listener [[]])" by (simp add: fresh_listener_def sample_listener_def)
  moreover have "timely_step count_handler sample_read (sample_read\<lparr>log := log sample_read @ [[]]\<rparr>)"
    using listener_step.published [of count_handler sample_read "[]"]
    by (simp add: timely_step_def keeps_up_def sample_read_def MAX_STREAM_LENGTH_def)
  moreover have "cursor sample_read = Some 2" by (simp add: sample_read_def)
  ultimately have "rtranclp feed_step (feed_of sample_read) (feed_of (sample_read\<lparr>log := log sample_read @ [[]]\<rparr>))"
    by (intro listener_implements_queue [OF _ sample_read_run] r_into_rtranclp)
  then show ?thesis by (simp add: feed_of_def sample_read_def)
qed

text \<open>
  Progress: whenever the listener is between two reads, one read that
  returns everything brings it to the end of the log, with every entry behind its cursor handed to
  the handler in order; poisonous entries do not stop it.
\<close>

theorem listener_drains_the_log:
  assumes "cursor s = Some c" and "pending s = None" and "trimmed s \<le> c" and "c \<le> length (log s)"
  shows "\<exists>t. rtranclp (listener_step h) s t \<and> log t = log s \<and> cursor t = Some (length (log s)) \<and>
    target t = fold (process_entry h) (drop c (log s)) (target s)"
proof (cases "c = length (log s)")
  case True
  with assms(1) show ?thesis by (intro exI [of _ s]) simp
next
  case False
  let ?s1 = "s\<lparr>pending := Some c\<rparr>"
  let ?b = "drop c (log s)"
  have "listener_step h s ?s1" using listener_step.called [of s h] assms(1,2) by simp
  moreover have "listener_step h ?s1 (process_batch h c ?b ?s1)"
    using listener_step.returned [of ?s1 c ?b "length (log s)" h] assms(3,4) False
    by (simp add: available_def max_absorb1)
  ultimately have "rtranclp (listener_step h) s (process_batch h c ?b ?s1)"
    by (intro converse_rtranclp_into_rtranclp [OF _ r_into_rtranclp])
  with assms(4) show ?thesis by (intro exI [of _ "process_batch h c ?b ?s1"]) simp
qed

theorem listener_drains_the_log_witness:
  "\<exists>t. rtranclp (listener_step count_handler) (sample_read\<lparr>log := [[], [], stream_entry (JObj [])]\<rparr>) t \<and>
     cursor t = Some 3 \<and> target t = 1"
proof -
  have "loads (dumps (JObj [])) = Some (JObj [])" by code_simp
  then have "process_entry count_handler (stream_entry (JObj [])) 0 = 1"
    by (simp add: process_entry_def stream_entry_def count_handler_def)
  with listener_drains_the_log
    [of "sample_read\<lparr>log := [[], [], stream_entry (JObj [])]\<rparr>" 2 count_handler]
  show ?thesis by (auto simp: sample_read_def)
qed

text \<open>An entry every read of the listener, pending or to come, starts behind.\<close>

definition passed_by :: "nat \<Rightarrow> 'c listener \<Rightarrow> bool" where
  "passed_by i s \<longleftrightarrow>
     i \<le> length (log s) \<and> (\<forall>k. pending s = Some k \<longrightarrow> i \<le> k) \<and> (\<forall>c. cursor s = Some c \<longrightarrow> i \<le> c) \<and>
     i \<notin> set (handled s)"

lemma passed_by_step:
  assumes "listener_step h s t" and "passed_by i s"
  shows "passed_by i t"
  using assms(1)
proof (cases rule: listener_step.cases)
  case (returned k batch n)
  then have "i \<le> max k (trimmed s)" using assms(2) by (auto simp: passed_by_def)
  with assms(2) returned(1) show ?thesis by (auto simp: passed_by_def simp del: max.bounded_iff)
qed (use assms(2) in \<open>auto simp: passed_by_def split: option.splits\<close>)

interpretation passing: invariant_system "listener_step h" "passed_by i" for h i
  by unfold_locales (rule passed_by_step)

text \<open>
  C38 (events_before_the_first_read_are_lost): Until it has seen an entry the listener asks for \<open>$\<close> at
  every call, so an entry published while no read is pending, before the first call or between a
  time-out and the next call, is never handled, however the run goes on.
\<close>

theorem events_before_the_first_read_are_lost:
  assumes "fresh_listener s" and "1 \<le> i" and "i \<le> length (log s)"
    and "rtranclp (listener_step h) s t"
  shows "i \<notin> set (handled t)"
proof -
  have "passed_by i s" using assms(1,3) by (simp add: passed_by_def fresh_listener_def)
  with assms(4) have "passed_by i t" by (rule passing.run_inv)
  then show ?thesis by (simp add: passed_by_def)
qed

theorem events_before_the_first_read_are_lost_witness:
  "1 \<notin> set (handled sample_read) \<and> length (log sample_read) = 2"
proof -
  have "timely_step count_handler \<le> listener_step count_handler" by (auto simp: timely_step_def)
  with sample_read_run have "rtranclp (listener_step count_handler) (sample_listener [[]]) sample_read"
    by (metis mono_rtranclp predicate2D)
  from events_before_the_first_read_are_lost [OF _ _ _ this, of 1] show ?thesis
    by (simp add: fresh_listener_def sample_listener_def sample_read_def)
qed

lemma process_invalidation:
  assumes "ttl_laws C ttl" and "t \<le> t'" and "cache_get C t' h c = None"
  shows "cache_get C t' h (process_entry (handle_invalidation_event C t) e c) = None"
  using assms invalidation_only_removes [OF assms(1,2)]
  by (auto simp: process_entry_def split: option.split sum.split) (metis option.exhaust)

lemma process_revocation:
  assumes "ttl_laws C ttl" and "h \<noteq> []"
  shows "cache_get C t' h (process_entry (handle_invalidation_event C t)
    (stream_entry (to_dict (TokenRevokedEvent h))) c) = None"
proof -
  have "dumps (to_dict (TokenRevokedEvent h)) \<noteq> []" using dumps_head by (metis list.distinct(1))
  moreover have "loads (dumps (to_dict (TokenRevokedEvent h))) = Some (to_dict (TokenRevokedEvent h))"
    using loads_dumps by simp
  ultimately show ?thesis
    using assms by (simp add: process_entry_def stream_entry_def invalidation_of_token get_evict)
qed

lemma fold_revocation:
  assumes "ttl_laws C ttl" and "t \<le> t'" and "h \<noteq> []" and "stream_entry (to_dict (TokenRevokedEvent h)) \<in> set es"
  shows "cache_get C t' h (fold (process_entry (handle_invalidation_event C t)) es c) = None"
proof -
  from assms(4) obtain xs ys where es: "es = xs @ stream_entry (to_dict (TokenRevokedEvent h)) # ys"
    by (meson split_list)
  have "cache_get C t' h (fold (process_entry (handle_invalidation_event C t)) ys c) = None"
    if "cache_get C t' h c = None" for c
    using that by (induction ys arbitrary: c) (simp_all add: process_invalidation [OF assms(1,2)])
  then show ?thesis by (simp add: es process_revocation [OF assms(1,3)])
qed

lemma nth_take_drop:
  assumes "m \<le> i" and "i < m + length (take n (drop m xs))"
  shows "take n (drop m xs) ! (i - m) = xs ! i"
proof -
  from assms have "i < m + n" "m \<le> length xs" by (auto simp: min_def split: if_splits)
  with assms(1) show ?thesis by simp
qed

text \<open>
  The listener and the token cache together: once a listener has
  handled the entry of a revoked token, that token is in its worker's cache no more, whatever other
  entries the same read returned.
\<close>

theorem delivered_revocations_evict:
  assumes "ttl_laws C ttl" and "t \<le> t'" and "h \<noteq> []"
    and "listener_step (handle_invalidation_event C t) s u"
    and "i < length (log s)" and "log s ! i = stream_entry (to_dict (TokenRevokedEvent h))"
    and "Suc i \<in> set (handled u)" and "Suc i \<notin> set (handled s)"
  shows "cache_get C t' h (target u) = None"
  using assms(4)
proof (cases rule: listener_step.cases)
  case (returned k batch n)
  let ?m = "max k (trimmed s)"
  have "Suc i \<in> set [Suc ?m..<Suc (?m + length batch)]"
    using assms(7,8) returned(1) by (simp del: upt_Suc set_upt)
  then have i: "?m \<le> i" "i < ?m + length batch" by auto
  have "?m + length batch \<le> length (log s)" using batch_length returned(3,4) by blast
  with i have "batch ! (i - ?m) = log s ! i"
    using returned(3) nth_take_drop by (auto simp: available_def simp del: max.bounded_iff length_take)
  with i have "log s ! i \<in> set batch" by (metis add_diff_inverse_nat add_less_cancel_left not_less nth_mem)
  with assms(6) show ?thesis
    using fold_revocation [OF assms(1-3)] returned(1) by simp
qed (use assms(7,8) in simp_all)

theorem delivered_revocations_evict_witness:
  "\<exists>s u. listener_step (handle_invalidation_event list_ttl 10) s u \<and>
     cache_get list_ttl 10 ''h'' (target s) = Some sample_cached_user \<and> cache_get list_ttl 20 ''h'' (target u) = None"
proof -
  let ?e = "stream_entry (to_dict (TokenRevokedEvent ''h''))"
  let ?s = "\<lparr>log = [?e], trimmed = 0, cursor = None, pending = Some 0, handled = [],
    target = [(''h'', sample_cached_user, 300)]\<rparr>"
  let ?u = "process_batch (handle_invalidation_event list_ttl 10) 0 [?e] ?s"
  have step: "listener_step (handle_invalidation_event list_ttl 10) ?s ?u"
    using listener_step.returned [of ?s 0 "[?e]" 1 "handle_invalidation_event list_ttl 10"]
    by (simp add: available_def)
  have "cache_get list_ttl 20 ''h'' (target ?u) = None"
    by (rule delivered_revocations_evict [OF list_ttl_laws _ _ step, of _ _ 0]) simp_all
  moreover have "cache_get list_ttl 10 ''h'' (target ?s) = Some sample_cached_user"
    by (simp add: cache_get_def list_ttl_def)
  ultimately show ?thesis using step by blast
qed

end
