(* ===== verification/Pubsub_Listener.thy ===== *)
theory Pubsub_Listener
  imports Json_Text Routing
begin

text \<open>
  \<open>listen_and_dispatch_message\<close> of \<open>src/src/redis/pubsub.py\<close> and \<open>start_pubsub_listener\<close> of
  \<open>src/src/services/websocket.py\<close>: a worker subscribes to the push channel and spawns one background
  task per decoded message.  Pub/Sub keeps nothing, so what is published while the worker is not
  subscribed passes it by.  The tasks run in any order; each runs \<open>_safe_dispatch\<close>, which logs what the
  handler raises.
\<close>

section \<open>Messages\<close>

definition CHANNEL_NAME :: string where
  "CHANNEL_NAME = ''ws_pushes''"

text \<open>What \<open>pubsub.listen()\<close> yields: confirmations and the like, or a message with its data.\<close>

datatype pubsub_item = Confirmation string | Message string

text \<open>The body of the loop: the payload a task is spawned for, if any; malformed JSON is logged.\<close>

definition on_item :: "pubsub_item \<Rightarrow> json option" where
  "on_item msg = (case msg of Confirmation k \<Rightarrow> None | Message data \<Rightarrow> loads data)"

text \<open>What \<open>publish_ws_push\<close> puts on the channel.\<close>

definition channel_text :: "json \<Rightarrow> pubsub_item" where
  "channel_text payload = Message (dumps payload)"

section \<open>The listener\<close>

text \<open>\<open>received\<close> and \<open>dispatched\<close> record the payloads for which a task was spawned and ran.\<close>

record pubsub =
  active :: bool
  subscribed :: bool
  client_open :: bool
  pending_tasks :: "json list"
  regs :: ws_state
  received :: "json list"
  dispatched :: "json list"

text \<open>
  A cancellation ends the listener, unless the unsubscription of its \<open>finally\<close> block fails: then it
  counts as a lost connection and the listener subscribes again.  \<open>start_pubsub_listener\<close> sets
  \<open>close_client_on_exit\<close> when it makes a client of its own.
\<close>

definition start_pubsub_listener :: "string option \<Rightarrow> bool" where
  "start_pubsub_listener redis_url = (case redis_url of Some url \<Rightarrow> url \<noteq> [] | None \<Rightarrow> False)"

inductive pubsub_step :: "bool \<Rightarrow> pubsub \<Rightarrow> pubsub \<Rightarrow> bool" for close_client_on_exit where
  subscribe: "active p \<Longrightarrow> \<not> subscribed p \<Longrightarrow> pubsub_step close_client_on_exit p (p\<lparr>subscribed := True\<rparr>)"
| item:
    "subscribed p \<Longrightarrow> on_item msg = Some payload \<Longrightarrow>
     pubsub_step close_client_on_exit p
       (p\<lparr>pending_tasks := pending_tasks p @ [payload], received := received p @ [payload]\<rparr>)"
| ignored: "on_item msg = None \<Longrightarrow> pubsub_step close_client_on_exit p p"
| missed: "\<not> subscribed p \<Longrightarrow> pubsub_step close_client_on_exit p p"
| lost_connection: "pubsub_step close_client_on_exit p (p\<lparr>subscribed := False\<rparr>)"
| cancelled:
    "pubsub_step close_client_on_exit p
       (p\<lparr>active := False, subscribed := False, client_open := client_open p \<and> \<not> close_client_on_exit\<rparr>)"
| task:
    "pending_tasks p = xs @ payload # ys \<Longrightarrow>
     pubsub_step close_client_on_exit p
       (p\<lparr>pending_tasks := xs @ ys, regs := snd (safe_dispatch payload (regs p)),
          dispatched := dispatched p @ [payload]\<rparr>)"

definition pubsub_ok :: "pubsub \<Rightarrow> bool" where
  "pubsub_ok p \<longleftrightarrow>
     mset (received p) = mset (pending_tasks p) + mset (dispatched p) \<and> routing_ok (regs p)"

definition fresh_pubsub :: pubsub where
  "fresh_pubsub = \<lparr>active = True, subscribed = False, client_open = True, pending_tasks = [], regs = empty_ws,
     received = [], dispatched = []\<rparr>"

lemma safe_dispatch_ok: "routing_ok s \<Longrightarrow> routing_ok (snd (safe_dispatch payload s))"
  by (auto simp: safe_dispatch_def intro: dispatch_ok split: sum.split)

lemma pubsub_step_ok: "pubsub_step close p q \<Longrightarrow> pubsub_ok p \<Longrightarrow> pubsub_ok q"
  by (induction rule: pubsub_step.induct) (auto simp: pubsub_ok_def safe_dispatch_ok)

interpretation pubsub_listener: invariant_system "pubsub_step close" pubsub_ok for close
  by unfold_locales (rule pubsub_step_ok)

lemma fresh_pubsub_ok: "pubsub_ok fresh_pubsub"
  by (simp add: pubsub_ok_def fresh_pubsub_def empty_ws_ok)

text \<open>The payloads of the program survive the channel.\<close>

lemma push_payloads_distinct [simp]:
  "json_distinct (push_to_user u e)" "json_distinct (push_to_group g e s)"
  "json_distinct (push_group_membership_change u g a)" "json_distinct (push_group_deleted g)"
  by (cases s; simp add: push_to_user_def push_to_group_def push_group_membership_change_def push_group_deleted_def)+

lemma on_item_channel_text: "json_distinct payload \<Longrightarrow> on_item (channel_text payload) = Some payload"
  by (simp add: on_item_def channel_text_def loads_dumps)

section \<open>Properties\<close>


definition sample_pubsub :: pubsub where
  "sample_pubsub = fresh_pubsub\<lparr>subscribed := True, received := [push_group_deleted 1], pending_tasks := [push_group_deleted 1]\<rparr>"


end
