(* ===== verification/Schema_Setup.thy ===== *)
theory Schema_Setup
  imports Queries
begin

text \<open>
  The DDL of \<open>src/src/database/sql.py\<close> and the functions of \<open>src/src/database/queries.py\<close> that run it
  at start-up.  The catalog of the database server is the tables that exist, with their columns, and
  the names of the indexes; a statement is what decides whether it succeeds: the table and columns it
  declares, the tables it references, the columns it indexes.
\<close>

section \<open>Statements\<close>

datatype ddl =
    CreateTable (ddl_table: string) (ddl_columns: "string list") (ddl_references: "string list")
  | CreateIndex (ddl_index: string) (ddl_on: string) (ddl_keys: "string list")

text \<open>The names the code declares for indexes; one index of \<open>friendships\<close> has its name in the statement only.\<close>

datatype Index =
    IDX_FRIENDSHIPS_ADDRESSEE_ID
  | IDX_ACCESS_TOKENS_USER_ID
  | IDX_REFRESH_TOKENS_USER_ID
  | IDX_ACCESS_TOKENS_EXPIRES_AT
  | IDX_REFRESH_TOKENS_EXPIRES_AT
  | IDX_GROUPS_CREATED_BY
  | IDX_MEMBERSHIPS_USER_ID
  | IDX_DM_SENDER_RECIPIENT
  | IDX_DM_RECIPIENT_SENDER
  | IDX_GROUP_MESSAGES_TIMELINE
  | IDX_GROUP_MESSAGES_SENDER_ID

fun index_value :: "Index \<Rightarrow> string" where
  "index_value IDX_FRIENDSHIPS_ADDRESSEE_ID = ''idx_friendships_addressee_id''"
| "index_value IDX_ACCESS_TOKENS_USER_ID = ''idx_access_tokens_user_id''"
| "index_value IDX_REFRESH_TOKENS_USER_ID = ''idx_refresh_tokens_user_id''"
| "index_value IDX_ACCESS_TOKENS_EXPIRES_AT = ''idx_access_tokens_expires_at''"
| "index_value IDX_REFRESH_TOKENS_EXPIRES_AT = ''idx_refresh_tokens_expires_at''"
| "index_value IDX_GROUPS_CREATED_BY = ''idx_groups_created_by''"
| "index_value IDX_MEMBERSHIPS_USER_ID = ''idx_memberships_user_id''"
| "index_value IDX_DM_SENDER_RECIPIENT = ''idx_dm_sender_recipient''"
| "index_value IDX_DM_RECIPIENT_SENDER = ''idx_dm_recipient_sender''"
| "index_value IDX_GROUP_MESSAGES_TIMELINE = ''idx_group_messages_timeline''"
| "index_value IDX_GROUP_MESSAGES_SENDER_ID = ''idx_group_messages_sender_id''"

text \<open>Iterating over the class yields its statements in declaration order.\<close>

definition EnsureTableExists :: "ddl list" where
  "EnsureTableExists =
     [CreateTable ''users'' [''user_id'', ''username'', ''password_hash'', ''deactivated'', ''created_at''] [],
      CreateTable ''friendships'' [''requester_id'', ''addressee_id'', ''accepted'', ''created_at'', ''updated_at'']
        [''users'', ''users''],
      CreateTable ''access_tokens'' [''token_hash'', ''user_id'', ''expires_at'', ''is_revoked''] [''users''],
      CreateTable ''refresh_tokens'' [''token_hash'', ''user_id'', ''is_revoked'', ''expires_at''] [''users''],
      CreateTable ''groups'' [''group_id'', ''name'', ''created_by'', ''created_at''] [''users''],
      CreateTable ''memberships'' [''group_id'', ''user_id'', ''joined_at''] [''groups'', ''users''],
      CreateTable ''direct_messages'' [''message_id'', ''sender_id'', ''recipient_id'', ''content'', ''created_at'']
        [''users'', ''users''],
      CreateTable ''group_messages'' [''message_id'', ''group_id'', ''sender_id'', ''content'', ''created_at'']
        [''groups'', ''users'']]"

definition EnsureIndexExists :: "ddl list" where
  "EnsureIndexExists =
     [CreateIndex (index_value IDX_FRIENDSHIPS_ADDRESSEE_ID) ''friendships'' [''addressee_id'', ''accepted''],
      CreateIndex ''idx_friendships_requester_id'' ''friendships'' [''requester_id'', ''accepted''],
      CreateIndex (index_value IDX_ACCESS_TOKENS_USER_ID) ''access_tokens'' [''user_id''],
      CreateIndex (index_value IDX_REFRESH_TOKENS_USER_ID) ''refresh_tokens'' [''user_id''],
      CreateIndex (index_value IDX_ACCESS_TOKENS_EXPIRES_AT) ''access_tokens'' [''expires_at''],
      CreateIndex (index_value IDX_REFRESH_TOKENS_EXPIRES_AT) ''refresh_tokens'' [''expires_at''],
      CreateIndex (index_value IDX_GROUPS_CREATED_BY) ''groups'' [''created_by''],
      CreateIndex (index_value IDX_MEMBERSHIPS_USER_ID) ''memberships'' [''user_id'', ''group_id''],
      CreateIndex (index_value IDX_DM_SENDER_RECIPIENT) ''direct_messages'' [''sender_id'', ''recipient_id'', ''created_at''],
      CreateIndex (index_value IDX_DM_RECIPIENT_SENDER) ''direct_messages'' [''recipient_id'', ''sender_id'', ''created_at''],
      CreateIndex (index_value IDX_GROUP_MESSAGES_TIMELINE) ''group_messages'' [''group_id'', ''created_at''],
      CreateIndex (index_value IDX_GROUP_MESSAGES_SENDER_ID) ''group_messages'' [''sender_id'']]"

section \<open>The catalog\<close>

record catalog =
  cat_tables :: "string \<rightharpoonup> string list"
  cat_indexes :: "string set"

definition empty_catalog :: catalog where
  "empty_catalog = \<lparr>cat_tables = Map.empty, cat_indexes = {}\<rparr>"

text \<open>
  \<open>IF NOT EXISTS\<close> skips the statement when the name is taken, before anything else is looked at.
\<close>

fun exec_ddl :: "ddl \<Rightarrow> catalog \<Rightarrow> pg_error + catalog" where
  "exec_ddl (CreateTable t cols refs) cat =
     (if cat_tables cat t \<noteq> None then Inr cat
      else case filter (\<lambda>r. cat_tables cat r = None) refs of
        r # rs \<Rightarrow> Inl (OtherPostgresError (''relation does not exist: '' @ r))
      | [] \<Rightarrow> Inr (cat\<lparr>cat_tables := (cat_tables cat)(t \<mapsto> cols)\<rparr>))"
| "exec_ddl (CreateIndex i t keys) cat =
     (if i \<in> cat_indexes cat then Inr cat
      else case cat_tables cat t of
        None \<Rightarrow> Inl (OtherPostgresError (''relation does not exist: '' @ t))
      | Some cols \<Rightarrow>
          (case filter (\<lambda>k. k \<notin> set cols) keys of
             k # ks \<Rightarrow> Inl (OtherPostgresError (''column does not exist: '' @ k))
           | [] \<Rightarrow> Inr (cat\<lparr>cat_indexes := insert i (cat_indexes cat)\<rparr>)))"

text \<open>
  The loops over the statements.  No transaction is open, so each statement commits on its own and an
  error leaves what was created before it.
\<close>

fun exec_all :: "ddl list \<Rightarrow> catalog \<Rightarrow> pg_error option \<times> catalog" where
  "exec_all [] cat = (None, cat)"
| "exec_all (s # ss) cat = (case exec_ddl s cat of Inl e \<Rightarrow> (Some e, cat) | Inr cat' \<Rightarrow> exec_all ss cat')"

definition ensure_tables_exist :: "catalog \<Rightarrow> pg_error option \<times> catalog" where
  "ensure_tables_exist cat = exec_all EnsureTableExists cat"

definition ensure_indexes_exist :: "catalog \<Rightarrow> pg_error option \<times> catalog" where
  "ensure_indexes_exist cat = exec_all EnsureIndexExists cat"

text \<open>The block of \<open>lifespan\<close>; \<open>lock_fault\<close> is an error of the advisory lock statement.\<close>

definition schema_setup :: "pg_error option \<Rightarrow> catalog \<Rightarrow> pg_error option \<times> catalog" where
  "schema_setup lock_fault cat =
     (case lock_fault of
        Some e \<Rightarrow> (Some e, cat)
      | None \<Rightarrow>
          (case ensure_tables_exist cat of
             (Some e, cat') \<Rightarrow> (Some e, cat')
           | (None, cat') \<Rightarrow> ensure_indexes_exist cat'))"

definition db_clear_tables :: "unit tx" where
  "db_clear_tables d = Inr ((), CLEAR_TABLES d)"

section \<open>Row locks\<close>

text \<open>\<open>_with_lock\<close>: \<open>f"{query.rstrip().rstrip(';')} FOR UPDATE;"\<close>.\<close>

definition rstrip :: "char list \<Rightarrow> string \<Rightarrow> string" where
  "rstrip chars s = rev (dropWhile (\<lambda>c. c \<in> set chars) (rev s))"

definition with_lock :: "string \<Rightarrow> bool \<Rightarrow> string" where
  "with_lock query for_update =
     (if \<not> for_update then query else rstrip '';'' (rstrip whitespace query) @ '' FOR UPDATE;'')"

section \<open>Facts\<close>

text \<open>
  The columns a table of the schema is declared with, and a catalog none of whose tables is declared
  differently.
\<close>

definition declared_columns :: "string \<rightharpoonup> string list" where
  "declared_columns = map_of (map (\<lambda>s. (ddl_table s, ddl_columns s)) EnsureTableExists)"

definition catalog_ok :: "catalog \<Rightarrow> bool" where
  "catalog_ok cat \<longleftrightarrow> (\<forall>t cols. cat_tables cat t = Some cols \<longrightarrow> declared_columns t \<noteq> None \<longrightarrow> declared_columns t = Some cols)"

definition complete :: "catalog \<Rightarrow> bool" where
  "complete cat \<longleftrightarrow>
     (\<forall>s\<in>set EnsureTableExists. cat_tables cat (ddl_table s) = Some (ddl_columns s)) \<and>
     (\<forall>s\<in>set EnsureIndexExists. ddl_index s \<in> cat_indexes cat)"

text \<open>A list of tables in which each references only tables before it or already there.\<close>

fun well_ordered :: "string set \<Rightarrow> ddl list \<Rightarrow> bool" where
  "well_ordered have_tables [] = True"
| "well_ordered have_tables (CreateTable t cols refs # ss) =
     (set refs \<subseteq> have_tables \<and> well_ordered (insert t have_tables) ss)"
| "well_ordered have_tables (CreateIndex i t keys # ss) = False"

lemma exec_tables:
  assumes "well_ordered T ss" and "T \<subseteq> dom (cat_tables cat)"
  shows "\<exists>cat'. exec_all ss cat = (None, cat') \<and> cat_indexes cat' = cat_indexes cat \<and>
    cat_tables cat \<subseteq>\<^sub>m cat_tables cat' \<and> dom (cat_tables cat') = dom (cat_tables cat) \<union> ddl_table ` set ss \<and>
    (\<forall>t cols. cat_tables cat' t = Some cols \<longrightarrow> cat_tables cat t = Some cols \<or> (\<exists>s\<in>set ss. ddl_table s = t \<and> ddl_columns s = cols))"
  using assms
proof (induction ss arbitrary: T cat)
  case (Cons s ss)
  then obtain t cols refs where s: "s = CreateTable t cols refs" "set refs \<subseteq> T" "well_ordered (insert t T) ss"
    by (cases s) auto
  let ?c = "if cat_tables cat t \<noteq> None then cat else cat\<lparr>cat_tables := (cat_tables cat)(t \<mapsto> cols)\<rparr>"
  have "filter (\<lambda>r. cat_tables cat r = None) refs = []"
    using s(2) Cons.prems(2) by (force simp: filter_empty_conv)
  then have ex: "exec_ddl s cat = Inr ?c" by (simp add: s(1))
  have "insert t T \<subseteq> dom (cat_tables ?c)" using Cons.prems(2) by auto
  from Cons.IH [OF s(3) this] ex obtain cat' where c: "exec_all (s # ss) cat = (None, cat')"
    "cat_indexes cat' = cat_indexes ?c" "cat_tables ?c \<subseteq>\<^sub>m cat_tables cat'"
    "dom (cat_tables cat') = dom (cat_tables ?c) \<union> ddl_table ` set ss"
    "\<forall>t cols. cat_tables cat' t = Some cols \<longrightarrow> cat_tables ?c t = Some cols \<or> (\<exists>s\<in>set ss. ddl_table s = t \<and> ddl_columns s = cols)"
    by auto
  moreover have "cat_tables cat \<subseteq>\<^sub>m cat_tables ?c" by (auto simp: map_le_def)
  ultimately show ?case
    using map_le_trans by (intro exI [of _ cat']) (auto simp: s(1) split: if_splits)
qed auto

lemma exec_indexes:
  assumes "\<And>s. s \<in> set ss \<Longrightarrow>
    \<exists>i t keys cols. s = CreateIndex i t keys \<and> cat_tables cat t = Some cols \<and> set keys \<subseteq> set cols"
  shows "exec_all ss cat = (None, cat\<lparr>cat_indexes := cat_indexes cat \<union> ddl_index ` set ss\<rparr>)"
  using assms
proof (induction ss arbitrary: cat)
  case (Cons s ss)
  from Cons.prems [of s] obtain i t keys cols
    where s: "s = CreateIndex i t keys" "cat_tables cat t = Some cols" "set keys \<subseteq> set cols" by auto
  have none: "filter (\<lambda>k. k \<notin> set cols) keys = []" using s(3) by (auto simp: filter_empty_conv)
  let ?c = "cat\<lparr>cat_indexes := insert i (cat_indexes cat)\<rparr>"
  have "exec_ddl s cat = Inr ?c" by (auto simp: s none insert_absorb)
  moreover have "exec_all ss ?c = (None, ?c\<lparr>cat_indexes := cat_indexes ?c \<union> ddl_index ` set ss\<rparr>)"
    by (rule Cons.IH) (use Cons.prems in auto)
  ultimately show ?case by (simp add: s(1))
qed simp

lemma exec_existing:
  assumes "\<And>s. s \<in> set ss \<Longrightarrow>
    (\<exists>t cols refs. s = CreateTable t cols refs \<and> cat_tables cat t \<noteq> None) \<or>
    (\<exists>i t keys. s = CreateIndex i t keys \<and> i \<in> cat_indexes cat)"
  shows "exec_all ss cat = (None, cat)"
  using assms
proof (induction ss)
  case (Cons s ss)
  then have "exec_ddl s cat = Inr cat" by (metis exec_ddl.simps list.set_intros(1))
  with Cons show ?case by simp
qed simp

lemma tables_well_ordered: "well_ordered {} EnsureTableExists"
  by (simp add: EnsureTableExists_def)

fun covered :: "ddl \<Rightarrow> bool" where
  "covered (CreateIndex i t keys) = (case declared_columns t of None \<Rightarrow> False | Some cols \<Rightarrow> list_all (\<lambda>k. k \<in> set cols) keys)"
| "covered (CreateTable t cols refs) = False"

lemma indexes_covered:
  assumes "s \<in> set EnsureIndexExists"
  shows "\<exists>i t keys cols. s = CreateIndex i t keys \<and> declared_columns t = Some cols \<and> set keys \<subseteq> set cols"
proof -
  have "list_all covered EnsureIndexExists" by code_simp
  with assms have "covered s" by (simp add: list_all_iff)
  then show ?thesis by (cases s) (auto simp: list_all_iff split: option.splits)
qed

lemma declared_tables:
  "declared_columns t = Some cols \<longleftrightarrow> (\<exists>s\<in>set EnsureTableExists. ddl_table s = t \<and> ddl_columns s = cols)"
proof -
  have "distinct (map fst (map (\<lambda>s. (ddl_table s, ddl_columns s)) EnsureTableExists))"
    by (simp add: EnsureTableExists_def)
  then show ?thesis unfolding declared_columns_def by (force simp: map_of_eq_Some_iff)
qed

lemma complete_is_fixed: "complete cat \<Longrightarrow> schema_setup None cat = (None, cat)"
proof -
  assume c: "complete cat"
  have "ensure_tables_exist cat = (None, cat)"
    unfolding ensure_tables_exist_def
  proof (rule exec_existing)
    fix s assume "s \<in> set EnsureTableExists"
    moreover from this have "\<exists>t cols refs. s = CreateTable t cols refs" by (auto simp: EnsureTableExists_def)
    ultimately show "(\<exists>t cols refs. s = CreateTable t cols refs \<and> cat_tables cat t \<noteq> None) \<or>
        (\<exists>i t keys. s = CreateIndex i t keys \<and> i \<in> cat_indexes cat)"
      using c by (force simp: complete_def)
  qed
  moreover have "ensure_indexes_exist cat = (None, cat)"
    unfolding ensure_indexes_exist_def
  proof (rule exec_existing)
    fix s assume "s \<in> set EnsureIndexExists"
    moreover from this have "\<exists>i t keys. s = CreateIndex i t keys" using indexes_covered by blast
    ultimately show "(\<exists>t cols refs. s = CreateTable t cols refs \<and> cat_tables cat t \<noteq> None) \<or>
        (\<exists>i t keys. s = CreateIndex i t keys \<and> i \<in> cat_indexes cat)"
      using c by (force simp: complete_def)
  qed
  ultimately show ?thesis by (simp add: schema_setup_def)
qed

lemma schema_complete:
  assumes "catalog_ok cat"
  shows "\<exists>cat'. schema_setup None cat = (None, cat') \<and> complete cat' \<and> catalog_ok cat'"
proof -
  obtain c1 where c1: "ensure_tables_exist cat = (None, c1)"
    and dom1: "dom (cat_tables c1) = dom (cat_tables cat) \<union> ddl_table ` set EnsureTableExists"
    and src: "\<And>t cols. cat_tables c1 t = Some cols \<Longrightarrow> cat_tables cat t = Some cols \<or> declared_columns t = Some cols"
    using exec_tables [OF tables_well_ordered, of cat] unfolding ensure_tables_exist_def declared_tables by auto
  then have ok1: "catalog_ok c1" using assms unfolding catalog_ok_def by blast
  have all: "cat_tables c1 t = Some cols" if "declared_columns t = Some cols" for t cols
  proof -
    from that have "t \<in> dom (cat_tables c1)" unfolding dom1 declared_tables by blast
    with ok1 that show ?thesis by (force simp: catalog_ok_def)
  qed
  let ?c2 = "c1\<lparr>cat_indexes := cat_indexes c1 \<union> ddl_index ` set EnsureIndexExists\<rparr>"
  have "ensure_indexes_exist c1 = (None, ?c2)"
    unfolding ensure_indexes_exist_def by (rule exec_indexes) (use indexes_covered all in blast)
  with c1 have "schema_setup None cat = (None, ?c2)" by (simp add: schema_setup_def)
  moreover have "complete ?c2"
    using all declared_tables by (auto simp: complete_def)
  moreover have "catalog_ok ?c2" using ok1 by (simp add: catalog_ok_def)
  ultimately show ?thesis by blast
qed

section \<open>Properties\<close>

text \<open>
  Start-up never fails on the schema: from any catalog whose tables, as far
  as they exist, are the declared ones, in particular from an empty database and from one another
  worker has half set up, the statements succeed in the order they are declared and leave every table
  and index in place; running them again changes nothing.
\<close>

theorem schema_setup_completes:
  assumes "catalog_ok cat"
  shows "\<exists>cat'. schema_setup None cat = (None, cat') \<and> complete cat' \<and> catalog_ok cat' \<and> schema_setup None cat' = (None, cat')"
  using schema_complete [OF assms] complete_is_fixed by blast

theorem schema_setup_completes_witness:
  "\<exists>cat'. schema_setup None empty_catalog = (None, cat') \<and> complete cat' \<and> catalog_ok cat' \<and> schema_setup None cat' = (None, cat')"
  by (rule schema_setup_completes) (simp add: catalog_ok_def empty_catalog_def)

text \<open>The lock clause goes before the semicolon, whatever white space follows it.\<close>

lemma with_lock_user: "with_lock (''SELECT 1;'' @ [CHR 0x0A, CHR '' '', CHR '' '']) True = ''SELECT 1 FOR UPDATE;''"
  by (simp add: with_lock_def rstrip_def whitespace_def)

end
