(* ===== verification/Lifecycle.thy ===== *)
theory Lifecycle
  imports Schema_Setup Connection Redis_Layer
begin

text \<open>
  Start-up and shutdown: \<open>DatabaseManager.connect\<close>, \<open>disconnect\<close> and \<open>pool\<close> of
  \<open>src/src/database/connection.py\<close>, \<open>RedisManager\<close> of \<open>src/src/redis/connection.py\<close>, the \<open>lifespan\<close> of
  \<open>src/src/main.py\<close> that runs them, its request middleware, and the drain of \<open>src/src/utils/tasks.py\<close>.
  Pools and clients of the drivers are numbers; how each driver call ends is an argument.
\<close>

section \<open>The database manager\<close>

datatype attempt = Opened nat | OSError string | OtherFailure exn

datatype connect_error = RetryError | Raised exn

record db_manager =
  dm_pool :: "nat option"

text \<open>
  The retry decorator of \<open>connect\<close>: ten attempts, another one after an \<open>OSError\<close> only, and
  \<open>RetryError\<close> when the last one fails with it.  \<open>attempts i\<close> is how attempt \<open>i\<close> ends.
\<close>

fun connect_loop :: "nat \<Rightarrow> nat \<Rightarrow> (nat \<Rightarrow> attempt) \<Rightarrow> connect_error + nat" where
  "connect_loop 0 i attempts = Inl RetryError"
| "connect_loop (Suc left) i attempts =
     (case attempts i of
        Opened p \<Rightarrow> Inr p
      | OSError e \<Rightarrow> connect_loop left (Suc i) attempts
      | OtherFailure e \<Rightarrow> Inl (Raised e))"

definition db_connect :: "(nat \<Rightarrow> attempt) \<Rightarrow> db_manager \<Rightarrow> (connect_error + nat) \<times> db_manager" where
  "db_connect attempts m =
     (case dm_pool m of
        Some p \<Rightarrow> (Inr p, m)
      | None \<Rightarrow>
          (case connect_loop 10 0 attempts of
             Inl e \<Rightarrow> (Inl e, m)
           | Inr p \<Rightarrow> (Inr p, m\<lparr>dm_pool := Some p\<rparr>)))"

text \<open>The pool is forgotten only after it was closed.\<close>

definition db_disconnect :: "exn option \<Rightarrow> db_manager \<Rightarrow> unit result \<times> db_manager" where
  "db_disconnect close_fault m =
     (case dm_pool m of
        None \<Rightarrow> (Inr (), m)
      | Some p \<Rightarrow>
          (case close_fault of
             Some e \<Rightarrow> (Inl e, m)
           | None \<Rightarrow> (Inr (), m\<lparr>dm_pool := None\<rparr>)))"

definition db_pool :: "db_manager \<Rightarrow> nat result" where
  "db_pool m =
     (case dm_pool m of None \<Rightarrow> Inl (DbExn ConnectionPoolNotInitializedError) | Some p \<Rightarrow> Inr p)"

section \<open>The Redis manager\<close>

record redis_manager =
  rm_pool :: "nat option"
  rm_client :: "nat option"

text \<open>Pool and client are stored before the ping.\<close>

definition redis_connect :: "nat \<Rightarrow> redis_exc option \<Rightarrow> redis_manager \<Rightarrow> nat result \<times> redis_manager" where
  "redis_connect new ping_fault m =
     (case rm_client m of
        Some c \<Rightarrow> (Inr c, m)
      | None \<Rightarrow>
          (let m' = m\<lparr>rm_pool := Some new, rm_client := Some new\<rparr>
           in case ping_fault of
                Some e \<Rightarrow> (handle_redis_errors ''connect'' (Inl e), m')
              | None \<Rightarrow> (Inr new, m')))"

text \<open>An error of a close is logged and ends the method; what was not closed yet stays.\<close>

definition redis_disconnect :: "redis_exc option \<Rightarrow> redis_exc option \<Rightarrow> redis_manager \<Rightarrow> redis_manager" where
  "redis_disconnect client_fault pool_fault m =
     (if rm_client m \<noteq> None \<and> client_fault \<noteq> None then m
      else
        (let m1 = m\<lparr>rm_client := None\<rparr>
         in if rm_pool m1 \<noteq> None \<and> pool_fault \<noteq> None then m1 else m1\<lparr>rm_pool := None\<rparr>))"

definition redis_client :: "redis_manager \<Rightarrow> nat result" where
  "redis_client m =
     (case rm_client m of None \<Rightarrow> Inl (RedisExn RedisClientNotInitializedError) | Some c \<Rightarrow> Inr c)"

text \<open>\<open>pubsub\<close> hands out an object of the client, which must be there.\<close>

definition redis_pubsub :: "redis_manager \<Rightarrow> nat result" where
  "redis_pubsub m = redis_client m"

section \<open>The lifespan of the application\<close>

record resources =
  res_db :: db_manager
  res_catalog :: catalog
  res_redis :: redis_manager
  res_listeners :: nat

definition no_resources :: "catalog \<Rightarrow> resources" where
  "no_resources cat =
     \<lparr>res_db = \<lparr>dm_pool = None\<rparr>, res_catalog = cat, res_redis = \<lparr>rm_pool = None, rm_client = None\<rparr>,
      res_listeners = 0\<rparr>"

datatype startup_error = DbConnect connect_error | SchemaError exn | RedisConnect exn

text \<open>
  Everything before the \<open>yield\<close>: an error goes on at once, and nothing that was opened before it is
  closed.  The statements run inside \<open>connection\<close>, whose handlers translate their errors.
\<close>

definition lifespan_startup ::
    "(nat \<Rightarrow> attempt) \<Rightarrow> pg_error option \<Rightarrow> nat \<Rightarrow> redis_exc option \<Rightarrow> resources \<Rightarrow>
     (startup_error + unit) \<times> resources" where
  "lifespan_startup attempts lock_fault new ping_fault r =
     (case db_connect attempts (res_db r) of
        (Inl e, dm) \<Rightarrow> (Inl (DbConnect e), r\<lparr>res_db := dm\<rparr>)
      | (Inr p, dm) \<Rightarrow>
          (let r1 = r\<lparr>res_db := dm\<rparr>
           in case schema_setup lock_fault (res_catalog r1) of
                (Some e, cat) \<Rightarrow> (Inl (SchemaError (connection_except (PgExn e))), r1\<lparr>res_catalog := cat\<rparr>)
              | (None, cat) \<Rightarrow>
                  (let r2 = r1\<lparr>res_catalog := cat\<rparr>
                   in case redis_connect new ping_fault (res_redis r2) of
                        (Inl e, rm) \<Rightarrow> (Inl (RedisConnect e), r2\<lparr>res_redis := rm\<rparr>)
                      | (Inr c, rm) \<Rightarrow> (Inr (), r2\<lparr>res_redis := rm, res_listeners := 2\<rparr>))))"

text \<open>
  After the \<open>yield\<close>: both listeners are cancelled and awaited, then Redis and the database are
  closed.  A subscribed Pub/Sub listener unsubscribes in a \<open>finally\<close> block when it is cancelled; an
  error of Redis there replaces the cancellation, the listener goes on and \<open>gather\<close> waits for it for
  ever, which is the result \<open>None\<close>.
\<close>

definition lifespan_shutdown ::
    "redis_exc option \<Rightarrow> redis_exc option \<Rightarrow> redis_exc option \<Rightarrow> exn option \<Rightarrow> resources \<Rightarrow>
     unit result option \<times> resources" where
  "lifespan_shutdown unsubscribe_fault client_fault pool_fault close_fault r =
     (if unsubscribe_fault \<noteq> None then (None, r\<lparr>res_listeners := 1\<rparr>)
      else
        (let r1 = r\<lparr>res_listeners := 0\<rparr>;
             r2 = r1\<lparr>res_redis := redis_disconnect client_fault pool_fault (res_redis r1)\<rparr>
         in case db_disconnect close_fault (res_db r2) of (res, dm) \<Rightarrow> (Some res, r2\<lparr>res_db := dm\<rparr>)))"

section \<open>Background tasks at shutdown\<close>

text \<open>
  \<open>drain_background_tasks\<close>: tasks with the time each still needs; those that need longer than the
  time-out are cancelled.  \<open>lifespan\<close> does not call it.
\<close>

definition drain_background_tasks :: "'t::linorder \<Rightarrow> (nat \<times> 't) list \<Rightarrow> nat list \<times> nat list" where
  "drain_background_tasks timeout_seconds tasks =
     (if tasks = [] then ([], [])
      else (map fst (filter (\<lambda>t. snd t \<le> timeout_seconds) tasks),
            map fst (filter (\<lambda>t. \<not> snd t \<le> timeout_seconds) tasks)))"

section \<open>The request middleware\<close>

text \<open>
  \<open>logging_middleware\<close>: the request id is the client's, if it sent one that is not empty, or the
  first eight characters of a fresh identifier; a response carries it in a header.  The context
  variable is set for the call and restored whether the call returns or raises.
\<close>

definition request_id :: "string option \<Rightarrow> uuid \<Rightarrow> string" where
  "request_id header fresh =
     (case header of
        Some h \<Rightarrow> if h \<noteq> [] then h else take 8 (uuid_str fresh)
      | None \<Rightarrow> take 8 (uuid_str fresh))"

text \<open>
  \<open>response.headers[key] = value\<close>: names are stored in lower case; the first entry of the name is
  replaced and further ones are dropped, or a new entry goes to the end.
\<close>

fun replace_header :: "string \<Rightarrow> string \<Rightarrow> (string \<times> string) list \<Rightarrow> (string \<times> string) list" where
  "replace_header key v [] = [(key, v)]"
| "replace_header key v (h # hs) =
     (if fst h = key then (key, v) # filter (\<lambda>h. fst h \<noteq> key) hs else h # replace_header key v hs)"

definition set_header :: "string \<Rightarrow> string \<Rightarrow> (string \<times> string) list \<Rightarrow> (string \<times> string) list" where
  "set_header name v hs = replace_header (lower name) v hs"

record http_message =
  hm_status :: nat
  hm_headers :: "(string \<times> string) list"

definition logging_middleware ::
    "string option \<Rightarrow> uuid \<Rightarrow> (string option \<Rightarrow> exn + http_message) \<Rightarrow> string option \<Rightarrow>
     (exn + http_message) \<times> string option" where
  "logging_middleware header fresh call_next request_id_var =
     (let req_id = request_id header fresh
      in (case call_next (Some req_id) of
            Inl e \<Rightarrow> Inl e
          | Inr response \<Rightarrow>
              Inr (response\<lparr>hm_headers := set_header ''X-Request-ID'' req_id (hm_headers response)\<rparr>),
          request_id_var))"

section \<open>Facts\<close>

lemma connect_loop_Inr:
  "connect_loop n i attempts = Inr p \<longleftrightarrow>
     (\<exists>k<n. attempts (i + k) = Opened p \<and> (\<forall>j<k. \<exists>e. attempts (i + j) = OSError e))"
proof (induction n arbitrary: i)
  case (Suc n)
  then show ?case
    by (cases "attempts i") (auto simp: Ex_less_Suc2 All_less_Suc2)
qed simp

section \<open>Properties\<close>

text \<open>
  C39 (connect_retries_boundedly): Connecting to the database gives up after ten attempts: it succeeds
  exactly when one of the first ten opens a pool and all before it failed with an \<open>OSError\<close>, or when
  a pool is open already; when it does not succeed no pool is left behind, and every later use
  reports that the pool is not initialised.
\<close>

theorem connect_retries_boundedly:
  "(fst (db_connect attempts m) = Inr p \<longleftrightarrow>
      dm_pool m = Some p \<or>
      dm_pool m = None \<and> (\<exists>k<10. attempts k = Opened p \<and> (\<forall>j<k. \<exists>e. attempts j = OSError e))) \<and>
   db_pool (snd (db_connect attempts m)) =
     (case fst (db_connect attempts m) of
        Inl e \<Rightarrow> Inl (DbExn ConnectionPoolNotInitializedError)
      | Inr q \<Rightarrow> Inr q)"
  using connect_loop_Inr [of 10 0 attempts p]
  by (auto simp: db_connect_def db_pool_def split: option.splits sum.splits)

theorem connect_retries_boundedly_witness:
  "fst (db_connect (\<lambda>i. if i < 9 then OSError ''refused'' else Opened 5) \<lparr>dm_pool = None\<rparr>) = Inr 5 \<and>
   fst (db_connect (\<lambda>i. if i < 10 then OSError ''refused'' else Opened 5) \<lparr>dm_pool = None\<rparr>) \<noteq> Inr 5"
proof
  show "fst (db_connect (\<lambda>i. if i < 9 then OSError ''refused'' else Opened 5) \<lparr>dm_pool = None\<rparr>) = Inr 5"
    by (subst conjunct1 [OF connect_retries_boundedly]) (auto intro!: exI [of _ 9])
  show "fst (db_connect (\<lambda>i. if i < 10 then OSError ''refused'' else Opened 5) \<lparr>dm_pool = None\<rparr>) \<noteq> Inr 5"
    using connect_retries_boundedly [of "\<lambda>i. if i < 10 then OSError ''refused'' else Opened 5" "\<lparr>dm_pool = None\<rparr>" 5]
    by force
qed

text \<open>
  When the ping of the first connection attempt fails, the
  attempt raises but the client stays stored: the next call returns it without a ping, and the
  accessor hands it out as initialised.
\<close>

theorem failed_redis_connect_looks_connected:
  assumes "rm_client m = None" and "redis_connect new (Some fault) m = (r, m')"
  shows "(\<exists>e. r = Inl (RedisExn e)) \<and> redis_connect new' ping m' = (Inr new, m') \<and> redis_client m' = Inr new"
  using assms handle_redis_errors_cases [of "Inl fault :: redis_exc + nat" "''connect''"]
  by (auto simp: redis_connect_def redis_client_def Let_def)

theorem failed_redis_connect_looks_connected_witness:
  "redis_connect 8 (Some (DriverTimeoutError ''t''))
     (snd (redis_connect 7 (Some (DriverConnectionError ''c'')) \<lparr>rm_pool = None, rm_client = None\<rparr>)) =
   (Inr 7, \<lparr>rm_pool = Some 7, rm_client = Some 7\<rparr>)"
  using failed_redis_connect_looks_connected
    [of "\<lparr>rm_pool = None, rm_client = None\<rparr>" 7 "DriverConnectionError ''c''"
        "fst (redis_connect 7 (Some (DriverConnectionError ''c'')) \<lparr>rm_pool = None, rm_client = None\<rparr>)"
        "snd (redis_connect 7 (Some (DriverConnectionError ''c'')) \<lparr>rm_pool = None, rm_client = None\<rparr>)"
        8 "Some (DriverTimeoutError ''t'')"]
  by (simp add: redis_connect_def)



text \<open>Every response carries the request id it was logged under, once, and the context is restored.\<close>

lemma replace_header_once: "filter (\<lambda>h. fst h = k) (replace_header k v hs) = [(k, v)]"
  by (induction hs) (auto simp: filter_empty_conv)

lemma middleware_correlates:
  "snd (logging_middleware header fresh call_next var) = var \<and>
   (\<forall>resp. fst (logging_middleware header fresh call_next var) = Inr resp \<longrightarrow>
      filter (\<lambda>h. fst h = lower ''X-Request-ID'') (hm_headers resp) =
        [(lower ''X-Request-ID'', request_id header fresh)])"
  by (auto simp: logging_middleware_def set_header_def replace_header_once Let_def split: sum.splits)

lemma drain_partitions:
  "mset (fst (drain_background_tasks n ts)) + mset (snd (drain_background_tasks n ts)) = mset (map fst ts)"
proof -
  have "image_mset fst {#x \<in># mset ts. snd x \<le> n#} + image_mset fst {#x \<in># mset ts. \<not> snd x \<le> n#} =
      image_mset fst (mset ts)"
    by (metis image_mset_union multiset_partition)
  then show ?thesis by (simp add: drain_background_tasks_def)
qed

end
