(* ===== verification/Wiring.thy ===== *)
theory Wiring
  imports Lifecycle Config Pubsub_Listener
begin

text \<open>
  How a worker's objects are put together: the constructors of the managers and services, what
  \<open>lifespan\<close> of \<open>src/src/main.py\<close> attaches to \<open>app.state\<close>, and the extractors and service factories of
  \<open>src/src/api/dependencies.py\<close> that every request resolves.  An object that is only passed on is a
  number, its identity; the Redis manager is its state, because its client is looked up on each
  request.  pydantic's \<open>PostgresDsn.build\<close> is a parameter.
\<close>

section \<open>The managers\<close>

record DatabaseManager =
  dbm_dsn :: string
  dbm_min_size :: int
  dbm_max_size :: int
  dbm_timeout_ms :: int
  dbm_command_timeout_ms :: int

record RedisManager =
  rdm_url :: string
  rdm_max_connections :: int
  rdm_decode_responses :: bool
  rdm_timeout_ms :: int
  rdm_socket_timeout_ms :: int

definition DatabaseConfig_dsn ::
    "(string \<Rightarrow> string \<Rightarrow> string \<Rightarrow> string \<Rightarrow> int \<Rightarrow> string \<Rightarrow> string) \<Rightarrow> DatabaseConfig \<Rightarrow> string" where
  "DatabaseConfig_dsn build c =
     build ''postgresql'' (dc_user c) (dc_password c) (dc_host c) (dc_port c) (dc_database c)"

text \<open>An argument that is not given has the default of the constructor.\<close>

definition or_default :: "'a option \<Rightarrow> 'a \<Rightarrow> 'a" where
  "or_default given dflt = (case given of None \<Rightarrow> dflt | Some v \<Rightarrow> v)"

definition DatabaseManager_init ::
    "string \<Rightarrow> int option \<Rightarrow> int option \<Rightarrow> int option \<Rightarrow> int option \<Rightarrow> DatabaseManager" where
  "DatabaseManager_init dsn min_size max_size timeout command_timeout =
     \<lparr>dbm_dsn = dsn, dbm_min_size = or_default min_size 5, dbm_max_size = or_default max_size 70,
      dbm_timeout_ms = or_default timeout 10000, dbm_command_timeout_ms = or_default command_timeout 15000\<rparr>"

definition RedisManager_init ::
    "string \<Rightarrow> int option \<Rightarrow> bool option \<Rightarrow> int option \<Rightarrow> int option \<Rightarrow> RedisManager" where
  "RedisManager_init url max_connections decode_responses timeout socket_timeout =
     \<lparr>rdm_url = url, rdm_max_connections = or_default max_connections 200,
      rdm_decode_responses = or_default decode_responses True, rdm_timeout_ms = or_default timeout 10000,
      rdm_socket_timeout_ms = or_default socket_timeout 5000\<rparr>"

text \<open>The two calls of \<open>lifespan\<close>.\<close>

definition lifespan_database ::
    "(string \<Rightarrow> string \<Rightarrow> string \<Rightarrow> string \<Rightarrow> int \<Rightarrow> string \<Rightarrow> string) \<Rightarrow> AppConfig \<Rightarrow> DatabaseManager" where
  "lifespan_database build settings =
     DatabaseManager_init (DatabaseConfig_dsn build (ac_database settings))
       (Some (dc_min_pool_size (ac_database settings))) (Some (dc_max_pool_size (ac_database settings))) None None"

definition lifespan_redis :: "AppConfig \<Rightarrow> RedisManager" where
  "lifespan_redis settings =
     RedisManager_init (rc_url (ac_redis settings)) (Some (rc_max_connections (ac_redis settings))) None None None"

section \<open>The state of the application\<close>

record WebSocketManager =
  wsm_db :: nat
  wsm_redis :: nat
  wsm_redis_url :: "string option"
  wsm_channel_name :: string

definition WebSocketManager_init :: "nat \<Rightarrow> nat \<Rightarrow> string option \<Rightarrow> string option \<Rightarrow> WebSocketManager" where
  "WebSocketManager_init db redis redis_url channel_name =
     \<lparr>wsm_db = db, wsm_redis = redis, wsm_redis_url = redis_url,
      wsm_channel_name = or_default channel_name CHANNEL_NAME\<rparr>"

record app_state =
  state_db :: nat
  state_redis :: redis_manager
  state_auth_cache :: nat
  state_ws_manager :: WebSocketManager

text \<open>After the managers are connected; reading the client raises when there is none.\<close>

definition attach_state :: "nat \<Rightarrow> redis_manager \<Rightarrow> nat \<Rightarrow> app_state result" where
  "attach_state db redis cache =
     res_bind (redis_client redis) (\<lambda>client.
       Inr \<lparr>state_db = db, state_redis = redis, state_auth_cache = cache,
            state_ws_manager = WebSocketManager_init db client None None\<rparr>)"

text \<open>
  The client and the channel the Pub/Sub listener is given, and whether it closes the client when it
  ends: with a URL of its own it makes a client (\<open>new\<close>), otherwise it shares the manager's.
\<close>

definition listener_arguments :: "nat \<Rightarrow> WebSocketManager \<Rightarrow> nat \<times> string \<times> bool" where
  "listener_arguments new ws =
     (if start_pubsub_listener (wsm_redis_url ws) then (new, wsm_channel_name ws, True)
      else (wsm_redis ws, wsm_channel_name ws, False))"

section \<open>Extractors\<close>

text \<open>A request and a WebSocket read the same \<open>app.state\<close>.\<close>

definition get_db :: "app_state \<Rightarrow> nat" where
  "get_db st = state_db st"

definition get_redis :: "app_state \<Rightarrow> nat result" where
  "get_redis st = redis_client (state_redis st)"

definition get_ws_manager :: "app_state \<Rightarrow> WebSocketManager" where
  "get_ws_manager st = state_ws_manager st"

definition get_token_cache :: "app_state \<Rightarrow> nat" where
  "get_token_cache st = state_auth_cache st"

definition get_db_ws :: "app_state \<Rightarrow> nat" where
  "get_db_ws st = state_db st"

definition get_token_cache_ws :: "app_state \<Rightarrow> nat" where
  "get_token_cache_ws st = state_auth_cache st"

definition get_ws_manager_ws :: "app_state \<Rightarrow> WebSocketManager" where
  "get_ws_manager_ws st = state_ws_manager st"

section \<open>Services\<close>

record AuthService =
  au_db :: nat
  au_redis :: nat
  au_cache :: nat
  au_settings :: AuthConfig

record UserService =
  us_db :: nat

record MessagingService =
  ms_db :: nat
  ms_ws :: WebSocketManager

record GroupService =
  gs_db :: nat
  gs_redis :: nat
  gs_ws :: WebSocketManager

text \<open>\<open>auth_settings or get_settings().auth\<close>: a settings object is always true.\<close>

definition AuthService_init :: "AppConfig \<Rightarrow> nat \<Rightarrow> nat \<Rightarrow> nat \<Rightarrow> AuthConfig option \<Rightarrow> AuthService" where
  "AuthService_init settings db redis cache auth_settings =
     \<lparr>au_db = db, au_redis = redis, au_cache = cache, au_settings = or_default auth_settings (ac_auth settings)\<rparr>"

definition get_auth_service :: "AppConfig \<Rightarrow> app_state \<Rightarrow> AuthService result" where
  "get_auth_service settings st =
     res_bind (get_redis st) (\<lambda>redis. Inr (AuthService_init settings (get_db st) redis (get_token_cache st) None))"

definition get_user_service :: "app_state \<Rightarrow> UserService result" where
  "get_user_service st = Inr \<lparr>us_db = get_db st\<rparr>"

definition get_messaging_service :: "app_state \<Rightarrow> MessagingService result" where
  "get_messaging_service st = Inr \<lparr>ms_db = get_db st, ms_ws = get_ws_manager st\<rparr>"

definition get_group_service :: "app_state \<Rightarrow> GroupService result" where
  "get_group_service st =
     res_bind (get_redis st) (\<lambda>redis. Inr \<lparr>gs_db = get_db st, gs_redis = redis, gs_ws = get_ws_manager st\<rparr>)"

section \<open>Facts\<close>

lemmas factory_defs =
  get_auth_service_def get_user_service_def get_messaging_service_def get_group_service_def
  get_db_def get_redis_def get_ws_manager_def get_token_cache_def get_db_ws_def get_token_cache_ws_def
  get_ws_manager_ws_def AuthService_init_def WebSocketManager_init_def or_default_def redis_client_def

text \<open>
  After a startup that succeeded every service of the worker works on the same database, the same
  Redis client and the same cache, which is also the one a WebSocket handshake reads; the push
  listener shares that client and leaves it open.
\<close>

theorem services_share_the_workers_objects:
  assumes "lifespan_startup attempts lock_fault new ping_fault r = (Inr (), r')"
  shows "\<exists>st client auth grp. attach_state db (res_redis r') cache = Inr st \<and>
    rm_client (res_redis r') = Some client \<and>
    get_auth_service settings st = Inr auth \<and> au_redis auth = client \<and> au_db auth = db \<and> au_cache auth = cache \<and>
    au_settings auth = ac_auth settings \<and>
    get_group_service st = Inr grp \<and> gs_redis grp = client \<and> gs_db grp = db \<and>
    wsm_redis (gs_ws grp) = client \<and> wsm_db (gs_ws grp) = db \<and>
    get_token_cache_ws st = cache \<and> get_db_ws st = db \<and> get_ws_manager_ws st = gs_ws grp \<and>
    listener_arguments fresh (get_ws_manager st) = (client, ''ws_pushes'', False)"
proof -
  obtain client where "rm_client (res_redis r') = Some client"
    using assms
    by (auto simp: lifespan_startup_def redis_connect_def Let_def split: prod.splits sum.splits option.splits)
  then show ?thesis
    by (simp add: attach_state_def factory_defs listener_arguments_def start_pubsub_listener_def CHANNEL_NAME_def)
qed

text \<open>
  Once the Redis manager is disconnected the services that publish cannot be built, so their requests
  fail before anything is stored; accounts and messages go on with the database, and the WebSocket
  manager keeps the closed client it was given at the start.
\<close>

theorem closed_redis_stops_publishing_services:
  assumes "attach_state db redis cache = Inr st"
  shows "let st' = st\<lparr>state_redis := redis_disconnect None None redis\<rparr>
    in get_auth_service settings st' = Inl (RedisExn RedisClientNotInitializedError) \<and>
       get_group_service st' = Inl (RedisExn RedisClientNotInitializedError) \<and>
       (\<exists>us ms. get_user_service st' = Inr us \<and> get_messaging_service st' = Inr ms \<and>
          redis_client redis = Inr (wsm_redis (ms_ws ms)))"
  using assms
  by (auto simp: attach_state_def factory_defs redis_disconnect_def Let_def res_bind_iffs split: option.splits)

text \<open>The configured command time-out has no effect: whatever it is, commands time out after 15 seconds.\<close>

theorem configured_command_timeout_is_ignored:
  "lifespan_database build (settings\<lparr>ac_database := (ac_database settings)\<lparr>dc_command_timeout_ms := t\<rparr>\<rparr>) =
     lifespan_database build settings \<and>
   dbm_command_timeout_ms (lifespan_database build settings) = 15000"
  by (simp add: lifespan_database_def DatabaseManager_init_def DatabaseConfig_dsn_def or_default_def)

end
