(* ===== verification/Logging_Setup.thy ===== *)
theory Logging_Setup
  imports Config
begin

text \<open>
  \<open>get_logging_config\<close> and \<open>setup_logging\<close> of \<open>src/src/config/logging.py\<close>: the dictionary handed to
  \<open>logging.config.dictConfig\<close>, and the checks of that function the dictionary has to pass.
\<close>

section \<open>The dictionary\<close>

record formatter_config =
  fc_factory :: string
  fc_format :: "string option"
  fc_datefmt :: "string option"

record handler_config =
  hc_class :: string
  hc_stream :: string
  hc_formatter :: string
  hc_filters :: "string list"

record logger_config =
  gc_level :: string
  gc_handlers :: "string list"
  gc_propagate :: "bool option"

record logging_dict =
  ld_version :: int
  ld_disable_existing_loggers :: bool
  ld_filters :: "(string \<times> string) list"
  ld_formatters :: "(string \<times> formatter_config) list"
  ld_handlers :: "(string \<times> handler_config) list"
  ld_root :: logger_config
  ld_loggers :: "(string \<times> logger_config) list"

text \<open>\<open>str.upper\<close> on the letters of ASCII; other characters are left as they are here.\<close>

definition char_upper :: "char \<Rightarrow> char" where
  "char_upper c = (if 97 \<le> char_code c \<and> char_code c \<le> 122 then char_of (char_code c - 32) else c)"

definition upper :: "string \<Rightarrow> string" where
  "upper s = map char_upper s"

definition get_logging_config :: "LoggingConfig \<Rightarrow> logging_dict" where
  "get_logging_config logging =
     \<lparr>ld_version = 1,
      ld_disable_existing_loggers = False,
      ld_filters = [(''context'', ''LogContextFilter'')],
      ld_formatters =
        [(''standard'',
          \<lparr>fc_factory = ''SafeStandardFormatter'',
           fc_format = Some ''%(asctime)s [%(levelname)s] [pid:%(process)d] [%(name)s]%(req_tag)s %(message)s'',
           fc_datefmt = Some ''%Y-%m-%d %H:%M:%S''\<rparr>),
         (''json'', \<lparr>fc_factory = ''JSONFormatter'', fc_format = None, fc_datefmt = None\<rparr>)],
      ld_handlers =
        [(''console'',
          \<lparr>hc_class = ''logging.StreamHandler'', hc_stream = ''stdout'',
           hc_formatter = (if use_json logging then ''json'' else ''standard''), hc_filters = [''context'']\<rparr>)],
      ld_root = \<lparr>gc_level = upper (lc_level logging), gc_handlers = [''console''], gc_propagate = None\<rparr>,
      ld_loggers =
        [(''uvicorn.access'', \<lparr>gc_level = ''WARNING'', gc_handlers = [''console''], gc_propagate = Some False\<rparr>),
         (''uvicorn.error'',
          \<lparr>gc_level = upper (lc_level logging), gc_handlers = [''console''], gc_propagate = Some False\<rparr>)]\<rparr>"

section \<open>Applying it\<close>

text \<open>The level names the logging module knows.\<close>

definition level_names :: "string list" where
  "level_names = [''CRITICAL'', ''FATAL'', ''ERROR'', ''WARN'', ''WARNING'', ''INFO'', ''DEBUG'', ''NOTSET'']"

definition logger_accepted :: "logging_dict \<Rightarrow> logger_config \<Rightarrow> bool" where
  "logger_accepted ld g \<longleftrightarrow>
     gc_level g \<in> set level_names \<and> set (gc_handlers g) \<subseteq> fst ` set (ld_handlers ld)"

text \<open>Every name must be declared, and every level known; otherwise \<open>dictConfig\<close> raises \<open>ValueError\<close>.\<close>

definition dictConfig_accepts :: "logging_dict \<Rightarrow> bool" where
  "dictConfig_accepts ld \<longleftrightarrow>
     ld_version ld = 1 \<and>
     list_all (\<lambda>(n, h). hc_formatter h \<in> fst ` set (ld_formatters ld) \<and>
                        set (hc_filters h) \<subseteq> fst ` set (ld_filters ld)) (ld_handlers ld) \<and>
     list_all (\<lambda>(n, g). logger_accepted ld g) (ld_loggers ld) \<and> logger_accepted ld (ld_root ld)"

definition setup_logging :: "LoggingConfig \<Rightarrow> bool" where
  "setup_logging logging = dictConfig_accepts (get_logging_config logging)"

text \<open>
  The dictionary is consistent whatever the settings; the only setting that can make the worker fail
  here is a level whose upper-case form is not the name of a level, and the default is one.
\<close>

theorem logging_setup_succeeds:
  "setup_logging logging \<longleftrightarrow> upper (lc_level logging) \<in> set level_names"
  by (auto simp: setup_logging_def dictConfig_accepts_def get_logging_config_def logger_accepted_def
      console_formatter_def level_names_def)

lemma default_logging_succeeds: "setup_logging default_logging"
  by (simp add: logging_setup_succeeds default_logging_def upper_def char_upper_def level_names_def)

end
