(* ===== verification/Refresh_Race.thy ===== *)
theory Refresh_Race
  imports Auth_Service
begin

text \<open>
  Concurrent refreshes.  \<open>refresh\<close> of \<open>src/src/services/auth.py\<close> reads the token row with FOR UPDATE
  (\<open>_with_lock\<close> of \<open>src/src/database/queries.py\<close>) and writes later in the same transaction, so other
  transactions of any worker may commit between the read and the writes.  At READ COMMITTED a locked
  row is neither changed nor locked by another transaction until its holder ends, and a statement that
  waited for the lock sees the committed row.
\<close>

section \<open>The transaction in two parts\<close>

text \<open>The block of \<open>refresh\<close> behind its first statement.\<close>

definition refresh_rest :: "timestamp \<Rightarrow> string \<Rightarrow> TokenPair \<Rightarrow> RefreshToken \<Rightarrow> (uuid \<times> bool) tx" where
  "refresh_rest now refresh_hash token_pair token_record =
     (let user_id = rt_user_id token_record
      in if rt_is_revoked token_record
         then tx_bind (db_revoke_all_user_access_tokens user_id) (\<lambda>_.
              tx_bind (db_revoke_all_user_refresh_tokens user_id) (\<lambda>_. tx_return (user_id, True)))
         else if rt_is_expired now token_record
         then tx_raise (ServiceExn TokenExpiredError)
         else tx_bind (db_revoke_refresh_token refresh_hash) (\<lambda>_.
              tx_bind (issue_token_pair user_id token_pair) (\<lambda>_. tx_return (user_id, False))))"

lemma refresh_body_split:
  "refresh_body now h pair = tx_bind (tx_read (db_get_refresh_token h)) (refresh_rest now h pair)"
  by (simp add: refresh_body_def refresh_rest_def [abs_def])

section \<open>Interleaved transactions\<close>

datatype rotation =
    Idle
  | Waiting timestamp string TokenPair
  | Holding timestamp string TokenPair RefreshToken
  | Ended "(uuid \<times> bool) option"

text \<open>\<open>rotated\<close> records the hashes for which a new pair was committed.\<close>

record race =
  committed :: db
  rotations :: "nat \<Rightarrow> rotation"
  rotated :: "string list"

definition locked :: "race \<Rightarrow> string set" where
  "locked s = {h. \<exists>i now pair t. rotations s i = Holding now h pair t}"

text \<open>Other holders' rows are as they were, and no row takes the hash of a token rotated before.\<close>

definition undisturbed :: "bool \<Rightarrow> string set \<Rightarrow> race \<Rightarrow> db \<Rightarrow> bool" where
  "undisturbed for_update own s d' \<longleftrightarrow>
     (for_update \<longrightarrow> (\<forall>k\<in>locked s - own. FETCH_REFRESH_TOKEN k d' = FETCH_REFRESH_TOKEN k (committed s))) \<and>
     (\<forall>k\<in>set (rotated s). FETCH_REFRESH_TOKEN k (committed s) = None \<longrightarrow> FETCH_REFRESH_TOKEN k d' = None)"

text \<open>
  \<open>for_update\<close> is the argument of \<open>get_refresh_token\<close>.  A transaction may end without effect at any time
  while it holds the row: it raised, the infrastructure failed, or the server broke a deadlock.
\<close>

inductive race_step :: "bool \<Rightarrow> race \<Rightarrow> race \<Rightarrow> bool" for for_update where
  begin_refresh:
    "rotations s i = Idle \<Longrightarrow>
     race_step for_update s (s\<lparr>rotations := (rotations s)(i := Waiting now h pair)\<rparr>)"
| read_row:
    "rotations s i = Waiting now h pair \<Longrightarrow> (for_update \<Longrightarrow> h \<notin> locked s) \<Longrightarrow>
     FETCH_REFRESH_TOKEN h (committed s) = Some t \<Longrightarrow>
     race_step for_update s (s\<lparr>rotations := (rotations s)(i := Holding now h pair t)\<rparr>)"
| no_row:
    "rotations s i = Waiting now h pair \<Longrightarrow> FETCH_REFRESH_TOKEN h (committed s) = None \<Longrightarrow>
     race_step for_update s (s\<lparr>rotations := (rotations s)(i := Ended None)\<rparr>)"
| commit_refresh:
    "rotations s i = Holding now h pair t \<Longrightarrow>
     refresh_rest now h pair t (committed s) = Inr ((u, reused), d') \<Longrightarrow> undisturbed for_update {h} s d' \<Longrightarrow>
     race_step for_update s
       (s\<lparr>committed := d', rotations := (rotations s)(i := Ended (Some (u, reused))),
          rotated := (if reused then rotated s else h # rotated s)\<rparr>)"
| abort_refresh:
    "rotations s i = Holding now h pair t \<Longrightarrow>
     race_step for_update s (s\<lparr>rotations := (rotations s)(i := Ended None)\<rparr>)"
| other_write:
    "db_write (committed s) d' \<Longrightarrow> undisturbed for_update {} s d' \<Longrightarrow>
     race_step for_update s (s\<lparr>committed := d'\<rparr>)"

inductive_cases race_stepE: "race_step for_update s s'"

section \<open>The invariant\<close>

definition spent :: "string \<Rightarrow> db \<Rightarrow> bool" where
  "spent h d \<longleftrightarrow> (\<forall>t\<in>set (refresh_tokens d). rt_token_hash t = h \<longrightarrow> rt_is_revoked t)"

definition race_ok :: "race \<Rightarrow> bool" where
  "race_ok s \<longleftrightarrow>
     (\<forall>i now h pair t. rotations s i = Holding now h pair t \<longrightarrow> FETCH_REFRESH_TOKEN h (committed s) = Some t) \<and>
     (\<forall>i j now now' h pair pair' t t'. rotations s i = Holding now h pair t \<longrightarrow>
        rotations s j = Holding now' h pair' t' \<longrightarrow> i = j) \<and>
     (\<forall>h\<in>set (rotated s). spent h (committed s)) \<and> distinct (rotated s)"

lemma FETCH_REFRESH_None: "FETCH_REFRESH_TOKEN h d = None \<longleftrightarrow> (\<forall>t\<in>set (refresh_tokens d). rt_token_hash t \<noteq> h)"
  by (simp add: FETCH_REFRESH_TOKEN_def fetchrow_None_iff)

lemma spent_same: "refresh_tokens d' = refresh_tokens d \<Longrightarrow> spent h d \<Longrightarrow> spent h d'"
  by (simp add: spent_def)

lemma spent_fetch: "spent h d \<Longrightarrow> FETCH_REFRESH_TOKEN h d = Some t \<Longrightarrow> rt_is_revoked t"
  by (auto simp: spent_def FETCH_REFRESH_TOKEN_def dest: fetchrow_SomeD)

text \<open>Revoking never makes a token usable again.\<close>

lemma spent_update_where:
  assumes "\<And>t. rt_token_hash (f t) = rt_token_hash t" and "\<And>t. rt_is_revoked (f t)"
    and "refresh_tokens d' = update_where p f (refresh_tokens d)"
  shows "spent h d \<Longrightarrow> spent h d'" and "(\<And>t. rt_token_hash t = h \<Longrightarrow> p t) \<Longrightarrow> spent h d'"
  using assms unfolding spent_def by (auto simp: in_update_where_iff)

lemma revoked_tables:
  "refresh_tokens (snd (REVOKE_REFRESH_TOKEN k d)) =
     update_where (\<lambda>t. rt_token_hash t = k) (\<lambda>t. t\<lparr>rt_is_revoked := True\<rparr>) (refresh_tokens d)"
  "refresh_tokens (REVOKE_ALL_USER_REFRESH_TOKENS u d) =
     update_where (\<lambda>t. rt_user_id t = u) (\<lambda>t. t\<lparr>rt_is_revoked := True\<rparr>) (refresh_tokens d)"
  by (simp_all add: REVOKE_REFRESH_TOKEN_def REVOKE_ALL_USER_REFRESH_TOKENS_def Let_def)

lemma spent_revoke:
  "spent h d \<Longrightarrow> spent h (snd (REVOKE_REFRESH_TOKEN k d))"
  "spent h d \<Longrightarrow> spent h (REVOKE_ALL_USER_REFRESH_TOKENS u d)"
  "spent h (snd (REVOKE_REFRESH_TOKEN h d))"
  using spent_update_where [OF _ _ revoked_tables(1)] spent_update_where [OF _ _ revoked_tables(2)] by simp_all

lemma spent_append:
  assumes "spent h d" and "rt_token_hash t \<notin> rt_token_hash ` set (refresh_tokens d)"
    and "refresh_tokens d' = refresh_tokens d @ [t]"
    and "FETCH_REFRESH_TOKEN h d = None \<longrightarrow> FETCH_REFRESH_TOKEN h d' = None"
  shows "spent h d'"
proof (cases "rt_token_hash t = h")
  case True
  with assms(2) have "FETCH_REFRESH_TOKEN h d = None" unfolding FETCH_REFRESH_None by (metis imageI)
  with assms(3,4) True show ?thesis by (simp add: FETCH_REFRESH_None)
next
  case False
  with assms(1,3) show ?thesis by (auto simp: spent_def)
qed

lemma db_write_spent:
  assumes "db_write d d'" and "spent h d"
    and fresh: "FETCH_REFRESH_TOKEN h d = None \<longrightarrow> FETCH_REFRESH_TOKEN h d' = None"
  shows "spent h d'"
  using assms(1,2)
proof (cases rule: db_write.cases)
  case (w_insert_refresh args)
  then obtain t where "refresh_tokens d' = refresh_tokens d @ [t]"
      "rt_token_hash t \<notin> rt_token_hash ` set (refresh_tokens d)"
    by (auto simp: INSERT_REFRESH_TOKEN_def list_ex_key split: option.splits if_splits)
  then show ?thesis by (intro spent_append [OF assms(2) _ _ fresh])
next
  case (w_delete_user u tag)
  then have "set (refresh_tokens d') \<subseteq> set (refresh_tokens d)"
    by (auto simp: DELETE_USER_BY_ID_def cascade_user_def Let_def split: if_splits)
  with assms(2) show ?thesis by (auto simp: spent_def)
next
  case (w_expired_refresh now)
  with assms(2) show ?thesis by (auto simp: spent_def EXPIRED_REFRESH_TOKENS_def Let_def delete_where_def)
next
  case w_clear
  then show ?thesis by (simp add: spent_def CLEAR_TABLES_def)
next
  case (w_revoke_refresh k)
  with assms(2) show ?thesis by (simp add: spent_revoke)
next
  case (w_revoke_all_refresh u)
  with assms(2) show ?thesis by (simp add: spent_revoke)
qed (auto intro!: spent_same [OF _ assms(2)] simp: INSERT_USER_def DEACTIVATE_USER_def REACTIVATE_USER_def
    CHANGE_PASSWORD_def SEND_FRIEND_REQUEST_def ACCEPT_FRIEND_REQUEST_def INSERT_ACCESS_TOKEN_def
    REVOKE_ACCESS_TOKEN_def REVOKE_ALL_USER_ACCESS_TOKENS_def CREATE_GROUP_def ADD_GROUP_MEMBER_def SEND_DM_def
    SEND_GROUP_MESSAGE_def REMOVE_FRIENDSHIP_def EXPIRED_ACCESS_TOKENS_def DELETE_GROUP_def
    REMOVE_GROUP_MEMBER_def Let_def split: if_splits option.splits)

text \<open>What a committed refresh did, from the row it read.\<close>

lemma refresh_rest_cases:
  assumes "refresh_rest now h pair t d = Inr ((u, reused), d')"
  obtains (reuse) "reused" "d' = REVOKE_ALL_USER_REFRESH_TOKENS u (REVOKE_ALL_USER_ACCESS_TOKENS u d)"
    | (rotate) "\<not> reused" "\<not> rt_is_revoked t"
      "issue_token_pair u pair (snd (REVOKE_REFRESH_TOKEN h d)) = Inr ((), d')"
  using assms
  by (auto simp: refresh_rest_def tx_ops res_bind_iffs query_defs Let_def db_revoke_all_user_access_tokens_def
      db_revoke_all_user_refresh_tokens_def split: if_splits)

lemma refresh_rest_spent:
  assumes "refresh_rest now h pair t d = Inr ((u, reused), d')"
    and "spent k d \<or> k = h \<and> \<not> reused"
    and "FETCH_REFRESH_TOKEN k d = None \<longrightarrow> FETCH_REFRESH_TOKEN k d' = None"
  shows "spent k d'"
  using assms(1)
proof (cases rule: refresh_rest_cases)
  case reuse
  with assms(2) have "spent k (REVOKE_ALL_USER_ACCESS_TOKENS u d)"
    by (auto intro: spent_same simp: REVOKE_ALL_USER_ACCESS_TOKENS_def)
  with reuse show ?thesis by (simp add: spent_revoke)
next
  case rotate
  let ?d = "snd (REVOKE_REFRESH_TOKEN h d)"
  have "spent k ?d" using assms(2) by (auto intro: spent_revoke)
  moreover have "FETCH_REFRESH_TOKEN k ?d = None \<longrightarrow> FETCH_REFRESH_TOKEN k d' = None"
    using assms(3) refreshes.fetch_revoke [of k h d] by simp
  ultimately show ?thesis
    using rotate(3) spent_append [of k ?d "refresh_row u pair" d']
    by (auto simp: issue_token_pair_eq refresh_row_def split: if_splits)
qed

lemma race_okD:
  assumes "race_ok s"
  shows "rotations s i = Holding now h pair t \<Longrightarrow> FETCH_REFRESH_TOKEN h (committed s) = Some t"
    and "rotations s i = Holding now h pair t \<Longrightarrow> rotations s j = Holding now' h pair' t' \<Longrightarrow> i = j"
    and "h \<in> set (rotated s) \<Longrightarrow> spent h (committed s)"
    and "distinct (rotated s)"
  using assms unfolding race_ok_def by blast+

text \<open>A transaction that ends or waits gives up nothing that the others rely on.\<close>

lemma race_ok_release:
  assumes "race_ok s" and "\<And>now h pair t. r \<noteq> Holding now h pair t"
  shows "race_ok (s\<lparr>rotations := (rotations s)(i := r)\<rparr>)"
  using assms unfolding race_ok_def by (auto split: if_splits)

lemma held_locked: "rotations s i = Holding now h pair t \<Longrightarrow> h \<in> locked s"
  by (auto simp: locked_def)

lemma race_ok_read:
  assumes ok: "race_ok s" and "h \<notin> locked s" and "FETCH_REFRESH_TOKEN h (committed s) = Some t"
  shows "race_ok (s\<lparr>rotations := (rotations s)(i := Holding now h pair t)\<rparr>)"
proof -
  have "rotations s j \<noteq> Holding now' h pair' t'" for j now' pair' t'
    using assms(2) by (auto simp: locked_def)
  with assms show ?thesis unfolding race_ok_def by (auto split: if_splits)
qed

text \<open>A change of the database that respects the locks, made while the own row is given up.\<close>

lemma race_ok_change:
  assumes ok: "race_ok s" and und: "undisturbed True own s d'"
    and own: "\<And>j now h pair t. r j = Holding now h pair t \<Longrightarrow> rotations s j = Holding now h pair t \<and> h \<notin> own"
    and rot: "\<And>h. h \<in> set rs \<Longrightarrow> spent h d'" "distinct rs"
  shows "race_ok (s\<lparr>committed := d', rotations := r, rotated := rs\<rparr>)"
proof -
  have "FETCH_REFRESH_TOKEN h d' = Some t" if "r j = Holding now h pair t" for j now h pair t
    using own [OF that] held_locked race_okD(1) [OF ok] und by (fastforce simp: undisturbed_def)
  moreover have "i = j" if "r i = Holding now h pair t" "r j = Holding now' h pair' t'" for i j now now' h pair pair' t t'
    using own [OF that(1)] own [OF that(2)] race_okD(2) [OF ok] by blast
  ultimately show ?thesis using rot unfolding race_ok_def by auto
qed

lemma race_ok_commit:
  assumes ok: "race_ok s" and hold: "rotations s i = Holding now h pair t"
    and body: "refresh_rest now h pair t (committed s) = Inr ((u, reused), d')" and und: "undisturbed True {h} s d'"
  shows "race_ok (s\<lparr>committed := d', rotations := (rotations s)(i := Ended x),
    rotated := (if reused then rotated s else h # rotated s)\<rparr>)"
proof (rule race_ok_change [OF ok und])
  let ?rs = "if reused then rotated s else h # rotated s"
  fix j now' k pair' t'
  assume "((rotations s)(i := Ended x)) j = Holding now' k pair' t'"
  then have j: "rotations s j = Holding now' k pair' t'" "j \<noteq> i" by (auto split: if_splits)
  with race_okD(2) [OF ok hold] show "rotations s j = Holding now' k pair' t' \<and> k \<notin> {h}" by blast
next
  fix k
  assume k: "k \<in> set (if reused then rotated s else h # rotated s)"
  then have "spent k (committed s) \<or> k = h \<and> \<not> reused" using race_okD(3) [OF ok] by (auto split: if_splits)
  moreover have "FETCH_REFRESH_TOKEN k (committed s) = None \<longrightarrow> FETCH_REFRESH_TOKEN k d' = None"
    using k und race_okD(1) [OF ok hold] by (auto simp: undisturbed_def split: if_splits)
  ultimately show "spent k d'" by (rule refresh_rest_spent [OF body])
next
  have "h \<notin> set (rotated s)" if "\<not> reused"
    using body that spent_fetch [OF race_okD(3) [OF ok] race_okD(1) [OF ok hold]]
    by (auto elim: refresh_rest_cases)
  with race_okD(4) [OF ok] show "distinct (if reused then rotated s else h # rotated s)" by auto
qed

lemma race_step_ok: "race_step True s s' \<Longrightarrow> race_ok s \<Longrightarrow> race_ok s'"
proof (induction rule: race_step.induct)
  case (other_write s d')
  have "race_ok (s\<lparr>committed := d', rotations := rotations s, rotated := rotated s\<rparr>)"
  proof (rule race_ok_change [OF other_write(3,2)])
    fix h assume h: "h \<in> set (rotated s)"
    with other_write(2) have "FETCH_REFRESH_TOKEN h (committed s) = None \<longrightarrow> FETCH_REFRESH_TOKEN h d' = None"
      by (simp add: undisturbed_def)
    then show "spent h d'" by (rule db_write_spent [OF other_write(1) race_okD(3) [OF other_write(3) h]])
  qed (use other_write(3) race_okD(4) in auto)
  then show ?case by simp
qed (simp_all add: race_ok_release race_ok_read race_ok_commit)

interpretation refreshes_race: invariant_system "race_step True" race_ok
  by unfold_locales (rule race_step_ok)

definition start_race :: "db \<Rightarrow> race" where
  "start_race d = \<lparr>committed = d, rotations = (\<lambda>_. Idle), rotated = []\<rparr>"

lemma start_race_ok: "race_ok (start_race d)"
  by (simp add: race_ok_def start_race_def)

section \<open>Properties\<close>

text \<open>
  C3 (concurrent_refreshes_rotate_once): However many workers present refresh tokens at the same time, and
  whatever other statements commit in between, a token is exchanged for a new pair at most once, and it
  is revoked in the database from then on, because its row is locked from the read to the commit.
\<close>

theorem concurrent_refreshes_rotate_once:
  assumes "rtranclp (race_step True) (start_race d) s"
  shows "distinct (rotated s) \<and>
    (\<forall>h t. h \<in> set (rotated s) \<longrightarrow> FETCH_REFRESH_TOKEN h (committed s) = Some t \<longrightarrow> rt_is_revoked t)"
proof -
  have ok: "race_ok s" using refreshes_race.run_inv [OF assms start_race_ok] .
  show ?thesis using race_okD(4) [OF ok] spent_fetch [OF race_okD(3) [OF ok]] by blast
qed

text \<open>The committed effect of a rotation, and a run of the steps before it.\<close>

definition fresh_pair :: "TokenPair \<Rightarrow> db \<Rightarrow> bool" where
  "fresh_pair pair d \<longleftrightarrow>
     hash_token (access_token pair) \<notin> at_token_hash ` set (access_tokens d) \<and>
     hash_token (refresh_token pair) \<notin> rt_token_hash ` set (refresh_tokens d)"

definition rotated_db :: "string \<Rightarrow> TokenPair \<Rightarrow> uuid \<Rightarrow> db \<Rightarrow> db" where
  "rotated_db h pair u d =
     (let d1 = snd (REVOKE_REFRESH_TOKEN h d)
      in d1\<lparr>access_tokens := access_tokens d1 @ [access_row u pair],
            refresh_tokens := refresh_tokens d1 @ [refresh_row u pair]\<rparr>)"

lemma refresh_rest_rotates:
  assumes "\<not> rt_is_revoked t" and "now < rt_expires_at t" and "rt_user_id t \<in> user_ids d"
    and "fresh_pair pair d" and "FETCH_REFRESH_TOKEN h d \<noteq> None"
  shows "refresh_rest now h pair t d = Inr ((rt_user_id t, False), rotated_db h pair (rt_user_id t) d)"
  using assms
  by (simp add: refresh_rest_def tx_ops query_defs rt_is_expired_def issue_token_pair_eq revoke_refresh_same
      fresh_pair_def rotated_db_def Let_def)

lemma race_read_run:
  assumes "FETCH_REFRESH_TOKEN h (committed s) = Some t" and "rotations s i = Idle" and "for_update \<Longrightarrow> h \<notin> locked s"
  shows "rtranclp (race_step for_update) s (s\<lparr>rotations := (rotations s)(i := Holding now h pair t)\<rparr>)"
proof -
  let ?s1 = "s\<lparr>rotations := (rotations s)(i := Waiting now h pair)\<rparr>"
  have "race_step for_update s ?s1" using assms(2) by (rule race_step.begin_refresh)
  moreover have "locked ?s1 \<subseteq> locked s" by (auto simp: locked_def split: if_splits)
  then have "race_step for_update ?s1 (s\<lparr>rotations := (rotations s)(i := Holding now h pair t)\<rparr>)"
    using race_step.read_row [of ?s1 i now h pair for_update t] assms(1,3) by auto
  ultimately show ?thesis by (intro converse_rtranclp_into_rtranclp [OF _ r_into_rtranclp])
qed

lemma sample_rotation:
  "\<exists>s. rtranclp (race_step True) (start_race refresh_db) s \<and> rotated s = [hash_token ''abc'']"
proof -
  let ?h = "hash_token ''abc''" and ?pair = "generate_token_pair default_auth_config sample_draw"
  obtain t where t: "FETCH_REFRESH_TOKEN ?h refresh_db = Some t" "\<not> rt_is_revoked t" "500 < rt_expires_at t" "rt_user_id t = 1"
    using refresh_db_token by auto
  let ?s = "(start_race refresh_db)\<lparr>rotations := (rotations (start_race refresh_db))(0 := Holding 500 ?h ?pair t)\<rparr>"
  have "fresh_pair ?pair refresh_db" using refresh_db_fresh by (simp add: fresh_pair_def fresh_draw_def)
  then have "refresh_rest 500 ?h ?pair t (committed ?s) = Inr ((1, False), rotated_db ?h ?pair 1 refresh_db)"
    using refresh_rest_rotates [of t 500 refresh_db ?pair ?h] t
    by (simp add: start_race_def refresh_db_def sample_db_def sample_user_def)
  moreover have "undisturbed True {?h} ?s (rotated_db ?h ?pair 1 refresh_db)"
    by (auto simp: undisturbed_def locked_def start_race_def split: if_splits)
  ultimately have "race_step True ?s (?s\<lparr>committed := rotated_db ?h ?pair 1 refresh_db,
      rotations := (rotations ?s)(0 := Ended (Some (1, False))), rotated := [?h]\<rparr>)"
    using race_step.commit_refresh [of ?s 0 500 ?h ?pair t 1 False] by (simp add: start_race_def)
  moreover have "rtranclp (race_step True) (start_race refresh_db) ?s"
    by (rule race_read_run) (use t(1) in \<open>auto simp: start_race_def locked_def\<close>)
  ultimately show ?thesis
    by (intro exI conjI) (rule rtranclp.rtrancl_into_rtrancl, assumption+, simp)
qed

theorem concurrent_refreshes_rotate_once_witness:
  "\<exists>s. rtranclp (race_step True) (start_race refresh_db) s \<and> rotated s = [hash_token ''abc''] \<and>
     (\<forall>t. FETCH_REFRESH_TOKEN (hash_token ''abc'') (committed s) = Some t \<longrightarrow> rt_is_revoked t)"
proof -
  obtain s where s: "rtranclp (race_step True) (start_race refresh_db) s" "rotated s = [hash_token ''abc'']"
    using sample_rotation by blast
  with concurrent_refreshes_rotate_once [OF s(1)] show ?thesis by auto
qed

text \<open>
  The lock is what makes it so: without FOR UPDATE two refreshes of one valid token that both read its row
  before either commits each get a pair.
\<close>

lemma unlocked_refreshes_rotate_twice:
  assumes t: "FETCH_REFRESH_TOKEN h d = Some t" "\<not> rt_is_revoked t" "now < rt_expires_at t" "rt_user_id t \<in> user_ids d"
    and p: "fresh_pair p d" and q: "fresh_pair q (rotated_db h p (rt_user_id t) d)"
  shows "\<exists>s. rtranclp (race_step False) (start_race d) s \<and> rotated s = [h, h]"
proof -
  let ?u = "rt_user_id t" and ?r = "rotations (start_race d)"
  let ?d1 = "rotated_db h p ?u d"
  let ?s1 = "(start_race d)\<lparr>rotations := ?r(0 := Holding now h p t)\<rparr>"
  let ?s2 = "?s1\<lparr>rotations := ?r(0 := Holding now h p t, 1 := Holding now h q t)\<rparr>"
  let ?s3 = "?s2\<lparr>committed := ?d1, rotations := ?r(0 := Ended (Some (?u, False)), 1 := Holding now h q t), rotated := [h]\<rparr>"
  let ?s4 = "?s3\<lparr>committed := rotated_db h q ?u ?d1, rotations := ?r(0 := Ended (Some (?u, False)), 1 := Ended (Some (?u, False))), rotated := [h, h]\<rparr>"
  have "FETCH_REFRESH_TOKEN h (snd (REVOKE_REFRESH_TOKEN h d)) \<noteq> None"
    using refreshes.fetch_revoke [of h h d] t(1) by simp
  then have there: "FETCH_REFRESH_TOKEN h ?d1 \<noteq> None" "?u \<in> user_ids ?d1"
    using t(4) by (auto simp: rotated_db_def Let_def FETCH_REFRESH_TOKEN_def fetchrow_append revoke_refresh_same
      split: option.splits)
  have "rtranclp (race_step False) (start_race d) ?s1"
    by (rule race_read_run) (use t(1) in \<open>simp_all add: start_race_def\<close>)
  also have "rtranclp (race_step False) ?s1 ?s2"
    using race_read_run [of h ?s1 t 1 False now q] t(1) by (simp add: start_race_def)
  also have "race_step False ?s2 ?s3"
    using race_step.commit_refresh [of ?s2 0 now h p t ?u False ?d1 False] refresh_rest_rotates [OF t(2-4) p, of h] t(1)
    by (simp add: start_race_def undisturbed_def fun_upd_twist)
  also have "race_step False ?s3 ?s4"
    using race_step.commit_refresh [of ?s3 1 now h q t ?u False _ False] refresh_rest_rotates [OF t(2,3) there(2) q there(1)] there(1)
    by (simp add: start_race_def undisturbed_def fun_upd_twist)
  finally show ?thesis by (intro exI [of _ ?s4]) simp
qed

end
