(* ===== verification/Spec2Isabelle.thy ===== *)
theory Spec2Isabelle
  imports Api_Invariants Api_Responses Social_Progress Interleaving Ws_Endpoint Stream_Listener Pubsub_Listener Lifecycle
    Wiring Config Logging_Setup Refresh_Race
begin

text \<open>
  A verification of the messenger backend: a FastAPI application with PostgreSQL for its data and Redis
  for what its workers tell each other.

  \<^bold>\<open>The program.\<close>  Several worker processes serve HTTP and WebSocket requests.  A request passes the
  middleware of \<open>src/src/main.py\<close>, a router of \<open>src/src/api/routers\<close>, its dependencies
  (\<open>src/src/api/dependencies.py\<close>, which authenticate it) and its schemas (\<open>src/src/api/schemas.py\<close>), and
  reaches a service of \<open>src/src/services\<close>.  A service opens a connection or a transaction
  (\<open>src/src/database/connection.py\<close>), calls the query layer (\<open>src/src/database/queries.py\<close>), which runs the
  statements of \<open>src/src/database/sql.py\<close> on the rows of \<open>src/src/database/models.py\<close>, and has its errors
  translated by the decorators of \<open>src/src/services/errors.py\<close>.  After the commit it publishes: frames for
  users and groups on a Pub/Sub channel, invalidations of sessions on a stream.  Every worker listens to
  both (\<open>src/src/redis/pubsub.py\<close>, \<open>src/src/redis/stream.py\<close>): the first feeds the registries of its open
  sockets (\<open>src/src/services/websocket.py\<close>), the second its token cache (\<open>src/src/services/auth.py\<close>).

  \<^bold>\<open>The theories.\<close>
  \<^item> \<open>Prelude\<close>: collections of facts, lists as tables, results, the greatest elements of a list, and two
    interfaces: \<open>invariant_system\<close> (a property a step relation keeps holds in every reachable state) and
    \<open>simulation\<close> (runs of a concrete system are runs of an abstract one).  \<open>Py_Text\<close> and \<open>Py_Time\<close>: text and
    instants of Python: decimal and hexadecimal numbers, UUIDs and their text, stripping, splitting.
  \<^item> \<open>Errors\<close>: \<open>database/errors.py\<close>, \<open>redis/errors.py\<close>, \<open>services/errors.py\<close>, \<open>database/enums.py\<close>, the
    exception handlers of \<open>main.py\<close>.  Exceptions are the type \<open>exn\<close>, results are sums.
  \<^item> \<open>Models\<close>, \<open>Schema\<close>, \<open>Queries\<close>, \<open>Schema_Setup\<close>: the rows and their conversion, the tables and each
    statement as a function on them, the repository functions, the DDL and its catalog.
  \<^item> \<open>Connection\<close>, \<open>Lifecycle\<close>: transactions, under any fault of the driver; connecting with retries, the
    Redis manager, start-up and shutdown, request ids.
  \<^item> \<open>Events\<close>, \<open>Json_Text\<close>, \<open>Redis_Layer\<close>, \<open>Stream_Listener\<close>, \<open>Pubsub_Listener\<close>: events, their JSON text and
    its parser, what a request emits, and the two listeners as transition systems.
  \<^item> \<open>WebSocket_Manager\<close>, \<open>Routing\<close>, \<open>Presence\<close>, \<open>Ws_Endpoint\<close>: the registries of a worker, the interleavings
    of its coroutines at their awaits, a cluster of workers that share the presence counters, and the
    endpoint.
  \<^item> \<open>User_Service\<close>, \<open>Group_Service\<close>, \<open>Messaging_Service\<close>, \<open>Auth_Service\<close> with \<open>Sha256\<close>, \<open>Token_Cache\<close> and
    \<open>Dependencies\<close>: one definition per method, and authentication through the cache.  \<open>Refresh_Race\<close>: refreshes
    of several workers at the same time, with the row lock of \<open>FOR UPDATE\<close>.  \<open>Interleaving\<close>: transactions that
    check and then act, on messages and memberships, interleaved without locks between the two.
  \<^item> \<open>Api_Schemas\<close>, \<open>Api_Routers\<close>, \<open>Api_Invariants\<close>, \<open>Api_Responses\<close>: validation, the 28 routes from the
    request to the response, the new state and the effects, what every sequence of requests keeps, and which
    answers there are.
  \<^item> \<open>Social_Spec\<close>, \<open>Social_Progress\<close>: what the whole application promises, a social network with its rules,
    without tables, tokens, caches or faults; that every request follows the rules, and that what the rules
    allow a user some request of the user does.
  \<^item> \<open>Config\<close>, \<open>Logging_Setup\<close>, \<open>Wiring\<close>: settings with their defaults, the log filter and formatters, the logging
    dictionary; the constructors, \<open>app.state\<close> and the service factories.

  \<^bold>\<open>State and effects.\<close>  The database is a record of eight tables, each a list of row records.  A statement
  of a transaction is a function from the tables to an error or a value and new tables; a service method
  returns its result, the database after it, and the list of effects it emitted.  A worker is its token
  cache and the three registries of its sockets; tasks that wait are part of the state of \<open>Routing\<close>.

  \<^bold>\<open>Parameters.\<close>  Code outside the repository is an argument with its documented laws as hypotheses: the
  TTL cache of cachetools (\<open>ttl_ops\<close>, \<open>ttl_laws\<close>), the hash commands of Redis (\<open>redis_ops\<close>,
  \<open>redis_hash_laws\<close>), Argon2 (\<open>argon_ops\<close>), how pydantic reads identifiers, numbers and dates
  (\<open>pydantic_ops\<close>).  Each law has an instance in the theory that states it.  Random tokens, fresh identifiers,
  clock readings and the faults of PostgreSQL (\<open>db_env\<close>) and Redis (\<open>redis_exc\<close>) are arguments of the calls.

  \<^bold>\<open>What is shown.\<close>
  \<^item> Data: every database that statements reach satisfies keys and foreign keys; every sequence of requests
    keeps that and the bounds on names and contents; a page of a history is the latest page.
  \<^item> The application as a whole refines the social network of \<open>Social_Spec\<close>: the abstraction \<open>social_of\<close> forgets
    all but accounts, requests, friendships, groups, memberships and messages; each request is a step of its
    user or none (\<open>requests_follow_social_rules\<close>), runs are runs of the network, and the network's steps are
    all realised (\<open>rules_are_realised\<close>) except messages of friends whose reciprocal request is pending.
  \<^item> Services, branch by branch: registration, login, refresh with reuse detection, logout, friendships,
    groups, messages; who may do what; effects only after a commit.  Whatever fails, a client sees one of
    ten statuses and no text of a driver error.
  \<^item> Sessions: protected routes answer 401 without a session; a token is accepted only if it was valid in the
    database within the time to live of the cache; a logout reaches every worker through the stream; a
    refresh token is exchanged once, even by refreshes that run at the same time.
  \<^item> Concurrency: under any interleaving of statements the schema invariant holds, and what was stored had been
    permitted when it was checked, though not always any more when it was stored.
  \<^item> Delivery: the text of every payload is read back as it was written; the stream listener implements a
    queue as long as it keeps up; every channel message is dispatched once; an accepted message reaches
    exactly the sockets it is meant for and appears in the histories.
  \<^item> Registries: routed users are connected, in every interleaving; with one socket per user and worker the
    presence counter is the number of workers the user is on; ended sessions leave no socket.
  \<^item> Start-up and shutdown: connecting is bounded, the schema is completed, resources are released.
  \<^item> Where the code departs from what it means to do, the theorem states what it does: sockets that leak,
    counters that drift, events that are lost, sessions that outlive the database.

  \<^bold>\<open>Bounds.\<close>  The JSON scanner takes fuel, the length of the text it is given, and each step consumes a
  character, so it never runs out on a text the program writes.  Characters are those below 256; text
  beyond them is escaped in JSON and does not occur in the model.  Python integers are \<open>int\<close> and \<open>nat\<close>;
  SHA-256 works on words of 32 bits.  All other recursions are structural.

  \<^bold>\<open>Not modelled.\<close>  CORS, uvicorn and the way FastAPI calls the dependencies, which is third-party code; the
  rendering of log lines and log output in general; the tests.  The DSN text is built by pydantic, a
  parameter of \<open>Wiring\<close>.  The order in which FastAPI resolves dependencies before it validates parameters is
  taken as it is documented.  SQL is the meaning of the statements used, with each statement atomic; outside
  \<open>Refresh_Race\<close> and \<open>Interleaving\<close> the transactions of the services run one after another.
\<close>

section \<open>What a request emits, seen by the other workers\<close>

text \<open>
  The items a subscribed worker takes from the channel and the entries Redis appends to the stream for
  the effects of a request; and what a worker does with one item.
\<close>

definition channel_items :: "effect list \<Rightarrow> pubsub_item list" where
  "channel_items effs = concat (map (\<lambda>e. case e of Publish payload \<Rightarrow> [channel_text payload] | _ \<Rightarrow> []) effs)"

definition stream_entries :: "effect list \<Rightarrow> entry list" where
  "stream_entries effs = concat (map (\<lambda>e. case e of StreamAdd event \<Rightarrow> [stream_entry event] | _ \<Rightarrow> []) effs)"

definition receive :: "pubsub_item \<Rightarrow> ws_state \<Rightarrow> (socket \<times> json) set \<times> ws_state" where
  "receive msg s = (case on_item msg of None \<Rightarrow> ({}, s) | Some payload \<Rightarrow> safe_dispatch payload s)"

lemma receive_push [simp]:
  "receive (channel_text (push_to_user u e)) s = safe_dispatch (push_to_user u e) s"
  "receive (channel_text (push_to_group g e sender)) s = safe_dispatch (push_to_group g e sender) s"
  by (simp_all add: receive_def on_item_channel_text)

text \<open>Examples: alice writes to bob, and to the group of both.\<close>

definition hello :: DirectMessage where
  "hello = \<lparr>dm_message_id = 30, dm_sender_id = 1, dm_recipient_id = 2, dm_content = ''hello'', dm_created_at = 50\<rparr>"

definition hello_group :: GroupMessage where
  "hello_group = \<lparr>gm_message_id = 30, gm_group_id = 10, gm_sender_id = 1, gm_content = ''hello'', gm_created_at = 50\<rparr>"

lemma hello_sent:
  "send_direct_message healthy None 30 50 1 2 ''hello'' sample_db =
     (Inr (Some hello), sample_db\<lparr>direct_messages := direct_messages sample_db @ [hello]\<rparr>,
      [Publish (push_to_user 2 (dm_event_from_model hello))])"
  by (simp add: send_direct_message_def send_direct_message_body_def transaction_healthy tx_ops guarded_Inr_iff decorated_def
      db_get_friendship_status_def FRIENDSHIP_STATUS_def between_def db_send_direct_message_eq hello_def sample_db_def
      spawn_task_def publish_ws_push_def sample_user_def)

lemma hello_group_sent:
  "send_group_message healthy None 30 50 1 10 ''hello'' sample_db =
     (Inr (Some hello_group), sample_db\<lparr>group_messages := group_messages sample_db @ [hello_group]\<rparr>,
      [Publish (push_to_group 10 (gm_event_from_model hello_group) (Some 1))])"
  by (simp add: send_group_message_def send_group_message_body_def transaction_healthy tx_ops guarded_Inr_iff decorated_def
      db_get_membership_def MEMBERSHIP_BY_IDS_def db_send_group_message_eq hello_group_def sample_db_def
      spawn_task_def publish_ws_push_def sample_user_def)

section \<open>Messages\<close>

text \<open>
  C11 (direct_messages_reach_the_recipient): From the service to the socket: a direct message that was
  accepted is stored, one item goes to the channel, and on every worker that receives it, whatever is
  registered there, exactly the recipient's sockets get the frame of the stored message.
\<close>

theorem direct_messages_reach_the_recipient:
  assumes "send_direct_message env None i t s r c d = (Inr (Some dm), d', effs)"
  shows "dm \<in> set (direct_messages d') \<and>
    (\<exists>msg. channel_items effs = [msg] \<and>
      receive msg w = ({(ws, to_dict (dm_event_from_model dm)) |ws. ws \<in> dget (local_connections w) r}, w))"
proof -
  note ok = send_direct_message_success [OF assms]
  show ?thesis using message_fanout by (simp add: ok(2,4) channel_items_def)
qed

theorem direct_messages_reach_the_recipient_witness:
  "\<exists>msg. receive msg (register_begin 2 7 empty_ws) =
     ({(7, to_dict (dm_event_from_model hello))}, register_begin 2 7 empty_ws)"
  using direct_messages_reach_the_recipient [OF hello_sent, of "register_begin 2 7 empty_ws"]
  by (auto simp: register_begin_def empty_ws_def)



lemma history_of_friends:
  assumes "\<exists>f. FRIENDSHIP_STATUS a b d = Some f \<and> fr_accepted f"
  shows "get_dm_history healthy now a b before lim d =
    Inr (Some (DM_CONVERSATION_HISTORY a b (history_cutoff now before) lim d))"
  using assms
  by (auto simp: get_dm_history_def connection_healthy db_get_friendship_status_def
      db_get_dm_conversation_history_def guarded_Inr_iff)

lemma FRIENDSHIP_STATUS_commute: "FRIENDSHIP_STATUS a b d = FRIENDSHIP_STATUS b a d"
proof -
  have "between a b = between b a" by (auto simp: between_def fun_eq_iff)
  then show ?thesis by (simp add: FRIENDSHIP_STATUS_def)
qed

text \<open>
  C24 (sent_messages_appear_in_both_histories): A direct message that was accepted is on the page that either
  user then asks for, as long as the cut-off is later than the message and the page has room for the
  messages of the conversation between the two.
\<close>

theorem sent_messages_appear_in_both_histories:
  assumes "send_direct_message env None i t s r c d = (Inr (Some dm), d', effs)" and "s \<noteq> r"
    and "t < history_cutoff now before"
    and "length (filter (\<lambda>m. {dm_sender_id m, dm_recipient_id m} = {s, r} \<and> t \<le> dm_created_at m \<and>
      dm_created_at m < history_cutoff now before) (direct_messages d')) \<le> lim"
  shows "\<exists>p q. get_dm_history healthy now s r before lim d' = Inr (Some p) \<and> dm \<in> set p \<and>
    get_dm_history healthy now r s before lim d' = Inr (Some q) \<and> dm \<in> set q"
proof -
  note ok = send_direct_message_success [OF assms(1)]
  have friends: "\<exists>f. FRIENDSHIP_STATUS s r d' = Some f \<and> fr_accepted f"
    using ok(2,3) by (simp add: FRIENDSHIP_STATUS_def)
  have shown: "dm \<in> set (DM_CONVERSATION_HISTORY a b (history_cutoff now before) lim d')"
    if ab: "{a, b} = {s, r}" "a \<noteq> b" for a b
  proof (rule is_top_member [OF conjunct1 [OF dm_history_top [OF ab(2)]]])
    have iff: "{dm_sender_id m, dm_recipient_id m} = {s, r} \<longleftrightarrow>
        (dm_sender_id m = a \<and> dm_recipient_id m = b) \<or> (dm_sender_id m = b \<and> dm_recipient_id m = a)" for m
      using ab by (auto simp: doubleton_eq_iff)
    show "dm \<in> set (filter (\<lambda>m. ((dm_sender_id m = a \<and> dm_recipient_id m = b) \<or>
        (dm_sender_id m = b \<and> dm_recipient_id m = a)) \<and> dm_created_at m < history_cutoff now before)
        (direct_messages d'))"
      using assms(3) iff [of dm] by (simp add: ok(1,2))
    show "length (filter (\<lambda>m. dm_created_at dm \<le> dm_created_at m) (filter (\<lambda>m.
        ((dm_sender_id m = a \<and> dm_recipient_id m = b) \<or> (dm_sender_id m = b \<and> dm_recipient_id m = a)) \<and>
        dm_created_at m < history_cutoff now before) (direct_messages d'))) \<le> lim"
      using assms(4) ok(1) unfolding iff by (simp add: conj_ac)
  qed
  from shown [of s r] shown [of r s] assms(2) show ?thesis
    using history_of_friends [OF friends] history_of_friends [OF friends [unfolded FRIENDSHIP_STATUS_commute [of s]]]
    by (simp add: insert_commute)
qed

theorem sent_messages_appear_in_both_histories_witness:
  "\<exists>p q. get_dm_history healthy 100 1 2 None 50 (sample_db\<lparr>direct_messages := direct_messages sample_db @ [hello]\<rparr>) =
       Inr (Some p) \<and> hello \<in> set p \<and>
     get_dm_history healthy 100 2 1 None 50 (sample_db\<lparr>direct_messages := direct_messages sample_db @ [hello]\<rparr>) =
       Inr (Some q) \<and> hello \<in> set q"
  by (rule sent_messages_appear_in_both_histories [OF hello_sent])
    (simp_all add: history_cutoff_def sample_db_def hello_def doubleton_eq_iff)

section \<open>Sessions\<close>



end
